(* ===== verification/Prelude.thy ===== *)
theory Prelude
  imports Main "HOL-Library.Finite_Map" "HOL-Library.Char_ord" "HOL-Library.List_Lexorder"
begin

text \<open>
  Shared vocabulary of the development: the collections the component proofs extend, the
  result type that stands for Go's pair of a value and an error, the sequencing of fallible
  loops, and the facts on finite maps, filters and first-match searches that several
  components use. A Go \<^verbatim>\<open>map[string]T\<close> is a finite map; reading a missing key of a
  \<^verbatim>\<open>map[string]string\<close> gives the empty string.
\<close>

named_theorems go_string "evaluation of the string functions of the Go standard library"
named_theorems const_defs "unfolding of the string constants of the program"
named_theorems const_neq "distinctness of string constants of the program"

subsection \<open>Results: a value or an error\<close>

type_synonym ('e, 'a) result = "'e + 'a"

abbreviation Ok :: "'a \<Rightarrow> ('e, 'a) result" where "Ok \<equiv> Inr"
abbreviation Err :: "'e \<Rightarrow> ('e, 'a) result" where "Err \<equiv> Inl"

text \<open>The idiom \<^verbatim>\<open>if err := f(x); err != nil { return err }\<close> of the sources.\<close>

definition bind_res :: "('e, 'a) result \<Rightarrow> ('a \<Rightarrow> ('e, 'b) result) \<Rightarrow> ('e, 'b) result" where
  "bind_res r f = (case r of Inl e \<Rightarrow> Inl e | Inr a \<Rightarrow> f a)"

lemma bind_res_simps [simp]:
  "bind_res (Inl e) f = Inl e" "bind_res (Inr a) f = f a"
  by (simp_all add: bind_res_def)

lemma bind_res_Inr_iff: "bind_res r f = Inr b \<longleftrightarrow> (\<exists>a. r = Inr a \<and> f a = Inr b)"
  by (cases r) auto

lemma bind_res_cong [fundef_cong]:
  "r = r' \<Longrightarrow> (\<And>a. r' = Inr a \<Longrightarrow> f a = g a) \<Longrightarrow> bind_res r f = bind_res r' g"
  by (cases r') auto

definition is_ok :: "('e, 'a) result \<Rightarrow> bool" where
  "is_ok r = (case r of Inl _ \<Rightarrow> False | Inr _ \<Rightarrow> True)"

lemma is_ok_simps [simp]: "\<not> is_ok (Inl e)" "is_ok (Inr a)"
  by (simp_all add: is_ok_def)

lemma is_ok_unit: "is_ok (r :: ('e, unit) result) \<longleftrightarrow> r = Inr ()"
  by (cases r) auto

text \<open>A \<^verbatim>\<open>for ... range\<close> loop that returns at the first error and collects results.\<close>

fun traverse :: "('a \<Rightarrow> ('e, 'b) result) \<Rightarrow> 'a list \<Rightarrow> ('e, 'b list) result" where
  "traverse f [] = Inr []"
| "traverse f (x # xs) =
     (case f x of Inl e \<Rightarrow> Inl e | Inr y \<Rightarrow>
       (case traverse f xs of Inl e \<Rightarrow> Inl e | Inr ys \<Rightarrow> Inr (y # ys)))"

lemma traverse_Inr_iff: "traverse f xs = Inr ys \<longleftrightarrow> list_all2 (\<lambda>x y. f x = Inr y) xs ys"
proof (induction xs arbitrary: ys)
  case Nil
  then show ?case by auto
next
  case (Cons x xs)
  show ?case
    by (cases "f x"; cases "traverse f xs"; cases ys) (auto simp: Cons.IH [symmetric])
qed

lemma traverse_Inr_mem:
  assumes "traverse f xs = Inr ys" and "y \<in> set ys"
  shows "\<exists>x \<in> set xs. f x = Inr y"
proof -
  from assms obtain i where "i < length xs" and "f (xs ! i) = Inr y"
    by (auto simp: traverse_Inr_iff list_all2_conv_all_nth in_set_conv_nth)
  then show ?thesis by (auto intro: bexI [of _ "xs ! i"])
qed

lemma traverse_Inr_length: "traverse f xs = Inr ys \<Longrightarrow> length ys = length xs"
  by (auto simp: traverse_Inr_iff dest: list_all2_lengthD)

text \<open>A check run over a list with its index, as in \<^verbatim>\<open>for i, e := range xs\<close>.\<close>

fun check_all :: "(nat \<Rightarrow> 'a \<Rightarrow> ('e, unit) result) \<Rightarrow> nat \<Rightarrow> 'a list \<Rightarrow> ('e, unit) result" where
  "check_all f i [] = Inr ()"
| "check_all f i (x # xs) = (case f i x of Inl e \<Rightarrow> Inl e | Inr _ \<Rightarrow> check_all f (Suc i) xs)"

lemma check_all_ok:
  "check_all f i xs = Inr u \<longleftrightarrow> (\<forall>k < length xs. f (i + k) (xs ! k) = Inr ())"
proof (induction xs arbitrary: i)
  case Nil
  then show ?case by simp
next
  case (Cons x xs)
  have "(\<forall>k < length (x # xs). f (i + k) ((x # xs) ! k) = Inr ()) \<longleftrightarrow>
        f i x = Inr () \<and> (\<forall>k < length xs. f (Suc i + k) (xs ! k) = Inr ())"
    by (simp add: All_less_Suc2)
  moreover have "check_all f i (x # xs) = Inr u \<longleftrightarrow>
        f i x = Inr () \<and> check_all f (Suc i) xs = Inr u"
    by (cases "f i x") simp_all
  ultimately show ?case
    by (simp only: Cons.IH)
qed

subsection \<open>Finite maps\<close>

type_synonym strmap = "(string, string) fmap"

text \<open>Indexing a \<^verbatim>\<open>map[string]string\<close>: the zero value for a missing key.\<close>

definition sget :: "strmap \<Rightarrow> string \<Rightarrow> string" where
  "sget m k = (case fmlookup m k of None \<Rightarrow> '''' | Some v \<Rightarrow> v)"

lemma sget_upd [simp]: "sget (fmupd k v m) k' = (if k' = k then v else sget m k')"
  by (simp add: sget_def)

lemma sget_empty [simp]: "sget fmempty k = ''''"
  by (simp add: sget_def)

lemma sget_drop [simp]: "sget (fmdrop k m) k' = (if k' = k then '''' else sget m k')"
  by (simp add: sget_def)

lemma sget_add [simp]:
  "sget (fmadd m n) k = (if k |\<in>| fmdom n then sget n k else sget m k)"
  by (simp add: sget_def)

lemma sget_neq_empty_dom: "sget m k \<noteq> '''' \<Longrightarrow> k |\<in>| fmdom m"
  by (auto simp: sget_def fmlookup_dom_iff split: option.splits)

lemma sget_drop_list:
  "sget (fold fmdrop ks m) k = (if k \<in> set ks then '''' else sget m k)"
  by (induction ks arbitrary: m) auto

lemma fmlookup_drop_list:
  "fmlookup (fold fmdrop ks m) k = (if k \<in> set ks then None else fmlookup m k)"
  by (induction ks arbitrary: m) auto

text \<open>Keys of a finite map in ascending order.\<close>

definition keys_of :: "(string, 'a) fmap \<Rightarrow> string list" where
  "keys_of m = sorted_list_of_fset (fmdom m)"

lemma set_keys_of [simp]: "set (keys_of m) = fset (fmdom m)"
  by (simp add: keys_of_def)

lemma distinct_keys_of [simp]: "distinct (keys_of m)"
  by (simp add: keys_of_def sorted_list_of_fset.rep_eq)

subsection \<open>Lists\<close>

text \<open>The first match of a scan, as an index.\<close>

fun find_index :: "('a \<Rightarrow> bool) \<Rightarrow> 'a list \<Rightarrow> nat option" where
  "find_index P [] = None"
| "find_index P (x # xs) = (if P x then Some 0 else map_option Suc (find_index P xs))"

lemma find_index_Some:
  "find_index P xs = Some i \<longleftrightarrow> i < length xs \<and> P (xs ! i) \<and> (\<forall>j < i. \<not> P (xs ! j))"
proof (induction xs arbitrary: i)
  case Nil
  then show ?case by simp
next
  case (Cons x xs)
  show ?case
    by (cases i) (auto simp: Cons.IH All_less_Suc2)
qed

lemma find_index_None: "find_index P xs = None \<longleftrightarrow> (\<forall>x \<in> set xs. \<not> P x)"
  by (induction xs) auto

lemma filter_update_other:
  assumes "i < length xs" and "\<not> P (xs ! i)" and "\<not> P y"
  shows "filter P (xs[i := y]) = filter P xs"
  using assms
proof (induction xs arbitrary: i)
  case Nil
  then show ?case by simp
next
  case (Cons x xs)
  then show ?case by (cases i) auto
qed

lemma distinct_map_nth_eq:
  "distinct (map f xs) \<Longrightarrow> x \<in> set xs \<Longrightarrow> y \<in> set xs \<Longrightarrow> f x = f y \<Longrightarrow> x = y"
  by (auto simp: distinct_map dest: inj_onD)

end
