(* ===== verification/GoStrings.thy ===== *)
theory GoStrings
  imports Prelude
begin

text \<open>
  The functions of the Go packages strings and strconv that the sources call. A Go string is
  a \<^typ>\<open>string\<close> of ASCII characters: on that range white space is the six
  characters of \<open>isSpace\<close>, case mapping is the map between \<^verbatim>\<open>A-Z\<close> and
  \<^verbatim>\<open>a-z\<close>, and a rune is a byte. Integers that \<^verbatim>\<open>strconv.Atoi\<close> returns
  are bounded by the 64-bit \<^verbatim>\<open>int\<close> of the platforms the program is built for.
\<close>

subsection \<open>Characters\<close>

definition isSpace :: "char \<Rightarrow> bool" where
  "isSpace c \<longleftrightarrow> c \<in> {CHR 0x09, CHR 0x0A, CHR 0x0B, CHR 0x0C, CHR 0x0D, CHR '' ''}"

definition lowerChar :: "char \<Rightarrow> char" where
  "lowerChar c = (let n = (of_char c :: nat) in if 65 \<le> n \<and> n \<le> 90 then char_of (n + 32) else c)"

definition upperChar :: "char \<Rightarrow> char" where
  "upperChar c = (let n = (of_char c :: nat) in if 97 \<le> n \<and> n \<le> 122 then char_of (n - 32) else c)"

definition isDigit :: "char \<Rightarrow> bool" where
  "isDigit c \<longleftrightarrow> (48::nat) \<le> of_char c \<and> of_char c \<le> (57::nat)"

definition digitVal :: "char \<Rightarrow> int" where
  "digitVal c = int (of_char c) - 48"

lemma lowerChar_idem [simp]: "lowerChar (lowerChar c) = lowerChar c"
  by (auto simp: lowerChar_def Let_def)

lemma isSpace_lowerChar [simp]: "isSpace (lowerChar c) = isSpace c"
proof -
  have "isSpace d \<longleftrightarrow> (of_char d :: nat) \<in> {9, 10, 11, 12, 13, 32}" for d
    unfolding isSpace_def by (auto simp flip: of_char_eq_iff [where ?'a = nat])
  then show ?thesis
    by (auto simp: lowerChar_def Let_def)
qed


subsection \<open>Trimming and case\<close>

definition TrimSpace :: "string \<Rightarrow> string" where
  "TrimSpace s = rev (dropWhile isSpace (rev (dropWhile isSpace s)))"

definition TrimLeftSet :: "string \<Rightarrow> string \<Rightarrow> string" where
  "TrimLeftSet s cutset = dropWhile (\<lambda>c. c \<in> set cutset) s"

definition Trim :: "string \<Rightarrow> string \<Rightarrow> string" where
  "Trim s cutset = rev (TrimLeftSet (rev (TrimLeftSet s cutset)) cutset)"

definition ToLower :: "string \<Rightarrow> string" where
  "ToLower s = map lowerChar s"

definition ToUpper :: "string \<Rightarrow> string" where
  "ToUpper s = map upperChar s"

definition EqualFold :: "string \<Rightarrow> string \<Rightarrow> bool" where
  "EqualFold s t \<longleftrightarrow> ToLower s = ToLower t"

lemma TrimSpace_Nil [simp]: "TrimSpace '''' = ''''"
  by (simp add: TrimSpace_def)

lemma dropWhile_hd_id: "s = [] \<or> \<not> P (hd s) \<Longrightarrow> dropWhile P s = s"
  by (cases s) auto

lemma dropWhile_rev_dropWhile:
  "dropWhile P (rev (dropWhile P (rev (dropWhile P s)))) = rev (dropWhile P (rev (dropWhile P s)))"
proof (rule dropWhile_hd_id)
  let ?t = "dropWhile P s"
  let ?u = "dropWhile P (rev ?t)"
  show "rev ?u = [] \<or> \<not> P (hd (rev ?u))"
  proof (cases "rev ?u = []")
    case False
    then have ne: "?u \<noteq> []" by auto
    obtain ys where ys: "rev ?t = ys @ ?u"
      by (metis takeWhile_dropWhile_id)
    then have split: "?t = rev ?u @ rev ys" by (metis rev_append rev_rev_ident)
    with ne have tne: "?t \<noteq> []" by (metis append_is_Nil_conv rev_is_Nil_conv)
    from split ne have "hd ?t = hd (rev ?u)" by (metis hd_append rev_is_Nil_conv)
    with tne show ?thesis by (metis hd_dropWhile)
  qed simp
qed

lemma TrimSpace_idem [simp]: "TrimSpace (TrimSpace s) = TrimSpace s"
proof -
  have "dropWhile isSpace (dropWhile isSpace (rev (dropWhile isSpace s))) =
        dropWhile isSpace (rev (dropWhile isSpace s))"
    by simp
  then show ?thesis
    by (simp add: TrimSpace_def dropWhile_rev_dropWhile)
qed

lemma TrimSpace_no_space: "\<forall>c \<in> set s. \<not> isSpace c \<Longrightarrow> TrimSpace s = s"
proof -
  assume ns: "\<forall>c \<in> set s. \<not> isSpace c"
  then have "dropWhile isSpace s = s"
    by (metis dropWhile_hd_id hd_in_set)
  moreover from ns have "dropWhile isSpace (rev s) = rev s"
    by (metis dropWhile_hd_id hd_in_set set_rev)
  ultimately show ?thesis by (simp add: TrimSpace_def)
qed

lemma set_TrimSpace: "set (TrimSpace s) \<subseteq> set s"
  unfolding TrimSpace_def by (auto dest!: set_dropWhileD)

lemma ToLower_Nil [simp]: "ToLower '''' = ''''"
  by (simp add: ToLower_def)

lemma ToLower_idem [simp]: "ToLower (ToLower s) = ToLower s"
  by (simp add: ToLower_def o_def)

lemma ToLower_eq_Nil [simp]: "ToLower s = '''' \<longleftrightarrow> s = ''''"
  by (simp add: ToLower_def)

lemma dropWhile_isSpace_ToLower: "dropWhile isSpace (ToLower s) = ToLower (dropWhile isSpace s)"
  by (simp add: ToLower_def dropWhile_map o_def)

lemma TrimSpace_ToLower: "TrimSpace (ToLower s) = ToLower (TrimSpace s)"
  unfolding TrimSpace_def
  by (simp add: dropWhile_isSpace_ToLower, simp add: ToLower_def rev_map dropWhile_map o_def)

lemma EqualFold_refl [simp]: "EqualFold s s"
  by (simp add: EqualFold_def)

subsection \<open>Prefixes, suffixes, searching\<close>

definition HasPrefix :: "string \<Rightarrow> string \<Rightarrow> bool" where
  "HasPrefix s p \<longleftrightarrow> take (length p) s = p"

definition HasSuffix :: "string \<Rightarrow> string \<Rightarrow> bool" where
  "HasSuffix s p \<longleftrightarrow> HasPrefix (rev s) (rev p)"

definition TrimPrefix :: "string \<Rightarrow> string \<Rightarrow> string" where
  "TrimPrefix s p = (if HasPrefix s p then drop (length p) s else s)"

definition TrimSuffix :: "string \<Rightarrow> string \<Rightarrow> string" where
  "TrimSuffix s p = (if HasSuffix s p then take (length s - length p) s else s)"

fun Contains :: "string \<Rightarrow> string \<Rightarrow> bool" where
  "Contains [] p = (p = [])"
| "Contains (c # s) p = (HasPrefix (c # s) p \<or> Contains s p)"

definition ContainsAny :: "string \<Rightarrow> string \<Rightarrow> bool" where
  "ContainsAny s cs = list_ex (\<lambda>c. c \<in> set cs) s"

definition IndexAny :: "string \<Rightarrow> string \<Rightarrow> nat option" where
  "IndexAny s cs = find_index (\<lambda>c. c \<in> set cs) s"

text \<open>The greatest index at which \<open>p\<close> occurs in \<open>s\<close>; \<^const>\<open>None\<close> stands for -1.\<close>

fun LastIndex :: "string \<Rightarrow> string \<Rightarrow> nat option" where
  "LastIndex [] p = (if p = [] then Some 0 else None)"
| "LastIndex (c # s) p =
     (case LastIndex s p of Some i \<Rightarrow> Some (Suc i)
      | None \<Rightarrow> if HasPrefix (c # s) p then Some 0 else None)"

lemma HasPrefix_append [simp]: "HasPrefix (p @ s) p"
  by (simp add: HasPrefix_def)

lemma HasPrefix_iff: "HasPrefix s p \<longleftrightarrow> (\<exists>t. s = p @ t)"
  by (metis HasPrefix_append HasPrefix_def append_take_drop_id)

lemma TrimPrefix_other: "s \<noteq> [] \<Longrightarrow> hd s \<noteq> c \<Longrightarrow> TrimPrefix s [c] = s"
  by (cases s) (auto simp: TrimPrefix_def HasPrefix_def)

lemma Contains_iff: "Contains s p \<longleftrightarrow> (\<exists>u v. s = u @ p @ v)"
proof (induction s)
  case Nil
  then show ?case by auto
next
  case (Cons c s)
  show ?case
  proof
    assume "Contains (c # s) p"
    then consider "HasPrefix (c # s) p" | "Contains s p" by auto
    then show "\<exists>u v. c # s = u @ p @ v"
    proof cases
      case 1
      then show ?thesis by (metis HasPrefix_iff append_Nil)
    next
      case 2
      then show ?thesis by (metis Cons.IH append_Cons)
    qed
  next
    assume "\<exists>u v. c # s = u @ p @ v"
    then obtain u v where uv: "c # s = u @ p @ v" by blast
    show "Contains (c # s) p"
    proof (cases u)
      case Nil
      with uv have "HasPrefix (c # s) p" by (simp add: HasPrefix_iff)
      then show ?thesis by simp
    next
      case (Cons d u')
      with uv show ?thesis using Cons.IH by auto
    qed
  qed
qed

lemma LastIndex_bound: "LastIndex s p = Some i \<Longrightarrow> i + length p \<le> length s"
proof (induction s arbitrary: i)
  case Nil
  then show ?case by (auto split: if_splits)
next
  case (Cons c s)
  then show ?case
    by (auto simp: HasPrefix_def min_def split: option.splits if_splits dest: arg_cong [where f = length])
qed

subsection \<open>Splitting, joining, replacing\<close>

fun Split :: "string \<Rightarrow> char \<Rightarrow> string list" where
  "Split [] sep = [[]]"
| "Split (c # s) sep =
     (if c = sep then [] # Split s sep
      else (case Split s sep of [] \<Rightarrow> [[c]] | w # ws \<Rightarrow> (c # w) # ws))"

fun Join :: "string list \<Rightarrow> string \<Rightarrow> string" where
  "Join [] sep = []"
| "Join [w] sep = w"
| "Join (w # v # ws) sep = w @ sep @ Join (v # ws) sep"

definition ReplaceAllChar :: "string \<Rightarrow> char \<Rightarrow> char \<Rightarrow> string" where
  "ReplaceAllChar s old new = map (\<lambda>c. if c = old then new else c) s"

lemma Split_not_Nil [simp]: "Split s sep \<noteq> []"
  by (induction s) (auto split: list.splits)

lemma Join_Split: "Join (Split s sep) [sep] = s"
proof (induction s)
  case Nil
  then show ?case by simp
next
  case (Cons c s)
  obtain w ws where sp: "Split s sep = w # ws"
    by (cases "Split s sep") auto
  with Cons show ?case by (cases ws) auto
qed

lemma Split_no_sep: "w \<in> set (Split s sep) \<Longrightarrow> sep \<notin> set w"
proof (induction s arbitrary: w)
  case Nil
  then show ?case by simp
next
  case (Cons c s)
  obtain v vs where sp: "Split s sep = v # vs"
    by (cases "Split s sep") auto
  with Cons show ?case by (auto split: if_splits)
qed

lemma Split_sepfree: "sep \<notin> set s \<Longrightarrow> Split s sep = [s]"
  by (induction s) auto

lemma Split_append: "sep \<notin> set w \<Longrightarrow> Split (w @ sep # s) sep = w # Split s sep"
  by (induction w) auto

lemma Split_Join:
  assumes "ws \<noteq> []" and "\<forall>w \<in> set ws. sep \<notin> set w"
  shows "Split (Join ws [sep]) sep = ws"
  using assms
proof (induction ws "[sep]" rule: Join.induct)
  case 1
  then show ?case by simp
next
  case (2 w)
  then show ?case by (simp add: Split_sepfree)
next
  case (3 w v ws)
  then show ?case by (simp add: Split_append)
qed

subsection \<open>Numbers\<close>

text \<open>\<^verbatim>\<open>strconv.Atoi\<close>: an optional sign, then decimal digits, within 64 bits.\<close>

definition decimalVal :: "string \<Rightarrow> int" where
  "decimalVal s = foldl (\<lambda>n c. 10 * n + digitVal c) 0 s"

definition Atoi :: "string \<Rightarrow> int option" where
  "Atoi s =
     (let neg = HasPrefix s ''-'';
          ds = (if neg \<or> HasPrefix s ''+'' then tl s else s);
          n = (if neg then - decimalVal ds else decimalVal ds)
      in if ds = [] \<or> \<not> list_all isDigit ds then None
         else if n < - (2 ^ 63) \<or> n \<ge> 2 ^ 63 then None
         else Some n)"

lemma digitVal_nonneg: "isDigit c \<Longrightarrow> 0 \<le> digitVal c"
  by (simp add: isDigit_def digitVal_def)

lemma decimalVal_nonneg: "list_all isDigit s \<Longrightarrow> 0 \<le> decimalVal s"
proof -
  have "list_all isDigit s \<Longrightarrow> 0 \<le> n \<Longrightarrow> 0 \<le> foldl (\<lambda>n c. 10 * n + digitVal c) n s" for n
    by (induction s arbitrary: n) (auto simp: digitVal_nonneg)
  then show "list_all isDigit s \<Longrightarrow> 0 \<le> decimalVal s"
    by (simp add: decimalVal_def)
qed

lemma Atoi_Nil [simp]: "Atoi [] = None"
  by (simp add: Atoi_def HasPrefix_def)

lemma Atoi_range: "Atoi s = Some n \<Longrightarrow> - (2 ^ 63) \<le> n \<and> n < 2 ^ 63"
  by (auto simp: Atoi_def Let_def split: if_splits)

lemma Atoi_unsigned_nonneg:
  "Atoi s = Some n \<Longrightarrow> \<not> HasPrefix s ''-'' \<Longrightarrow> 0 \<le> n"
  by (auto simp: Atoi_def Let_def decimalVal_nonneg split: if_splits)

text \<open>\<^verbatim>\<open>strconv.Itoa\<close> and \<^verbatim>\<open>%d\<close> on a natural number.\<close>

fun natString :: "nat \<Rightarrow> string" where
  "natString n = (if n < 10 then [char_of (48 + n)] else natString (n div 10) @ [char_of (48 + n mod 10)])"

declare natString.simps [simp del]

definition Itoa :: "int \<Rightarrow> string" where
  "Itoa n = (if n < 0 then CHR ''-'' # natString (nat (- n)) else natString (nat n))"

lemma decimalVal_append1: "decimalVal (s @ [c]) = 10 * decimalVal s + digitVal c"
  by (simp add: decimalVal_def)

lemma digit_char: "d < 10 \<Longrightarrow> isDigit (char_of (48 + d)) \<and> digitVal (char_of (48 + d)) = int d"
  by (simp add: isDigit_def digitVal_def)

lemma natString_digits: "list_all isDigit (natString n) \<and> natString n \<noteq> [] \<and> decimalVal (natString n) = int n"
proof (induction n rule: natString.induct)
  case (1 n)
  show ?case
  proof (cases "n < 10")
    case True
    then show ?thesis
      using digit_char [OF True] by (simp add: natString.simps [of n] decimalVal_def)
  next
    case False
    have d: "n mod 10 < 10" by simp
    have "10 * (int n div 10) + int n mod 10 = int n" by simp
    with False 1 digit_char [OF d] show ?thesis
      by (simp add: natString.simps [of n] decimalVal_append1 zdiv_int zmod_int)
  qed
qed

lemma isDigit_not_sign: "isDigit c \<Longrightarrow> c \<noteq> CHR ''-'' \<and> c \<noteq> CHR ''+'' \<and> c \<noteq> CHR ''.''
    \<and> c \<noteq> CHR ''v'' \<and> c \<noteq> CHR ''V'' \<and> \<not> isSpace c"
  by (auto simp: isDigit_def isSpace_def)

lemma Atoi_natString: "n < 2 ^ 63 \<Longrightarrow> Atoi (natString n) = Some (int n)"
proof -
  assume n: "n < 2 ^ 63"
  obtain c s where cs: "natString n = c # s"
    using natString_digits [of n] by (cases "natString n") auto
  then have "c \<noteq> CHR ''-''" "c \<noteq> CHR ''+''"
    using natString_digits [of n] isDigit_not_sign by auto
  with cs n show ?thesis
    using natString_digits [of n] by (simp add: Atoi_def HasPrefix_def)
qed

text \<open>\<^verbatim>\<open>%q\<close> on printable text: the string between double quotes, quote and backslash escaped.\<close>

definition Quote :: "string \<Rightarrow> string" where
  "Quote s = CHR 0x22 # concat (map (\<lambda>c. if c = CHR 0x22 \<or> c = CHR 0x5C then [CHR 0x5C, c] else [c]) s) @ [CHR 0x22]"

lemmas [go_string] =
  TrimSpace_def ToLower_def lowerChar_def isSpace_def HasPrefix_def HasSuffix_def TrimPrefix_def
  TrimSuffix_def ContainsAny_def IndexAny_def EqualFold_def isDigit_def digitVal_def
  decimalVal_def Atoi_def Let_def

end
