(* ===== verification/Version.thy ===== *)
theory Version
  imports GoStrings
begin

text \<open>
  pkg/lifecycle/version.go: vendor tokens, the pinned support window, version parsing and
  ordering, and the classification of an installed vendor operator against the window. The
  struct \<open>version\<close> is a datatype so that the order of the code can be an instance of the
  library's linear orders.
\<close>

subsection \<open>Data\<close>

datatype Skew = SkewZero | SkewSupported | SkewTooOld | SkewTooNew | SkewUnknown | SkewUnpinned
  | SkewUnknownVendor | SkewInvalidConfig | SkewBlocked

text \<open>The constants' string values; \<open>SkewZero\<close> is the zero value of the Go type.\<close>

fun skewString :: "Skew \<Rightarrow> string" where
  "skewString SkewZero = ''''"
| "skewString SkewSupported = ''Supported''"
| "skewString SkewTooOld = ''TooOld''"
| "skewString SkewTooNew = ''TooNew''"
| "skewString SkewUnknown = ''Unknown''"
| "skewString SkewUnpinned = ''Unpinned''"
| "skewString SkewUnknownVendor = ''UnknownVendor''"
| "skewString SkewInvalidConfig = ''InvalidConfig''"
| "skewString SkewBlocked = ''Blocked''"

record SupportedRange =
  MinInclusive :: string
  MaxExclusive :: string

definition VendorNVIDIA :: string where [const_defs]: "VendorNVIDIA = ''nvidia''"
definition VendorAMD :: string where [const_defs]: "VendorAMD = ''amd''"
definition nvidiaDPFMin :: string where [const_defs]: "nvidiaDPFMin = ''v26.4.0''"
definition nvidiaDPFMax :: string where [const_defs]: "nvidiaDPFMax = ''v27.0.0''"

definition KnownVendors :: "string list" where
  "KnownVendors = [VendorNVIDIA, VendorAMD]"

definition maxVendorToken :: nat where
  "maxVendorToken = 16"

definition supportedVersions :: "(string, SupportedRange) fmap" where
  "supportedVersions =
     fmap_of_list [(VendorNVIDIA, \<lparr>MinInclusive = nvidiaDPFMin, MaxExclusive = nvidiaDPFMax\<rparr>)]"

datatype version = Version (major: int) (minor: int) (patch: int)

datatype version_err = EmptyVersion | TooManyComponents | EmptyComponent | NotANumber | NegativeComponent

subsection \<open>Operations\<close>

text \<open>The loop of \<open>SanitizeVendorToken\<close>: a letter anywhere, a digit or a dash after the first character.\<close>

fun tokenCharsOK :: "nat \<Rightarrow> string \<Rightarrow> bool" where
  "tokenCharsOK i [] = True"
| "tokenCharsOK i (r # rs) =
     (if CHR ''a'' \<le> r \<and> r \<le> CHR ''z'' then tokenCharsOK (Suc i) rs
      else if i > 0 \<and> (CHR ''0'' \<le> r \<and> r \<le> CHR ''9'' \<or> r = CHR ''-'') then tokenCharsOK (Suc i) rs
      else False)"

definition SanitizeVendorToken :: "string \<Rightarrow> string \<times> bool" where
  "SanitizeVendorToken raw =
     (let v = ToLower (TrimSpace raw) in
      if v = '''' then ('''', True)
      else if length v > maxVendorToken then ('''', False)
      else if tokenCharsOK 0 v then (v, True) else ('''', False))"

definition KnownVendor :: "string \<Rightarrow> bool" where
  "KnownVendor vendor =
     (let v = ToLower (TrimSpace vendor) in v = VendorNVIDIA \<or> v = VendorAMD)"

definition SupportedRangeFor :: "string \<Rightarrow> SupportedRange option" where
  "SupportedRangeFor vendor = fmlookup supportedVersions (ToLower (TrimSpace vendor))"

text \<open>\<open>compare\<close>: the first differing component decides.\<close>

fun comparePairs :: "(int \<times> int) list \<Rightarrow> int" where
  "comparePairs [] = 0"
| "comparePairs ((a, b) # ps) = (if a \<noteq> b then (if a < b then -1 else 1) else comparePairs ps)"

definition version_compare :: "version \<Rightarrow> version \<Rightarrow> int" where
  "version_compare v w =
     comparePairs [(major v, major w), (minor v, minor w), (patch v, patch w)]"

definition parseComponent :: "string \<Rightarrow> (version_err, int) result" where
  "parseComponent p =
     (if p = '''' then Err EmptyComponent
      else (case Atoi p of None \<Rightarrow> Err NotANumber
            | Some n \<Rightarrow> if n < 0 then Err NegativeComponent else Ok n))"

text \<open>Components that the text does not give stay 0.\<close>

definition versionOf :: "int list \<Rightarrow> version" where
  "versionOf ns = Version (if 0 < length ns then ns ! 0 else 0)
     (if 1 < length ns then ns ! 1 else 0) (if 2 < length ns then ns ! 2 else 0)"

definition cutAtSuffix :: "string \<Rightarrow> string" where
  "cutAtSuffix s = (case IndexAny s ''-+'' of Some i \<Rightarrow> take i s | None \<Rightarrow> s)"

definition parseVersion :: "string \<Rightarrow> (version_err, version) result" where
  "parseVersion s0 =
     (let s = TrimSpace s0 in
      if s = '''' then Err EmptyVersion
      else
        let s = TrimPrefix (TrimPrefix s ''v'') ''V'';
            s = cutAtSuffix s;
            parts = Split s CHR ''.''
        in if length parts > 3 then Err TooManyComponents
           else bind_res (traverse parseComponent parts) (\<lambda>ns. Ok (versionOf ns)))"

definition ClassifySkew :: "string \<Rightarrow> string \<Rightarrow> Skew" where
  "ClassifySkew vendor installed =
     (case SupportedRangeFor vendor of None \<Rightarrow> SkewUnpinned
      | Some r \<Rightarrow>
        (case parseVersion installed of Inl _ \<Rightarrow> SkewUnknown
         | Inr v \<Rightarrow>
           (case parseVersion (MinInclusive r) of Inl _ \<Rightarrow> SkewUnknown
            | Inr mn \<Rightarrow>
              (case parseVersion (MaxExclusive r) of Inl _ \<Rightarrow> SkewUnknown
               | Inr mx \<Rightarrow>
                 if version_compare v mn < 0 then SkewTooOld
                 else if version_compare v mx \<ge> 0 then SkewTooNew
                 else SkewSupported))))"

subsection \<open>Version order\<close>

instantiation version :: linorder
begin

definition less_eq_version :: "version \<Rightarrow> version \<Rightarrow> bool" where
  "v \<le> w \<longleftrightarrow> major v < major w \<or> major v = major w \<and>
     (minor v < minor w \<or> minor v = minor w \<and> patch v \<le> patch w)"

definition less_version :: "version \<Rightarrow> version \<Rightarrow> bool" where
  "(v :: version) < w \<longleftrightarrow> v \<le> w \<and> \<not> w \<le> v"

instance
  by standard (auto simp: less_eq_version_def less_version_def version.expand)

end

lemma version_compare_order:
  "version_compare v w = (if v < w then -1 else if v = w then 0 else 1)"
  by (cases v; cases w) (auto simp: version_compare_def less_version_def less_eq_version_def)

lemma version_compare_neg [simp]: "version_compare v w < 0 \<longleftrightarrow> v < w"
  by (simp add: version_compare_order)

lemma version_compare_zero [simp]: "version_compare v w = 0 \<longleftrightarrow> v = w"
  by (simp add: version_compare_order)

lemma version_compare_nonneg [simp]: "0 \<le> version_compare v w \<longleftrightarrow> w \<le> v"
  by (auto simp: version_compare_order)

subsection \<open>Vendor tokens\<close>

lemma vendor_neq [simp, const_neq]: "VendorNVIDIA \<noteq> VendorAMD" "VendorAMD \<noteq> VendorNVIDIA"
  "VendorNVIDIA \<noteq> ''''" "VendorAMD \<noteq> ''''"
  by (simp_all add: const_defs)

lemma vendor_normal [simp]:
  "ToLower (TrimSpace VendorNVIDIA) = VendorNVIDIA" "ToLower (TrimSpace VendorAMD) = VendorAMD"
  by (simp_all add: const_defs go_string)

lemma KnownVendor_pinned [simp]: "KnownVendor VendorNVIDIA" "KnownVendor VendorAMD"
  by (simp_all add: KnownVendor_def)

lemma SupportedRangeFor_nvidia [simp]:
  "SupportedRangeFor VendorNVIDIA = Some \<lparr>MinInclusive = nvidiaDPFMin, MaxExclusive = nvidiaDPFMax\<rparr>"
  by (simp add: SupportedRangeFor_def supportedVersions_def)

lemma SupportedRangeFor_amd [simp]: "SupportedRangeFor VendorAMD = None"
  by (simp add: SupportedRangeFor_def supportedVersions_def)

lemma parse_bounds [simp]:
  "parseVersion nvidiaDPFMin = Inr (Version 26 4 0)"
  "parseVersion nvidiaDPFMax = Inr (Version 27 0 0)"
  by code_simp+

lemma SanitizeVendorToken_cases:
  "SanitizeVendorToken raw = ('''', False) \<or> SanitizeVendorToken raw = (ToLower (TrimSpace raw), True)"
  by (simp add: SanitizeVendorToken_def Let_def)

lemma tokenCharsOK_chars:
  "tokenCharsOK i v \<Longrightarrow> c \<in> set v \<Longrightarrow>
     CHR ''a'' \<le> c \<and> c \<le> CHR ''z'' \<or> CHR ''0'' \<le> c \<and> c \<le> CHR ''9'' \<or> c = CHR ''-''"
  by (induction i v rule: tokenCharsOK.induct) (auto split: if_splits)

subsection \<open>Parsing\<close>

lemma parseComponent_Inr: "parseComponent p = Inr n \<longleftrightarrow> Atoi p = Some n \<and> 0 \<le> n"
  by (auto simp: parseComponent_def split: option.splits if_splits)

lemma parseVersion_nonneg:
  assumes "parseVersion s = Inr v"
  shows "0 \<le> major v \<and> 0 \<le> minor v \<and> 0 \<le> patch v"
proof -
  from assms obtain ns where ns: "traverse parseComponent
        (Split (cutAtSuffix (TrimPrefix (TrimPrefix (TrimSpace s) ''v'') ''V'')) CHR ''.'') = Inr ns"
      and v: "v = versionOf ns"
    by (auto simp: parseVersion_def Let_def bind_res_Inr_iff split: if_splits)
  have "\<forall>n \<in> set ns. 0 \<le> n"
    using traverse_Inr_mem [OF ns] by (auto simp: parseComponent_Inr)
  then show ?thesis
    by (auto simp: v versionOf_def)
qed

text \<open>The canonical text of a version.\<close>

definition printVersion :: "nat \<Rightarrow> nat \<Rightarrow> nat \<Rightarrow> string" where
  "printVersion a b c = ''v'' @ natString a @ ''.'' @ natString b @ ''.'' @ natString c"

lemma natString_plain:
  "x \<in> set (natString n) \<Longrightarrow> x \<noteq> CHR ''-'' \<and> x \<noteq> CHR ''+'' \<and> x \<noteq> CHR ''.'' \<and> x \<noteq> CHR ''v''
     \<and> x \<noteq> CHR ''V'' \<and> \<not> isSpace x"
  using natString_digits [of n] isDigit_not_sign by (auto simp: list_all_iff)

lemma cutAtSuffix_plain: "\<forall>x \<in> set s. x \<noteq> CHR ''-'' \<and> x \<noteq> CHR ''+'' \<Longrightarrow> cutAtSuffix s = s"
proof -
  assume "\<forall>x \<in> set s. x \<noteq> CHR ''-'' \<and> x \<noteq> CHR ''+''"
  then have "IndexAny s ''-+'' = None"
    by (simp add: IndexAny_def find_index_None)
  then show ?thesis by (simp add: cutAtSuffix_def)
qed

lemma printVersion_TrimSpace: "TrimSpace (printVersion a b c) = printVersion a b c"
proof (rule TrimSpace_no_space)
  have n: "\<forall>x \<in> set (natString n). \<not> isSpace x" for n
    using natString_plain by blast
  show "\<forall>x \<in> set (printVersion a b c). \<not> isSpace x"
    unfolding printVersion_def set_append ball_Un using n by (simp add: isSpace_def)
qed

lemma printVersion_unprefix:
  "TrimPrefix (TrimPrefix (printVersion a b c) ''v'') ''V'' =
     natString a @ ''.'' @ natString b @ ''.'' @ natString c"
proof -
  let ?body = "natString a @ ''.'' @ natString b @ ''.'' @ natString c"
  have ne: "natString a \<noteq> []" using natString_digits [of a] by simp
  then have "hd (natString a) \<in> set (natString a)" by simp
  then have "hd (natString a) \<noteq> CHR ''V''" using natString_plain by blast
  then have "TrimPrefix ?body ''V'' = ?body"
    using ne by (intro TrimPrefix_other) simp_all
  moreover have "TrimPrefix (printVersion a b c) ''v'' = ?body"
    by (simp add: printVersion_def TrimPrefix_def HasPrefix_def)
  ultimately show ?thesis by (simp only:)
qed

text \<open>Printing a version in canonical form and parsing it gives the version back, for every
  triple of components that fits a 64-bit integer.\<close>

theorem parse_print:
  assumes "a < 2 ^ 63" "b < 2 ^ 63" "c < 2 ^ 63"
  shows "parseVersion (printVersion a b c) = Inr (Version (int a) (int b) (int c))"
proof -
  let ?body = "natString a @ ''.'' @ natString b @ ''.'' @ natString c"
  have dash: "CHR ''-'' \<notin> set (natString n)" "CHR ''+'' \<notin> set (natString n)"
    and dots: "CHR ''.'' \<notin> set (natString n)" for n
    using natString_plain by blast+
  have cut: "cutAtSuffix ?body = ?body"
    by (rule cutAtSuffix_plain) (use dash in auto)
  have split: "Split ?body CHR ''.'' = [natString a, natString b, natString c]"
    using Split_append [OF dots] Split_sepfree [OF dots] by simp
  have comp: "parseComponent (natString n) = Inr (int n)" if "n < 2 ^ 63" for n
    using Atoi_natString [OF that] by (simp only: parseComponent_Inr) simp
  have ne: "printVersion a b c \<noteq> []" by (simp add: printVersion_def)
  have "traverse parseComponent [natString a, natString b, natString c] = Inr [int a, int b, int c]"
    by (simp only: traverse.simps comp [OF assms(1)] comp [OF assms(2)] comp [OF assms(3)] sum.case)
  then show ?thesis
    using ne unfolding parseVersion_def Let_def printVersion_TrimSpace printVersion_unprefix cut split
    by (simp add: versionOf_def)
qed

theorem parse_print_witness: "parseVersion (printVersion 26 4 0) = Inr (Version 26 4 0)"
  using parse_print [of 26 4 0] by simp

end
