(* ===== verification/Json.thy ===== *)
theory Json
  imports GoStrings
begin

text \<open>
  The untyped values of unstructured Kubernetes objects and mapping documents (Go's
  \<^verbatim>\<open>any\<close> as JSON decodes it) and pkg/mapping/path.go: reading and writing such a value at
  a dotted path. A \<^verbatim>\<open>map[string]any\<close> is a finite map, so \<^verbatim>\<open>reflect.DeepEqual\<close>
  on values is equality. Numbers are the integers JSON decoding yields for the objects the
  program handles. Go updates the destination in place; the model returns the updated map,
  which is the same as long as no other reference to an inner map is read afterwards.
\<close>

datatype jv = JNull | JBool bool | JInt int | JStr string | JList "jv list" | JObj "(string, jv) fmap"

type_synonym jobj = "(string, jv) fmap"

datatype path_err = EmptyDestination | NotAnObject string

subsection \<open>Operations of path.go\<close>

definition asMap :: "jv \<Rightarrow> jobj option" where
  "asMap v = (case v of JObj m \<Rightarrow> Some m | _ \<Rightarrow> None)"

definition asList :: "jv \<Rightarrow> jv list option" where
  "asList v = (case v of JList l \<Rightarrow> Some l | _ \<Rightarrow> None)"

definition isEmpty :: "jv \<Rightarrow> bool" where
  "isEmpty v \<longleftrightarrow> v = JNull \<or> v = JStr ''''"

text \<open>The normalisation of a path at the head of \<open>Get\<close> and \<open>Set\<close>.\<close>

definition normPath :: "string \<Rightarrow> string" where
  "normPath path = TrimPrefix (Trim (TrimPrefix (TrimSpace path) ''$.'') ''{}'') ''.''"

fun getParts :: "jv \<Rightarrow> string list \<Rightarrow> jv option" where
  "getParts cur [] = Some cur"
| "getParts cur (p # ps) =
     (case asMap cur of None \<Rightarrow> None
      | Some m \<Rightarrow> (case fmlookup m p of None \<Rightarrow> None | Some nxt \<Rightarrow> getParts nxt ps))"

definition Get :: "jobj \<Rightarrow> string \<Rightarrow> jv option" where
  "Get obj path0 =
     (let path = normPath path0 in
      if path = '''' then Some (JObj obj) else getParts (JObj obj) (Split path CHR ''.''))"

fun setParts :: "jobj \<Rightarrow> string list \<Rightarrow> jv \<Rightarrow> (path_err, jobj) result" where
  "setParts cur [] v = Err EmptyDestination"
| "setParts cur [p] v = Ok (fmupd p v cur)"
| "setParts cur (p # q # ps) v =
     (case fmlookup cur p of
        None \<Rightarrow> bind_res (setParts fmempty (q # ps) v) (\<lambda>c. Ok (fmupd p (JObj c) cur))
      | Some nxt \<Rightarrow>
          (case asMap nxt of None \<Rightarrow> Err (NotAnObject p)
           | Some m \<Rightarrow> bind_res (setParts m (q # ps) v) (\<lambda>c. Ok (fmupd p (JObj c) cur))))"

definition Set :: "jobj \<Rightarrow> string \<Rightarrow> jv \<Rightarrow> (path_err, jobj) result" where
  "Set obj path0 v =
     (let path = normPath path0 in
      if path = '''' then Err EmptyDestination else setParts obj (Split path CHR ''.'') v)"

subsection \<open>Laws of reading and writing\<close>

lemma asMap_JObj [simp]: "asMap (JObj m) = Some m"
  by (simp add: asMap_def)

lemma asMap_Some: "asMap v = Some m \<longleftrightarrow> v = JObj m"
  by (cases v) (auto simp: asMap_def)

lemma asList_Some: "asList v = Some l \<longleftrightarrow> v = JList l"
  by (cases v) (auto simp: asList_def)

lemma setParts_not_Nil: "setParts cur ps v = Inr m \<Longrightarrow> ps \<noteq> []"
  by (cases ps) auto

text \<open>One step of a write: the child it descends into, a new empty object where there is none.\<close>

lemma setParts_Cons_Inr:
  "setParts cur (p # q # ps) v = Inr m \<longleftrightarrow>
     (\<exists>base c. (fmlookup cur p = None \<and> base = fmempty \<or> fmlookup cur p = Some (JObj base)) \<and>
        setParts base (q # ps) v = Inr c \<and> m = fmupd p (JObj c) cur)"
  by (auto simp: bind_res_Inr_iff asMap_Some split: option.splits)

lemma getParts_setParts: "setParts cur ps v = Inr m \<Longrightarrow> getParts (JObj m) ps = Some v"
proof (induction ps arbitrary: cur m)
  case (Cons p ps)
  show ?case
  proof (cases ps)
    case (Cons q qs)
    with Cons.prems obtain base c where "setParts base ps v = Inr c" "m = fmupd p (JObj c) cur"
      by (auto simp only: setParts_Cons_Inr)
    with Cons.IH show ?thesis by simp
  qed (use Cons.prems in auto)
qed simp

lemma getParts_append:
  "getParts v (ps @ qs) = (case getParts v ps of None \<Rightarrow> None | Some w \<Rightarrow> getParts w qs)"
  by (induction ps arbitrary: v) (auto split: option.splits)

text \<open>Two paths are independent when neither is a prefix of the other.\<close>

fun diverge :: "string list \<Rightarrow> string list \<Rightarrow> bool" where
  "diverge (p # ps) (q # qs) = (p \<noteq> q \<or> diverge ps qs)"
| "diverge _ _ = False"

lemma getParts_setParts_diverge:
  "setParts cur ps v = Inr m \<Longrightarrow> diverge ps qs \<Longrightarrow> getParts (JObj m) qs = getParts (JObj cur) qs"
proof (induction ps arbitrary: cur m qs)
  case (Cons p ps)
  then obtain r rs where qs: "qs = r # rs" by (cases qs) auto
  show ?case
  proof (cases ps)
    case Nil
    with Cons.prems qs show ?thesis by auto
  next
    case (Cons q ps')
    with Cons.prems obtain base c where
        base: "fmlookup cur p = None \<and> base = fmempty \<or> fmlookup cur p = Some (JObj base)"
        and c: "setParts base ps v = Inr c" "m = fmupd p (JObj c) cur"
      by (auto simp only: setParts_Cons_Inr)
    show ?thesis
    proof (cases "p = r")
      case True
      with Cons.prems qs have d: "diverge ps rs" by simp
      then have "rs \<noteq> []" by (cases rs; cases ps) auto
      moreover have "getParts (JObj c) rs = getParts (JObj base) rs"
        using Cons.IH [OF c(1) d] .
      ultimately show ?thesis
        using base c(2) qs True by (cases rs) auto
    next
      case False
      with c(2) qs show ?thesis by simp
    qed
  qed
qed simp

text \<open>A write fails exactly when a proper prefix of the path already holds a value that is not an object.\<close>

lemma setParts_fails_iff:
  assumes "ps \<noteq> []"
  shows "(\<exists>e. setParts cur ps v = Inl e) \<longleftrightarrow>
    (\<exists>qs rs w. ps = qs @ rs \<and> qs \<noteq> [] \<and> rs \<noteq> [] \<and> getParts (JObj cur) qs = Some w \<and> asMap w = None)"
  using assms
proof (induction cur ps v rule: setParts.induct)
  case (1 cur v)
  then show ?case by simp
next
  case (2 cur p v)
  have "[p] = qs @ rs \<Longrightarrow> qs = [] \<or> rs = []" for qs rs :: "string list"
    by (cases qs) auto
  then show ?case by auto
next
  case (3 cur p q ps v)
  let ?fail = "\<lambda>cur ps. \<exists>qs rs w. ps = qs @ rs \<and> qs \<noteq> [] \<and> rs \<noteq> [] \<and>
      getParts (JObj cur) qs = Some w \<and> asMap w = None"
  have step: "?fail cur (p # q # ps) \<longleftrightarrow>
      (\<exists>w. fmlookup cur p = Some w \<and> (asMap w = None \<or> (\<exists>m. asMap w = Some m \<and> ?fail m (q # ps))))"
  proof
    assume "?fail cur (p # q # ps)"
    then obtain qs rs w where s: "p # q # ps = qs @ rs" "qs \<noteq> []" "rs \<noteq> []"
        "getParts (JObj cur) qs = Some w" "asMap w = None" by blast
    then obtain qs' where qs: "qs = p # qs'" "q # ps = qs' @ rs"
      by (auto simp: Cons_eq_append_conv)
    with s obtain x where x: "fmlookup cur p = Some x" "getParts x qs' = Some w"
      by (auto split: option.splits)
    show "\<exists>w. fmlookup cur p = Some w \<and> (asMap w = None \<or> (\<exists>m. asMap w = Some m \<and> ?fail m (q # ps)))"
    proof (cases "asMap x")
      case (Some m)
      then have "qs' \<noteq> []" using x s(5) by (cases qs') auto
      with x qs s Some show ?thesis by (auto simp: asMap_Some)
    qed (use x in auto)
  next
    assume "\<exists>w. fmlookup cur p = Some w \<and> (asMap w = None \<or> (\<exists>m. asMap w = Some m \<and> ?fail m (q # ps)))"
    then obtain w where w: "fmlookup cur p = Some w"
      and d: "asMap w = None \<or> (\<exists>m. asMap w = Some m \<and> ?fail m (q # ps))" by blast
    from d show "?fail cur (p # q # ps)"
    proof
      assume "asMap w = None"
      with w show ?thesis by (intro exI [of _ "[p]"] exI [of _ "q # ps"] exI [of _ w]) simp
    next
      assume "\<exists>m. asMap w = Some m \<and> ?fail m (q # ps)"
      then obtain m qs rs x where "w = JObj m" "q # ps = qs @ rs" "qs \<noteq> []" "rs \<noteq> []"
          "getParts (JObj m) qs = Some x" "asMap x = None" by (auto simp: asMap_Some)
      with w show ?thesis by (intro exI [of _ "p # qs"] exI [of _ rs] exI [of _ x]) simp
    qed
  qed
  show ?case
  proof (cases "fmlookup cur p")
    case None
    have "\<exists>c. setParts fmempty (q # ps) v = Inr c"
    proof (cases "setParts fmempty (q # ps) v")
      case (Inl e)
      with 3(1) [OF None] obtain qs w where "qs \<noteq> []" "getParts (JObj fmempty) qs = Some w" by auto
      then show ?thesis by (cases qs) auto
    qed simp
    with None show ?thesis unfolding step by auto
  next
    case (Some w)
    show ?thesis
    proof (cases "asMap w")
      case None
      with Some show ?thesis unfolding step by simp
    next
      case m: (Some m)
      show ?thesis
        using 3(2) [OF Some m] Some m unfolding step
        by (cases "setParts m (q # ps) v") auto
    qed
  qed
qed

text \<open>A path that is already in normal form: plain keys joined by dots.\<close>

definition plainKey :: "string \<Rightarrow> bool" where
  "plainKey k \<longleftrightarrow> k \<noteq> '''' \<and> (\<forall>c \<in> set k. c \<noteq> CHR ''.'' \<and> c \<noteq> CHR ''$'' \<and> c \<noteq> CHR ''{'' \<and> c \<noteq> CHR ''}'' \<and> \<not> isSpace c)"

lemma normPath_noop:
  assumes "p \<noteq> []" "hd p \<notin> {CHR ''.'', CHR ''$''}" "\<forall>c \<in> set p. c \<notin> {CHR ''{'', CHR ''}''} \<and> \<not> isSpace c"
  shows "normPath p = p"
proof -
  have "TrimSpace p = p" using assms(3) by (auto intro: TrimSpace_no_space)
  moreover have "TrimPrefix p ''$.'' = p" using assms(1,2)
    by (cases p) (auto simp: TrimPrefix_def HasPrefix_def)
  moreover have "Trim p ''{}'' = p"
  proof -
    have "dropWhile (\<lambda>c. c \<in> set ''{}'') p = p" "dropWhile (\<lambda>c. c \<in> set ''{}'') (rev p) = rev p"
      using assms(1,3) by (metis dropWhile_hd_id hd_in_set set_simps(1,2) set_rev)+
    then show ?thesis by (simp add: Trim_def TrimLeftSet_def)
  qed
  moreover have "TrimPrefix p ''.'' = p" using assms(1,2) by (intro TrimPrefix_other) auto
  ultimately show ?thesis by (simp add: normPath_def)
qed

subsection \<open>Properties\<close>

text \<open>The keys a path walks through, and the paths that address different places.\<close>

definition pathKeys :: "string \<Rightarrow> string list" where
  "pathKeys p = Split (normPath p) CHR ''.''"

text \<open>Writing at a path and reading it back gives the value written, and a read at any path
  that parts ways with the written one sees what it saw before.\<close>

theorem path_set_get:
  assumes "Set obj p v = Inr obj'"
  shows "Get obj' p = Some v \<and>
    (\<forall>q. normPath q \<noteq> '''' \<and> diverge (pathKeys p) (pathKeys q) \<longrightarrow> Get obj' q = Get obj q)"
proof -
  from assms have ne: "normPath p \<noteq> ''''" and set: "setParts obj (pathKeys p) v = Inr obj'"
    by (auto simp: Set_def Let_def pathKeys_def split: if_splits)
  have "Get obj' p = Some v"
    using getParts_setParts [OF set] ne by (simp add: Get_def Let_def pathKeys_def)
  moreover have "Get obj' q = Get obj q" if "normPath q \<noteq> ''''" "diverge (pathKeys p) (pathKeys q)" for q
    using getParts_setParts_diverge [OF set that(2)] that(1) by (simp add: Get_def Let_def pathKeys_def)
  ultimately show ?thesis by blast
qed

theorem path_set_get_witness:
  "\<exists>obj'. Set (fmap_of_list [(''kind'', JStr ''DPU'')]) ''{.spec.name}'' (JInt 3) = Inr obj' \<and>
     Get obj' ''spec.name'' = Some (JInt 3) \<and> Get obj' ''kind'' = Some (JStr ''DPU'')"
proof -
  let ?obj = "fmap_of_list [(''kind'', JStr ''DPU'')]"
  have "is_ok (Set ?obj ''{.spec.name}'' (JInt 3))" by code_simp
  then obtain obj' where s: "Set ?obj ''{.spec.name}'' (JInt 3) = Inr obj'"
    by (cases "Set ?obj ''{.spec.name}'' (JInt 3)") auto
  have n: "normPath ''{.spec.name}'' = normPath ''spec.name''" by code_simp
  have "normPath ''kind'' \<noteq> ''''" "diverge (pathKeys ''{.spec.name}'') (pathKeys ''kind'')" by code_simp+
  then have "Get obj' ''{.spec.name}'' = Some (JInt 3)" "Get obj' ''kind'' = Get ?obj ''kind''"
    using path_set_get [OF s] by blast+
  moreover have "Get ?obj ''kind'' = Some (JStr ''DPU'')" by code_simp
  moreover have "Get obj' ''spec.name'' = Get obj' ''{.spec.name}''" using n by (simp add: Get_def)
  ultimately show ?thesis using s by auto
qed

text \<open>A write fails exactly when the path is empty or some proper prefix of it already holds
  a value that is not an object; it never overwrites such a value.\<close>

theorem path_set_fails:
  "(\<exists>e. Set obj p v = Inl e) \<longleftrightarrow> normPath p = '''' \<or>
     (\<exists>qs rs w. pathKeys p = qs @ rs \<and> qs \<noteq> [] \<and> rs \<noteq> [] \<and> getParts (JObj obj) qs = Some w \<and> asMap w = None)"
proof (cases "normPath p = ''''")
  case True
  then show ?thesis by (simp add: Set_def)
next
  case False
  then show ?thesis
    using setParts_fails_iff [of "pathKeys p" obj v] by (simp add: Set_def Let_def pathKeys_def)
qed

end
