(* ===== verification/LifecycleConfig.thy ===== *)
theory LifecycleConfig
  imports Version Json
begin

text \<open>
  pkg/lifecycle/config.go, intent.go and preflight.go: the pinned install settings, the
  rejection of user overrides, the parsing of the install request and its preflight gate; and
  the sentinel errors of the package with their texts. A DpuOperatorConfig is the typed view
  of the unstructured object: every field holds what the accessor the code calls returns
  (\<open>cfgSpecVendor\<close> is the string at \<^verbatim>\<open>spec.vendor\<close>, empty when absent).
\<close>

subsection \<open>Errors of the package\<close>

datatype lcm_err =
    ErrMalformedVersion | ErrUnsupportedVersion | ErrDowngradeForbidden | ErrDisallowedArtifact
  | ErrReleaseNotFound | ErrReleaseExists | ErrReleaseUnmanaged | ErrReleaseTimeout
  | ErrReleaseUnknown | ErrRollbackFailed | ErrNoVendorChart | ErrHelmMutationNotConfigured
  | ErrCleanupOwnership | ErrCleanupForbidden | ErrCleanupChanged
  | ErrOLMNotPresent | ErrOLMMutationNotConfigured | ErrOLMPackageNotPublished
  | ErrSubscriptionNotFound | ErrSubscriptionUnmanaged
  | ContextCanceled | ContextDeadlineExceeded
  | ErrText string

text \<open>\<^verbatim>\<open>err.Error()\<close>; \<open>ErrText\<close> is an error made by \<^verbatim>\<open>fmt.Errorf\<close> or by a callee.\<close>

fun errText :: "lcm_err \<Rightarrow> string" where
  "errText ErrMalformedVersion = ''release version is malformed''"
| "errText ErrUnsupportedVersion = ''release version is not in the pinned window''"
| "errText ErrDowngradeForbidden = ''downgrade is not allowed by policy''"
| "errText ErrDisallowedArtifact = ''artifact reference is not the pinned immutable chart''"
| "errText ErrReleaseNotFound = ''helm release not found''"
| "errText ErrReleaseExists = ''helm release already exists''"
| "errText ErrReleaseUnmanaged = ''helm release is not managed by this adapter''"
| "errText ErrReleaseTimeout = ''helm release operation timed out''"
| "errText ErrReleaseUnknown = ''helm release operation outcome is unknown''"
| "errText ErrRollbackFailed = ''rollback failed''"
| "errText ErrNoVendorChart = ''vendor has no pinned helm chart''"
| "errText ErrHelmMutationNotConfigured = ''helm mutation is not configured''"
| "errText ErrCleanupOwnership = ''ownership is missing, conflicting, or not verified''"
| "errText ErrCleanupForbidden = ''destructive cleanup is not allowed''"
| "errText ErrCleanupChanged = ''ownership changed before deletion''"
| "errText ErrOLMNotPresent = ''olm apis are not present''"
| "errText ErrOLMMutationNotConfigured = ''olm mutation is not configured''"
| "errText ErrOLMPackageNotPublished = ''olm package is not published''"
| "errText ErrSubscriptionNotFound = ''olm subscription not found''"
| "errText ErrSubscriptionUnmanaged = ''olm subscription is not managed by this adapter''"
| "errText ContextCanceled = ''context canceled''"
| "errText ContextDeadlineExceeded = ''context deadline exceeded''"
| "errText (ErrText s) = s"

subsection \<open>Pinned settings\<close>

definition DefaultNamespace :: string where [const_defs]: "DefaultNamespace = ''dpf-operator-system''"
definition NVIDIAChartName :: string where [const_defs]: "NVIDIAChartName = ''dpf-operator''"
definition NVIDIAChartRepo :: string where
  [const_defs]: "NVIDIAChartRepo = ''https://helm.ngc.nvidia.com/nvidia/doca''"
definition NVIDIAChartVersion :: string where [const_defs]: "NVIDIAChartVersion = nvidiaDPFMin"
definition NVIDIAReleaseName :: string where [const_defs]: "NVIDIAReleaseName = ''dpf-operator''"
definition ReleaseOwner :: string where [const_defs]: "ReleaseOwner = ''opi-nvidia-dpf-adapter''"
definition VendorAnnotation :: string where
  [const_defs]: "VendorAnnotation = ''lifecycle.opi.nvidia.com/vendor''"
definition VersionAnnotation :: string where
  [const_defs]: "VersionAnnotation = ''lifecycle.opi.nvidia.com/vendor-operator-version''"
definition AdoptExistingAnnotation :: string where
  [const_defs]: "AdoptExistingAnnotation = ''lifecycle.opi.nvidia.com/adopt-existing''"

definition forbiddenOverrideKeys :: "string list" where
  "forbiddenOverrideKeys =
     [''lifecycle.opi.nvidia.com/chart-url'',
      ''lifecycle.opi.nvidia.com/chart-repo'',
      ''lifecycle.opi.nvidia.com/chart-version'',
      ''lifecycle.opi.nvidia.com/helm-args'',
      ''lifecycle.opi.nvidia.com/helm-set'',
      ''lifecycle.opi.nvidia.com/release-namespace'',
      ''lifecycle.opi.nvidia.com/release-name'',
      ''lifecycle.opi.nvidia.com/olm-catalog'',
      ''lifecycle.opi.nvidia.com/olm-package'',
      ''lifecycle.opi.nvidia.com/subscription'',
      ''lifecycle.opi.nvidia.com/catalog-source'']"

record InstallConfig =
  ic_Vendor :: string
  ic_Namespace :: string
  ic_ChartName :: string
  ic_ChartRepo :: string
  ic_ChartVersion :: string
  ic_ReleaseName :: string
  ic_ReleaseOwner :: string
  ic_HelmArgs :: "string list"
  ic_OLMPublished :: bool
  ic_OLMPackage :: string
  ic_OLMChannel :: string
  ic_OLMCatalog :: string

definition emptyInstallConfig :: InstallConfig where
  "emptyInstallConfig = \<lparr>ic_Vendor = '''', ic_Namespace = '''', ic_ChartName = '''', ic_ChartRepo = '''',
     ic_ChartVersion = '''', ic_ReleaseName = '''', ic_ReleaseOwner = '''', ic_HelmArgs = [],
     ic_OLMPublished = False, ic_OLMPackage = '''', ic_OLMChannel = '''', ic_OLMCatalog = ''''\<rparr>"

definition DefaultInstallConfig :: "string \<Rightarrow> (lcm_err, InstallConfig) result" where
  "DefaultInstallConfig vendor =
     (let v = ToLower (TrimSpace vendor) in
      if v = VendorNVIDIA then
        Ok (emptyInstallConfig\<lparr>ic_Vendor := VendorNVIDIA, ic_Namespace := DefaultNamespace,
              ic_ChartName := NVIDIAChartName, ic_ChartRepo := NVIDIAChartRepo,
              ic_ChartVersion := NVIDIAChartVersion, ic_ReleaseName := NVIDIAReleaseName,
              ic_ReleaseOwner := ReleaseOwner\<rparr>)
      else if v = VendorAMD then
        Ok (emptyInstallConfig\<lparr>ic_Vendor := VendorAMD, ic_Namespace := DefaultNamespace,
              ic_ReleaseOwner := ReleaseOwner\<rparr>)
      else Err (ErrText (''vendor '' @ Quote vendor @ '' is not on the allow-list'')))"

text \<open>
  Scheme and host of an absolute URL as \<^verbatim>\<open>net/url\<close> splits it. The only text for which
  the caller goes on is the constant \<open>NVIDIAChartRepo\<close>; what the parser rejects for other
  reasons is refused by the allow-list comparison here, so only the error's wording can differ.
\<close>

definition urlScheme :: "string \<Rightarrow> string" where
  "urlScheme s = (let rest = dropWhile (\<lambda>c. c \<noteq> CHR '':'') s in
     if HasPrefix rest ''://'' then ToLower (takeWhile (\<lambda>c. c \<noteq> CHR '':'') s) else '''')"

definition urlHost :: "string \<Rightarrow> string" where
  "urlHost s = (let rest = dropWhile (\<lambda>c. c \<noteq> CHR '':'') s in
     if HasPrefix rest ''://'' then takeWhile (\<lambda>c. c \<notin> set ''/?#'') (drop 3 rest) else '''')"

definition approvedChartRepo :: "string \<Rightarrow> (lcm_err, unit) result" where
  "approvedChartRepo raw =
     (if urlScheme raw \<noteq> ''https'' \<or> urlHost raw = ''''
      then Err (ErrText ''chart repo is not an approved https URL'')
      else if raw \<noteq> NVIDIAChartRepo then Err (ErrText ''chart repo is not on the allow-list'')
      else Ok ())"

definition ValidateInstallConfig :: "InstallConfig \<Rightarrow> (lcm_err, unit) result" where
  "ValidateInstallConfig c =
     (if \<not> KnownVendor (ic_Vendor c) then Err (ErrText ''vendor is not approved'')
      else if ic_Namespace c \<noteq> DefaultNamespace
        then Err (ErrText ''namespace is not the pinned release namespace'')
      else if ic_ReleaseOwner c \<noteq> ReleaseOwner
        then Err (ErrText ''release owner is not this adapter'')
      else if ic_HelmArgs c \<noteq> []
        then Err (ErrText ''helm execution arguments are not allowed'')
      else if ic_OLMPublished c \<or> ic_OLMPackage c \<noteq> '''' \<or> ic_OLMChannel c \<noteq> '''' \<or> ic_OLMCatalog c \<noteq> ''''
        then Err (ErrText ''olm package is not published'')
      else if ic_Vendor c = VendorAMD then
        (if ic_ChartName c \<noteq> '''' \<or> ic_ChartRepo c \<noteq> '''' \<or> ic_ChartVersion c \<noteq> '''' \<or> ic_ReleaseName c \<noteq> ''''
         then Err (ErrText ''amd has no pinned helm chart'') else Ok ())
      else if ic_ChartName c \<noteq> NVIDIAChartName \<or> ic_ChartRepo c \<noteq> NVIDIAChartRepo \<or>
              ic_ChartVersion c \<noteq> NVIDIAChartVersion \<or> ic_ReleaseName c \<noteq> NVIDIAReleaseName
        then Err (ErrText ''helm chart settings are not the pinned nvidia defaults'')
      else approvedChartRepo (ic_ChartRepo c))"

subsection \<open>DpuOperatorConfig and its overrides\<close>

record DpuOperatorConfig =
  cfgName :: string
  cfgNamespace :: string
  cfgSpecVendor :: string
  cfgAnnotations :: strmap
  cfgFinalizers :: "string list"
  cfgDeleting :: bool
  cfgStatus :: "jv option"

definition looksLikeChartURL :: "string \<Rightarrow> bool" where
  "looksLikeChartURL s0 =
     (let s = TrimSpace (ToLower s0) in
      if s = '''' then False
      else Contains s ''://'' \<or> HasPrefix s ''file:'' \<or> HasPrefix s ''oci:'' \<or> HasPrefix s ''--'')"

definition overrideErr :: "string \<Rightarrow> lcm_err" where
  "overrideErr k = ErrText (''install override '' @ k @ '' is not allowed'')"

text \<open>One round of the loop over all annotations.\<close>

definition overrideKeyBad :: "strmap \<Rightarrow> string \<Rightarrow> bool" where
  "overrideKeyBad ann k =
     (let lk = ToLower k in
      Contains lk ''helm-args'' \<or> Contains lk ''helm-set'' \<or> Contains lk ''chart-url'' \<or>
      (looksLikeChartURL (sget ann k) \<and> k \<noteq> VersionAnnotation \<and> k \<noteq> VendorAnnotation))"

text \<open>
  Go visits the annotations in an unspecified order and names the first offending key; the
  model visits them in ascending order.
\<close>

definition RejectInstallOverrides :: "DpuOperatorConfig option \<Rightarrow> (lcm_err, unit) result" where
  "RejectInstallOverrides cfg =
     (case cfg of None \<Rightarrow> Ok ()
      | Some c \<Rightarrow>
        (let ann = cfgAnnotations c in
         case find (\<lambda>k. k |\<in>| fmdom ann) forbiddenOverrideKeys of
           Some k \<Rightarrow> Err (overrideErr k)
         | None \<Rightarrow>
             (case find (overrideKeyBad ann) (keys_of ann) of
                Some k \<Rightarrow> Err (overrideErr k)
              | None \<Rightarrow>
                  if looksLikeChartURL (sget ann VersionAnnotation)
                  then Err (ErrText ''version pin is not a version'') else Ok ())))"

subsection \<open>Intent and preflight\<close>

datatype IntentSource = IntentNone | IntentSpec | IntentAnnotation

record Intent =
  in_Vendor :: string
  in_PinnedVersion :: string
  in_Source :: IntentSource
  in_Known :: bool
  in_AdoptExisting :: bool

definition emptyIntent :: Intent where
  "emptyIntent = \<lparr>in_Vendor = '''', in_PinnedVersion = '''', in_Source = IntentNone, in_Known = False,
     in_AdoptExisting = False\<rparr>"

definition invalidVendor :: string where [const_defs]: "invalidVendor = ''invalid''"

definition sanitizedVendor :: "string \<Rightarrow> string" where
  "sanitizedVendor raw = (let (token, ok) = SanitizeVendorToken raw in if \<not> ok then invalidVendor else token)"

definition adoptExistingRequested :: "DpuOperatorConfig option \<Rightarrow> bool" where
  "adoptExistingRequested cfg =
     (case cfg of None \<Rightarrow> False
      | Some c \<Rightarrow> (let v = ToLower (TrimSpace (sget (cfgAnnotations c) AdoptExistingAnnotation))
                   in v = ''true'' \<or> v = ''pin''))"

definition ParseIntent :: "DpuOperatorConfig option \<Rightarrow> Intent" where
  "ParseIntent cfg =
     (case cfg of None \<Rightarrow> emptyIntent
      | Some c \<Rightarrow>
        (let ann = cfgAnnotations c;
             i = emptyIntent\<lparr>in_PinnedVersion := TrimSpace (sget ann VersionAnnotation),
                   in_AdoptExisting := adoptExistingRequested cfg\<rparr>;
             specRaw = cfgSpecVendor c;
             annRaw = sget ann VendorAnnotation
         in if TrimSpace specRaw \<noteq> '''' then
              i\<lparr>in_Source := IntentSpec, in_Vendor := sanitizedVendor specRaw,
                in_Known := KnownVendor (sanitizedVendor specRaw)\<rparr>
            else if TrimSpace annRaw \<noteq> '''' then
              i\<lparr>in_Source := IntentAnnotation, in_Vendor := sanitizedVendor annRaw,
                in_Known := KnownVendor (sanitizedVendor annRaw)\<rparr>
            else i))"

definition ResolveVendor :: "DpuOperatorConfig option \<Rightarrow> string" where
  "ResolveVendor cfg = in_Vendor (ParseIntent cfg)"

record Preflight =
  pf_OK :: bool
  pf_Skip :: bool
  pf_Reason :: Skew
  pf_Message :: string

definition RunPreflight :: "Intent \<Rightarrow> Preflight" where
  "RunPreflight i =
     (if in_Vendor i = '''' then
        \<lparr>pf_OK = True, pf_Skip = True, pf_Reason = SkewZero, pf_Message = ''no vendor requested''\<rparr>
      else if \<not> in_Known i then
        \<lparr>pf_OK = False, pf_Skip = False, pf_Reason = SkewUnknownVendor,
         pf_Message = ''vendor '' @ Quote (in_Vendor i) @ '' is not known; allowed values are '' @
           Join KnownVendors '', ''\<rparr>
      else \<lparr>pf_OK = True, pf_Skip = False, pf_Reason = SkewZero,
             pf_Message = ''vendor is on the allow-list''\<rparr>)"

subsection \<open>Facts\<close>

lemma pinned_neq [simp, const_neq]:
  "NVIDIAReleaseName \<noteq> ''''" "DefaultNamespace \<noteq> ''''" "NVIDIAChartName \<noteq> ''''" "NVIDIAChartRepo \<noteq> ''''"
  "NVIDIAChartVersion \<noteq> ''''" "ReleaseOwner \<noteq> ''''" "invalidVendor \<noteq> ''''"
  "invalidVendor \<noteq> VendorNVIDIA" "invalidVendor \<noteq> VendorAMD"
  by (simp_all add: const_defs)

lemmas pinned_neq_sym [simp] = pinned_neq [symmetric] vendor_neq(3,4) [symmetric]

lemma approvedChartRepo_ok [simp]: "approvedChartRepo raw = Inr u \<longleftrightarrow> raw = NVIDIAChartRepo"
proof -
  have "urlScheme NVIDIAChartRepo = ''https''" "urlHost NVIDIAChartRepo \<noteq> ''''" by code_simp+
  then show ?thesis by (auto simp: approvedChartRepo_def)
qed

lemma approvedChartRepo_pin [simp]: "approvedChartRepo NVIDIAChartRepo = Inr ()"
  by (simp only: approvedChartRepo_ok)

definition nvidiaConfig :: InstallConfig where
  "nvidiaConfig = emptyInstallConfig\<lparr>ic_Vendor := VendorNVIDIA, ic_Namespace := DefaultNamespace,
     ic_ChartName := NVIDIAChartName, ic_ChartRepo := NVIDIAChartRepo,
     ic_ChartVersion := NVIDIAChartVersion, ic_ReleaseName := NVIDIAReleaseName,
     ic_ReleaseOwner := ReleaseOwner\<rparr>"

lemma DefaultInstallConfig_nvidia [simp]: "DefaultInstallConfig VendorNVIDIA = Inr nvidiaConfig"
  by (simp add: DefaultInstallConfig_def nvidiaConfig_def)

lemma DefaultInstallConfig_vendor:
  "DefaultInstallConfig vendor = Inr c \<Longrightarrow>
     ic_Vendor c = ToLower (TrimSpace vendor) \<and> KnownVendor vendor"
  by (auto simp: DefaultInstallConfig_def KnownVendor_def Let_def split: if_splits)

lemma nvidiaConfig_fields [simp]:
  "ic_Vendor nvidiaConfig = VendorNVIDIA" "ic_Namespace nvidiaConfig = DefaultNamespace"
  "ic_ChartName nvidiaConfig = NVIDIAChartName" "ic_ChartRepo nvidiaConfig = NVIDIAChartRepo"
  "ic_ChartVersion nvidiaConfig = NVIDIAChartVersion" "ic_ReleaseName nvidiaConfig = NVIDIAReleaseName"
  "ic_ReleaseOwner nvidiaConfig = ReleaseOwner" "ic_HelmArgs nvidiaConfig = []"
  "ic_OLMPublished nvidiaConfig = False" "ic_OLMPackage nvidiaConfig = ''''" "ic_OLMChannel nvidiaConfig = ''''"
  "ic_OLMCatalog nvidiaConfig = ''''"
  by (simp_all add: nvidiaConfig_def emptyInstallConfig_def)

definition amdConfig :: InstallConfig where
  "amdConfig = emptyInstallConfig\<lparr>ic_Vendor := VendorAMD, ic_Namespace := DefaultNamespace,
     ic_ReleaseOwner := ReleaseOwner\<rparr>"

lemma amdConfig_fields [simp]:
  "ic_Vendor amdConfig = VendorAMD" "ic_Namespace amdConfig = DefaultNamespace"
  "ic_ChartName amdConfig = ''''" "ic_ChartRepo amdConfig = ''''"
  "ic_ChartVersion amdConfig = ''''" "ic_ReleaseName amdConfig = ''''"
  "ic_ReleaseOwner amdConfig = ReleaseOwner" "ic_HelmArgs amdConfig = []"
  "ic_OLMPublished amdConfig = False" "ic_OLMPackage amdConfig = ''''" "ic_OLMChannel amdConfig = ''''"
  "ic_OLMCatalog amdConfig = ''''"
  by (simp_all add: amdConfig_def emptyInstallConfig_def)

lemma ValidateInstallConfig_default:
  "DefaultInstallConfig vendor = Inr c \<Longrightarrow> ValidateInstallConfig c = Inr ()"
proof -
  assume d: "DefaultInstallConfig vendor = Inr c"
  then consider "c = nvidiaConfig" | "c = amdConfig"
    by (auto simp: DefaultInstallConfig_def nvidiaConfig_def amdConfig_def Let_def split: if_splits)
  then show ?thesis
  proof cases
    case 1
    then show ?thesis by (simp add: ValidateInstallConfig_def)
  next
    case 2
    then show ?thesis by (simp add: ValidateInstallConfig_def)
  qed
qed

lemma ValidateInstallConfig_nvidia [simp]: "ValidateInstallConfig nvidiaConfig = Inr ()"
  using ValidateInstallConfig_default [of VendorNVIDIA] by simp

lemma looksLikeChartURL_Nil [simp]: "\<not> looksLikeChartURL ''''"
  by (simp add: looksLikeChartURL_def)

lemma ParseIntent_known:
  "in_Known (ParseIntent cfg) \<longleftrightarrow> KnownVendor (in_Vendor (ParseIntent cfg))"
proof -
  have "\<not> KnownVendor ''''" by code_simp
  then show ?thesis
    by (cases cfg) (simp_all add: ParseIntent_def emptyIntent_def Let_def)
qed

lemma sanitizedVendor_known:
  "KnownVendor (sanitizedVendor raw) \<Longrightarrow> sanitizedVendor raw = VendorNVIDIA \<or> sanitizedVendor raw = VendorAMD"
proof -
  assume k: "KnownVendor (sanitizedVendor raw)"
  have inv: "\<not> KnownVendor invalidVendor" by code_simp
  from SanitizeVendorToken_cases [of raw] show ?thesis
  proof
    assume "SanitizeVendorToken raw = ('''', False)"
    with k inv show ?thesis by (simp add: sanitizedVendor_def)
  next
    assume "SanitizeVendorToken raw = (ToLower (TrimSpace raw), True)"
    then have "sanitizedVendor raw = ToLower (TrimSpace raw)" by (simp add: sanitizedVendor_def)
    with k show ?thesis by (simp add: KnownVendor_def Let_def TrimSpace_ToLower)
  qed
qed

lemma ParseIntent_vendor_cases:
  "in_Known (ParseIntent cfg) \<Longrightarrow>
     in_Vendor (ParseIntent cfg) = VendorNVIDIA \<or> in_Vendor (ParseIntent cfg) = VendorAMD"
  by (auto simp: ParseIntent_def emptyIntent_def Let_def dest!: sanitizedVendor_known
      split: option.splits if_splits)

lemma ParseIntent_pin_trimmed: "TrimSpace (in_PinnedVersion (ParseIntent cfg)) = in_PinnedVersion (ParseIntent cfg)"
  by (cases cfg) (simp_all add: ParseIntent_def emptyIntent_def Let_def)

end
