(* ===== verification/VersionPolicy.thy ===== *)
theory VersionPolicy
  imports LifecycleConfig
begin

text \<open>
  pkg/lifecycle/policy.go, version_policy.go and webhook.go: the window classification of an
  install, the release version and artifact gates, the upgrade decision, and the validating
  admission handler for DpuOperatorConfig objects. The JSON decoder the handler calls is a
  parameter.
\<close>

subsection \<open>Policy\<close>

record PolicyResult =
  pr_Skew :: Skew
  pr_Version :: string
  pr_Range :: SupportedRange
  pr_Message :: string

definition emptyRange :: SupportedRange where
  "emptyRange = \<lparr>MinInclusive = '''', MaxExclusive = ''''\<rparr>"

definition skewOnly :: "Skew \<Rightarrow> PolicyResult" where
  "skewOnly s = \<lparr>pr_Skew = s, pr_Version = '''', pr_Range = emptyRange, pr_Message = ''''\<rparr>"

definition EvaluatePolicy :: "string \<Rightarrow> string \<Rightarrow> PolicyResult" where
  "EvaluatePolicy vendor installed =
     \<lparr>pr_Skew = ClassifySkew vendor installed, pr_Version = installed,
      pr_Range = (case SupportedRangeFor vendor of None \<Rightarrow> emptyRange | Some r \<Rightarrow> r),
      pr_Message = ''''\<rparr>"

definition ApplyVersionPolicy :: "Intent \<Rightarrow> InstallConfig \<Rightarrow> InstallConfig \<times> PolicyResult" where
  "ApplyVersionPolicy i settings =
     (case ValidateInstallConfig settings of
        Inl _ \<Rightarrow> (settings, skewOnly SkewInvalidConfig)
      | Inr _ \<Rightarrow>
          let installed = TrimSpace (in_PinnedVersion i) in
          if looksLikeChartURL installed then (settings, skewOnly SkewInvalidConfig)
          else (settings, EvaluatePolicy (in_Vendor i) installed))"

subsection \<open>Release versions\<close>

datatype Decision = DecisionUpgrade | DecisionNoop | DecisionDowngrade | DecisionReject

record VersionDecision =
  vd_Action :: Decision
  vd_Installed :: string
  vd_Desired :: string
  vd_Message :: string

text \<open>Space, tab, newline, semicolon, bar, dollar and backquote.\<close>

definition shellChars :: string where
  "shellChars = [CHR '' '', CHR 0x09, CHR 0x0A, CHR '';'', CHR ''|'', CHR ''$'', CHR 0x60]"

definition ValidateReleaseVersion :: "string \<Rightarrow> (lcm_err, unit) result" where
  "ValidateReleaseVersion ver0 =
     (let ver = TrimSpace ver0 in
      if ver = '''' then Err ErrMalformedVersion
      else if looksLikeChartURL ver then Err ErrMalformedVersion
      else if ContainsAny ver shellChars then Err ErrMalformedVersion
      else (case parseVersion ver of Inl _ \<Rightarrow> Err ErrMalformedVersion | Inr _ \<Rightarrow> Ok ()))"

definition errNoAMDChart :: lcm_err where
  "errNoAMDChart = ErrText ''amd has no pinned helm chart''"

definition ValidateDesiredVersion :: "string \<Rightarrow> string \<Rightarrow> (lcm_err, unit) result" where
  "ValidateDesiredVersion vendor desired =
     (case ValidateReleaseVersion desired of Inl e \<Rightarrow> Err e
      | Inr _ \<Rightarrow>
          if vendor = VendorAMD then Err errNoAMDChart
          else if ClassifySkew vendor desired \<noteq> SkewSupported then Err ErrUnsupportedVersion
          else if vendor = VendorNVIDIA \<and> TrimSpace desired \<noteq> NVIDIAChartVersion
            then Err ErrUnsupportedVersion
          else Ok ())"

definition ValidateArtifactRef :: "InstallConfig \<Rightarrow> (lcm_err, unit) result" where
  "ValidateArtifactRef cfg =
     (case ValidateInstallConfig cfg of Inl _ \<Rightarrow> Err ErrDisallowedArtifact
      | Inr _ \<Rightarrow>
          if ic_Vendor cfg = VendorAMD then Err errNoAMDChart
          else (case ValidateDesiredVersion (ic_Vendor cfg) (ic_ChartVersion cfg) of Inl e \<Rightarrow> Err e
                | Inr _ \<Rightarrow> (case approvedChartRepo (ic_ChartRepo cfg) of
                             Inl _ \<Rightarrow> Err ErrDisallowedArtifact | Inr _ \<Rightarrow> Ok ())))"

definition compareReleaseVersions :: "string \<Rightarrow> string \<Rightarrow> (lcm_err, int) result" where
  "compareReleaseVersions a b =
     (case parseVersion a of Inl _ \<Rightarrow> Err ErrMalformedVersion
      | Inr va \<Rightarrow> (case parseVersion b of Inl _ \<Rightarrow> Err ErrMalformedVersion
                   | Inr vb \<Rightarrow> Ok (version_compare va vb)))"

definition versionsEqual :: "string \<Rightarrow> string \<Rightarrow> bool" where
  "versionsEqual a b = (case compareReleaseVersions a b of Inl _ \<Rightarrow> False | Inr n \<Rightarrow> n = 0)"

definition DecideReleaseAction :: "string \<Rightarrow> string \<Rightarrow> string \<Rightarrow> bool \<Rightarrow> VersionDecision" where
  "DecideReleaseAction vendor installed desired allowDowngrade =
     (let out = \<lparr>vd_Action = DecisionReject, vd_Installed = installed, vd_Desired = desired, vd_Message = ''''\<rparr> in
      case ValidateDesiredVersion vendor desired of Inl e \<Rightarrow> out\<lparr>vd_Message := errText e\<rparr>
      | Inr _ \<Rightarrow>
        (case ValidateReleaseVersion installed of Inl e \<Rightarrow> out\<lparr>vd_Message := errText e\<rparr>
         | Inr _ \<Rightarrow>
           (case compareReleaseVersions installed desired of Inl e \<Rightarrow> out\<lparr>vd_Message := errText e\<rparr>
            | Inr cmp \<Rightarrow>
                if cmp = 0 then
                  out\<lparr>vd_Action := DecisionNoop, vd_Message := ''installed version is the pin''\<rparr>
                else if cmp < 0 then
                  out\<lparr>vd_Action := DecisionUpgrade, vd_Message := ''upgrade to the pinned release''\<rparr>
                else if allowDowngrade then
                  out\<lparr>vd_Action := DecisionDowngrade, vd_Message := ''downgrade explicitly allowed''\<rparr>
                else out\<lparr>vd_Message := errText ErrDowngradeForbidden\<rparr>)))"

subsection \<open>Admission\<close>

definition ValidateDpuOperatorAdmission :: "DpuOperatorConfig option \<Rightarrow> (lcm_err, unit) result" where
  "ValidateDpuOperatorAdmission cfg =
     (if cfg = None then Err (ErrText ''DpuOperatorConfig is empty'')
      else case RejectInstallOverrides cfg of Inl e \<Rightarrow> Err e
      | Inr _ \<Rightarrow>
          let i = ParseIntent cfg in
          if \<not> in_Known i then
            (if ResolveVendor cfg \<noteq> '''' then
               Err (ErrText (''vendor '' @ Quote (ResolveVendor cfg) @ '' is not nvidia or amd''))
             else Ok ())
          else if in_Vendor i = VendorNVIDIA \<and> in_PinnedVersion i \<noteq> '''' then
            ValidateDesiredVersion VendorNVIDIA (in_PinnedVersion i)
          else Ok ())"

datatype admissionOperation = Create | Update | Delete | Connect

record AdmissionRequest =
  req_Operation :: admissionOperation
  req_Object :: string
  req_OldObject :: string

datatype AdmissionResponse = Allowed | Errored int string | Denied string

definition Handle :: "(string \<Rightarrow> (string, DpuOperatorConfig) result) \<Rightarrow> AdmissionRequest \<Rightarrow> AdmissionResponse" where
  "Handle unmarshal req =
     (if req_Operation req = Delete then Allowed
      else
        let raw = (if req_Object req = '''' then req_OldObject req else req_Object req) in
        case unmarshal raw of Inl e \<Rightarrow> Errored 400 e
        | Inr u \<Rightarrow> (case ValidateDpuOperatorAdmission (Some u) of
                      Inl e \<Rightarrow> Denied (errText e) | Inr _ \<Rightarrow> Allowed))"

subsection \<open>Facts\<close>

lemma parseVersion_TrimSpace [simp]: "parseVersion (TrimSpace s) = parseVersion s"
  by (simp add: parseVersion_def)

lemma ClassifySkew_TrimSpace: "ClassifySkew v (TrimSpace s) = ClassifySkew v s"
  by (cases "SupportedRangeFor v") (simp_all add: ClassifySkew_def)

lemma ValidateReleaseVersion_parse:
  "ValidateReleaseVersion s = Inr u \<Longrightarrow> \<exists>v. parseVersion s = Inr v"
  by (auto simp: ValidateReleaseVersion_def Let_def split: if_splits sum.splits)

lemma ClassifySkew_cases:
  "SupportedRangeFor vendor = Some r \<Longrightarrow> r = \<lparr>MinInclusive = nvidiaDPFMin, MaxExclusive = nvidiaDPFMax\<rparr>"
  by (auto simp: SupportedRangeFor_def supportedVersions_def split: if_splits)

lemma ClassifySkew_nvidia:
  "ClassifySkew VendorNVIDIA s =
     (case parseVersion s of Inl _ \<Rightarrow> SkewUnknown
      | Inr v \<Rightarrow> if v < Version 26 4 0 then SkewTooOld
                else if Version 27 0 0 \<le> v then SkewTooNew else SkewSupported)"
  by (simp add: ClassifySkew_def split: sum.splits)

lemma pin_valid [simp]: "ValidateReleaseVersion NVIDIAChartVersion = Inr ()"
  by code_simp

lemma pin_parse [simp]: "parseVersion NVIDIAChartVersion = Inr (Version 26 4 0)"
  by (simp add: NVIDIAChartVersion_def)

lemma pin_trim [simp]: "TrimSpace NVIDIAChartVersion = NVIDIAChartVersion"
  by code_simp

lemma pin_desired [simp]: "ValidateDesiredVersion VendorNVIDIA NVIDIAChartVersion = Inr ()"
  by (simp add: ValidateDesiredVersion_def ClassifySkew_nvidia less_version_def less_eq_version_def)

lemma ValidateArtifactRef_nvidia [simp]: "ValidateArtifactRef nvidiaConfig = Inr ()"
  by (simp add: ValidateArtifactRef_def)

lemma ValidateArtifactRef_ok:
  "ValidateArtifactRef cfg = Inr u \<Longrightarrow>
     ValidateInstallConfig cfg = Inr () \<and> ic_Vendor cfg \<noteq> VendorAMD \<and>
     ValidateDesiredVersion (ic_Vendor cfg) (ic_ChartVersion cfg) = Inr () \<and>
     ic_ChartRepo cfg = NVIDIAChartRepo"
  by (auto simp: ValidateArtifactRef_def split: sum.splits if_splits)

lemma versionsEqual_iff:
  "versionsEqual a b \<longleftrightarrow> (\<exists>v. parseVersion a = Inr v \<and> parseVersion b = Inr v)"
  by (auto simp: versionsEqual_def compareReleaseVersions_def split: sum.splits)

lemma versionsEqual_sym: "versionsEqual a b \<longleftrightarrow> versionsEqual b a"
  by (auto simp: versionsEqual_iff)

lemma versionsEqual_refl: "ValidateReleaseVersion a = Inr u \<Longrightarrow> versionsEqual a a"
  by (auto simp: versionsEqual_iff dest: ValidateReleaseVersion_parse)

lemma ApplyVersionPolicy_settings [simp]: "fst (ApplyVersionPolicy i settings) = settings"
  by (simp add: ApplyVersionPolicy_def Let_def split: sum.splits)

text \<open>What an upgrade decision says about the two versions.\<close>

lemma DecideReleaseAction_cases:
  assumes "vd_Action (DecideReleaseAction vendor installed desired ad) = a" and "a \<noteq> DecisionReject"
  obtains vi vd where "parseVersion installed = Inr vi" "parseVersion desired = Inr vd"
    "ValidateDesiredVersion vendor desired = Inr ()"
    "a = (if vi = vd then DecisionNoop else if vi < vd then DecisionUpgrade else DecisionDowngrade)"
    "vd < vi \<longrightarrow> ad"
proof -
  let ?act = "\<lambda>vi vd. if vi = vd then DecisionNoop else if vi < vd then DecisionUpgrade
      else if ad then DecisionDowngrade else DecisionReject"
  from assms have v: "ValidateDesiredVersion vendor desired = Inr ()" "ValidateReleaseVersion installed = Inr ()"
    by (simp_all add: DecideReleaseAction_def Let_def split: sum.splits)
  then have "ValidateReleaseVersion desired = Inr ()"
    by (simp add: ValidateDesiredVersion_def split: sum.splits)
  then obtain vi vd where p: "parseVersion installed = Inr vi" "parseVersion desired = Inr vd"
    using v(2) ValidateReleaseVersion_parse by blast
  then have a: "a = ?act vi vd"
    using assms(1) v by (simp add: DecideReleaseAction_def Let_def compareReleaseVersions_def split: if_splits)
  show thesis
    by (rule that [OF p v(1)]) (use a assms(2) in \<open>auto split: if_splits\<close>)
qed

lemma RejectInstallOverrides_ok:
  assumes "RejectInstallOverrides (Some c) = Inr u"
  shows "\<forall>k \<in> set forbiddenOverrideKeys. k |\<notin>| fmdom (cfgAnnotations c)"
    and "\<forall>k. k |\<in>| fmdom (cfgAnnotations c) \<longrightarrow> \<not> overrideKeyBad (cfgAnnotations c) k"
proof -
  from assms have f: "find (\<lambda>k. k |\<in>| fmdom (cfgAnnotations c)) forbiddenOverrideKeys = None"
    and g: "find (overrideKeyBad (cfgAnnotations c)) (keys_of (cfgAnnotations c)) = None"
    by (simp_all add: RejectInstallOverrides_def Let_def split: option.splits)
  from f show "\<forall>k \<in> set forbiddenOverrideKeys. k |\<notin>| fmdom (cfgAnnotations c)"
    by (auto simp: find_None_iff)
  from g show "\<forall>k. k |\<in>| fmdom (cfgAnnotations c) \<longrightarrow> \<not> overrideKeyBad (cfgAnnotations c) k"
    by (auto simp: find_None_iff)
qed

lemma Version_le [simp]: "Version a b c \<le> Version d e f \<longleftrightarrow> a < d \<or> a = d \<and> (b < e \<or> b = e \<and> c \<le> f)"
  by (simp add: less_eq_version_def)

lemma Version_less [simp]: "Version a b c < Version d e f \<longleftrightarrow> a < d \<or> a = d \<and> (b < e \<or> b = e \<and> c < f)"
  by (auto simp: less_version_def)

lemma SupportedRangeFor_iff: "SupportedRangeFor vendor \<noteq> None \<longleftrightarrow> ToLower (TrimSpace vendor) = VendorNVIDIA"
  by (auto simp: SupportedRangeFor_def supportedVersions_def)

subsection \<open>Properties\<close>

text \<open>A version is supported exactly when the vendor's token is nvidia, the text parses, and
  the version lies in the half-open window from 26.4.0 up to but not including 27.0.0 in the
  order of major, minor and patch numbers.\<close>

theorem skew_window:
  "ClassifySkew vendor installed = SkewSupported \<longleftrightarrow>
     ToLower (TrimSpace vendor) = VendorNVIDIA \<and>
     (\<exists>v. parseVersion installed = Inr v \<and> Version 26 4 0 \<le> v \<and> v < Version 27 0 0)"
proof (cases "SupportedRangeFor vendor")
  case None
  with SupportedRangeFor_iff [of vendor] show ?thesis by (auto simp: ClassifySkew_def)
next
  case (Some r)
  with ClassifySkew_cases have r: "r = \<lparr>MinInclusive = nvidiaDPFMin, MaxExclusive = nvidiaDPFMax\<rparr>" by simp
  from Some SupportedRangeFor_iff [of vendor] have "ToLower (TrimSpace vendor) = VendorNVIDIA" by simp
  with Some r show ?thesis
    by (auto simp: ClassifySkew_def not_less not_le split: sum.split)
qed

text \<open>The only version NVIDIA installs may ask for is the pinned one: up to surrounding
  white space the desired version is v26.4.0, and every other text is refused.\<close>

theorem nvidia_pin_unique:
  "ValidateDesiredVersion VendorNVIDIA desired = Inr () \<longleftrightarrow> TrimSpace desired = NVIDIAChartVersion"
proof
  assume "ValidateDesiredVersion VendorNVIDIA desired = Inr ()"
  then show "TrimSpace desired = NVIDIAChartVersion"
    by (simp add: ValidateDesiredVersion_def split: sum.splits if_splits)
next
  assume t: "TrimSpace desired = NVIDIAChartVersion"
  have "ValidateReleaseVersion desired = ValidateReleaseVersion (TrimSpace desired)"
    by (simp add: ValidateReleaseVersion_def)
  moreover have "ClassifySkew VendorNVIDIA desired = ClassifySkew VendorNVIDIA (TrimSpace desired)"
    by (simp add: ClassifySkew_TrimSpace)
  ultimately show "ValidateDesiredVersion VendorNVIDIA desired = Inr ()"
    using t by (simp add: ValidateDesiredVersion_def ClassifySkew_nvidia)
qed

text \<open>The upgrade decision is the comparison of the two versions. With a valid desired and
  installed version it upgrades when the installed one is older, does nothing when they are
  equal, and downgrades only with explicit permission; when either version is invalid it
  rejects.\<close>

theorem decide_release_action:
  "vd_Action (DecideReleaseAction vendor installed desired allowDowngrade) =
     (case (parseVersion installed, parseVersion desired) of
        (Inr vi, Inr vd) \<Rightarrow>
          if ValidateDesiredVersion vendor desired = Inr () \<and> ValidateReleaseVersion installed = Inr () then
            (if vi < vd then DecisionUpgrade
             else if vi = vd then DecisionNoop
             else if allowDowngrade then DecisionDowngrade else DecisionReject)
          else DecisionReject
      | _ \<Rightarrow> DecisionReject)"
proof (cases "ValidateDesiredVersion vendor desired = Inr () \<and> ValidateReleaseVersion installed = Inr ()")
  case True
  then have "ValidateReleaseVersion desired = Inr ()"
    by (simp add: ValidateDesiredVersion_def split: sum.splits)
  then obtain vi vd where p: "parseVersion installed = Inr vi" "parseVersion desired = Inr vd"
    using True ValidateReleaseVersion_parse by blast
  with True show ?thesis
    by (cases vi vd rule: linorder_cases) (simp_all add: DecideReleaseAction_def Let_def compareReleaseVersions_def)
next
  case False
  then have "vd_Action (DecideReleaseAction vendor installed desired allowDowngrade) = DecisionReject"
    by (auto simp: DecideReleaseAction_def Let_def split: sum.split)
  with False show ?thesis by (auto split: sum.split)
qed

text \<open>C37: what the admission webhook lets in. An admitted configuration carries none of the
  forbidden install overrides, no annotation that smuggles a chart URL or helm flags, and asks
  for no vendor, for amd, or for nvidia with an absent version pin or exactly the pinned
  version.\<close>

theorem admission_gate:
  assumes "ValidateDpuOperatorAdmission (Some c) = Inr ()"
  shows "(\<forall>k. k |\<in>| fmdom (cfgAnnotations c) \<longrightarrow>
           k \<notin> set forbiddenOverrideKeys \<and> \<not> overrideKeyBad (cfgAnnotations c) k) \<and>
    (let i = ParseIntent (Some c) in
       in_Vendor i = '''' \<or> in_Vendor i = VendorAMD \<or>
       in_Vendor i = VendorNVIDIA \<and> (in_PinnedVersion i = '''' \<or> in_PinnedVersion i = NVIDIAChartVersion))"
proof -
  from assms have ov: "RejectInstallOverrides (Some c) = Inr ()"
    by (simp add: ValidateDpuOperatorAdmission_def split: sum.splits)
  let ?i = "ParseIntent (Some c)"
  have "in_Vendor ?i = '''' \<or> in_Vendor ?i = VendorAMD \<or>
       in_Vendor ?i = VendorNVIDIA \<and> (in_PinnedVersion ?i = '''' \<or> in_PinnedVersion ?i = NVIDIAChartVersion)"
  proof (cases "in_Known ?i")
    case False
    with assms ov show ?thesis
      by (simp add: ValidateDpuOperatorAdmission_def ResolveVendor_def Let_def split: if_splits)
  next
    case True
    from ParseIntent_vendor_cases [OF this] show ?thesis
    proof
      assume v: "in_Vendor ?i = VendorNVIDIA"
      show ?thesis
      proof (cases "in_PinnedVersion ?i = ''''")
        case False
        with assms ov True v have "ValidateDesiredVersion VendorNVIDIA (in_PinnedVersion ?i) = Inr ()"
          by (simp add: ValidateDpuOperatorAdmission_def)
        then have "TrimSpace (in_PinnedVersion ?i) = NVIDIAChartVersion"
          by (simp add: ValidateDesiredVersion_def split: sum.splits if_splits)
        with v show ?thesis by (simp add: ParseIntent_pin_trimmed)
      qed (simp add: v)
    qed simp
  qed
  with RejectInstallOverrides_ok [OF ov] show ?thesis by (auto simp: Let_def)
qed

definition exampleConfig :: DpuOperatorConfig where
  "exampleConfig = \<lparr>cfgName = ''cluster'', cfgNamespace = '''', cfgSpecVendor = ''NVIDIA'',
     cfgAnnotations = fmap_of_list [(VersionAnnotation, '' v26.4.0 '')], cfgFinalizers = [],
     cfgDeleting = False, cfgStatus = None\<rparr>"

theorem admission_gate_witness:
  "ValidateDpuOperatorAdmission (Some exampleConfig) = Inr () \<and>
   in_PinnedVersion (ParseIntent (Some exampleConfig)) = NVIDIAChartVersion"
proof -
  have ok: "ValidateDpuOperatorAdmission (Some exampleConfig) = Inr ()" by code_simp
  have "in_Vendor (ParseIntent (Some exampleConfig)) = VendorNVIDIA" by code_simp
  moreover have "in_PinnedVersion (ParseIntent (Some exampleConfig)) \<noteq> ''''" by code_simp
  ultimately show ?thesis using admission_gate [OF ok] ok by (simp add: Let_def)
qed

text \<open>For the two vendor names as the program spells them, the install configuration check
  accepts exactly one configuration, the built-in default of that vendor.\<close>

theorem install_config_pinned:
  assumes "ic_Vendor c = VendorNVIDIA \<or> ic_Vendor c = VendorAMD"
  shows "ValidateInstallConfig c = Inr () \<longleftrightarrow> DefaultInstallConfig (ic_Vendor c) = Inr c"
proof
  assume "DefaultInstallConfig (ic_Vendor c) = Inr c"
  then show "ValidateInstallConfig c = Inr ()" by (rule ValidateInstallConfig_default)
next
  assume ok: "ValidateInstallConfig c = Inr ()"
  from assms show "DefaultInstallConfig (ic_Vendor c) = Inr c"
  proof
    assume v: "ic_Vendor c = VendorNVIDIA"
    with ok have "c = nvidiaConfig"
      by (cases c) (simp add: ValidateInstallConfig_def nvidiaConfig_def emptyInstallConfig_def split: if_splits)
    with v show ?thesis by simp
  next
    assume v: "ic_Vendor c = VendorAMD"
    with ok have "c = amdConfig"
      by (cases c) (simp add: ValidateInstallConfig_def amdConfig_def emptyInstallConfig_def split: if_splits)
    with v show ?thesis by (simp add: DefaultInstallConfig_def amdConfig_def)
  qed
qed

theorem install_config_pinned_witness:
  "ValidateInstallConfig nvidiaConfig = Inr () \<and>
   ValidateInstallConfig (nvidiaConfig\<lparr>ic_HelmArgs := [''--set'']\<rparr>) \<noteq> Inr ()"
proof -
  let ?bad = "nvidiaConfig\<lparr>ic_HelmArgs := [''--set'']\<rparr>"
  have "DefaultInstallConfig (ic_Vendor ?bad) \<noteq> Inr ?bad"
    by (simp add: nvidiaConfig_def emptyInstallConfig_def DefaultInstallConfig_def)
  then have "ValidateInstallConfig ?bad \<noteq> Inr ()"
    using install_config_pinned [of ?bad] by simp
  moreover have "ValidateInstallConfig nvidiaConfig = Inr ()"
    using install_config_pinned [of nvidiaConfig] by simp
  ultimately show ?thesis by blast
qed

text \<open>The check compares the vendor name exactly where the allow-list folds case: a configuration
  whose vendor is spelled AMD passes with NVIDIA's chart settings.\<close>

theorem install_config_case_gap:
  "ValidateInstallConfig (nvidiaConfig\<lparr>ic_Vendor := ''AMD''\<rparr>) = Inr ()"
  by code_simp

end
