(* ===== verification/Release.thy ===== *)
theory Release
  imports VersionPolicy
begin

text \<open>
  The release data of pkg/lifecycle/helm_client.go and installer.go that the Helm, OLM and
  cleanup components share, with the ownership classification of cleanup.go. A release's
  labels are a finite map; Go's nil map reads like the empty one. String-typed enumerations
  are datatypes with their texts.
\<close>

subsection \<open>Releases\<close>

definition ReleaseOwnerLabel :: string where [const_defs]: "ReleaseOwnerLabel = ''lifecycle.opi.nvidia.com/owner''"
definition ReleaseModeLabel :: string where [const_defs]: "ReleaseModeLabel = ''lifecycle.opi.nvidia.com/mode''"
definition helmStorageOwnerLabel :: string where [const_defs]: "helmStorageOwnerLabel = ''owner''"
definition helmStorageOwner :: string where [const_defs]: "helmStorageOwner = ''helm''"
definition helmReleaseNameLabel :: string where [const_defs]: "helmReleaseNameLabel = ''name''"
definition helmReleaseVersionLabel :: string where [const_defs]: "helmReleaseVersionLabel = ''version''"
definition statusKey :: string where [const_defs]: "statusKey = ''status''"
definition ReleaseModeInstalled :: string where [const_defs]: "ReleaseModeInstalled = ''installed''"
definition ReleaseModeAdopted :: string where [const_defs]: "ReleaseModeAdopted = ''adopted''"
definition HelmStatusDeployed :: string where [const_defs]: "HelmStatusDeployed = ''deployed''"
definition releaseExternallyOwned :: string where [const_defs]: "releaseExternallyOwned = ''release is externally owned''"

record HelmRelease =
  hr_Name :: string
  hr_Namespace :: string
  hr_ChartName :: string
  hr_ChartVersion :: string
  hr_Status :: string
  hr_Revision :: int
  hr_LastKnownGood :: string
  hr_Labels :: strmap

definition emptyRelease :: HelmRelease where
  "emptyRelease = \<lparr>hr_Name = '''', hr_Namespace = '''', hr_ChartName = '''', hr_ChartVersion = '''',
     hr_Status = '''', hr_Revision = 0, hr_LastKnownGood = '''', hr_Labels = fmempty\<rparr>"

definition Identity :: "HelmRelease \<Rightarrow> string" where
  "Identity r = hr_Namespace r @ ''/'' @ hr_Name r @ ''@'' @ hr_ChartVersion r"

definition ManagedByAdapter :: "HelmRelease \<Rightarrow> bool" where
  "ManagedByAdapter r \<longleftrightarrow> sget (hr_Labels r) ReleaseOwnerLabel = ReleaseOwner"

definition OwnedRelease :: "InstallConfig \<Rightarrow> HelmRelease" where
  "OwnedRelease cfg =
     \<lparr>hr_Name = ic_ReleaseName cfg, hr_Namespace = ic_Namespace cfg, hr_ChartName = ic_ChartName cfg,
      hr_ChartVersion = ic_ChartVersion cfg, hr_Status = HelmStatusDeployed, hr_Revision = 1,
      hr_LastKnownGood = '''',
      hr_Labels = fmupd ReleaseModeLabel ReleaseModeInstalled
        (fmupd ReleaseOwnerLabel (ic_ReleaseOwner cfg) fmempty)\<rparr>"

definition releaseKey :: "string \<Rightarrow> string \<Rightarrow> string" where
  "releaseKey namespace name = namespace @ ''/'' @ name"

definition requirePinnedConfig :: "InstallConfig \<Rightarrow> (lcm_err, unit) result" where
  "requirePinnedConfig cfg =
     (case ValidateArtifactRef cfg of Inl e \<Rightarrow> Err e
      | Inr _ \<Rightarrow> if ic_Vendor cfg = VendorAMD then Err errNoAMDChart else Ok ())"

definition SafeHelmValues :: "InstallConfig \<Rightarrow> jobj" where
  "SafeHelmValues cfg =
     (case ValidateInstallConfig cfg of Inl _ \<Rightarrow> fmempty
      | Inr _ \<Rightarrow>
          if ic_Vendor cfg \<noteq> VendorNVIDIA then fmempty
          else fmap_of_list [(''kamajiClusterManager'', JObj (fmap_of_list [(''disable'', JBool True)])),
                             (''monitoring'', JObj (fmap_of_list [(''disable'', JBool True)]))])"

definition matchesPinnedRelease :: "HelmRelease \<Rightarrow> InstallConfig \<Rightarrow> bool" where
  "matchesPinnedRelease rel cfg \<longleftrightarrow>
     hr_Name rel = ic_ReleaseName cfg \<and> hr_Namespace rel = ic_Namespace cfg \<and>
     hr_ChartName rel = ic_ChartName cfg \<and> hr_Status rel = HelmStatusDeployed \<and>
     versionsEqual (hr_ChartVersion rel) (ic_ChartVersion cfg)"

definition stampAdoptedLabels :: "strmap \<Rightarrow> strmap" where
  "stampAdoptedLabels labels =
     fmupd ReleaseModeLabel ReleaseModeAdopted (fmupd ReleaseOwnerLabel ReleaseOwner labels)"

definition redactedLogValue :: string where "redactedLogValue = ''[redacted]''"

definition secretWords :: "string list" where
  "secretWords = [''password'', ''token'', ''secret'', ''credential'', ''kubeconfig'', ''authorization'']"

definition SanitizeLogValue :: "string \<Rightarrow> string \<Rightarrow> string" where
  "SanitizeLogValue key value =
     (let k = ToLower (TrimSpace key); v = TrimSpace value in
      if list_ex (Contains k) secretWords then redactedLogValue
      else if Contains (ToLower v) ''bearer '' \<or> Contains v ''BEGIN '' \<or> Contains (ToLower v) ''kubeconfig''
        then redactedLogValue
      else value)"

subsection \<open>Install results\<close>

datatype InstallAction = InstallZero | InstallDetected | InstallAbsent | InstallSkipped | InstallInstalled
  | InstallAdopted | InstallUnmanaged | InstallNoop | InstallUpgraded | InstallRolledBack | InstallFailed

datatype OpStatus = OpZero | OpSucceeded | OpFailed | OpTimeout | OpUnknown | OpRolledBack | OpRollbackFailed | OpNoop

record InstallResult =
  ir_Action :: InstallAction
  ir_Version :: string
  ir_Present :: bool
  ir_Observed :: string
  ir_LastKnownGood :: string
  ir_OpStatus :: OpStatus
  ir_Failure :: string

definition emptyInstallResult :: InstallResult where
  "emptyInstallResult = \<lparr>ir_Action = InstallZero, ir_Version = '''', ir_Present = False, ir_Observed = '''',
     ir_LastKnownGood = '''', ir_OpStatus = OpZero, ir_Failure = ''''\<rparr>"

definition observedResult ::
    "InstallAction \<Rightarrow> OpStatus \<Rightarrow> HelmRelease \<Rightarrow> string \<Rightarrow> string \<Rightarrow> InstallResult" where
  "observedResult action status rel lastGood failure =
     \<lparr>ir_Action = action, ir_Version = hr_ChartVersion rel, ir_Present = (hr_Name rel \<noteq> ''''),
      ir_Observed = hr_ChartVersion rel, ir_LastKnownGood = lastGood, ir_OpStatus = status,
      ir_Failure = failure\<rparr>"

subsection \<open>Ownership\<close>

datatype OwnershipKind = OwnershipZero | OwnershipController | OwnershipAdopted | OwnershipExternal | OwnershipInvalid

record OwnershipClass =
  oc_Kind :: OwnershipKind
  oc_Owner :: string
  oc_Mode :: string
  oc_Reason :: string

definition AllowsDelete :: "OwnershipClass \<Rightarrow> bool" where
  "AllowsDelete c \<longleftrightarrow> oc_Kind c = OwnershipController \<or> oc_Kind c = OwnershipAdopted"

definition ownershipClass :: "OwnershipKind \<Rightarrow> string \<Rightarrow> string \<Rightarrow> string \<Rightarrow> OwnershipClass" where
  "ownershipClass k owner mode reason = \<lparr>oc_Kind = k, oc_Owner = owner, oc_Mode = mode, oc_Reason = reason\<rparr>"

text \<open>Space, tab, comma, semicolon.\<close>

definition badOwnerChars :: string where
  "badOwnerChars = [CHR '' '', CHR 0x09, CHR '','', CHR '';'']"

definition ClassifyReleaseOwnership :: "HelmRelease \<Rightarrow> OwnershipClass" where
  "ClassifyReleaseOwnership rel =
     (if hr_Name rel = '''' then ownershipClass OwnershipInvalid '''' '''' ''release identity is missing''
      else
        let labels = hr_Labels rel;
            ours = TrimSpace (sget labels ReleaseOwnerLabel);
            rawOwner = TrimSpace (sget labels helmStorageOwnerLabel);
            mode = TrimSpace (sget labels ReleaseModeLabel);
            helmOwner = (if rawOwner = helmStorageOwner then '''' else rawOwner)
        in if ContainsAny ours badOwnerChars \<or> ContainsAny mode badOwnerChars then
             ownershipClass OwnershipInvalid ours mode ''ownership metadata is conflicting or malformed''
           else if ours = '''' \<and> helmOwner = '''' then
             (if rawOwner = helmStorageOwner
              then ownershipClass OwnershipExternal helmStorageOwner '''' releaseExternallyOwned
              else ownershipClass OwnershipInvalid '''' '''' ''ownership labels are missing'')
           else if ours \<noteq> '''' \<and> helmOwner \<noteq> '''' \<and> ours \<noteq> helmOwner then
             ownershipClass OwnershipInvalid ours mode ''ownership labels conflict''
           else if ours \<noteq> '''' \<and> ours \<noteq> ReleaseOwner then
             ownershipClass OwnershipExternal ours mode releaseExternallyOwned
           else if ours = '''' then ownershipClass OwnershipExternal helmOwner '''' releaseExternallyOwned
           else if mode = ReleaseModeInstalled then
             ownershipClass OwnershipController ours mode ''controller-owned release''
           else ownershipClass OwnershipAdopted ours mode ''adopted release'')"

subsection \<open>Facts\<close>

lemma label_neq [simp, const_neq]:
  "ReleaseOwnerLabel \<noteq> ReleaseModeLabel" "ReleaseModeLabel \<noteq> ReleaseOwnerLabel"
  "helmStorageOwnerLabel \<noteq> ReleaseOwnerLabel" "helmStorageOwnerLabel \<noteq> ReleaseModeLabel"
  "ReleaseOwnerLabel \<noteq> helmStorageOwnerLabel" "ReleaseModeLabel \<noteq> helmStorageOwnerLabel"
  "ReleaseModeInstalled \<noteq> ReleaseModeAdopted" "ReleaseModeAdopted \<noteq> ReleaseModeInstalled"
  by (simp_all add: const_defs)

lemma requirePinnedConfig_nvidia [simp]: "requirePinnedConfig nvidiaConfig = Inr ()"
  by (simp add: requirePinnedConfig_def)

lemma requirePinnedConfig_ok:
  "requirePinnedConfig cfg = Inr u \<Longrightarrow> ic_ReleaseOwner cfg = ReleaseOwner"
  by (auto simp: requirePinnedConfig_def ValidateInstallConfig_def dest!: ValidateArtifactRef_ok
      split: sum.splits if_splits)

lemma OwnedRelease_fields [simp]:
  "hr_Name (OwnedRelease cfg) = ic_ReleaseName cfg" "hr_Namespace (OwnedRelease cfg) = ic_Namespace cfg"
  "hr_ChartName (OwnedRelease cfg) = ic_ChartName cfg" "hr_ChartVersion (OwnedRelease cfg) = ic_ChartVersion cfg"
  "hr_Status (OwnedRelease cfg) = HelmStatusDeployed"
  "sget (hr_Labels (OwnedRelease cfg)) ReleaseOwnerLabel = ic_ReleaseOwner cfg"
  by (simp_all add: OwnedRelease_def)

lemma emptyRelease_fields [simp]: "hr_Name emptyRelease = ''''" "hr_ChartVersion emptyRelease = ''''"
  "\<not> ManagedByAdapter emptyRelease"
  by (simp_all add: emptyRelease_def ManagedByAdapter_def)

lemma stampAdoptedLabels_other:
  "k \<noteq> ReleaseOwnerLabel \<Longrightarrow> k \<noteq> ReleaseModeLabel \<Longrightarrow> fmlookup (stampAdoptedLabels m) k = fmlookup m k"
  by (simp add: stampAdoptedLabels_def)

lemma stampAdoptedLabels_managed [simp]:
  "ManagedByAdapter (r\<lparr>hr_Labels := stampAdoptedLabels m\<rparr>)"
  by (simp add: ManagedByAdapter_def stampAdoptedLabels_def)

lemma AllowsDelete_owner:
  assumes "AllowsDelete (ClassifyReleaseOwnership rel)"
  shows "hr_Name rel \<noteq> '''' \<and> TrimSpace (sget (hr_Labels rel) ReleaseOwnerLabel) = ReleaseOwner \<and>
    (let o' = TrimSpace (sget (hr_Labels rel) helmStorageOwnerLabel)
     in o' = '''' \<or> o' = helmStorageOwner \<or> o' = ReleaseOwner)"
proof (rule ccontr)
  assume neg: "\<not> ?thesis"
  show False
    using assms neg
    by (simp add: ClassifyReleaseOwnership_def AllowsDelete_def ownershipClass_def Let_def split: if_split_asm)
qed

end
