(* ===== verification/Helm.thy ===== *)
theory Helm
  imports Release
begin

text \<open>
  pkg/lifecycle/helm_client.go: the HelmClient interface, the in-memory client, and the
  installer that drives a client through install, adopt, upgrade and rollback. A client is a
  record of operations on a state \<open>'s\<close>: each takes the state and returns the new state
  with the Go result (release, error). The optional interfaces lastGoodStore and
  releaseClaimer, which the code discovers by type assertion, are option-valued fields. The
  context is a function of the state, so that it may expire between two calls. Mutexes do not
  appear here: one call runs at a time per release key, which theory ReleaseLocks justifies.
\<close>

type_synonym relres = "HelmRelease \<times> lcm_err option"

record 's HelmClient =
  hc_GetRelease :: "'s \<Rightarrow> string \<Rightarrow> string \<Rightarrow> 's \<times> relres"
  hc_Install :: "'s \<Rightarrow> InstallConfig \<Rightarrow> jobj \<Rightarrow> 's \<times> relres"
  hc_Upgrade :: "'s \<Rightarrow> InstallConfig \<Rightarrow> jobj \<Rightarrow> 's \<times> relres"
  hc_Rollback :: "'s \<Rightarrow> InstallConfig \<Rightarrow> string \<Rightarrow> 's \<times> relres"
  hc_Uninstall :: "'s \<Rightarrow> InstallConfig \<Rightarrow> 's \<times> relres"
  hc_lastGoodStore :: "(('s \<Rightarrow> string \<Rightarrow> string \<Rightarrow> HelmRelease option) \<times>
                        ('s \<Rightarrow> string \<Rightarrow> string \<Rightarrow> HelmRelease \<Rightarrow> 's)) option"
  hc_ClaimRelease :: "('s \<Rightarrow> InstallConfig \<Rightarrow> 's \<times> relres) option"

subsection \<open>MemoryHelmClient\<close>

record MemoryHelmClient =
  m_rels :: "(string, HelmRelease) fmap"
  m_history :: "(string, HelmRelease list) fmap"
  m_lastGood :: "(string, HelmRelease) fmap"
  m_inflight :: "(string, int) fmap"
  m_MaxInflight :: int
  m_Upgrades :: int
  m_Uninstalls :: int
  m_Rollbacks :: int
  m_UpgradeErr :: "lcm_err option"
  m_FailNUpgrades :: int
  m_failed :: int
  m_InstallErr :: "lcm_err option"
  m_FailNInstalls :: int
  m_installFailed :: int
  m_UninstallErr :: "lcm_err option"
  m_Timeout :: bool
  m_Unknown :: bool
  m_RollbackErr :: "lcm_err option"

definition newMemoryHelmClient :: MemoryHelmClient where
  "newMemoryHelmClient = \<lparr>m_rels = fmempty, m_history = fmempty, m_lastGood = fmempty, m_inflight = fmempty,
     m_MaxInflight = 0, m_Upgrades = 0, m_Uninstalls = 0, m_Rollbacks = 0, m_UpgradeErr = None,
     m_FailNUpgrades = 0, m_failed = 0, m_InstallErr = None, m_FailNInstalls = 0, m_installFailed = 0,
     m_UninstallErr = None, m_Timeout = False, m_Unknown = False, m_RollbackErr = None\<rparr>"

definition mem_GetRelease :: "MemoryHelmClient \<Rightarrow> string \<Rightarrow> string \<Rightarrow> MemoryHelmClient \<times> relres" where
  "mem_GetRelease m namespace name =
     (m, case fmlookup (m_rels m) (releaseKey namespace name) of
           None \<Rightarrow> (emptyRelease, Some ErrReleaseNotFound)
         | Some rel \<Rightarrow> (rel, None))"

definition mem_begin :: "MemoryHelmClient \<Rightarrow> string \<Rightarrow> MemoryHelmClient" where
  "mem_begin m key =
     (let n = (case fmlookup (m_inflight m) key of None \<Rightarrow> 0 | Some n \<Rightarrow> n) + 1 in
      m\<lparr>m_inflight := fmupd key n (m_inflight m), m_MaxInflight := max n (m_MaxInflight m)\<rparr>)"

definition mem_end :: "MemoryHelmClient \<Rightarrow> string \<Rightarrow> MemoryHelmClient" where
  "mem_end m key =
     m\<lparr>m_inflight := fmupd key ((case fmlookup (m_inflight m) key of None \<Rightarrow> 0 | Some n \<Rightarrow> n) - 1) (m_inflight m)\<rparr>"

definition appendHistory :: "MemoryHelmClient \<Rightarrow> string \<Rightarrow> HelmRelease \<Rightarrow> MemoryHelmClient" where
  "appendHistory m key rel =
     m\<lparr>m_history := fmupd key ((case fmlookup (m_history m) key of None \<Rightarrow> [] | Some h \<Rightarrow> h) @ [rel]) (m_history m)\<rparr>"

text \<open>Whether an injected failure fires: always, or for the first \<open>n\<close> calls.\<close>

definition failureFires :: "lcm_err option \<Rightarrow> int \<Rightarrow> int \<Rightarrow> bool" where
  "failureFires err n failed \<longleftrightarrow> err \<noteq> None \<and> (n = 0 \<or> failed < n)"

definition storeRelease :: "MemoryHelmClient \<Rightarrow> string \<Rightarrow> HelmRelease \<Rightarrow> MemoryHelmClient" where
  "storeRelease m key rel = appendHistory (m\<lparr>m_rels := fmupd key rel (m_rels m)\<rparr>) key rel"

definition mem_Install :: "MemoryHelmClient \<Rightarrow> InstallConfig \<Rightarrow> jobj \<Rightarrow> MemoryHelmClient \<times> relres" where
  "mem_Install m cfg values =
     (case requirePinnedConfig cfg of Inl e \<Rightarrow> (m, emptyRelease, Some e)
      | Inr _ \<Rightarrow>
          let key = releaseKey (ic_Namespace cfg) (ic_ReleaseName cfg) in
          if key |\<in>| fmdom (m_rels m) then (m, emptyRelease, Some ErrReleaseExists)
          else if failureFires (m_InstallErr m) (m_FailNInstalls m) (m_installFailed m) then
            (m\<lparr>m_installFailed := m_installFailed m + 1\<rparr>, emptyRelease, m_InstallErr m)
          else (storeRelease m key (OwnedRelease cfg), OwnedRelease cfg, None))"

text \<open>The part of \<open>Upgrade\<close> that runs under the second lock.\<close>

definition mem_upgradeLocked ::
    "(MemoryHelmClient \<Rightarrow> lcm_err option) \<Rightarrow> MemoryHelmClient \<Rightarrow> InstallConfig \<Rightarrow> string \<Rightarrow> MemoryHelmClient \<times> relres" where
  "mem_upgradeLocked ctx m cfg key =
     (case fmlookup (m_rels m) key of None \<Rightarrow> (m, emptyRelease, Some ErrReleaseNotFound)
      | Some existing \<Rightarrow>
          if \<not> ManagedByAdapter existing then (m, emptyRelease, Some ErrReleaseUnmanaged)
          else
            let m1 = (if key |\<in>| fmdom (m_lastGood m) then m
                      else m\<lparr>m_lastGood := fmupd key existing (m_lastGood m)\<rparr>)
            in if ctx m1 \<noteq> None then (m1, existing, ctx m1)
               else if m_Timeout m1 then (m1, existing, Some ErrReleaseTimeout)
               else if m_Unknown m1 then (m1, existing, Some ErrReleaseUnknown)
               else if failureFires (m_UpgradeErr m1) (m_FailNUpgrades m1) (m_failed m1) then
                 (m1\<lparr>m_failed := m_failed m1 + 1\<rparr>, existing, m_UpgradeErr m1)
               else
                 let rel = (OwnedRelease cfg)\<lparr>hr_Revision := hr_Revision existing + 1,
                             hr_LastKnownGood := hr_ChartVersion existing\<rparr>
                 in (storeRelease m1 key rel, rel, None))"

definition mem_Upgrade ::
    "(MemoryHelmClient \<Rightarrow> lcm_err option) \<Rightarrow> MemoryHelmClient \<Rightarrow> InstallConfig \<Rightarrow> jobj \<Rightarrow> MemoryHelmClient \<times> relres" where
  "mem_Upgrade ctx m cfg values =
     (case requirePinnedConfig cfg of Inl e \<Rightarrow> (m, emptyRelease, Some e)
      | Inr _ \<Rightarrow>
          let key = releaseKey (ic_Namespace cfg) (ic_ReleaseName cfg);
              m1 = mem_begin m key;
              m2 = m1\<lparr>m_Upgrades := m_Upgrades m1 + 1\<rparr>;
              (m3, r) = mem_upgradeLocked ctx m2 cfg key
          in (mem_end m3 key, r))"

definition mem_Rollback :: "MemoryHelmClient \<Rightarrow> InstallConfig \<Rightarrow> string \<Rightarrow> MemoryHelmClient \<times> relres" where
  "mem_Rollback m0 cfg toVersion =
     (case requirePinnedConfig cfg of Inl e \<Rightarrow> (m0, emptyRelease, Some e)
      | Inr _ \<Rightarrow> (case ValidateReleaseVersion toVersion of Inl e \<Rightarrow> (m0, emptyRelease, Some e)
      | Inr _ \<Rightarrow>
          let key = releaseKey (ic_Namespace cfg) (ic_ReleaseName cfg);
              m = m0\<lparr>m_Rollbacks := m_Rollbacks m0 + 1\<rparr>
          in case fmlookup (m_rels m) key of None \<Rightarrow> (m, emptyRelease, Some ErrReleaseNotFound)
             | Some existing \<Rightarrow>
                 if \<not> ManagedByAdapter existing then (m, emptyRelease, Some ErrReleaseUnmanaged)
                 else if m_RollbackErr m \<noteq> None then (m, existing, Some ErrRollbackFailed)
                 else (case fmlookup (m_lastGood m) key of None \<Rightarrow> (m, existing, Some ErrRollbackFailed)
                       | Some prev \<Rightarrow>
                           if \<not> versionsEqual (hr_ChartVersion prev) toVersion
                           then (m, existing, Some ErrRollbackFailed)
                           else
                             let rel = prev\<lparr>hr_Revision := hr_Revision existing + 1,
                                            hr_LastKnownGood := hr_ChartVersion prev\<rparr>
                             in (storeRelease m key rel, rel, None))))"

definition mem_Uninstall :: "MemoryHelmClient \<Rightarrow> InstallConfig \<Rightarrow> MemoryHelmClient \<times> relres" where
  "mem_Uninstall m0 cfg =
     (case requirePinnedConfig cfg of Inl e \<Rightarrow> (m0, emptyRelease, Some e)
      | Inr _ \<Rightarrow>
          let key = releaseKey (ic_Namespace cfg) (ic_ReleaseName cfg);
              m = m0\<lparr>m_Uninstalls := m_Uninstalls m0 + 1\<rparr>
          in case fmlookup (m_rels m) key of None \<Rightarrow> (m, emptyRelease, Some ErrReleaseNotFound)
             | Some existing \<Rightarrow>
                 if \<not> AllowsDelete (ClassifyReleaseOwnership existing) then (m, existing, Some ErrReleaseUnmanaged)
                 else if m_UninstallErr m \<noteq> None then (m, existing, m_UninstallErr m)
                 else (m\<lparr>m_rels := fmdrop key (m_rels m)\<rparr>, existing, None))"

definition mem_RememberLastKnownGood ::
    "MemoryHelmClient \<Rightarrow> string \<Rightarrow> string \<Rightarrow> HelmRelease \<Rightarrow> MemoryHelmClient" where
  "mem_RememberLastKnownGood m namespace name rel =
     m\<lparr>m_lastGood := fmupd (releaseKey namespace name) rel (m_lastGood m)\<rparr>"

definition mem_LastKnownGood :: "MemoryHelmClient \<Rightarrow> string \<Rightarrow> string \<Rightarrow> HelmRelease option" where
  "mem_LastKnownGood m namespace name = fmlookup (m_lastGood m) (releaseKey namespace name)"

definition mem_ClaimRelease :: "MemoryHelmClient \<Rightarrow> InstallConfig \<Rightarrow> MemoryHelmClient \<times> relres" where
  "mem_ClaimRelease m cfg =
     (case requirePinnedConfig cfg of Inl e \<Rightarrow> (m, emptyRelease, Some e)
      | Inr _ \<Rightarrow>
          let key = releaseKey (ic_Namespace cfg) (ic_ReleaseName cfg) in
          case fmlookup (m_rels m) key of None \<Rightarrow> (m, emptyRelease, Some ErrReleaseNotFound)
          | Some existing \<Rightarrow>
              if \<not> matchesPinnedRelease existing cfg then (m, existing, Some ErrReleaseUnmanaged)
              else
                let rel = existing\<lparr>hr_Labels := stampAdoptedLabels (hr_Labels existing)\<rparr>
                in (m\<lparr>m_rels := fmupd key rel (m_rels m)\<rparr>, rel, None))"

definition memoryClient :: "(MemoryHelmClient \<Rightarrow> lcm_err option) \<Rightarrow> MemoryHelmClient HelmClient" where
  "memoryClient ctx =
     \<lparr>hc_GetRelease = mem_GetRelease, hc_Install = mem_Install, hc_Upgrade = mem_Upgrade ctx,
      hc_Rollback = mem_Rollback, hc_Uninstall = mem_Uninstall,
      hc_lastGoodStore = Some (mem_LastKnownGood, mem_RememberLastKnownGood),
      hc_ClaimRelease = Some mem_ClaimRelease\<rparr>"

subsection \<open>HelmInstaller\<close>

record 's HelmInstaller =
  hi_Client :: "'s HelmClient option"
  hi_AllowDowngrade :: bool
  hi_MaxAttempts :: int

definition defaultReleaseAttempts :: int where "defaultReleaseAttempts = 2"

definition attempts :: "'s HelmInstaller \<Rightarrow> int" where
  "attempts h = (if hi_MaxAttempts h > 0 then hi_MaxAttempts h else defaultReleaseAttempts)"

definition remembered :: "'s HelmClient \<Rightarrow> 's \<Rightarrow> string \<Rightarrow> string \<Rightarrow> HelmRelease option" where
  "remembered c s ns name = (case hc_lastGoodStore c of None \<Rightarrow> None | Some (get, _) \<Rightarrow> get s ns name)"

definition remember :: "'s HelmClient \<Rightarrow> 's \<Rightarrow> string \<Rightarrow> string \<Rightarrow> HelmRelease \<Rightarrow> 's" where
  "remember c s ns name rel = (case hc_lastGoodStore c of None \<Rightarrow> s | Some (_, put) \<Rightarrow> put s ns name rel)"

type_synonym insres = "InstallResult \<times> lcm_err option"

definition atPin :: "HelmRelease \<Rightarrow> InstallConfig \<Rightarrow> bool" where
  "atPin rel cfg \<longleftrightarrow> versionsEqual (hr_ChartVersion rel) (ic_ChartVersion cfg) \<and> hr_Status rel = HelmStatusDeployed"

definition getPinned :: "'s HelmClient \<Rightarrow> 's \<Rightarrow> InstallConfig \<Rightarrow> 's \<times> relres" where
  "getPinned c s cfg = hc_GetRelease c s (ic_Namespace cfg) (ic_ReleaseName cfg)"

definition reconcileAfterFailure ::
    "InstallConfig \<Rightarrow> HelmRelease \<Rightarrow> string \<Rightarrow> lcm_err \<Rightarrow> OpStatus \<Rightarrow> insres" where
  "reconcileAfterFailure cfg actual lastGood err status =
     (if hr_Name actual \<noteq> '''' \<and> atPin actual cfg then
        (observedResult InstallUpgraded OpSucceeded actual lastGood '''', None)
      else
        let out = observedResult InstallFailed status actual lastGood (errText err) in
        (if ir_Present out \<and> ir_Version out = '''' then out\<lparr>ir_Version := hr_ChartVersion actual\<rparr> else out,
         Some err))"

definition rollbackAfterFailure ::
    "'s HelmClient \<Rightarrow> 's \<Rightarrow> InstallConfig \<Rightarrow> HelmRelease \<Rightarrow> HelmRelease \<Rightarrow> string \<Rightarrow> lcm_err option \<Rightarrow> 's \<times> insres" where
  "rollbackAfterFailure c s cfg actual before lastGood lastErr =
     (let to = (if lastGood = '''' then hr_ChartVersion before else lastGood);
          errMsg = (case lastErr of None \<Rightarrow> '''' | Some e \<Rightarrow> errText e) in
      if to = '''' \<or> versionsEqual to (ic_ChartVersion cfg) then
        (s, observedResult InstallFailed OpFailed actual lastGood errMsg, lastErr)
      else
        let (s1, rb, err) = hc_Rollback c s cfg to in
        case err of Some e \<Rightarrow>
          let (s2, got, getErr) = getPinned c s1 cfg;
              cur = (if getErr = None then got else actual);
              msg = (case lastErr of None \<Rightarrow> errText e | Some le \<Rightarrow> errText le @ ''; '' @ errText e)
          in (s2, observedResult InstallFailed OpRollbackFailed cur lastGood msg, Some ErrRollbackFailed)
        | None \<Rightarrow>
          if \<not> versionsEqual (hr_ChartVersion rb) to \<or> hr_Status rb \<noteq> HelmStatusDeployed then
            (s1, observedResult InstallFailed OpRollbackFailed rb lastGood ''rollback did not restore last-known-good'',
             Some ErrRollbackFailed)
          else
            (s1, (observedResult InstallRolledBack OpRolledBack rb lastGood '''')
                   \<lparr>ir_Failure := errMsg\<rparr>, None))"

text \<open>The attempts loop; \<open>n\<close> is the number of attempts left.\<close>

fun upgradeLoop ::
    "('s \<Rightarrow> lcm_err option) \<Rightarrow> 's HelmClient \<Rightarrow> InstallConfig \<Rightarrow> jobj \<Rightarrow> HelmRelease \<Rightarrow> string \<Rightarrow>
     nat \<Rightarrow> lcm_err option \<Rightarrow> 's \<Rightarrow> 's \<times> insres" where
  "upgradeLoop ctx c cfg values before lastGood 0 lastErr s =
     (let (s1, actual, _) = getPinned c s cfg in
      rollbackAfterFailure c s1 cfg actual before lastGood lastErr)"
| "upgradeLoop ctx c cfg values before lastGood (Suc n) lastErr s =
     (case ctx s of Some e \<Rightarrow>
        let (s1, actual, _) = getPinned c s cfg in
        (s1, reconcileAfterFailure cfg actual lastGood e OpTimeout)
      | None \<Rightarrow>
        let (s1, rel, err) = hc_Upgrade c s cfg values in
        case err of None \<Rightarrow>
          (if \<not> atPin rel cfg then
             upgradeLoop ctx c cfg values before lastGood n (Some (ErrText ''upgrade did not reach the pin'')) s1
           else (s1, observedResult InstallUpgraded OpSucceeded rel lastGood '''', None))
        | Some e \<Rightarrow>
          let (s2, actual, getErr) = getPinned c s1 cfg in
          if getErr = None \<and> atPin actual cfg then
            (s2, observedResult InstallUpgraded OpSucceeded actual lastGood '''', None)
          else if e = ErrReleaseUnknown then
            (s2, (if getErr = None then observedResult InstallFailed OpUnknown actual lastGood (errText e)
                  else emptyInstallResult\<lparr>ir_Action := InstallFailed, ir_OpStatus := OpUnknown,
                         ir_LastKnownGood := lastGood, ir_Failure := errText e\<rparr>), Some e)
          else if e = ErrReleaseTimeout \<or> e = ContextDeadlineExceeded \<or> e = ContextCanceled then
            (s2, if getErr = None then reconcileAfterFailure cfg actual lastGood e OpTimeout
                 else (emptyInstallResult\<lparr>ir_Action := InstallFailed, ir_OpStatus := OpTimeout,
                         ir_LastKnownGood := lastGood, ir_Failure := errText e\<rparr>, Some e))
          else upgradeLoop ctx c cfg values before lastGood n (Some e) s2)"

definition upgradeOrRollback ::
    "('s \<Rightarrow> lcm_err option) \<Rightarrow> 's HelmInstaller \<Rightarrow> 's HelmClient \<Rightarrow> InstallConfig \<Rightarrow> jobj \<Rightarrow> HelmRelease \<Rightarrow> string \<Rightarrow>
     's \<Rightarrow> 's \<times> insres" where
  "upgradeOrRollback ctx h c cfg values before lastGood s =
     upgradeLoop ctx c cfg values before lastGood (nat (attempts h)) None s"

definition claimOrLeaveUnmanaged ::
    "'s HelmClient \<Rightarrow> 's \<Rightarrow> Intent \<Rightarrow> InstallConfig \<Rightarrow> HelmRelease \<Rightarrow> 's \<times> insres" where
  "claimOrLeaveUnmanaged c s i cfg rel =
     (if \<not> in_AdoptExisting i \<or> \<not> matchesPinnedRelease rel cfg then
        (s, observedResult InstallUnmanaged OpSucceeded rel '''' '''', None)
      else case hc_ClaimRelease c of None \<Rightarrow> (s, observedResult InstallUnmanaged OpSucceeded rel '''' '''', None)
      | Some claim \<Rightarrow>
          let (s1, claimed, err) = claim s cfg in
          case err of Some e \<Rightarrow> (s1, observedResult InstallFailed OpFailed rel '''' (errText e), Some e)
          | None \<Rightarrow>
              if \<not> ManagedByAdapter claimed \<or> \<not> matchesPinnedRelease claimed cfg then
                (s1, observedResult InstallFailed OpFailed claimed '''' ''claim did not produce the pinned owned release'',
                 Some ErrReleaseUnmanaged)
              else (s1, observedResult InstallAdopted OpSucceeded claimed '''' '''', None))"

definition installFailure :: "InstallAction \<Rightarrow> OpStatus \<Rightarrow> string \<Rightarrow> InstallResult" where
  "installFailure a st msg = emptyInstallResult\<lparr>ir_Action := a, ir_OpStatus := st, ir_Failure := msg\<rparr>"

text \<open>\<open>Ensure\<close> from the point where it holds the release's lock.\<close>

definition ensureLocked ::
    "('s \<Rightarrow> lcm_err option) \<Rightarrow> 's HelmInstaller \<Rightarrow> 's HelmClient \<Rightarrow> Intent \<Rightarrow> InstallConfig \<Rightarrow> 's \<Rightarrow> 's \<times> insres" where
  "ensureLocked ctx h c i cfg s =
     (let values = SafeHelmValues cfg;
          (s1, rel, err) = getPinned c s cfg
      in if err = Some ErrReleaseNotFound then
           (let (s2, rel, err) = hc_Install c s1 cfg values in
            case err of Some e \<Rightarrow> (s2, installFailure InstallFailed OpFailed (errText e), Some e)
            | None \<Rightarrow> (s2, observedResult InstallInstalled OpSucceeded rel '''' '''', None))
         else case err of Some e \<Rightarrow> (s1, installFailure InstallFailed OpFailed (errText e), Some e)
         | None \<Rightarrow>
             if \<not> ManagedByAdapter rel then claimOrLeaveUnmanaged c s1 i cfg rel
             else
               let dec = DecideReleaseAction (in_Vendor i) (hr_ChartVersion rel) (ic_ChartVersion cfg) (hi_AllowDowngrade h);
                   lastGood = (case remembered c s1 (ic_Namespace cfg) (ic_ReleaseName cfg) of
                                 None \<Rightarrow> hr_ChartVersion rel | Some saved \<Rightarrow> hr_ChartVersion saved)
               in if vd_Action dec = DecisionNoop then
                    (s1, observedResult InstallNoop OpNoop rel lastGood '''', None)
                  else if vd_Action dec = DecisionReject then
                    (s1, observedResult InstallSkipped OpFailed rel lastGood (vd_Message dec),
                     Some (if Contains (vd_Message dec) (errText ErrMalformedVersion) then ErrMalformedVersion
                           else if Contains (vd_Message dec) (errText ErrDowngradeForbidden) then ErrDowngradeForbidden
                           else ErrUnsupportedVersion))
                  else upgradeOrRollback ctx h c cfg values rel lastGood
                         (remember c s1 (ic_Namespace cfg) (ic_ReleaseName cfg) rel))"

definition HelmInstaller_Ensure ::
    "('s \<Rightarrow> lcm_err option) \<Rightarrow> 's HelmInstaller \<Rightarrow> Intent \<Rightarrow> 's \<Rightarrow> 's \<times> insres" where
  "HelmInstaller_Ensure ctx h i s =
     (case ctx s of Some e \<Rightarrow> (s, installFailure InstallFailed OpTimeout (errText e), Some e)
      | None \<Rightarrow>
        case hi_Client h of None \<Rightarrow>
          (s, emptyInstallResult\<lparr>ir_Action := InstallFailed, ir_OpStatus := OpFailed\<rparr>,
           Some (ErrText ''helm client is required''))
        | Some c \<Rightarrow>
          if in_Vendor i = VendorAMD then
            (s, emptyInstallResult\<lparr>ir_Action := InstallSkipped, ir_Version := in_PinnedVersion i\<rparr>, Some ErrNoVendorChart)
          else case DefaultInstallConfig (in_Vendor i) of Inl e \<Rightarrow>
            (s, emptyInstallResult\<lparr>ir_Action := InstallFailed, ir_OpStatus := OpFailed\<rparr>, Some e)
          | Inr cfg0 \<Rightarrow>
            let (cfg, pol) = ApplyVersionPolicy i cfg0 in
            if pr_Skew pol = SkewInvalidConfig then
              (s, installFailure InstallSkipped OpFailed ''install config is not the pinned allow-list'',
               Some (ErrText ''install config is not the pinned allow-list''))
            else case ValidateArtifactRef cfg of Inl e \<Rightarrow> (s, installFailure InstallSkipped OpFailed (errText e), Some e)
            | Inr _ \<Rightarrow> ensureLocked ctx h c i cfg s)"

end
