(* ===== verification/HelmFacts.thy ===== *)
theory HelmFacts
  imports Helm
begin

text \<open>
  The contract of the HelmClient interface and what the installer guarantees over any client
  that keeps it, with the in-memory client as an instance. \<open>view\<close> gives the releases a
  client state stores, by release key.
\<close>

subsection \<open>The contract\<close>

abbreviation pinKey :: "InstallConfig \<Rightarrow> string" where
  "pinKey cfg \<equiv> releaseKey (ic_Namespace cfg) (ic_ReleaseName cfg)"

text \<open>\<open>r'\<close> is \<open>r\<close> up to the two ownership labels.\<close>

definition relabelled :: "HelmRelease \<Rightarrow> HelmRelease \<Rightarrow> bool" where
  "relabelled r r' \<longleftrightarrow> r' = r\<lparr>hr_Labels := hr_Labels r'\<rparr> \<and>
     (\<forall>k. k \<noteq> ReleaseOwnerLabel \<longrightarrow> k \<noteq> ReleaseModeLabel \<longrightarrow> fmlookup (hr_Labels r') k = fmlookup (hr_Labels r) k)"

lemma relabelled_refl [simp]: "relabelled r r"
  by (simp add: relabelled_def)

text \<open>What a mutation may do: only the pinned key, and never a release the adapter does not manage.\<close>

definition mutationOk ::
    "('s \<Rightarrow> string \<Rightarrow> HelmRelease option) \<Rightarrow> InstallConfig \<Rightarrow> 's \<Rightarrow> 's \<times> relres \<Rightarrow> bool" where
  "mutationOk view cfg s out \<longleftrightarrow>
     (\<forall>k. k \<noteq> pinKey cfg \<longrightarrow> view (fst out) k = view s k) \<and>
     (\<forall>r. view s (pinKey cfg) = Some r \<longrightarrow> \<not> ManagedByAdapter r \<longrightarrow> view (fst out) (pinKey cfg) = Some r) \<and>
     (snd (snd out) = None \<longrightarrow> view (fst out) (pinKey cfg) = Some (fst (snd out)))"

locale helm_client =
  fixes c :: "'s HelmClient"
    and view :: "'s \<Rightarrow> string \<Rightarrow> HelmRelease option"
    and cfg :: InstallConfig
  assumes get_view: "hc_GetRelease c s ns n = (s', rel, err) \<Longrightarrow> view s' = view s"
    and get_ok: "hc_GetRelease c s (ic_Namespace cfg) (ic_ReleaseName cfg) = (s', rel, None) \<Longrightarrow> view s (pinKey cfg) = Some rel"
    and get_err: "hc_GetRelease c s ns n = (s', rel, Some e) \<Longrightarrow> rel = emptyRelease"
    and install: "mutationOk view cfg s (hc_Install c s cfg vals)"
    and install_pin: "hc_Install c s cfg vals = (s', rel, None) \<Longrightarrow> ManagedByAdapter rel \<and> atPin rel cfg"
    and upgrade: "mutationOk view cfg s (hc_Upgrade c s cfg vals)"
    and upgrade_managed: "hc_Upgrade c s cfg vals = (s', rel, err) \<Longrightarrow> view s (pinKey cfg) = Some r \<Longrightarrow>
      ManagedByAdapter r \<Longrightarrow> \<exists>r'. view s' (pinKey cfg) = Some r' \<and> ManagedByAdapter r'"
    and rollback: "mutationOk view cfg s (hc_Rollback c s cfg to)"
    and claim_frame: "hc_ClaimRelease c = Some claim \<Longrightarrow> k \<noteq> pinKey cfg \<Longrightarrow> view (fst (claim s cfg)) k = view s k"
    and claim_label: "hc_ClaimRelease c = Some claim \<Longrightarrow> view s (pinKey cfg) = Some r \<Longrightarrow>
      \<exists>r'. view (fst (claim s cfg)) (pinKey cfg) = Some r' \<and> relabelled r r'"
    and claim_ok: "hc_ClaimRelease c = Some claim \<Longrightarrow> claim s cfg = (s', rel, None) \<Longrightarrow>
      view s' (pinKey cfg) = Some rel"
    and remember_view: "hc_lastGoodStore c = Some (getf, putf) \<Longrightarrow> view (putf s ns n rel) = view s"
begin

lemma getPinned_view [simp]: "getPinned c s cfg = (s', rel, err) \<Longrightarrow> view s' = view s"
  by (auto simp: getPinned_def dest: get_view)

lemma getPinned_ok: "getPinned c s cfg = (s', rel, None) \<Longrightarrow> view s' (pinKey cfg) = Some rel"
  using getPinned_view by (auto simp: getPinned_def dest: get_ok)

lemma getPinned_named: "getPinned c s cfg = (s', rel, err) \<Longrightarrow> hr_Name rel \<noteq> '''' \<Longrightarrow> err = None"
  by (cases err) (auto simp: getPinned_def dest: get_err)

lemma remember_view' [simp]: "view (remember c s ns n rel) = view s"
  by (auto simp: remember_def remember_view split: option.splits)

text \<open>The views a run of the upgrade path may leave.\<close>

definition kept :: "'s \<Rightarrow> 's \<Rightarrow> bool" where
  "kept s s' \<longleftrightarrow> (\<forall>k. k \<noteq> pinKey cfg \<longrightarrow> view s' k = view s k) \<and>
     (\<forall>r. view s (pinKey cfg) = Some r \<longrightarrow> \<not> ManagedByAdapter r \<longrightarrow> view s' (pinKey cfg) = Some r)"

lemma kept_refl [simp]: "kept s s"
  by (simp add: kept_def)

lemma kept_trans: "kept s s' \<Longrightarrow> kept s' s'' \<Longrightarrow> kept s s''"
  by (simp add: kept_def)

lemma kept_view: "view s' = view s \<Longrightarrow> kept s s'"
  by (simp add: kept_def)

lemma mutation_kept: "mutationOk view cfg s (s', rel, err) \<Longrightarrow> kept s s'"
  by (simp add: mutationOk_def kept_def)

lemma mutation_ok: "mutationOk view cfg s (s', rel, None) \<Longrightarrow> view s' (pinKey cfg) = Some rel"
  by (simp add: mutationOk_def)

lemma install_kept: "hc_Install c s cfg vals = (s', rel, err) \<Longrightarrow> kept s s'"
  using install [of s vals] by (simp add: mutation_kept)

lemma install_ok: "hc_Install c s cfg vals = (s', rel, None) \<Longrightarrow> view s' (pinKey cfg) = Some rel"
  using install [of s vals] mutation_ok by simp

lemma upgrade_kept: "hc_Upgrade c s cfg vals = (s', rel, err) \<Longrightarrow> kept s s'"
  using upgrade [of s vals] by (simp add: mutation_kept)

lemma upgrade_ok: "hc_Upgrade c s cfg vals = (s', rel, None) \<Longrightarrow> view s' (pinKey cfg) = Some rel"
  using upgrade [of s vals] mutation_ok by simp

lemma rollback_kept: "hc_Rollback c s cfg to = (s', rel, err) \<Longrightarrow> kept s s'"
  using rollback [of s to] by (simp add: mutation_kept)

lemma rollback_ok: "hc_Rollback c s cfg to = (s', rel, None) \<Longrightarrow> view s' (pinKey cfg) = Some rel"
  using rollback [of s to] mutation_ok by simp

definition managed :: "'s \<Rightarrow> bool" where
  "managed s \<longleftrightarrow> (\<exists>r. view s (pinKey cfg) = Some r \<and> ManagedByAdapter r)"

lemma managed_view: "view s' = view s \<Longrightarrow> managed s' = managed s"
  by (simp add: managed_def)

lemma managed_at: "managed s \<Longrightarrow> view s (pinKey cfg) = Some r \<Longrightarrow> ManagedByAdapter r"
  by (auto simp: managed_def)

lemma upgrade_keeps_managed: "hc_Upgrade c s cfg vals = (s', rel, err) \<Longrightarrow> managed s \<Longrightarrow> managed s'"
  unfolding managed_def using upgrade_managed by blast

text \<open>What an install result claims about the store it was returned with.\<close>

definition truthful :: "'s \<Rightarrow> insres \<Rightarrow> bool" where
  "truthful s out \<longleftrightarrow>
     (ir_Action (fst out) \<in> {InstallUpgraded, InstallInstalled, InstallAdopted, InstallNoop, InstallRolledBack, InstallUnmanaged} \<longrightarrow>
        snd out = None \<and> (\<exists>r. view s (pinKey cfg) = Some r \<and> ir_Observed (fst out) = hr_ChartVersion r \<and>
          (ir_Action (fst out) \<in> {InstallUpgraded, InstallInstalled} \<longrightarrow> ManagedByAdapter r \<and> atPin r cfg) \<and>
          (ir_Action (fst out) = InstallAdopted \<longrightarrow> ManagedByAdapter r \<and> matchesPinnedRelease r cfg) \<and>
          (ir_Action (fst out) = InstallRolledBack \<longrightarrow> hr_Status r = HelmStatusDeployed \<and>
             (ir_LastKnownGood (fst out) = '''' \<or> versionsEqual (hr_ChartVersion r) (ir_LastKnownGood (fst out)))))) \<and>
     (ir_Action (fst out) \<in> {InstallFailed, InstallSkipped} \<longrightarrow> snd out \<noteq> None \<and> ir_OpStatus (fst out) \<noteq> OpSucceeded) \<and>
     ir_Action (fst out) \<notin> {InstallZero, InstallDetected, InstallAbsent}"

lemma observed_fields [simp]:
  "ir_Action (observedResult a st r lg f) = a" "ir_OpStatus (observedResult a st r lg f) = st"
  "ir_Observed (observedResult a st r lg f) = hr_ChartVersion r" "ir_LastKnownGood (observedResult a st r lg f) = lg"
  by (simp_all add: observedResult_def)

lemma truthful_failI:
  "ir_Action r = InstallFailed \<or> ir_Action r = InstallSkipped \<Longrightarrow> e \<noteq> None \<Longrightarrow> ir_OpStatus r \<noteq> OpSucceeded \<Longrightarrow>
     truthful s (r, e)"
  by (auto simp: truthful_def)

lemma observed_failure [simp]: "(observedResult a st r lg f)\<lparr>ir_Failure := f'\<rparr> = observedResult a st r lg f'"
  by (simp add: observedResult_def)

lemma truthful_ok:
  assumes "view s (pinKey cfg) = Some r"
  shows "ManagedByAdapter r \<Longrightarrow> atPin r cfg \<Longrightarrow> truthful s (observedResult InstallUpgraded st r lg f, None)"
    and "ManagedByAdapter r \<Longrightarrow> atPin r cfg \<Longrightarrow> truthful s (observedResult InstallInstalled st r lg f, None)"
    and "ManagedByAdapter r \<Longrightarrow> matchesPinnedRelease r cfg \<Longrightarrow> truthful s (observedResult InstallAdopted st r lg f, None)"
    and "truthful s (observedResult InstallNoop st r lg f, None)"
    and "hr_Status r = HelmStatusDeployed \<Longrightarrow> lg = '''' \<or> versionsEqual (hr_ChartVersion r) lg \<Longrightarrow>
      truthful s (observedResult InstallRolledBack st r lg f, None)"
    and "truthful s (observedResult InstallUnmanaged st r lg f, None)"
  using assms by (simp_all add: truthful_def)

lemmas truthfulI = truthful_ok truthful_failI

lemma reconcileAfterFailure_truthful:
  assumes "getPinned c s0 cfg = (s, actual, err)" and "st \<noteq> OpSucceeded" and "managed s"
  shows "truthful s (reconcileAfterFailure cfg actual lg e st)"
proof (cases "hr_Name actual \<noteq> '''' \<and> atPin actual cfg")
  case True
  with assms(1) getPinned_named have "err = None" by blast
  with assms(1) getPinned_ok have "view s (pinKey cfg) = Some actual" by blast
  with True managed_at [OF assms(3)] show ?thesis by (simp add: reconcileAfterFailure_def truthfulI)
next
  case False
  with assms(2) show ?thesis by (auto simp: reconcileAfterFailure_def Let_def intro: truthfulI)
qed

lemma rollbackAfterFailure_sound:
  assumes "rollbackAfterFailure c s cfg actual before lg (Some e) = (s', out)"
  shows "kept s s' \<and> truthful s' out"
proof (cases "(if lg = '''' then hr_ChartVersion before else lg) = '''' \<or>
    versionsEqual (if lg = '''' then hr_ChartVersion before else lg) (ic_ChartVersion cfg)")
  case True
  with assms show ?thesis by (auto simp: rollbackAfterFailure_def Let_def intro: truthfulI)
next
  case False
  define to where "to = (if lg = '''' then hr_ChartVersion before else lg)"
  obtain s1 rb err where rb: "hc_Rollback c s cfg to = (s1, rb, err)" by (metis prod_cases3)
  obtain s2 got gerr where got: "getPinned c s1 cfg = (s2, got, gerr)" by (metis prod_cases3)
  note run = assms [unfolded rollbackAfterFailure_def Let_def, folded to_def, unfolded rb got]
  show ?thesis
  proof (cases err)
    case None
    with run False rb show ?thesis
      by (auto simp: to_def rollback_kept rollback_ok split: if_splits intro: truthfulI)
  next
    case (Some x)
    with run False rb got have "s' = s2" "truthful s' out"
      by (auto simp: to_def split: if_splits intro: truthfulI)
    moreover have "kept s s2"
      using rollback_kept [OF rb] getPinned_view [OF got] kept_view kept_trans by metis
    ultimately show ?thesis by simp
  qed
qed

lemma upgradeLoop_sound:
  assumes "upgradeLoop ctx c cfg vals before lg n le s = (s', out)" and "n = 0 \<Longrightarrow> le \<noteq> None" and "managed s"
  shows "kept s s' \<and> truthful s' out"
  using assms
proof (induction n arbitrary: le s)
  case 0
  obtain s1 act err where g: "getPinned c s cfg = (s1, act, err)" by (metis prod_cases3)
  with 0 have "rollbackAfterFailure c s1 cfg act before lg le = (s', out)" "le \<noteq> None" by auto
  then have "kept s1 s' \<and> truthful s' out" using rollbackAfterFailure_sound by blast
  then show ?case using getPinned_view [OF g] kept_view kept_trans by metis
next
  case (Suc n)
  note run = Suc.prems(1) [unfolded upgradeLoop.simps]
  show ?case
  proof (cases "ctx s")
    case (Some e)
    obtain s1 act err where g: "getPinned c s cfg = (s1, act, err)" by (metis prod_cases3)
    moreover have "managed s1" using managed_view [OF getPinned_view [OF g]] Suc.prems(3) by simp
    ultimately show ?thesis using run Some
      by (auto simp: kept_view reconcileAfterFailure_truthful)
  next
    case ctx: None
    obtain s1 rel err where u: "hc_Upgrade c s cfg vals = (s1, rel, err)" by (metis prod_cases3)
    note k1 = upgrade_kept [OF u] and mg1 = upgrade_keeps_managed [OF u Suc.prems(3)]
    show ?thesis
    proof (cases err)
      case None
      show ?thesis
      proof (cases "atPin rel cfg")
        case True
        with run ctx u None k1 upgrade_ok managed_at [OF mg1] show ?thesis by (auto intro: truthfulI)
      next
        case False
        with run ctx u None have "upgradeLoop ctx c cfg vals before lg n
            (Some (ErrText ''upgrade did not reach the pin'')) s1 = (s', out)" by simp
        with Suc.IH k1 mg1 kept_trans show ?thesis by blast
      qed
    next
      case (Some e)
      obtain s2 act gerr where g: "getPinned c s1 cfg = (s2, act, gerr)" by (metis prod_cases3)
      have k2: "kept s s2" using k1 getPinned_view [OF g] kept_view kept_trans by metis
      have mg2: "managed s2" using managed_view [OF getPinned_view [OF g]] mg1 by simp
      note run' = run [unfolded ctx option.case u Let_def prod.case Some g]
      consider "gerr = None" "atPin act cfg" | "\<not> (gerr = None \<and> atPin act cfg)" "e = ErrReleaseUnknown"
        | "\<not> (gerr = None \<and> atPin act cfg)" "e \<noteq> ErrReleaseUnknown"
          "e = ErrReleaseTimeout \<or> e = ContextDeadlineExceeded \<or> e = ContextCanceled"
        | "upgradeLoop ctx c cfg vals before lg n (Some e) s2 = (s', out)"
        using run' by (auto split: if_splits)
      then show ?thesis
      proof cases
        case 1
        with run' k2 getPinned_ok g managed_at [OF mg2] show ?thesis by (auto intro: truthfulI)
      next
        case 2
        with run' k2 show ?thesis by (auto split: if_splits intro: truthfulI)
      next
        case 3
        with run' k2 g mg2 show ?thesis
          by (auto simp: reconcileAfterFailure_truthful truthfulI split: if_splits)
      next
        case 4
        with Suc.IH k2 mg2 kept_trans show ?thesis by blast
      qed
    qed
  qed
qed

lemma claimOrLeave_sound:
  assumes "claimOrLeaveUnmanaged c s i cfg rel = (s', out)" and "view s (pinKey cfg) = Some rel"
  shows "(\<forall>k. k \<noteq> pinKey cfg \<longrightarrow> view s' k = view s k) \<and>
    (\<exists>r'. view s' (pinKey cfg) = Some r' \<and> relabelled rel r') \<and>
    (\<not> (in_AdoptExisting i \<and> matchesPinnedRelease rel cfg) \<longrightarrow> view s' = view s) \<and> truthful s' out"
proof (cases "\<not> in_AdoptExisting i \<or> \<not> matchesPinnedRelease rel cfg \<or> hc_ClaimRelease c = None")
  case True
  with assms have "s' = s" "out = (observedResult InstallUnmanaged OpSucceeded rel '''' '''', None)"
    by (auto simp: claimOrLeaveUnmanaged_def split: if_splits)
  with assms(2) show ?thesis by (simp add: truthfulI)
next
  case False
  then obtain claim where cl: "hc_ClaimRelease c = Some claim" by auto
  obtain s1 claimed err where r: "claim s cfg = (s1, claimed, err)" by (metis prod_cases3)
  with False assms cl have s1: "s' = s1"
    by (auto simp: claimOrLeaveUnmanaged_def split: option.splits if_splits)
  have f: "k \<noteq> pinKey cfg \<Longrightarrow> view s1 k = view s k" for k using claim_frame [OF cl, of k s] r by simp
  have l: "\<exists>r'. view s1 (pinKey cfg) = Some r' \<and> relabelled rel r'"
    using claim_label [OF cl assms(2)] r by simp
  have "truthful s' out"
  proof (cases err)
    case None
    with claim_ok [OF cl] r have "view s1 (pinKey cfg) = Some claimed" by blast
    with False assms cl r None s1 show ?thesis
      by (auto simp: claimOrLeaveUnmanaged_def split: if_splits intro: truthfulI)
  next
    case (Some e)
    with False assms cl r show ?thesis by (auto simp: claimOrLeaveUnmanaged_def intro: truthfulI)
  qed
  with f l s1 False show ?thesis by simp
qed

text \<open>The guarantee of one run of the installer, from the moment it holds the lock.\<close>

definition ensured :: "Intent \<Rightarrow> 's \<Rightarrow> 's \<times> insres \<Rightarrow> bool" where
  "ensured i s res \<longleftrightarrow>
     (\<forall>k. k \<noteq> pinKey cfg \<longrightarrow> view (fst res) k = view s k) \<and>
     (\<forall>r. view s (pinKey cfg) = Some r \<longrightarrow> \<not> ManagedByAdapter r \<longrightarrow>
        (\<exists>r'. view (fst res) (pinKey cfg) = Some r' \<and> relabelled r r' \<and>
           (\<not> (in_AdoptExisting i \<and> matchesPinnedRelease r cfg) \<longrightarrow> r' = r))) \<and>
     truthful (fst res) (snd res)"

lemma kept_ensured: "kept s s' \<Longrightarrow> truthful s' out \<Longrightarrow> ensured i s (s', out)"
  by (auto simp: kept_def ensured_def)

lemma attempts_pos: "0 < nat (attempts h)"
  by (simp add: attempts_def defaultReleaseAttempts_def)

lemma ensureLocked_sound: "ensured i s (ensureLocked ctx h c i cfg s)"
proof -
  obtain s1 rel err where g: "getPinned c s cfg = (s1, rel, err)" by (metis prod_cases3)
  note v1 = getPinned_view [OF g]
  consider "err = Some ErrReleaseNotFound" | e where "err = Some e" "e \<noteq> ErrReleaseNotFound"
    | "err = None" "\<not> ManagedByAdapter rel" | "err = None" "ManagedByAdapter rel" by (cases err) auto
  then show ?thesis
  proof cases
    case 1
    obtain s2 rel2 err2 where ins: "hc_Install c s1 cfg (SafeHelmValues cfg) = (s2, rel2, err2)" by (metis prod_cases3)
    have "kept s s2" using install_kept [OF ins] v1 kept_view kept_trans by metis
    with 1 g ins install_ok install_pin show ?thesis
      by (auto simp: ensureLocked_def Let_def installFailure_def split: option.splits intro!: kept_ensured intro: truthfulI)
  next
    case 2
    with g v1 show ?thesis
      by (auto simp: ensureLocked_def Let_def installFailure_def intro!: kept_ensured kept_view intro: truthfulI)
  next
    case 3
    obtain s2 out where cl: "claimOrLeaveUnmanaged c s1 i cfg rel = (s2, out)" by (metis prod.exhaust)
    have r: "view s1 (pinKey cfg) = Some rel" using getPinned_ok g 3 by blast
    show ?thesis
      using claimOrLeave_sound [OF cl r] 3 g cl v1 r by (auto simp: ensureLocked_def Let_def ensured_def)
  next
    case 4
    have r: "view s1 (pinKey cfg) = Some rel" using getPinned_ok g 4 by blast
    define lg where "lg = (case remembered c s1 (ic_Namespace cfg) (ic_ReleaseName cfg) of
        None \<Rightarrow> hr_ChartVersion rel | Some saved \<Rightarrow> hr_ChartVersion saved)"
    define s2 where "s2 = remember c s1 (ic_Namespace cfg) (ic_ReleaseName cfg) rel"
    obtain s3 out where up: "upgradeOrRollback ctx h c cfg (SafeHelmValues cfg) rel lg s2 = (s3, out)" by (metis prod.exhaust)
    have v2: "view s2 = view s" using v1 by (simp add: s2_def)
    have m2: "managed s2" using r v1 v2 4 by (auto simp: managed_def)
    have "kept s2 s3 \<and> truthful s3 out"
      by (rule upgradeLoop_sound [OF up [unfolded upgradeOrRollback_def]]) (use attempts_pos [of h] m2 in simp_all)
    then have "kept s s3" "truthful s3 out" using v2 kept_view kept_trans by metis+
    with 4 g r v1 up show ?thesis
      by (auto simp: ensureLocked_def Let_def kept_view lg_def [symmetric] s2_def [symmetric]
          intro!: kept_ensured intro: truthfulI)
  qed
qed

lemma early_exit: "truthful s out \<Longrightarrow> ensured i s (s, out)"
  by (simp add: kept_ensured)

lemma HelmInstaller_Ensure_sound:
  assumes "hi_Client h = Some c" and "cfg = nvidiaConfig"
  shows "ensured i s (HelmInstaller_Ensure ctx h i s)"
proof -
  have pinned: "cfg' = cfg" if "DefaultInstallConfig v = Inr cfg'" "ValidateArtifactRef cfg' = Inr u" for v cfg' u
    using that ValidateArtifactRef_ok [OF that(2)] unfolding assms(2)
    by (auto simp: DefaultInstallConfig_def nvidiaConfig_def Let_def split: if_splits)
  obtain d where d: "DefaultInstallConfig (in_Vendor i) = d" by simp
  show ?thesis
  proof (cases d)
    case (Inl e)
    with assms(1) d show ?thesis
      by (auto simp: HelmInstaller_Ensure_def installFailure_def emptyInstallResult_def split: option.split intro!: early_exit truthful_failI)
  next
    case (Inr cfg0)
    obtain cfg' pol where p: "ApplyVersionPolicy i cfg0 = (cfg', pol)" by (cases "ApplyVersionPolicy i cfg0")
    then have "cfg' = cfg0" using ApplyVersionPolicy_settings [of i cfg0] by simp
    with Inr d pinned have v: "ValidateArtifactRef cfg' = Inr u \<Longrightarrow> cfg' = cfg" for u by blast
    from assms(1) d Inr p show ?thesis
      by (auto simp: HelmInstaller_Ensure_def installFailure_def emptyInstallResult_def ensureLocked_sound dest!: v split: option.split sum.split
          intro!: early_exit truthful_failI)
  qed
qed

end

subsection \<open>The in-memory client keeps the contract\<close>

definition memView :: "MemoryHelmClient \<Rightarrow> string \<Rightarrow> HelmRelease option" where
  "memView m k = fmlookup (m_rels m) k"

lemma storeRelease_rels [simp]: "m_rels (storeRelease m k r) = fmupd k r (m_rels m)"
  by (simp add: storeRelease_def appendHistory_def)

lemma inflight_rels [simp]: "m_rels (mem_begin m k) = m_rels m" "m_rels (mem_end m k) = m_rels m"
  by (simp_all add: mem_begin_def mem_end_def Let_def)

lemma mem_upgradeLocked_sound:
  "mutationOk memView cfg m (mem_upgradeLocked ctx m cfg (pinKey cfg))"
proof (cases "fmlookup (m_rels m) (pinKey cfg)")
  case None
  then show ?thesis by (simp add: mem_upgradeLocked_def mutationOk_def memView_def)
next
  case (Some r)
  then show ?thesis
    by (auto simp: mem_upgradeLocked_def mutationOk_def memView_def Let_def failureFires_def)
qed

lemma mem_Upgrade_sound: "mutationOk memView cfg m (mem_Upgrade ctx m cfg vals)"
proof (cases "requirePinnedConfig cfg")
  case (Inl e)
  then show ?thesis by (simp add: mem_Upgrade_def mutationOk_def)
next
  case (Inr u)
  define m2 where "m2 = (mem_begin m (pinKey cfg))\<lparr>m_Upgrades := m_Upgrades (mem_begin m (pinKey cfg)) + 1\<rparr>"
  obtain m3 r where u: "mem_upgradeLocked ctx m2 cfg (pinKey cfg) = (m3, r)" by (metis prod.exhaust)
  have "mutationOk memView cfg m2 (m3, r)" using mem_upgradeLocked_sound [of cfg m2 ctx] u by simp
  moreover have "memView m2 = memView m" by (simp add: memView_def m2_def fun_eq_iff)
  moreover have "mem_Upgrade ctx m cfg vals = (mem_end m3 (pinKey cfg), r)"
    using Inr u by (simp add: mem_Upgrade_def Let_def m2_def)
  ultimately show ?thesis by (simp add: mutationOk_def memView_def)
qed

lemma mutationOk_same: "memView m' = memView m \<Longrightarrow> mutationOk memView cfg m (m', r, Some e)"
  by (simp add: mutationOk_def)

lemma mem_Rollback_sound: "mutationOk memView cfg m (mem_Rollback m cfg to)"
proof -
  have same: "memView (m\<lparr>m_Rollbacks := n\<rparr>) = memView m" for n by (simp add: memView_def fun_eq_iff)
  show ?thesis
    unfolding mem_Rollback_def Let_def
    by (split sum.split option.split if_split, intro conjI allI impI mutationOk_same; (simp add: same)?)+
      (auto simp: mutationOk_def memView_def)
qed

lemma mem_Install_sound: "mutationOk memView cfg m (mem_Install m cfg vals)"
proof (cases "requirePinnedConfig cfg")
  case (Inr u)
  have "fmlookup (m_rels m) (pinKey cfg) = Some r \<Longrightarrow> pinKey cfg |\<in>| fmdom (m_rels m)" for r
    by (rule fmdomI)
  with Inr show ?thesis
    by (auto simp: mem_Install_def mutationOk_def memView_def Let_def failureFires_def)
qed (simp add: mem_Install_def mutationOk_def)

lemma mem_Claim_label:
  assumes "fmlookup (m_rels m) (pinKey cfg) = Some r"
  shows "\<exists>r'. fmlookup (m_rels (fst (mem_ClaimRelease m cfg))) (pinKey cfg) = Some r' \<and> relabelled r r'"
  using assms stampAdoptedLabels_other
  by (auto simp: mem_ClaimRelease_def Let_def relabelled_def split: sum.split)

lemma versionsEqual_pinned: "requirePinnedConfig cfg = Inr u \<Longrightarrow> versionsEqual (ic_ChartVersion cfg) (ic_ChartVersion cfg)"
proof -
  assume "requirePinnedConfig cfg = Inr u"
  then have "ValidateDesiredVersion (ic_Vendor cfg) (ic_ChartVersion cfg) = Inr ()"
    by (simp add: requirePinnedConfig_def ValidateArtifactRef_ok split: sum.splits)
  then have "ValidateReleaseVersion (ic_ChartVersion cfg) = Inr ()"
    by (simp add: ValidateDesiredVersion_def split: sum.splits)
  then show ?thesis by (rule versionsEqual_refl)
qed

lemma mem_Upgrade_managed:
  assumes "mem_Upgrade ctx m cfg vals = (m', rel, err)" and "fmlookup (m_rels m) (pinKey cfg) = Some r" and "ManagedByAdapter r"
  shows "\<exists>r'. fmlookup (m_rels m') (pinKey cfg) = Some r' \<and> ManagedByAdapter r'"
proof (cases "requirePinnedConfig cfg")
  case (Inl e)
  with assms show ?thesis by (auto simp: mem_Upgrade_def)
next
  case (Inr u)
  define m2 where "m2 = (mem_begin m (pinKey cfg))\<lparr>m_Upgrades := m_Upgrades (mem_begin m (pinKey cfg)) + 1\<rparr>"
  have r2: "fmlookup (m_rels m2) (pinKey cfg) = Some r" using assms(2) by (simp add: m2_def)
  have "\<exists>r'. fmlookup (m_rels (fst (mem_upgradeLocked ctx m2 cfg (pinKey cfg)))) (pinKey cfg) = Some r' \<and> ManagedByAdapter r'"
    using r2 assms(3) requirePinnedConfig_ok [OF Inr]
    by (simp add: mem_upgradeLocked_def Let_def ManagedByAdapter_def)
  moreover have "m' = mem_end (fst (mem_upgradeLocked ctx m2 cfg (pinKey cfg))) (pinKey cfg)"
    using assms(1) Inr by (auto simp: mem_Upgrade_def Let_def m2_def split: prod.splits)
  ultimately show ?thesis by simp
qed

interpretation mem: helm_client "memoryClient ctx" memView nvidiaConfig
proof unfold_locales
  fix claim :: "MemoryHelmClient \<Rightarrow> InstallConfig \<Rightarrow> MemoryHelmClient \<times> relres"
  assume "hc_ClaimRelease (memoryClient ctx) = Some claim"
  then have cl: "claim = mem_ClaimRelease" by (simp add: memoryClient_def)
  show "k \<noteq> pinKey nvidiaConfig \<Longrightarrow> memView (fst (claim s nvidiaConfig)) k = memView s k" for k s
    by (auto simp: cl mem_ClaimRelease_def memView_def Let_def split: sum.split option.split)
  show "memView s (pinKey nvidiaConfig) = Some r \<Longrightarrow>
      \<exists>r'. memView (fst (claim s nvidiaConfig)) (pinKey nvidiaConfig) = Some r' \<and> relabelled r r'" for s r
    using mem_Claim_label unfolding cl memView_def by blast
  show "claim s nvidiaConfig = (s', rel, None) \<Longrightarrow> memView s' (pinKey nvidiaConfig) = Some rel" for s s' rel
    by (auto simp: cl memView_def mem_ClaimRelease_def Let_def split: sum.splits option.splits if_splits)
next
  show "hc_lastGoodStore (memoryClient ctx) = Some (getf, putf) \<Longrightarrow> memView (putf s ns n rel) = memView s"
    for getf putf s ns n rel
    by (auto simp: memoryClient_def memView_def mem_RememberLastKnownGood_def)
  show "hc_Upgrade (memoryClient ctx) s nvidiaConfig vals = (s', rel, err) \<Longrightarrow> memView s (pinKey nvidiaConfig) = Some r \<Longrightarrow>
      ManagedByAdapter r \<Longrightarrow> \<exists>r'. memView s' (pinKey nvidiaConfig) = Some r' \<and> ManagedByAdapter r'" for s vals s' rel err r
    using mem_Upgrade_managed [of ctx s nvidiaConfig vals s' rel err r] unfolding memView_def by (simp add: memoryClient_def)
  show "hc_Install (memoryClient ctx) s nvidiaConfig vals = (s', rel, None) \<Longrightarrow> ManagedByAdapter rel \<and> atPin rel nvidiaConfig"
    for s vals s' rel
    using versionsEqual_pinned [of nvidiaConfig]
    by (auto simp: memoryClient_def mem_Install_def Let_def ManagedByAdapter_def atPin_def failureFires_def split: if_splits)
qed (simp_all add: memoryClient_def mem_Install_sound mem_Upgrade_sound mem_Rollback_sound mem_GetRelease_def
      memView_def fun_eq_iff split: option.splits)

subsection \<open>Upgrade attempts\<close>

lemma mem_counts [simp]:
  "m_Upgrades (mem_begin m k) = m_Upgrades m" "m_Upgrades (mem_end m k) = m_Upgrades m"
  "m_Upgrades (storeRelease m k r) = m_Upgrades m"
  by (simp_all add: mem_begin_def mem_end_def storeRelease_def appendHistory_def Let_def)

lemma mem_Upgrade_count: "m_Upgrades (fst (mem_Upgrade ctx m cfg vals)) \<le> m_Upgrades m + 1"
  by (auto simp: mem_Upgrade_def mem_upgradeLocked_def Let_def split: sum.split option.split prod.split)

lemma mem_Rollback_count: "m_Upgrades (fst (mem_Rollback m cfg to)) = m_Upgrades m"
  by (simp add: mem_Rollback_def Let_def split: sum.split option.split)

lemma getPinned_mem [simp]: "getPinned (memoryClient ctx) m cfg = mem_GetRelease m (ic_Namespace cfg) (ic_ReleaseName cfg)"
  by (simp add: getPinned_def memoryClient_def)

lemma mem_GetRelease_cases: obtains act gerr where "mem_GetRelease m ns n = (m, act, gerr)"
  by (metis mem_GetRelease_def surj_pair)

lemma rollbackAfterFailure_count:
  "m_Upgrades (fst (rollbackAfterFailure (memoryClient ctx) m cfg act before lg le)) = m_Upgrades m"
proof -
  define to where "to = (if lg = '''' then hr_ChartVersion before else lg)"
  obtain m1 r err where rb: "mem_Rollback m cfg to = (m1, r, err)" by (metis prod_cases3)
  have hc: "hc_Rollback (memoryClient ctx) m cfg to = (m1, r, err)" using rb by (simp add: memoryClient_def)
  obtain act1 gerr where g: "mem_GetRelease m1 (ic_Namespace cfg) (ic_ReleaseName cfg) = (m1, act1, gerr)"
    by (rule mem_GetRelease_cases)
  have "m_Upgrades m1 = m_Upgrades m" using mem_Rollback_count [of m cfg to] rb by simp
  then show ?thesis
    unfolding rollbackAfterFailure_def Let_def to_def [symmetric] hc by (cases err) (simp_all add: g)
qed

lemma upgradeLoop_count:
  "m_Upgrades (fst (upgradeLoop cx (memoryClient ctx) cfg vals before lg n le m)) \<le> m_Upgrades m + int n"
proof (induction n arbitrary: le m)
  case 0
  then show ?case by (simp add: mem_GetRelease_def rollbackAfterFailure_count split: prod.split)
next
  case (Suc n)
  obtain m1 rel err where u: "mem_Upgrade ctx m cfg vals = (m1, rel, err)" by (metis prod_cases3)
  have up: "hc_Upgrade (memoryClient ctx) m cfg vals = (m1, rel, err)" using u by (simp add: memoryClient_def)
  define K where "K = m_Upgrades m + int (Suc n)"
  have m1: "m_Upgrades m1 \<le> m_Upgrades m + 1" using mem_Upgrade_count [of ctx m cfg vals] u by simp
  have c0: "m_Upgrades m \<le> K" and c1: "m_Upgrades m1 \<le> K" using m1 by (simp_all add: K_def)
  have ih: "m_Upgrades (fst (upgradeLoop cx (memoryClient ctx) cfg vals before lg n le' m1)) \<le> K" for le'
    using Suc.IH [of le' m1] m1 by (simp add: K_def)
  obtain act gerr where g: "mem_GetRelease m1 (ic_Namespace cfg) (ic_ReleaseName cfg) = (m1, act, gerr)"
    by (rule mem_GetRelease_cases)
  obtain act0 gerr0 where g0: "mem_GetRelease m (ic_Namespace cfg) (ic_ReleaseName cfg) = (m, act0, gerr0)"
    by (rule mem_GetRelease_cases)
  have "m_Upgrades (fst (upgradeLoop cx (memoryClient ctx) cfg vals before lg (Suc n) le m)) \<le> K"
  proof (cases "cx m")
    case None
    show ?thesis
      unfolding upgradeLoop.simps None option.case up Let_def prod.case getPinned_mem g
      by (cases err) (auto simp: c1 ih)
  next
    case (Some e)
    then show ?thesis by (simp add: g0 c0)
  qed
  then show ?case by (simp add: K_def)
qed

subsection \<open>Properties of the installer over the in-memory client\<close>

lemma Ensure_upgrades:
  assumes "hi_Client h = Some (memoryClient ctx)"
  shows "m_Upgrades (fst (HelmInstaller_Ensure cx h i m)) \<le> m_Upgrades m + attempts h"
proof -
  have pos: "0 \<le> attempts h" by (simp add: attempts_def defaultReleaseAttempts_def)
  have up: "m_Upgrades (fst (upgradeOrRollback cx h (memoryClient ctx) cfg v r lg m')) \<le> m_Upgrades m' + attempts h"
    for cfg v r lg m'
    using upgradeLoop_count [of cx ctx cfg v r lg "nat (attempts h)" None m'] pos by (simp add: upgradeOrRollback_def)
  have rem: "m_Upgrades (remember (memoryClient ctx) m' ns n r) = m_Upgrades m'" for m' ns n r
    by (simp add: remember_def memoryClient_def mem_RememberLastKnownGood_def)
  have ins: "m_Upgrades (fst (mem_Install m' cfg v)) = m_Upgrades m'" for m' cfg v
    by (simp add: mem_Install_def Let_def split: sum.split)
  have cl: "m_Upgrades (fst (claimOrLeaveUnmanaged (memoryClient ctx) m' i cfg r)) = m_Upgrades m'" for m' cfg r
    by (simp add: claimOrLeaveUnmanaged_def memoryClient_def mem_ClaimRelease_def Let_def
        split: sum.split option.split prod.split)
  have locked: "m_Upgrades (fst (ensureLocked cx h (memoryClient ctx) i cfg m)) \<le> m_Upgrades m + attempts h" for cfg
  proof -
    obtain rel err where g: "mem_GetRelease m (ic_Namespace cfg) (ic_ReleaseName cfg) = (m, rel, err)"
      by (rule mem_GetRelease_cases)
    obtain m2 rel2 err2 where i2: "mem_Install m cfg (SafeHelmValues cfg) = (m2, rel2, err2)" by (metis prod_cases3)
    have hci: "hc_Install (memoryClient ctx) = mem_Install" by (simp add: memoryClient_def)
    have m2: "m_Upgrades m2 = m_Upgrades m" using ins [of m cfg "SafeHelmValues cfg"] i2 by simp
    note u = up [of cfg "SafeHelmValues cfg" rel _ "remember (memoryClient ctx) m (ic_Namespace cfg) (ic_ReleaseName cfg) rel",
        unfolded rem]
    show ?thesis
      unfolding ensureLocked_def Let_def getPinned_mem g prod.case hci i2
      using pos m2 cl u by (auto split: option.split)
  qed
  show ?thesis
    unfolding HelmInstaller_Ensure_def using assms pos locked
    by (auto split: option.split sum.split prod.split)
qed

text \<open>An installer run that ends in neither a failure nor a skip has passed every gate.\<close>

lemma Ensure_gates:
  assumes "hi_Client h = Some c"
    and "ir_Action (fst (snd (HelmInstaller_Ensure cx h i s))) \<notin> {InstallFailed, InstallSkipped}"
  shows "in_Vendor i \<noteq> VendorAMD" "DefaultInstallConfig (in_Vendor i) = Inr nvidiaConfig"
    "pr_Skew (snd (ApplyVersionPolicy i nvidiaConfig)) \<noteq> SkewInvalidConfig"
proof -
  have amd: "ValidateArtifactRef amdConfig \<noteq> Inr ()" using ValidateArtifactRef_ok by fastforce
  have cases: "DefaultInstallConfig v = Inr cfg \<Longrightarrow> cfg = nvidiaConfig \<or> cfg = amdConfig" for v cfg
    by (auto simp: DefaultInstallConfig_def nvidiaConfig_def amdConfig_def Let_def split: if_splits)
  from assms have ctx: "cx s = None" and v: "in_Vendor i \<noteq> VendorAMD"
    by (auto simp: HelmInstaller_Ensure_def installFailure_def split: option.splits if_splits)
  from assms ctx v obtain cfg where d: "DefaultInstallConfig (in_Vendor i) = Inr cfg"
    by (auto simp: HelmInstaller_Ensure_def split: sum.splits)
  obtain pol where p: "ApplyVersionPolicy i cfg = (cfg, pol)"
    using ApplyVersionPolicy_settings [of i cfg] by (metis prod.collapse)
  from assms ctx v d p have ok: "pr_Skew pol \<noteq> SkewInvalidConfig" "ValidateArtifactRef cfg = Inr ()"
    by (auto simp: HelmInstaller_Ensure_def installFailure_def split: sum.splits if_splits)
  with cases [OF d] amd have "cfg = nvidiaConfig" by auto
  with v d p ok show "in_Vendor i \<noteq> VendorAMD" "DefaultInstallConfig (in_Vendor i) = Inr nvidiaConfig"
      "pr_Skew (snd (ApplyVersionPolicy i nvidiaConfig)) \<noteq> SkewInvalidConfig" by auto
qed

lemma DefaultInstallConfig_desired:
  assumes "DefaultInstallConfig v = Inr nvidiaConfig"
  shows "ValidateDesiredVersion v NVIDIAChartVersion = Inr ()"
proof -
  have n: "ToLower (TrimSpace v) = VendorNVIDIA" using DefaultInstallConfig_vendor [OF assms] by simp
  then have r: "SupportedRangeFor v = SupportedRangeFor VendorNVIDIA" by (simp add: SupportedRangeFor_def)
  then have "ClassifySkew v NVIDIAChartVersion = ClassifySkew VendorNVIDIA NVIDIAChartVersion"
    by (simp add: ClassifySkew_def)
  moreover have "v \<noteq> VendorAMD" using n by auto
  ultimately show ?thesis
    by (simp add: ValidateDesiredVersion_def ClassifySkew_nvidia less_version_def less_eq_version_def)
qed

lemma Ensure_noop:
  assumes "hi_Client h = Some (memoryClient ctx)" and "cx m = None"
    and gates: "in_Vendor i \<noteq> VendorAMD" "DefaultInstallConfig (in_Vendor i) = Inr nvidiaConfig"
      "pr_Skew (snd (ApplyVersionPolicy i nvidiaConfig)) \<noteq> SkewInvalidConfig"
    and r: "fmlookup (m_rels m) (pinKey nvidiaConfig) = Some r" "ManagedByAdapter r"
      "versionsEqual (hr_ChartVersion r) NVIDIAChartVersion" "ValidateReleaseVersion (hr_ChartVersion r) = Inr ()"
  shows "\<exists>lg. HelmInstaller_Ensure cx h i m = (m, observedResult InstallNoop OpNoop r lg '''', None)"
proof -
  have "vd_Action (DecideReleaseAction (in_Vendor i) (hr_ChartVersion r) NVIDIAChartVersion ad) = DecisionNoop" for ad
    using r(3,4) DefaultInstallConfig_desired [OF gates(2)]
    by (auto simp: DecideReleaseAction_def Let_def versionsEqual_def split: sum.splits)
  moreover have "mem_GetRelease m DefaultNamespace NVIDIAReleaseName = (m, r, None)"
    using r(1) by (simp add: mem_GetRelease_def)
  ultimately have "\<exists>lg. ensureLocked cx h (memoryClient ctx) i nvidiaConfig m =
      (m, observedResult InstallNoop OpNoop r lg '''', None)"
    using r(2) by (auto simp: ensureLocked_def Let_def)
  moreover obtain pol where "ApplyVersionPolicy i nvidiaConfig = (nvidiaConfig, pol)"
    using ApplyVersionPolicy_settings [of i nvidiaConfig] by (metis prod.collapse)
  ultimately show ?thesis
    using assms(1,2) gates by (simp add: HelmInstaller_Ensure_def)
qed

subsection \<open>Example states\<close>

definition exIntent :: Intent where
  "exIntent = emptyIntent\<lparr>in_Vendor := VendorNVIDIA, in_Known := True\<rparr>"

definition exInstaller :: "MemoryHelmClient HelmInstaller" where
  "exInstaller = \<lparr>hi_Client = Some (memoryClient (\<lambda>_. None)), hi_AllowDowngrade = False, hi_MaxAttempts = 0\<rparr>"

definition foreignRelease :: HelmRelease where
  "foreignRelease = (OwnedRelease nvidiaConfig)\<lparr>hr_ChartVersion := ''v25.1.0'', hr_Labels := fmempty\<rparr>"

definition exStore :: "HelmRelease \<Rightarrow> MemoryHelmClient" where
  "exStore r = newMemoryHelmClient\<lparr>m_rels := fmupd (pinKey nvidiaConfig) r fmempty\<rparr>"

lemma exInstaller_client [simp]: "hi_Client exInstaller = Some (memoryClient (\<lambda>_. None))"
  by (simp add: exInstaller_def)

lemma exStore_lookup [simp]: "fmlookup (m_rels (exStore r)) (pinKey nvidiaConfig) = Some r"
  by (simp add: exStore_def)

lemma foreign_unmanaged [simp]: "\<not> ManagedByAdapter foreignRelease"
  by (simp add: foreignRelease_def ManagedByAdapter_def)

subsection \<open>Properties\<close>

text \<open>C1: the Helm installer never takes over a release it does not manage. Whatever the
  store, the intent and the injected failures, a run leaves every other release untouched; a
  release under the pinned key without the adapter's owner label keeps its name, chart,
  version, status, revision and every label but the two ownership labels, and is not changed at
  all unless adoption was requested and the release is exactly the pinned one.\<close>

theorem helm_never_takes_over:
  assumes "hi_Client h = Some (memoryClient ctx)"
    and "HelmInstaller_Ensure cx h i m = (m', out)"
  shows "(\<forall>k. k \<noteq> pinKey nvidiaConfig \<longrightarrow> fmlookup (m_rels m') k = fmlookup (m_rels m) k) \<and>
    (\<forall>r. fmlookup (m_rels m) (pinKey nvidiaConfig) = Some r \<and> \<not> ManagedByAdapter r \<longrightarrow>
       (\<exists>r'. fmlookup (m_rels m') (pinKey nvidiaConfig) = Some r' \<and> relabelled r r' \<and>
          (r' = r \<or> in_AdoptExisting i \<and> matchesPinnedRelease r nvidiaConfig)))"
proof -
  have "mem.ensured i m (m', out)"
    using mem.HelmInstaller_Ensure_sound [OF assms(1) refl, of i m cx] assms(2) by simp
  then show ?thesis by (auto simp: mem.ensured_def memView_def)
qed

theorem helm_never_takes_over_witness:
  "fmlookup (m_rels (fst (HelmInstaller_Ensure (\<lambda>_. None) exInstaller exIntent (exStore foreignRelease))))
     (pinKey nvidiaConfig) = Some foreignRelease"
proof -
  obtain m' out where run: "HelmInstaller_Ensure (\<lambda>_. None) exInstaller exIntent (exStore foreignRelease) = (m', out)"
    by (metis prod.exhaust)
  have "\<not> in_AdoptExisting exIntent" by (simp add: exIntent_def emptyIntent_def)
  with helm_never_takes_over [OF exInstaller_client run] run show ?thesis
    using exStore_lookup foreign_unmanaged by (metis fst_conv)
qed

text \<open>C2: the Helm installer's report is true of the store it leaves. Installed and Upgraded
  mean that the store holds an adapter-owned, deployed release at the pinned version; Adopted
  means it holds exactly the pinned release with the owner label; RolledBack means the deployed
  release is back at the last-known-good version; Failed and Skipped always carry an error and
  never the status succeeded.\<close>

theorem helm_report_truthful:
  assumes "hi_Client h = Some (memoryClient ctx)"
    and "HelmInstaller_Ensure cx h i m = (m', res, err)"
    and "fmlookup (m_rels m') (pinKey nvidiaConfig) = stored"
  shows "(ir_Action res \<in> {InstallInstalled, InstallUpgraded} \<longrightarrow>
           err = None \<and> (\<exists>r. stored = Some r \<and> ManagedByAdapter r \<and> hr_Status r = HelmStatusDeployed \<and>
             versionsEqual (hr_ChartVersion r) NVIDIAChartVersion \<and> ir_Observed res = hr_ChartVersion r)) \<and>
    (ir_Action res = InstallAdopted \<longrightarrow>
       err = None \<and> (\<exists>r. stored = Some r \<and> ManagedByAdapter r \<and> matchesPinnedRelease r nvidiaConfig)) \<and>
    (ir_Action res = InstallRolledBack \<longrightarrow>
       err = None \<and> (\<exists>r. stored = Some r \<and> hr_Status r = HelmStatusDeployed \<and>
         (ir_LastKnownGood res = '''' \<or> versionsEqual (hr_ChartVersion r) (ir_LastKnownGood res)))) \<and>
    (ir_Action res \<in> {InstallFailed, InstallSkipped} \<longrightarrow> err \<noteq> None \<and> ir_OpStatus res \<noteq> OpSucceeded)"
proof -
  have "mem.ensured i m (m', res, err)"
    using mem.HelmInstaller_Ensure_sound [OF assms(1) refl, of i m cx] assms(2) by simp
  then have "mem.truthful m' (res, err)" by (simp add: mem.ensured_def)
  then show ?thesis using assms(3) by (auto simp: mem.truthful_def memView_def atPin_def)
qed

theorem helm_report_truthful_witness:
  "\<exists>m' res err r. HelmInstaller_Ensure (\<lambda>_. None) exInstaller exIntent newMemoryHelmClient = (m', res, err) \<and>
     ir_Action res = InstallInstalled \<and> err = None \<and>
     fmlookup (m_rels m') (pinKey nvidiaConfig) = Some r \<and> ManagedByAdapter r"
proof -
  obtain m' res err where run: "HelmInstaller_Ensure (\<lambda>_. None) exInstaller exIntent newMemoryHelmClient = (m', res, err)"
    by (metis prod_cases3)
  have "ir_Action (fst (snd (HelmInstaller_Ensure (\<lambda>_. None) exInstaller exIntent newMemoryHelmClient))) = InstallInstalled"
    by code_simp
  with run have "ir_Action res = InstallInstalled" by simp
  with helm_report_truthful [OF exInstaller_client run refl] run show ?thesis by blast
qed

text \<open>C4: one run of the installer makes at most the configured number of upgrade attempts
  (two by default), however the client fails.\<close>

theorem helm_attempts_bounded:
  assumes "hi_Client h = Some (memoryClient ctx)"
  shows "m_Upgrades (fst (HelmInstaller_Ensure cx h i m)) \<le>
    m_Upgrades m + (if hi_MaxAttempts h > 0 then hi_MaxAttempts h else 2)"
  using Ensure_upgrades [OF assms, of cx i m] unfolding attempts_def defaultReleaseAttempts_def .

theorem helm_attempts_bounded_witness:
  "m_Upgrades (fst (HelmInstaller_Ensure (\<lambda>_. None) exInstaller exIntent (exStore foreignRelease))) \<le> 2"
  using helm_attempts_bounded [OF exInstaller_client, of "\<lambda>_. None" exIntent "exStore foreignRelease"]
  by (simp add: exInstaller_def exStore_def newMemoryHelmClient_def)

text \<open>C3: the installer converges. After a run that installed, upgraded or adopted the release,
  a second run with the same intent and a live context changes nothing in the client and
  reports a no-op, provided the recorded version is well formed.\<close>

theorem helm_converges:
  assumes "hi_Client h = Some (memoryClient ctx)"
    and "HelmInstaller_Ensure cx h i m = (m', res, err)"
    and "ir_Action res \<in> {InstallInstalled, InstallUpgraded, InstallAdopted}"
    and "ValidateReleaseVersion (ir_Observed res) = Inr ()" and "cx' m' = None"
  shows "\<exists>res'. HelmInstaller_Ensure cx' h i m' = (m', res', None) \<and>
    ir_Action res' = InstallNoop \<and> ir_OpStatus res' = OpNoop \<and> ir_Observed res' = ir_Observed res"
proof -
  have gates: "in_Vendor i \<noteq> VendorAMD" "DefaultInstallConfig (in_Vendor i) = Inr nvidiaConfig"
      "pr_Skew (snd (ApplyVersionPolicy i nvidiaConfig)) \<noteq> SkewInvalidConfig"
    using Ensure_gates [OF assms(1), of cx i m] assms(2,3) by auto
  have "mem.ensured i m (m', res, err)"
    using mem.HelmInstaller_Ensure_sound [OF assms(1) refl, of i m cx] assms(2) by simp
  then have "mem.truthful m' (res, err)" by (simp add: mem.ensured_def)
  with assms(3) obtain r where r: "fmlookup (m_rels m') (pinKey nvidiaConfig) = Some r" "ManagedByAdapter r"
      "versionsEqual (hr_ChartVersion r) NVIDIAChartVersion" "ir_Observed res = hr_ChartVersion r"
    by (auto simp: mem.truthful_def memView_def atPin_def matchesPinnedRelease_def)
  have "ValidateReleaseVersion (hr_ChartVersion r) = Inr ()" using assms(4) r(4) by simp
  from Ensure_noop [where cx = cx' and m = m', OF assms(1,5) gates r(1-3) this] r(4) show ?thesis by auto
qed

theorem helm_converges_witness:
  "\<exists>m' res'. m' = fst (HelmInstaller_Ensure (\<lambda>_. None) exInstaller exIntent newMemoryHelmClient) \<and>
     HelmInstaller_Ensure (\<lambda>_. None) exInstaller exIntent m' = (m', res', None) \<and> ir_Action res' = InstallNoop"
proof -
  let ?run = "HelmInstaller_Ensure (\<lambda>_. None) exInstaller exIntent newMemoryHelmClient"
  obtain m' res err where run: "?run = (m', res, err)" by (metis prod_cases3)
  have "ir_Action (fst (snd ?run)) = InstallInstalled" by code_simp
  moreover have "ValidateReleaseVersion (ir_Observed (fst (snd ?run))) = Inr ()" by code_simp
  ultimately have "ir_Action res \<in> {InstallInstalled, InstallUpgraded, InstallAdopted}"
      "ValidateReleaseVersion (ir_Observed res) = Inr ()" using run by simp_all
  from helm_converges [OF exInstaller_client run this, of "\<lambda>_. None"] run show ?thesis by auto
qed

end
