(* ===== verification/Cleanup.thy ===== *)
theory Cleanup
  imports HelmFacts
begin

text \<open>
  pkg/lifecycle/cleanup.go: deciding and carrying out the removal of a release and of the
  dataplane objects around it. A ResourceIndex is a record of operations on a state, as a
  HelmClient is; \<open>MemoryResourceIndex\<close> and \<open>ClientResourceIndex\<close> are the two
  implementations of the repository, the second over a cluster client given as a parameter.
\<close>

subsection \<open>Data\<close>

definition CleanupFinalizer :: string where [const_defs]: "CleanupFinalizer = ''lifecycle.opi.nvidia.com/cleanup''"
definition RemovalPolicyAnnotation :: string where
  [const_defs]: "RemovalPolicyAnnotation = ''lifecycle.opi.nvidia.com/removal-policy''"
definition AdoptionPolicyAnnotation :: string where
  [const_defs]: "AdoptionPolicyAnnotation = ''lifecycle.opi.nvidia.com/adoption-policy''"
definition RemovalRetain :: string where [const_defs]: "RemovalRetain = ''retain''"
definition RemovalDeleteOwned :: string where [const_defs]: "RemovalDeleteOwned = ''delete-owned''"
definition alreadyGoneReason :: string where [const_defs]: "alreadyGoneReason = ''release is already gone''"

datatype CleanupAction = CleanupZero | CleanupDeleted | CleanupPreserved | CleanupSkipped | CleanupFailed | CleanupGone

record ObjectRef =
  or_Group :: string
  or_Version :: string
  or_Kind :: string
  or_Namespace :: string
  or_Name :: string
  or_Owner :: string
  or_Tenant :: string
  or_Referenced :: bool

definition refKey :: "ObjectRef \<Rightarrow> string" where
  "refKey o' = or_Namespace o' @ ''/'' @ or_Kind o' @ ''/'' @ or_Name o'"

record CleanupRefs =
  cr_OtherTenants :: int
  cr_OPI :: "ObjectRef list"
  cr_Dataplane :: "ObjectRef list"
  cr_CRDDependents :: int

definition emptyRefs :: CleanupRefs where
  "emptyRefs = \<lparr>cr_OtherTenants = 0, cr_OPI = [], cr_Dataplane = [], cr_CRDDependents = 0\<rparr>"

text \<open>The interface: listing returns what it found even when it fails, as the code does.\<close>

record 'x ResourceIndex =
  ri_Refs :: "'x \<Rightarrow> string \<Rightarrow> string \<Rightarrow> 'x \<times> CleanupRefs \<times> lcm_err option"
  ri_DeleteDataplane :: "'x \<Rightarrow> ObjectRef \<Rightarrow> 'x \<times> lcm_err option"

record MemoryResourceIndex =
  mi_Tenants :: "string list"
  mi_OPI :: "ObjectRef list"
  mi_Dataplane :: "ObjectRef list"
  mi_CRDDependents :: int
  mi_Deleted :: "ObjectRef list"
  mi_FlipReferenced :: bool
  mi_looks :: int

record CleanupPlan =
  cp_Ownership :: OwnershipClass
  cp_Removal :: string
  cp_Adoption :: string
  cp_Action :: CleanupAction
  cp_Reason :: string
  cp_DeleteRelease :: bool
  cp_DeleteCRDs :: bool
  cp_DeleteDataplane :: "ObjectRef list"
  cp_Skipped :: "string list"

record CleanupResult =
  cu_Action :: CleanupAction
  cu_Ownership :: OwnershipKind
  cu_Reason :: string
  cu_Release :: string
  cu_DeletedCRDs :: bool
  cu_DeletedPlane :: "string list"
  cu_Skipped :: "string list"
  cu_Failure :: string
  cu_OpStatus :: OpStatus

subsection \<open>MemoryResourceIndex\<close>

definition mri_Refs ::
    "MemoryResourceIndex \<Rightarrow> string \<Rightarrow> string \<Rightarrow> MemoryResourceIndex \<times> CleanupRefs \<times> lcm_err option" where
  "mri_Refs m exceptConfig releaseNamespace =
     (let m' = m\<lparr>mi_looks := mi_looks m + 1\<rparr> in
      (m', \<lparr>cr_OtherTenants = int (length (filter (\<lambda>name. name \<noteq> '''' \<and> name \<noteq> exceptConfig) (mi_Tenants m'))),
            cr_OPI = mi_OPI m',
            cr_Dataplane = map (\<lambda>d. if mi_FlipReferenced m' \<and> mi_looks m' > 1 then d\<lparr>or_Referenced := True\<rparr> else d)
              (mi_Dataplane m'),
            cr_CRDDependents = mi_CRDDependents m'\<rparr>, None))"

definition mri_DeleteDataplane :: "MemoryResourceIndex \<Rightarrow> ObjectRef \<Rightarrow> MemoryResourceIndex \<times> lcm_err option" where
  "mri_DeleteDataplane m ref =
     (m\<lparr>mi_Dataplane := filter (\<lambda>d. refKey d \<noteq> refKey ref) (mi_Dataplane m),
        mi_Deleted := mi_Deleted m @ filter (\<lambda>d. refKey d = refKey ref) (mi_Dataplane m)\<rparr>, None)"

definition memoryIndex :: "MemoryResourceIndex ResourceIndex" where
  "memoryIndex = \<lparr>ri_Refs = mri_Refs, ri_DeleteDataplane = mri_DeleteDataplane\<rparr>"

subsection \<open>Deciding\<close>

definition parsePolicy :: "string \<Rightarrow> string \<Rightarrow> string \<times> string" where
  "parsePolicy raw defaultValue =
     (let v = ToLower (TrimSpace raw) in
      if v = '''' then (defaultValue, '''')
      else if v = RemovalRetain \<or> v = RemovalDeleteOwned then (v, '''')
      else (RemovalRetain, ''invalid removal policy; defaulting to retain''))"

definition policiesFrom :: "DpuOperatorConfig option \<Rightarrow> string \<times> string \<times> string" where
  "policiesFrom cfg =
     (let ann = (case cfg of None \<Rightarrow> fmempty | Some c \<Rightarrow> cfgAnnotations c);
          (removal, extra) = parsePolicy (sget ann RemovalPolicyAnnotation) RemovalRetain;
          (adoption, note) = parsePolicy (sget ann AdoptionPolicyAnnotation) RemovalRetain
      in (removal, adoption, if extra \<noteq> '''' then extra else note))"

definition referencedByOPI :: "ObjectRef \<Rightarrow> ObjectRef list \<Rightarrow> bool" where
  "referencedByOPI d opi \<longleftrightarrow> or_Referenced d \<or>
     list_ex (\<lambda>o'. or_Name o' = or_Name d \<and> (or_Namespace o' = '''' \<or> or_Namespace o' = or_Namespace d) \<or>
        or_Name o' \<noteq> '''' \<and> EqualFold (or_Kind o') (or_Kind d) \<and> or_Namespace o' = or_Namespace d \<and>
          or_Name o' = or_Name d) opi"

definition dataplaneStillRequired :: "CleanupRefs \<Rightarrow> string \<Rightarrow> bool" where
  "dataplaneStillRequired refs ns =
     list_ex (\<lambda>d. or_Namespace d = ns \<and> (or_Referenced d \<or> referencedByOPI d (cr_OPI refs))) (cr_Dataplane refs)"

definition emptyPlan :: "string \<Rightarrow> string \<Rightarrow> CleanupPlan" where
  "emptyPlan removal adoption =
     \<lparr>cp_Ownership = ownershipClass OwnershipZero '''' '''' '''', cp_Removal = removal, cp_Adoption = adoption,
      cp_Action = CleanupZero, cp_Reason = '''', cp_DeleteRelease = False, cp_DeleteCRDs = False,
      cp_DeleteDataplane = [], cp_Skipped = []\<rparr>"

text \<open>One round of the dataplane loop.\<close>

definition planDataplane :: "string \<Rightarrow> ObjectRef list \<Rightarrow> ObjectRef \<Rightarrow> CleanupPlan \<Rightarrow> CleanupPlan" where
  "planDataplane ns opi d plan =
     (let skip = (\<lambda>why. plan\<lparr>cp_Skipped := cp_Skipped plan @ [''dataplane '' @ refKey d @ why]\<rparr>) in
      if or_Namespace d \<noteq> ns then skip '': different namespace''
      else if or_Owner d \<noteq> '''' \<and> or_Owner d \<noteq> ReleaseOwner then skip '': not owned''
      else if referencedByOPI d opi then skip '': still referenced''
      else plan\<lparr>cp_DeleteDataplane := cp_DeleteDataplane plan @ [d]\<rparr>)"

definition DecideCleanup ::
    "HelmRelease \<Rightarrow> string \<Rightarrow> string \<Rightarrow> CleanupRefs \<Rightarrow> bool \<Rightarrow> CleanupPlan" where
  "DecideCleanup rel removal adoption refs allowCRD =
     (let plan = emptyPlan removal adoption in
      if hr_Name rel = '''' then
        plan\<lparr>cp_Ownership := ownershipClass OwnershipInvalid '''' '''' ''release is absent'',
             cp_Action := CleanupGone, cp_Reason := alreadyGoneReason\<rparr>
      else
        let class = ClassifyReleaseOwnership rel; plan = plan\<lparr>cp_Ownership := class\<rparr> in
        if oc_Kind class = OwnershipInvalid then
          plan\<lparr>cp_Action := CleanupFailed, cp_Reason := oc_Reason class,
               cp_Skipped := cp_Skipped plan @ [''release: '' @ oc_Reason class]\<rparr>
        else if oc_Kind class = OwnershipExternal then
          plan\<lparr>cp_Action := CleanupPreserved, cp_Reason := oc_Reason class,
               cp_Skipped := cp_Skipped plan @ [''release: externally owned'']\<rparr>
        else
          let allow = (if oc_Kind class = OwnershipAdopted then adoption = RemovalDeleteOwned
                       else removal = RemovalDeleteOwned) in
          if \<not> allow then
            plan\<lparr>cp_Action := CleanupPreserved, cp_Reason := ''removal policy retains the release'',
                 cp_Skipped := cp_Skipped plan @ [''release: policy is retain'']\<rparr>
          else
            let plan = plan\<lparr>cp_DeleteRelease := True\<rparr>;
                shared = (cr_OtherTenants refs > 0 \<or> cr_CRDDependents refs > 0 \<or> length (cr_OPI refs) > 0);
                plan = (if allowCRD \<and> \<not> shared \<and> \<not> dataplaneStillRequired refs (hr_Namespace rel)
                        then plan\<lparr>cp_DeleteCRDs := True\<rparr>
                        else plan\<lparr>cp_Skipped := cp_Skipped plan @ [''crds: shared or still required'']\<rparr>);
                plan = fold (planDataplane (hr_Namespace rel) (cr_OPI refs)) (cr_Dataplane refs) plan
            in plan\<lparr>cp_Action := CleanupDeleted,
                    cp_Reason := ''verified ownership and delete-owned policy''\<rparr>)"

definition stillProtected :: "ObjectRef \<Rightarrow> CleanupRefs \<Rightarrow> bool" where
  "stillProtected d refs \<longleftrightarrow>
     list_ex (\<lambda>cur. refKey cur = refKey d \<and> referencedByOPI cur (cr_OPI refs)) (cr_Dataplane refs) \<or>
     referencedByOPI d (cr_OPI refs)"

subsection \<open>Carrying out\<close>

text \<open>
  The fields of LifecycleManager that cleanup reads, with the state of both collaborators
  threaded: \<open>'s\<close> for the Helm client, \<open>'x\<close> for the resource index the manager
  selects.
\<close>

definition startResult :: CleanupResult where
  "startResult = \<lparr>cu_Action = CleanupPreserved, cu_Ownership = OwnershipZero, cu_Reason = '''', cu_Release = '''',
     cu_DeletedCRDs = False, cu_DeletedPlane = [], cu_Skipped = [], cu_Failure = '''', cu_OpStatus = OpSucceeded\<rparr>"

text \<open>The deletion loop over the planned dataplane objects: deleted keys, and what was skipped.\<close>

fun deletePlane ::
    "'x ResourceIndex \<Rightarrow> CleanupRefs \<Rightarrow> ObjectRef list \<Rightarrow> 'x \<Rightarrow> string list \<Rightarrow> string list \<Rightarrow>
     'x \<times> string list \<times> string list" where
  "deletePlane idx live [] x deleted skipped = (x, deleted, skipped)"
| "deletePlane idx live (d # ds) x deleted skipped =
     (if stillProtected d live then
        deletePlane idx live ds x deleted (skipped @ [''dataplane '' @ refKey d @ '': reference appeared''])
      else
        let (x1, err) = ri_DeleteDataplane idx x d in
        case err of Some e \<Rightarrow>
            deletePlane idx live ds x1 deleted (skipped @ [''dataplane '' @ refKey d @ '': '' @ errText e])
        | None \<Rightarrow> deletePlane idx live ds x1 (deleted @ [refKey d]) skipped)"

text \<open>The part of the cleanup that runs once the plan says delete: re-read, re-classify, uninstall, sweep.\<close>

definition executePlan ::
    "'s HelmClient \<Rightarrow> 'x ResourceIndex \<Rightarrow> InstallConfig \<Rightarrow> string \<Rightarrow> CleanupPlan \<Rightarrow> CleanupResult \<Rightarrow> 's \<Rightarrow> 'x \<Rightarrow>
     's \<times> 'x \<times> CleanupResult" where
  "executePlan c idx install except plan out s x =
     (let (s1, actual, err) = getPinned c s install in
      if err = Some ErrReleaseNotFound then
        (s1, x, out\<lparr>cu_Action := CleanupGone, cu_Reason := ''release disappeared before deletion''\<rparr>)
      else case err of Some e \<Rightarrow>
        (s1, x, out\<lparr>cu_Action := CleanupFailed, cu_Failure := errText e, cu_OpStatus := OpFailed\<rparr>)
      | None \<Rightarrow>
        let again = ClassifyReleaseOwnership actual in
        if oc_Kind again \<noteq> oc_Kind (cp_Ownership plan) \<or> \<not> AllowsDelete again then
          (s1, x, out\<lparr>cu_Action := CleanupFailed, cu_Ownership := oc_Kind again,
                      cu_Reason := ''ownership changed before deletion; preserving'',
                      cu_Failure := errText ErrCleanupChanged, cu_OpStatus := OpFailed,
                      cu_Skipped := cu_Skipped out @ [''release: ownership changed'']\<rparr>)
        else
          let (s2, _, uerr) = hc_Uninstall c s1 install in
          case uerr of Some e \<Rightarrow>
            (if e = ErrReleaseNotFound then
               (s2, x, out\<lparr>cu_Action := CleanupGone, cu_Reason := alreadyGoneReason\<rparr>)
             else
               (s2, x, out\<lparr>cu_Action := CleanupFailed, cu_Failure := errText e,
                           cu_Reason := ''uninstall failed; release preserved'', cu_OpStatus := OpFailed\<rparr>))
          | None \<Rightarrow>
            let (x1, live, _) = ri_Refs idx x except (ic_Namespace install);
                (x2, deleted, skipped) = deletePlane idx live (cp_DeleteDataplane plan) x1 [] (cu_Skipped out)
            in (s2, x2, out\<lparr>cu_Action := CleanupDeleted, cu_DeletedCRDs := cp_DeleteCRDs plan,
                            cu_DeletedPlane := deleted, cu_Skipped := skipped, cu_OpStatus := OpSucceeded\<rparr>))"

definition CleanupInstallations ::
    "'s HelmClient option \<Rightarrow> 'x ResourceIndex \<Rightarrow> bool \<Rightarrow> DpuOperatorConfig option \<Rightarrow> 's \<Rightarrow> 'x \<Rightarrow> 's \<times> 'x \<times> CleanupResult" where
  "CleanupInstallations helm idx allowCRD cfg s x =
     (let (removal, adoption, note) = policiesFrom cfg;
          except = (case cfg of None \<Rightarrow> '''' | Some c \<Rightarrow> cfgName c);
          out = startResult
      in case helm of None \<Rightarrow>
        (s, x, out\<lparr>cu_Action := CleanupFailed, cu_Ownership := OwnershipInvalid,
                   cu_Reason := ''ownership cannot be verified without a helm client'',
                   cu_Failure := errText ErrCleanupOwnership, cu_OpStatus := OpFailed,
                   cu_Skipped := [''release: helm client is not configured'']\<rparr>)
      | Some c \<Rightarrow>
        case DefaultInstallConfig VendorNVIDIA of Inl e \<Rightarrow>
          (s, x, out\<lparr>cu_Action := CleanupFailed, cu_Failure := errText e, cu_OpStatus := OpFailed\<rparr>)
        | Inr install \<Rightarrow>
          let (s1, rel, getErr) = getPinned c s install in
          if getErr = Some ErrReleaseNotFound then
            (s1, x, out\<lparr>cu_Action := CleanupGone, cu_Reason := alreadyGoneReason,
                        cu_Release := releaseKey (ic_Namespace install) (ic_ReleaseName install)\<rparr>)
          else case getErr of Some e \<Rightarrow>
            (s1, x, out\<lparr>cu_Action := CleanupFailed, cu_Failure := errText e,
                        cu_Reason := ''could not read the release'', cu_OpStatus := OpFailed\<rparr>)
          | None \<Rightarrow>
            let (x1, refs, refErr) = ri_Refs idx x except (ic_Namespace install) in
            case refErr of Some e \<Rightarrow>
              (s1, x1, out\<lparr>cu_Action := CleanupFailed, cu_Ownership := oc_Kind (ClassifyReleaseOwnership rel),
                           cu_Failure := errText e, cu_Reason := ''could not list dependents; preserving'',
                           cu_OpStatus := OpFailed, cu_Skipped := [''dependents: lookup failed'']\<rparr>)
            | None \<Rightarrow>
              let plan = DecideCleanup rel removal adoption refs allowCRD;
                  plan = (if note \<noteq> '''' then plan\<lparr>cp_Skipped := cp_Skipped plan @ [note]\<rparr> else plan);
                  out = out\<lparr>cu_Ownership := oc_Kind (cp_Ownership plan), cu_Reason := cp_Reason plan,
                            cu_Release := hr_Namespace rel @ ''/'' @ hr_Name rel, cu_Skipped := cp_Skipped plan\<rparr>
              in if \<not> cp_DeleteRelease plan then
                   (s1, x1, if cp_Action plan = CleanupFailed then
                              out\<lparr>cu_Action := CleanupFailed, cu_Failure := errText ErrCleanupOwnership,
                                  cu_OpStatus := OpFailed\<rparr>
                            else out\<lparr>cu_Action := cp_Action plan\<rparr>)
                 else executePlan c idx install except plan out s1 x1)"

subsection \<open>Contracts of the collaborators\<close>

text \<open>A client whose uninstall removes at most the pinned release, and only when its ownership is verified.\<close>

locale helm_uninstaller = helm_client c view cfg
  for c :: "'s HelmClient" and view :: "'s \<Rightarrow> string \<Rightarrow> HelmRelease option" and cfg :: InstallConfig +
  assumes uninstall_ok: "hc_Uninstall c s cfg = (s', rel, None) \<Longrightarrow>
      (\<exists>r. view s (pinKey cfg) = Some r \<and> AllowsDelete (ClassifyReleaseOwnership r)) \<and>
      view s' = (view s)(pinKey cfg := None)"
    and uninstall_err: "hc_Uninstall c s cfg = (s', rel, Some e) \<Longrightarrow> view s' = view s"

text \<open>An index whose listing changes no object and whose delete removes at most the objects with the given key.\<close>

locale resource_index =
  fixes idx :: "'x ResourceIndex"
    and plane :: "'x \<Rightarrow> ObjectRef list"
  assumes refs_plane: "ri_Refs idx x ex ns = (x', refs, err) \<Longrightarrow> plane x' = plane x"
    and delete_plane: "ri_DeleteDataplane idx x d = (x', err) \<Longrightarrow>
      plane x' = plane x \<or> plane x' = filter (\<lambda>o'. refKey o' \<noteq> refKey d) (plane x)"
begin

lemma deletePlane_sound:
  assumes "deletePlane idx live ds x del sk = (x', del', sk')"
  shows "set (plane x') \<subseteq> set (plane x) \<and>
    (\<forall>o' \<in> set (plane x) - set (plane x'). \<exists>d \<in> set ds. refKey d = refKey o' \<and> \<not> stillProtected d live) \<and>
    set del' \<subseteq> set del \<union> refKey ` {d \<in> set ds. \<not> stillProtected d live}"
  using assms
proof (induction ds arbitrary: x del sk)
  case Nil
  then show ?case by simp
next
  case (Cons d ds)
  show ?case
  proof (cases "stillProtected d live")
    case True
    with Cons.prems have "deletePlane idx live ds x del (sk @ [''dataplane '' @ refKey d @ '': reference appeared'']) = (x', del', sk')"
      by simp
    from Cons.IH [OF this] show ?thesis by auto
  next
    case False
    obtain x1 err where r: "ri_DeleteDataplane idx x d = (x1, err)" by (metis prod.exhaust)
    have p: "set (plane x1) \<subseteq> set (plane x)" "\<forall>o' \<in> set (plane x) - set (plane x1). refKey o' = refKey d"
      using delete_plane [OF r] by auto
    obtain del1 sk1 where rec: "deletePlane idx live ds x1 del1 sk1 = (x', del', sk')"
        and d1: "set del1 \<subseteq> set del \<union> {refKey d}"
      using Cons.prems False r by (cases err) auto
    note ih = Cons.IH [OF rec]
    have "set (plane x') \<subseteq> set (plane x)" using ih p(1) by blast
    moreover have "\<exists>e \<in> set (d # ds). refKey e = refKey o' \<and> \<not> stillProtected e live"
      if "o' \<in> set (plane x) - set (plane x')" for o'
    proof (cases "o' \<in> set (plane x1)")
      case True
      with ih that show ?thesis by auto
    next
      case False
      with p(2) that have "refKey o' = refKey d" by blast
      with \<open>\<not> stillProtected d live\<close> show ?thesis by auto
    qed
    moreover have "set del' \<subseteq> set del \<union> refKey ` {e \<in> set (d # ds). \<not> stillProtected e live}"
    proof -
      have "refKey ` {e \<in> set (d # ds). \<not> stillProtected e live} =
          insert (refKey d) (refKey ` {e \<in> set ds. \<not> stillProtected e live})"
        using False by auto
      with ih d1 show ?thesis by blast
    qed
    ultimately show ?thesis by blast
  qed
qed

end

lemma planDataplane_fold:
  "cp_DeleteDataplane (fold (planDataplane ns opi) ds plan) =
     cp_DeleteDataplane plan @ filter (\<lambda>d. or_Namespace d = ns \<and> (or_Owner d = '''' \<or> or_Owner d = ReleaseOwner) \<and>
       \<not> referencedByOPI d opi) ds"
  "cp_DeleteRelease (fold (planDataplane ns opi) ds plan) = cp_DeleteRelease plan"
  "cp_Ownership (fold (planDataplane ns opi) ds plan) = cp_Ownership plan"
  by (induction ds arbitrary: plan) (simp_all add: planDataplane_def Let_def)

text \<open>What a deletion may rest on: verified ownership and a delete-owned policy of the matching kind.\<close>

definition deletable :: "HelmRelease \<Rightarrow> string \<Rightarrow> string \<Rightarrow> bool" where
  "deletable rel removal adoption \<longleftrightarrow>
     (case oc_Kind (ClassifyReleaseOwnership rel) of OwnershipController \<Rightarrow> removal = RemovalDeleteOwned
      | OwnershipAdopted \<Rightarrow> adoption = RemovalDeleteOwned | _ \<Rightarrow> False)"

lemma ClassifyReleaseOwnership_kinds: "oc_Kind (ClassifyReleaseOwnership rel) \<noteq> OwnershipZero"
  by (simp add: ClassifyReleaseOwnership_def ownershipClass_def Let_def)

lemma DecideCleanup_delete:
  "cp_DeleteRelease (DecideCleanup rel removal adoption refs allowCRD) \<longleftrightarrow>
     hr_Name rel \<noteq> '''' \<and> deletable rel removal adoption"
  using ClassifyReleaseOwnership_kinds [of rel]
  by (cases "oc_Kind (ClassifyReleaseOwnership rel)")
    (simp_all add: DecideCleanup_def Let_def emptyPlan_def planDataplane_fold deletable_def)

lemma DecideCleanup_dataplane:
  "d \<in> set (cp_DeleteDataplane (DecideCleanup rel removal adoption refs allowCRD)) \<Longrightarrow>
     deletable rel removal adoption \<and> d \<in> set (cr_Dataplane refs) \<and> or_Namespace d = hr_Namespace rel \<and>
     (or_Owner d = '''' \<or> or_Owner d = ReleaseOwner) \<and> \<not> referencedByOPI d (cr_OPI refs)"
  using ClassifyReleaseOwnership_kinds [of rel]
  by (cases "oc_Kind (ClassifyReleaseOwnership rel)")
    (auto simp: DecideCleanup_def Let_def emptyPlan_def planDataplane_fold deletable_def split: if_splits)

lemma DecideCleanup_ownership:
  "hr_Name rel \<noteq> '''' \<Longrightarrow> cp_Ownership (DecideCleanup rel removal adoption refs allowCRD) = ClassifyReleaseOwnership rel"
  by (simp add: DecideCleanup_def Let_def emptyPlan_def planDataplane_fold)

lemma DecideCleanup_skip_action:
  "\<not> cp_DeleteRelease (DecideCleanup rel removal adoption refs allowCRD) \<Longrightarrow>
     cp_Action (DecideCleanup rel removal adoption refs allowCRD) \<in> {CleanupGone, CleanupFailed, CleanupPreserved}"
  by (auto simp: DecideCleanup_def Let_def emptyPlan_def planDataplane_fold split: if_splits)

subsection \<open>Soundness of a cleanup run\<close>

locale cleanup_env = helm_uninstaller c view nvidiaConfig + resource_index idx plane
  for c :: "'s HelmClient" and view :: "'s \<Rightarrow> string \<Rightarrow> HelmRelease option"
    and idx :: "'x ResourceIndex" and plane :: "'x \<Rightarrow> ObjectRef list"
begin

text \<open>An object the sweep may delete: planned at the first look, unprotected at the second.\<close>

definition sweepable :: "HelmRelease \<Rightarrow> CleanupRefs \<Rightarrow> CleanupRefs \<Rightarrow> ObjectRef \<Rightarrow> bool" where
  "sweepable rel refs live d \<longleftrightarrow> d \<in> set (cr_Dataplane refs) \<and> or_Namespace d = hr_Namespace rel \<and>
     (or_Owner d = '''' \<or> or_Owner d = ReleaseOwner) \<and> \<not> referencedByOPI d (cr_OPI refs) \<and> \<not> stillProtected d live"

definition cleaned :: "string \<Rightarrow> string \<Rightarrow> string \<Rightarrow> 's \<Rightarrow> 'x \<Rightarrow> 's \<times> 'x \<times> CleanupResult \<Rightarrow> bool" where
  "cleaned removal adoption except s x res \<longleftrightarrow>
     (case res of (s', x', out) \<Rightarrow>
        (cu_OpStatus out = OpFailed \<longleftrightarrow> cu_Action out = CleanupFailed) \<and>
        (if cu_Action out = CleanupDeleted then
           \<exists>rel x0 refs x1 live err.
             view s (pinKey nvidiaConfig) = Some rel \<and> deletable rel removal adoption \<and>
             view s' = (view s)(pinKey nvidiaConfig := None) \<and>
             ri_Refs idx x except DefaultNamespace = (x0, refs, None) \<and>
             ri_Refs idx x0 except DefaultNamespace = (x1, live, err) \<and>
             set (plane x') \<subseteq> set (plane x) \<and>
             (\<forall>o' \<in> set (plane x) - set (plane x'). \<exists>d. refKey d = refKey o' \<and> sweepable rel refs live d) \<and>
             set (cu_DeletedPlane out) \<subseteq> refKey ` {d. sweepable rel refs live d}
         else view s' = view s \<and> plane x' = plane x \<and> cu_DeletedPlane out = []))"

lemma cleaned_keep:
  "view s' = view s \<Longrightarrow> plane x' = plane x \<Longrightarrow> cu_Action out \<noteq> CleanupDeleted \<Longrightarrow> cu_DeletedPlane out = [] \<Longrightarrow>
     (cu_OpStatus out = OpFailed \<longleftrightarrow> cu_Action out = CleanupFailed) \<Longrightarrow> cleaned removal adoption except s x (s', x', out)"
  by (simp add: cleaned_def)

lemma executePlan_sound:
  assumes plan: "cp_DeleteDataplane plan = cp_DeleteDataplane (DecideCleanup rel removal adoption refs allow)"
    and dl: "deletable rel removal adoption"
    and rel: "view s (pinKey nvidiaConfig) = Some rel"
    and refs: "ri_Refs idx x0 except DefaultNamespace = (x, refs, None)"
    and out: "cu_OpStatus out = OpSucceeded" "cu_DeletedPlane out = []" 
    and vs: "view s0 = view s"
  shows "cleaned removal adoption except s0 x0 (executePlan c idx nvidiaConfig except plan out s x)"
proof -
  note px = refs_plane [OF refs]
  obtain s1 act err where g: "getPinned c s nvidiaConfig = (s1, act, err)" by (metis prod_cases3)
  note v1 = getPinned_view [OF g]
  consider "err = Some ErrReleaseNotFound" | e where "err = Some e" "e \<noteq> ErrReleaseNotFound"
    | "err = None" "oc_Kind (ClassifyReleaseOwnership act) \<noteq> oc_Kind (cp_Ownership plan) \<or>
        \<not> AllowsDelete (ClassifyReleaseOwnership act)"
    | "err = None" "\<not> (oc_Kind (ClassifyReleaseOwnership act) \<noteq> oc_Kind (cp_Ownership plan) \<or>
        \<not> AllowsDelete (ClassifyReleaseOwnership act))" by (cases err) blast+
  then show ?thesis
  proof cases
    case 4
    obtain s2 rel2 uerr where u: "hc_Uninstall c s1 nvidiaConfig = (s2, rel2, uerr)" by (metis prod_cases3)
    show ?thesis
    proof (cases uerr)
      case (Some e)
      with u uninstall_err have "view s2 = view s1" by blast
      with Some u 4 g v1 vs px out show ?thesis
        by (simp add: executePlan_def Let_def cleaned_keep)
    next
      case None
      obtain x1 live lerr where live: "ri_Refs idx x except DefaultNamespace = (x1, live, lerr)" by (metis prod_cases3)
      obtain x2 del sk where dp: "deletePlane idx live (cp_DeleteDataplane plan) x1 [] (cu_Skipped out) = (x2, del, sk)"
        by (metis prod_cases3)
      have p1: "plane x1 = plane x0" using refs_plane [OF live] px by simp
      have sw: "sweepable rel refs live d" if "d \<in> set (cp_DeleteDataplane plan)" "\<not> stillProtected d live" for d
        using DecideCleanup_dataplane that unfolding plan sweepable_def by blast
      have v2: "view s2 = (view s0)(pinKey nvidiaConfig := None)" using u None uninstall_ok v1 vs by metis
      have rel0: "view s0 (pinKey nvidiaConfig) = Some rel" using rel vs by simp
      note dps = deletePlane_sound [OF dp]
      define out' where "out' = out\<lparr>cu_Action := CleanupDeleted, cu_DeletedCRDs := cp_DeleteCRDs plan,
          cu_DeletedPlane := del, cu_Skipped := sk, cu_OpStatus := OpSucceeded\<rparr>"
      have run: "executePlan c idx nvidiaConfig except plan out s x = (s2, x2, out')"
        using None u 4 g live dp by (simp add: executePlan_def out'_def)
      have acts: "cu_Action out' = CleanupDeleted" "cu_OpStatus out' = OpSucceeded" "cu_DeletedPlane out' = del"
        by (simp_all add: out'_def)
      have swept: "\<exists>d. refKey d = refKey o' \<and> sweepable rel refs live d" if "o' \<in> set (plane x0) - set (plane x2)" for o'
        using dps that p1 sw by metis
      have sub: "set (plane x2) \<subseteq> set (plane x0)" using dps p1 by simp
      have dels: "set del \<subseteq> refKey ` {d. sweepable rel refs live d}" using dps sw by auto
      show ?thesis
        unfolding run cleaned_def prod.case acts
        using rel0 dl v2 refs live sub swept dels by auto
    qed
  qed (use g v1 vs px out in \<open>simp_all add: executePlan_def Let_def cleaned_keep\<close>)
qed

lemma CleanupInstallations_sound:
  assumes pol: "policiesFrom cfg = (removal, adoption, note)"
    and ex: "except = (case cfg of None \<Rightarrow> '''' | Some o' \<Rightarrow> cfgName o')"
  shows "cleaned removal adoption except s x (CleanupInstallations (Some c) idx allow cfg s x)"
proof -
  obtain s1 rel err where g: "getPinned c s nvidiaConfig = (s1, rel, err)" by (metis prod_cases3)
  note v1 = getPinned_view [OF g]
  obtain x1 refs rerr where r: "ri_Refs idx x except DefaultNamespace = (x1, refs, rerr)" by (metis prod_cases3)
  note p1 = refs_plane [OF r]
  define plan where "plan = (let p = DecideCleanup rel removal adoption refs allow in
      if note \<noteq> '''' then p\<lparr>cp_Skipped := cp_Skipped p @ [note]\<rparr> else p)"
  define out where "out = startResult\<lparr>cu_Ownership := oc_Kind (cp_Ownership plan), cu_Reason := cp_Reason plan,
      cu_Release := hr_Namespace rel @ ''/'' @ hr_Name rel, cu_Skipped := cp_Skipped plan\<rparr>"
  have fields: "cp_DeleteDataplane plan = cp_DeleteDataplane (DecideCleanup rel removal adoption refs allow)"
      "cp_DeleteRelease plan = cp_DeleteRelease (DecideCleanup rel removal adoption refs allow)"
      "cp_Action plan = cp_Action (DecideCleanup rel removal adoption refs allow)"
    by (simp_all add: plan_def Let_def)
  have outf: "cu_OpStatus out = OpSucceeded" "cu_DeletedPlane out = []"
    by (simp_all add: out_def startResult_def)
  have run: "CleanupInstallations (Some c) idx allow cfg s x =
     (if err = Some ErrReleaseNotFound then
        (s1, x, startResult\<lparr>cu_Action := CleanupGone, cu_Reason := alreadyGoneReason,
           cu_Release := releaseKey DefaultNamespace NVIDIAReleaseName\<rparr>)
      else case err of Some e \<Rightarrow>
        (s1, x, startResult\<lparr>cu_Action := CleanupFailed, cu_Failure := errText e,
           cu_Reason := ''could not read the release'', cu_OpStatus := OpFailed\<rparr>)
      | None \<Rightarrow> (case rerr of Some e \<Rightarrow>
          (s1, x1, startResult\<lparr>cu_Action := CleanupFailed, cu_Ownership := oc_Kind (ClassifyReleaseOwnership rel),
             cu_Failure := errText e, cu_Reason := ''could not list dependents; preserving'',
             cu_OpStatus := OpFailed, cu_Skipped := [''dependents: lookup failed'']\<rparr>)
        | None \<Rightarrow> if \<not> cp_DeleteRelease plan then
            (s1, x1, if cp_Action plan = CleanupFailed then
               out\<lparr>cu_Action := CleanupFailed, cu_Failure := errText ErrCleanupOwnership, cu_OpStatus := OpFailed\<rparr>
             else out\<lparr>cu_Action := cp_Action plan\<rparr>)
          else executePlan c idx nvidiaConfig except plan out s1 x1))"
    unfolding out_def plan_def CleanupInstallations_def Let_def pol ex [symmetric] prod.case option.case
      DefaultInstallConfig_nvidia sum.case g nvidiaConfig_fields r
    by (rule refl)
  consider "err = Some ErrReleaseNotFound" | e where "err = Some e" "e \<noteq> ErrReleaseNotFound"
    | e where "err = None" "rerr = Some e" | "err = None" "rerr = None" "\<not> cp_DeleteRelease plan"
    | "err = None" "rerr = None" "cp_DeleteRelease plan" by (cases err; cases rerr) blast+
  then show ?thesis
  proof cases
    case 1
    then show ?thesis unfolding run using v1 by (simp add: cleaned_keep startResult_def)
  next
    case 2
    then show ?thesis unfolding run using v1 by (simp add: cleaned_keep startResult_def)
  next
    case 3
    then show ?thesis unfolding run using v1 p1 by (simp add: cleaned_keep startResult_def)
  next
    case 4
    then have "cp_Action plan \<in> {CleanupGone, CleanupFailed, CleanupPreserved}"
      using DecideCleanup_skip_action fields by metis
    with 4 v1 p1 outf show ?thesis unfolding run by (auto intro!: cleaned_keep)
  next
    case 5
    have "view s1 (pinKey nvidiaConfig) = Some rel" using getPinned_ok g 5 by blast
    moreover have "deletable rel removal adoption" using 5(3) DecideCleanup_delete fields by metis
    moreover have "ri_Refs idx x except DefaultNamespace = (x1, refs, None)" using r 5(2) by simp
    ultimately have "cleaned removal adoption except s x (executePlan c idx nvidiaConfig except plan out s1 x1)"
      using executePlan_sound [OF fields(1) _ _ _ outf] v1 by metis
    with 5 show ?thesis unfolding run by simp
  qed
qed

end

subsection \<open>The in-memory collaborators keep the contracts\<close>

lemma mem_Uninstall_cases:
  assumes "requirePinnedConfig cfg = Inr u" and "mem_Uninstall m cfg = (m', rel, err)"
  shows "(err = None \<longrightarrow> (\<exists>r. fmlookup (m_rels m) (pinKey cfg) = Some r \<and> AllowsDelete (ClassifyReleaseOwnership r)) \<and>
      m_rels m' = fmdrop (pinKey cfg) (m_rels m)) \<and> (err \<noteq> None \<longrightarrow> m_rels m' = m_rels m)"
  using assms by (auto simp: mem_Uninstall_def Let_def split: option.splits if_splits)

interpretation mem_un: helm_uninstaller "memoryClient ctx" memView nvidiaConfig
proof unfold_locales
  fix s s' rel
  assume "hc_Uninstall (memoryClient ctx) s nvidiaConfig = (s', rel, None)"
  then have "mem_Uninstall s nvidiaConfig = (s', rel, None)" by (simp add: memoryClient_def)
  from mem_Uninstall_cases [OF requirePinnedConfig_nvidia this]
  show "(\<exists>r. memView s (pinKey nvidiaConfig) = Some r \<and> AllowsDelete (ClassifyReleaseOwnership r)) \<and>
      memView s' = (memView s)(pinKey nvidiaConfig := None)"
    by (auto simp: memView_def fun_eq_iff)
next
  fix s s' rel e
  assume "hc_Uninstall (memoryClient ctx) s nvidiaConfig = (s', rel, Some e)"
  then have "mem_Uninstall s nvidiaConfig = (s', rel, Some e)" by (simp add: memoryClient_def)
  from mem_Uninstall_cases [OF requirePinnedConfig_nvidia this] show "memView s' = memView s"
    by (simp add: memView_def fun_eq_iff)
qed

interpretation mem_idx: resource_index memoryIndex mi_Dataplane
  by unfold_locales (auto simp: memoryIndex_def mri_Refs_def mri_DeleteDataplane_def Let_def)

interpretation mem_cl: cleanup_env "memoryClient ctx" memView memoryIndex mi_Dataplane
  by unfold_locales

subsection \<open>Properties\<close>

definition asksDelete :: "DpuOperatorConfig option \<Rightarrow> string \<Rightarrow> bool" where
  "asksDelete cfg key \<longleftrightarrow> (\<exists>c. cfg = Some c \<and> ToLower (TrimSpace (sget (cfgAnnotations c) key)) = RemovalDeleteOwned)"

lemma parsePolicy_delete:
  "fst (parsePolicy raw RemovalRetain) = RemovalDeleteOwned \<longleftrightarrow> ToLower (TrimSpace raw) = RemovalDeleteOwned"
proof -
  have "RemovalRetain \<noteq> RemovalDeleteOwned" "RemovalDeleteOwned \<noteq> ''''" by (simp_all add: const_defs)
  then show ?thesis by (auto simp: parsePolicy_def Let_def)
qed

lemma policiesFrom_delete:
  assumes "policiesFrom cfg = (removal, adoption, note)"
  shows "removal = RemovalDeleteOwned \<longleftrightarrow> asksDelete cfg RemovalPolicyAnnotation"
    "adoption = RemovalDeleteOwned \<longleftrightarrow> asksDelete cfg AdoptionPolicyAnnotation"
proof -
  define ann where "ann = (case cfg of None \<Rightarrow> fmempty | Some c \<Rightarrow> cfgAnnotations c)"
  have e: "'''' \<noteq> RemovalDeleteOwned" by (simp add: const_defs)
  have ask: "ToLower (TrimSpace (sget ann key)) = RemovalDeleteOwned \<longleftrightarrow> asksDelete cfg key" for key
    using e by (cases cfg) (simp_all add: ann_def asksDelete_def)
  have "removal = fst (parsePolicy (sget ann RemovalPolicyAnnotation) RemovalRetain)"
      "adoption = fst (parsePolicy (sget ann AdoptionPolicyAnnotation) RemovalRetain)"
    using assms by (auto simp: policiesFrom_def Let_def ann_def split: prod.splits)
  then show "removal = RemovalDeleteOwned \<longleftrightarrow> asksDelete cfg RemovalPolicyAnnotation"
    "adoption = RemovalDeleteOwned \<longleftrightarrow> asksDelete cfg AdoptionPolicyAnnotation"
    by (simp_all add: parsePolicy_delete ask)
qed

lemma cleanup_memory:
  assumes "CleanupInstallations (Some (memoryClient ctx)) memoryIndex allow cfg m x = (m', x', out)"
    and "policiesFrom cfg = (removal, adoption, note)"
  shows "mem_cl.cleaned removal adoption (case cfg of None \<Rightarrow> '''' | Some o' \<Rightarrow> cfgName o') m x (m', x', out)"
  using mem_cl.CleanupInstallations_sound [where allow = allow, OF assms(2) refl] assms(1) by metis

text \<open>C9: cleanup deletes a Helm release only with verified ownership and consent. Whatever the
  store holds, a run changes at most the pinned release, and removes it only when its labels
  classify it as installed by the adapter and the removal policy asks for deletion, or as
  adopted and the adoption policy asks for deletion; the result then says deleted. Every other
  result means the store is unchanged.\<close>

theorem cleanup_release_guard:
  assumes "CleanupInstallations (Some (memoryClient ctx)) memoryIndex allow cfg m x = (m', x', out)"
  shows "(\<forall>k. fmlookup (m_rels m') k = fmlookup (m_rels m) k \<or>
      k = pinKey nvidiaConfig \<and> fmlookup (m_rels m') k = None \<and> cu_Action out = CleanupDeleted \<and>
      (\<exists>r. fmlookup (m_rels m) k = Some r \<and>
        (oc_Kind (ClassifyReleaseOwnership r) = OwnershipController \<and> asksDelete cfg RemovalPolicyAnnotation \<or>
         oc_Kind (ClassifyReleaseOwnership r) = OwnershipAdopted \<and> asksDelete cfg AdoptionPolicyAnnotation))) \<and>
    (cu_Action out = CleanupDeleted \<longrightarrow> fmlookup (m_rels m') (pinKey nvidiaConfig) = None) \<and>
    (cu_OpStatus out = OpFailed \<longleftrightarrow> cu_Action out = CleanupFailed)"
proof -
  obtain removal adoption nt where pol: "policiesFrom cfg = (removal, adoption, nt)" by (metis prod_cases3)
  note cl = cleanup_memory [OF assms pol, unfolded mem_cl.cleaned_def prod.case]
  show ?thesis
  proof (cases "cu_Action out = CleanupDeleted")
    case False
    with cl have "memView m' = memView m" by simp
    with False cl show ?thesis by (simp add: memView_def fun_eq_iff)
  next
    case True
    with cl obtain r where r: "memView m (pinKey nvidiaConfig) = Some r" "deletable r removal adoption"
        "memView m' = (memView m)(pinKey nvidiaConfig := None)" by auto
    have k: "oc_Kind (ClassifyReleaseOwnership r) = OwnershipController \<and> asksDelete cfg RemovalPolicyAnnotation \<or>
        oc_Kind (ClassifyReleaseOwnership r) = OwnershipAdopted \<and> asksDelete cfg AdoptionPolicyAnnotation"
      using r(2) policiesFrom_delete [OF pol] by (auto simp: deletable_def split: OwnershipKind.splits)
    have "fmlookup (m_rels m') k = (if k = pinKey nvidiaConfig then None else fmlookup (m_rels m) k)" for k
      using fun_cong [OF r(3), of k] by (simp add: memView_def)
    with True k r(1) cl show ?thesis by (auto simp: memView_def)
  qed
qed

definition deleteConfig :: DpuOperatorConfig where
  "deleteConfig = exampleConfig\<lparr>cfgAnnotations := fmap_of_list [(RemovalPolicyAnnotation, ''Delete-Owned'')]\<rparr>"

definition exIndex :: MemoryResourceIndex where
  "exIndex = \<lparr>mi_Tenants = [], mi_OPI = [],
     mi_Dataplane = [\<lparr>or_Group = ''g'', or_Version = ''v1'', or_Kind = ''DPU'', or_Namespace = DefaultNamespace,
        or_Name = ''dpu-1'', or_Owner = ReleaseOwner, or_Tenant = '''', or_Referenced = False\<rparr>],
     mi_CRDDependents = 0, mi_Deleted = [], mi_FlipReferenced = False, mi_looks = 0\<rparr>"

theorem cleanup_release_guard_witness:
  "\<exists>m' x' out. CleanupInstallations (Some (memoryClient (\<lambda>_. None))) memoryIndex False (Some deleteConfig)
       (exStore (OwnedRelease nvidiaConfig)) exIndex = (m', x', out) \<and>
     cu_Action out = CleanupDeleted \<and> fmlookup (m_rels m') (pinKey nvidiaConfig) = None"
proof -
  let ?run = "CleanupInstallations (Some (memoryClient (\<lambda>_. None))) memoryIndex False (Some deleteConfig)
       (exStore (OwnedRelease nvidiaConfig)) exIndex"
  obtain m' x' out where run: "?run = (m', x', out)" by (metis prod_cases3)
  have "cu_Action (snd (snd ?run)) = CleanupDeleted" by code_simp
  with run have "cu_Action out = CleanupDeleted" by simp
  with cleanup_release_guard [OF run] run show ?thesis by blast
qed

lemma flip_key [simp]: "refKey (d\<lparr>or_Referenced := b\<rparr>) = refKey d"
  by (simp add: refKey_def)

text \<open>C10: the dataplane sweep deletes only what nobody needs. A dataplane object disappears only
  together with the release; an object of the same key was listed in the release's namespace
  with no foreign owner; the object itself is not marked as referenced and no OPI object names
  it; and when a reference appears between the first and the second look, nothing is deleted.\<close>

theorem cleanup_dataplane_guard:
  assumes "CleanupInstallations (Some (memoryClient ctx)) memoryIndex allow cfg m x = (m', x', out)"
    and "0 \<le> mi_looks x"
    and "d \<in> set (mi_Dataplane x)" and "d \<notin> set (mi_Dataplane x')"
  shows "cu_Action out = CleanupDeleted \<and> \<not> referencedByOPI d (mi_OPI x) \<and> \<not> mi_FlipReferenced x \<and>
    (\<exists>r d0. fmlookup (m_rels m) (pinKey nvidiaConfig) = Some r \<and> d0 \<in> set (mi_Dataplane x) \<and>
       refKey d0 = refKey d \<and> or_Namespace d0 = hr_Namespace r \<and>
       (or_Owner d0 = '''' \<or> or_Owner d0 = ReleaseOwner))"
proof -
  obtain removal adoption nt where pol: "policiesFrom cfg = (removal, adoption, nt)" by (metis prod_cases3)
  note cl = cleanup_memory [OF assms(1) pol, unfolded mem_cl.cleaned_def prod.case]
  have act: "cu_Action out = CleanupDeleted"
  proof (rule ccontr)
    assume "cu_Action out \<noteq> CleanupDeleted"
    with cl assms(3,4) show False by simp
  qed
  with cl obtain r x0 refs x1 live err where rel: "memView m (pinKey nvidiaConfig) = Some r"
      and look1: "mri_Refs x (case cfg of None \<Rightarrow> '''' | Some o' \<Rightarrow> cfgName o') DefaultNamespace = (x0, refs, None)"
      and look2: "mri_Refs x0 (case cfg of None \<Rightarrow> '''' | Some o' \<Rightarrow> cfgName o') DefaultNamespace = (x1, live, err)"
      and swept: "\<forall>o' \<in> set (mi_Dataplane x) - set (mi_Dataplane x'). \<exists>e. refKey e = refKey o' \<and> mem_cl.sweepable r refs live e"
    by (auto simp: memoryIndex_def)
  from swept assms(3,4) obtain e where e: "refKey e = refKey d" "mem_cl.sweepable r refs live e" by blast
  have x0: "x0 = x\<lparr>mi_looks := mi_looks x + 1\<rparr>" using look1 by (auto simp: mri_Refs_def Let_def)
  define d' where "d' = (if mi_FlipReferenced x then d\<lparr>or_Referenced := True\<rparr> else d)"
  have live: "cr_OPI live = mi_OPI x" "d' \<in> set (cr_Dataplane live)"
    using look2 assms(2,3) by (auto simp: mri_Refs_def Let_def x0 d'_def)
  have "\<not> stillProtected e live" using e(2) by (simp add: mem_cl.sweepable_def)
  moreover have "refKey d' = refKey e" using e(1) by (simp add: d'_def)
  ultimately have np: "\<not> referencedByOPI d' (mi_OPI x)"
    using live by (auto simp: stillProtected_def list_ex_iff)
  then have nf: "\<not> mi_FlipReferenced x" by (auto simp: d'_def referencedByOPI_def)
  with np have "\<not> referencedByOPI d (mi_OPI x)" by (simp add: d'_def)
  moreover have "\<exists>d0. d0 \<in> set (mi_Dataplane x) \<and> refKey d0 = refKey d \<and> or_Namespace d0 = hr_Namespace r \<and>
      (or_Owner d0 = '''' \<or> or_Owner d0 = ReleaseOwner)"
    using e look1 nf by (auto simp: mem_cl.sweepable_def mri_Refs_def Let_def)
  ultimately show ?thesis using act nf rel by (auto simp: memView_def)
qed

theorem cleanup_dataplane_guard_witness:
  "\<exists>d m' x' out. CleanupInstallations (Some (memoryClient (\<lambda>_. None))) memoryIndex False (Some deleteConfig)
       (exStore (OwnedRelease nvidiaConfig)) exIndex = (m', x', out) \<and>
     d \<in> set (mi_Dataplane exIndex) \<and> d \<notin> set (mi_Dataplane x') \<and> cu_Action out = CleanupDeleted"
proof -
  let ?run = "CleanupInstallations (Some (memoryClient (\<lambda>_. None))) memoryIndex False (Some deleteConfig)
       (exStore (OwnedRelease nvidiaConfig)) exIndex"
  obtain m' x' out where run: "?run = (m', x', out)" by (metis prod_cases3)
  let ?d = "hd (mi_Dataplane exIndex)"
  have "mi_Dataplane (fst (snd ?run)) = []" by code_simp
  with run have gone: "?d \<notin> set (mi_Dataplane x')" by simp
  have "0 \<le> mi_looks exIndex" "?d \<in> set (mi_Dataplane exIndex)" by (simp_all add: exIndex_def)
  with cleanup_dataplane_guard [OF run _ _ gone] run gone show ?thesis by blast
qed

text \<open>Cleanup is idempotent. After a run that deleted the release, the next run for the same
  or any other configuration finds it gone, deletes nothing and reports success.\<close>

theorem cleanup_idempotent:
  assumes "CleanupInstallations (Some (memoryClient ctx)) memoryIndex allow cfg m x = (m', x', out)"
    and "cu_Action out = CleanupDeleted"
  shows "\<exists>out'. CleanupInstallations (Some (memoryClient ctx)) memoryIndex allow' cfg' m' x' = (m', x', out') \<and>
    cu_Action out' = CleanupGone \<and> cu_DeletedPlane out' = [] \<and> cu_OpStatus out' = OpSucceeded"
proof -
  obtain removal adoption nt where pol: "policiesFrom cfg = (removal, adoption, nt)" by (metis prod_cases3)
  note cl = cleanup_memory [OF assms(1) pol, unfolded mem_cl.cleaned_def prod.case]
  with assms(2) have "memView m' = (memView m)(pinKey nvidiaConfig := None)" by auto
  then have "fmlookup (m_rels m') (pinKey nvidiaConfig) = None"
    by (metis fun_upd_same memView_def)
  then have "getPinned (memoryClient ctx) m' nvidiaConfig = (m', emptyRelease, Some ErrReleaseNotFound)"
    by (simp add: mem_GetRelease_def)
  then show ?thesis
    by (auto simp: CleanupInstallations_def startResult_def Let_def simp del: getPinned_mem split: prod.split)
qed

theorem cleanup_idempotent_witness:
  "\<exists>m' x' out out'. CleanupInstallations (Some (memoryClient (\<lambda>_. None))) memoryIndex False (Some deleteConfig)
       (exStore (OwnedRelease nvidiaConfig)) exIndex = (m', x', out) \<and>
     CleanupInstallations (Some (memoryClient (\<lambda>_. None))) memoryIndex False (Some deleteConfig) m' x' = (m', x', out') \<and>
     cu_Action out' = CleanupGone"
proof -
  let ?run = "CleanupInstallations (Some (memoryClient (\<lambda>_. None))) memoryIndex False (Some deleteConfig)
       (exStore (OwnedRelease nvidiaConfig)) exIndex"
  obtain m' x' out where run: "?run = (m', x', out)" by (metis prod_cases3)
  have "cu_Action (snd (snd ?run)) = CleanupDeleted" by code_simp
  with run have "cu_Action out = CleanupDeleted" by simp
  with cleanup_idempotent [OF run] run show ?thesis by blast
qed

end
