(* ===== verification/Pci.thy ===== *)
theory Pci
  imports GoStrings "HOL-Library.Word"
begin

unbundle bit_operations_syntax

text \<open>
  pkg/discovery/pci.go and the data of types.go: finding DPU functions under a sysfs tree and
  reading the board serial from the serial file, the VPD image or the PCIe config space. Bytes
  are \<^typ>\<open>8 word\<close>s. Reading or slicing outside a buffer panics in Go, so the parsers return
  an \<open>outcome\<close> in which a panic is a value and its absence a theorem. The file system is a
  parameter: directory entries in the order \<^verbatim>\<open>os.ReadDir\<close> gives them (ascending
  names) and the content or error of each device's files.
\<close>

type_synonym byte = "8 word"

datatype 'a outcome = Panics | Returns 'a

definition bindOut :: "'a outcome \<Rightarrow> ('a \<Rightarrow> 'b outcome) \<Rightarrow> 'b outcome" where
  "bindOut r f = (case r of Panics \<Rightarrow> Panics | Returns a \<Rightarrow> f a)"

lemma bindOut_simps [simp]: "bindOut Panics f = Panics" "bindOut (Returns a) f = f a"
  by (simp_all add: bindOut_def)

lemma bindOut_cong [fundef_cong]:
  "r = r' \<Longrightarrow> (\<And>a. r' = Returns a \<Longrightarrow> f a = g a) \<Longrightarrow> bindOut r f = bindOut r' g"
  by (cases r') auto

text \<open>Indexing and slicing a byte slice.\<close>

definition byteAt :: "byte list \<Rightarrow> nat \<Rightarrow> byte outcome" where
  "byteAt data i = (if i < length data then Returns (data ! i) else Panics)"

definition sliceOf :: "byte list \<Rightarrow> nat \<Rightarrow> nat \<Rightarrow> byte list outcome" where
  "sliceOf data i j = (if i \<le> j \<and> j \<le> length data then Returns (take (j - i) (drop i data)) else Panics)"

definition bytesString :: "byte list \<Rightarrow> string" where
  "bytesString bs = map (\<lambda>b. char_of (unat b)) bs"

subsection \<open>Vendors and devices\<close>

definition NVIDIAVendorID :: "16 word" where "NVIDIAVendorID = 0x15b3"
definition AMDVendorID :: "16 word" where "AMDVendorID = 0x1dd8"
definition MarvellVendorID :: "16 word" where "MarvellVendorID = 0x177d"

definition productBlueField2 :: string where "productBlueField2 = ''BlueField-2''"
definition productBlueField3 :: string where "productBlueField3 = ''BlueField-3''"
definition productPensandoDSC :: string where "productPensandoDSC = ''Pensando DSC''"
definition productMarvellDPU :: string where "productMarvellDPU = ''Marvell DPU''"

record vendorSpec =
  vs_name :: string
  vs_products :: "(16 word \<times> string) list"
  vs_fallback :: string

definition productName :: "vendorSpec \<Rightarrow> 16 word \<Rightarrow> string" where
  "productName v deviceID =
     (case map_of (vs_products v) deviceID of Some n \<Rightarrow> n | None \<Rightarrow> vs_fallback v)"

definition supportedVendors :: "16 word \<Rightarrow> vendorSpec option" where
  "supportedVendors vid =
     map_of [(NVIDIAVendorID, \<lparr>vs_name = ''NVIDIA'',
                vs_products = [(0xa2d2, productBlueField2), (0xa2d6, productBlueField2),
                               (0xa2dc, productBlueField3), (0xa2dd, productBlueField3)], vs_fallback = ''''\<rparr>),
             (AMDVendorID, \<lparr>vs_name = ''AMD Pensando'',
                vs_products = [(0x1002, productPensandoDSC), (0x1004, productPensandoDSC)], vs_fallback = ''''\<rparr>),
             (MarvellVendorID, \<lparr>vs_name = ''Marvell'',
                vs_products = [(0xb900, productMarvellDPU), (0xa0f7, productMarvellDPU)], vs_fallback = ''''\<rparr>)] vid"

definition DefaultProductName :: "16 word \<Rightarrow> string" where
  "DefaultProductName vendorID =
     (case map_of [(NVIDIAVendorID, productBlueField3), (AMDVendorID, productPensandoDSC),
                   (MarvellVendorID, productMarvellDPU)] vendorID of Some n \<Rightarrow> n | None \<Rightarrow> '''')"

record Device =
  dv_PCIAddress :: string
  dv_VendorID :: "16 word"
  dv_DeviceID :: "16 word"
  dv_SerialNumber :: string
  dv_ProductName :: string

definition ValidateIdentity :: "Device \<Rightarrow> (string, unit) result" where
  "ValidateIdentity d =
     (if TrimSpace (dv_PCIAddress d) = '''' then Err ''discovered device has empty PCI address''
      else if TrimSpace (dv_SerialNumber d) = ''''
        then Err (''discovered device '' @ dv_PCIAddress d @ '' has empty serial number'')
      else Ok ())"

definition StaticDevice :: "16 word \<Rightarrow> string \<Rightarrow> string \<Rightarrow> string \<Rightarrow> Device" where
  "StaticDevice vendorID serial pci product =
     \<lparr>dv_PCIAddress = pci, dv_VendorID = vendorID, dv_DeviceID = 0, dv_SerialNumber = serial,
      dv_ProductName = (if product = '''' then DefaultProductName vendorID else product)\<rparr>"

subsection \<open>Reading serials\<close>

text \<open>The keyword loop of a VPD-R resource.\<close>

function vpdKeywords :: "byte list \<Rightarrow> nat \<Rightarrow> string option outcome" where
  "vpdKeywords data i =
     (if i + 3 \<le> length data then
        bindOut (sliceOf data i (i + 2)) (\<lambda>kb.
        bindOut (byteAt data (i + 2)) (\<lambda>nb.
          let key = bytesString kb; n = unat nb; i' = i + 3 in
          if i' + n > length data then Returns None
          else if key = ''SN'' then
            bindOut (sliceOf data i' (i' + n)) (\<lambda>v. Returns (Some (TrimSpace (bytesString v))))
          else vpdKeywords data (i' + n)))
      else Returns None)"
  by pat_completeness auto

termination
  by (relation "measure (\<lambda>(data, i). length data - i)") auto

text \<open>The resource loop; \<open>0x78\<close> is the end tag, a clear top bit a small resource.\<close>

function vpdSerial :: "byte list \<Rightarrow> nat \<Rightarrow> string option outcome" where
  "vpdSerial data i =
     (if i < length data then
        bindOut (byteAt data i) (\<lambda>b.
          if b = 0x78 then Returns None
          else if b AND 0x80 = 0 then vpdSerial data (i + (1 + unat (b AND 0x07)))
          else if i + 2 \<ge> length data then Returns None
          else
            bindOut (byteAt data (i + 1)) (\<lambda>lo.
            bindOut (byteAt data (i + 2)) (\<lambda>hi.
              let tag = b AND 0x7f;
                  len = unat (ucast lo OR push_bit 8 (ucast hi) :: 64 word);
                  i' = i + 3
              in if i' + len > length data then Returns None
                 else if tag = 0x10 then
                   bindOut (sliceOf data i' (i' + len)) (\<lambda>sub.
                   bindOut (vpdKeywords sub 0) (\<lambda>r.
                     case r of Some sn \<Rightarrow> Returns (Some sn) | None \<Rightarrow> vpdSerial data (i' + len)))
                 else vpdSerial data (i' + len))))
      else Returns None)"
  by pat_completeness auto

termination
  by (relation "measure (\<lambda>(data, i). length data - i)") (auto simp: Let_def)

definition pcieCapDSN :: "16 word" where "pcieCapDSN = 0x0003"
definition pcieExtCapStart :: nat where "pcieExtCapStart = 0x100"

definition leUint32 :: "byte list \<Rightarrow> 32 word" where
  "leUint32 bs = ucast (bs ! 0) OR push_bit 8 (ucast (bs ! 1)) OR push_bit 16 (ucast (bs ! 2)) OR
     push_bit 24 (ucast (bs ! 3))"

definition hexDigit :: "nat \<Rightarrow> char" where
  "hexDigit n = (if n < 10 then char_of (48 + n) else char_of (87 + n))"

definition EncodeToString :: "byte list \<Rightarrow> string" where
  "EncodeToString bs = concat (map (\<lambda>b. [hexDigit (unat b div 16), hexDigit (unat b mod 16)]) bs)"

text \<open>The walk over the extended capabilities from \<open>off\<close>.\<close>

function dsnFrom :: "byte list \<Rightarrow> nat \<Rightarrow> string option outcome" where
  "dsnFrom cfg off =
     (if off + 4 \<le> length cfg then
        bindOut (sliceOf cfg off (off + 4)) (\<lambda>h.
          let hdr = leUint32 h;
              capId = (ucast (hdr AND 0xffff) :: 16 word);
              nxt = unat (drop_bit 20 hdr AND 0xfff)
          in if hdr = 0 then Returns None
             else if capId = pcieCapDSN \<and> off + 12 \<le> length cfg then
               bindOut (sliceOf cfg (off + 4) (off + 12)) (\<lambda>s. Returns (Some (ToUpper (EncodeToString s))))
             else if nxt = 0 \<or> nxt \<le> off then Returns None
             else dsnFrom cfg nxt)
      else Returns None)"
  by pat_completeness auto

termination
  by (relation "measure (\<lambda>(cfg, off). length cfg - off)") auto

definition configDSN :: "byte list \<Rightarrow> string option outcome" where
  "configDSN cfg = dsnFrom cfg pcieExtCapStart"

declare vpdKeywords.simps [simp del] vpdSerial.simps [simp del] dsnFrom.simps [simp del]

subsection \<open>Enumeration\<close>

datatype ioErr = NotExist | PermissionDenied | OtherIO string

record Sysfs =
  sf_ReadDir :: "(string, string list) result"
  sf_ReadFile :: "string \<Rightarrow> string \<Rightarrow> (ioErr, byte list) result"

definition pciFunction :: "string \<Rightarrow> string" where
  "pciFunction addr =
     (case LastIndex addr ''.'' of None \<Rightarrow> addr
      | Some i \<Rightarrow> if i + 1 = length addr then addr else drop (i + 1) addr)"

definition hexVal :: "char \<Rightarrow> int option" where
  "hexVal c =
     (let n = int (of_char c) in
      if 48 \<le> n \<and> n \<le> 57 then Some (n - 48)
      else if 97 \<le> n \<and> n \<le> 102 then Some (n - 87)
      else if 65 \<le> n \<and> n \<le> 70 then Some (n - 55) else None)"

text \<open>\<^verbatim>\<open>strconv.ParseUint(s, 16, 16)\<close>\<close>

definition ParseUint16 :: "string \<Rightarrow> 16 word option" where
  "ParseUint16 s =
     (if s = [] \<or> list_ex (\<lambda>c. hexVal c = None) s then None
      else let n = foldl (\<lambda>n c. 16 * n + the (hexVal c)) 0 s in
           if n < 2 ^ 16 then Some (of_int n) else None)"

definition parsePCIID :: "byte list \<Rightarrow> 16 word option" where
  "parsePCIID b = ParseUint16 (TrimPrefix (ToLower (TrimSpace (bytesString b))) ''0x'')"

definition readPCIID :: "Sysfs \<Rightarrow> string \<Rightarrow> string \<Rightarrow> 16 word option" where
  "readPCIID fs addr file =
     (case sf_ReadFile fs addr file of Inl _ \<Rightarrow> None | Inr b \<Rightarrow> parsePCIID b)"

text \<open>The three sources of a serial, in the order the code tries them; a panic of a parser would be one of the read.\<close>

definition serialFrom :: "string \<Rightarrow> byte list \<Rightarrow> string option outcome" where
  "serialFrom name b =
     (if name = ''serial'' then Returns (let s = TrimSpace (bytesString b) in if s \<noteq> '''' then Some s else None)
      else if name = ''vpd'' then vpdSerial b 0
      else configDSN b)"

fun readSerialIn :: "Sysfs \<Rightarrow> string \<Rightarrow> string list \<Rightarrow> (string, string) result outcome" where
  "readSerialIn fs addr [] = Returns (Err ''no serial in serial, vpd, or config DSN'')"
| "readSerialIn fs addr (name # names) =
     (case sf_ReadFile fs addr name of
        Inl NotExist \<Rightarrow> readSerialIn fs addr names
      | Inl PermissionDenied \<Rightarrow>
          Returns (Err (''permission denied reading '' @ addr @ ''/'' @ name @ '' (need root for VPD/config)''))
      | Inl (OtherIO e) \<Rightarrow> Returns (Err (''read '' @ addr @ ''/'' @ name @ '': '' @ e))
      | Inr b \<Rightarrow> bindOut (serialFrom name b) (\<lambda>r.
          case r of Some sn \<Rightarrow> Returns (Ok sn) | None \<Rightarrow> readSerialIn fs addr names))"

definition readSerial :: "Sysfs \<Rightarrow> string \<Rightarrow> (string, string) result outcome" where
  "readSerial fs addr = readSerialIn fs addr [''serial'', ''vpd'', ''config'']"

text \<open>The loop over the directory entries.\<close>

fun scanEntries :: "Sysfs \<Rightarrow> 16 word \<Rightarrow> string list \<Rightarrow> (string, Device list) result outcome" where
  "scanEntries fs vendorID [] = Returns (Ok [])"
| "scanEntries fs vendorID (addr # addrs) =
     (if pciFunction addr \<noteq> ''0'' then scanEntries fs vendorID addrs
      else case readPCIID fs addr ''vendor'' of None \<Rightarrow> scanEntries fs vendorID addrs
      | Some vendor \<Rightarrow>
          if vendorID \<noteq> 0 \<and> vendor \<noteq> vendorID then scanEntries fs vendorID addrs
          else case supportedVendors vendor of None \<Rightarrow> scanEntries fs vendorID addrs
          | Some spec \<Rightarrow>
              let deviceID = (case readPCIID fs addr ''device'' of None \<Rightarrow> 0 | Some d \<Rightarrow> d);
                  name = productName spec deviceID
              in if name = '''' then scanEntries fs vendorID addrs
                 else bindOut (readSerial fs addr) (\<lambda>r.
                   case r of Inl e \<Rightarrow> Returns (Err (vs_name spec @ '' device '' @ addr @ '': '' @ e))
                   | Inr serial \<Rightarrow> bindOut (scanEntries fs vendorID addrs) (\<lambda>rest.
                       Returns (case rest of Inl e \<Rightarrow> Err e
                         | Inr ds \<Rightarrow> Ok (\<lparr>dv_PCIAddress = addr, dv_VendorID = vendor, dv_DeviceID = deviceID,
                                        dv_SerialNumber = serial, dv_ProductName = name\<rparr> # ds)))))"

fun keepFirst :: "string list \<Rightarrow> Device list \<Rightarrow> Device list" where
  "keepFirst seen [] = []"
| "keepFirst seen (d # ds) =
     (if dv_SerialNumber d \<in> set seen then keepFirst seen ds
      else d # keepFirst (dv_SerialNumber d # seen) ds)"

definition uniqueBySerial :: "Device list \<Rightarrow> Device list" where
  "uniqueBySerial devices =
     (if length devices < 2 then devices else keepFirst [] (sort_key dv_PCIAddress devices))"

record PCIEnumerator =
  pe_VendorID :: "16 word"

definition PCI_Enumerate :: "Sysfs \<Rightarrow> PCIEnumerator \<Rightarrow> (string, Device list) result outcome" where
  "PCI_Enumerate fs p =
     (case sf_ReadDir fs of Inl e \<Rightarrow> Returns (Err (''read pci sysfs: '' @ e))
      | Inr entries \<Rightarrow>
          bindOut (scanEntries fs (pe_VendorID p) entries) (\<lambda>r.
            Returns (case r of Inl e \<Rightarrow> Err e | Inr ds \<Rightarrow> Ok (uniqueBySerial ds))))"

subsection \<open>Parsers stay inside their buffers\<close>

lemma byteAt_in [simp]: "i < length data \<Longrightarrow> byteAt data i = Returns (data ! i)"
  by (simp add: byteAt_def)

lemma sliceOf_in [simp]: "i \<le> j \<Longrightarrow> j \<le> length data \<Longrightarrow> sliceOf data i j = Returns (take (j - i) (drop i data))"
  by (simp add: sliceOf_def)

lemma vpdKeywords_no_panic: "vpdKeywords data i \<noteq> Panics"
proof (induction data i rule: vpdKeywords.induct)
  case (1 data i)
  show ?case
  proof (cases "i + 3 \<le> length data")
    case True
    let ?n = "unat (data ! (i + 2))"
    have "vpdKeywords data (i + 3 + ?n) \<noteq> Panics"
      if "\<not> i + 3 + ?n > length data" "bytesString (take 2 (drop i data)) \<noteq> ''SN''"
      using 1 [OF True, of "take 2 (drop i data)" "data ! (i + 2)"] True that by simp
    with True show ?thesis by (subst vpdKeywords.simps) (simp add: Let_def)
  qed (subst vpdKeywords.simps, simp)
qed

lemma le16: "unat (ucast lo OR push_bit 8 (ucast hi) :: 64 word) = unat (lo::byte) + 256 * unat (hi::byte)"
proof -
  have b: "unat lo < 2 ^ 8" "unat hi < 2 ^ 8" using unsigned_less [of lo] unsigned_less [of hi] by simp_all
  have p: "take_bit 64 (unat lo) = unat lo" "take_bit 64 (unat hi) = unat hi"
      "take_bit 64 (push_bit 8 (unat hi)) = push_bit 8 (unat hi)"
    using b by (simp_all add: take_bit_nat_eq_self push_bit_nat_def)
  have z: "unat lo AND push_bit 8 (unat hi) = 0"
  proof (rule bit_eqI)
    fix n
    have "\<not> bit (unat lo) n" if "8 \<le> n"
      using that b(1) by (metis bit_take_bit_iff leD take_bit_nat_eq_self)
    then show "bit (unat lo AND push_bit 8 (unat hi)) n = bit (0 :: nat) n"
      by (auto simp: bit_and_iff bit_push_bit_iff)
  qed
  have "unat (ucast lo OR push_bit 8 (ucast hi) :: 64 word) = unat lo OR push_bit 8 (unat hi)"
    by (simp add: unsigned_or_eq unsigned_push_bit_eq unsigned_ucast_eq p)
  also have "\<dots> = unat lo + push_bit 8 (unat hi)"
    using z by (rule disjunctive_add_eq_or [symmetric])
  finally show ?thesis by (simp add: push_bit_nat_def)
qed

lemma vpdSerial_no_panic: "vpdSerial data i \<noteq> Panics"
proof (induction "length data - i" arbitrary: i rule: less_induct)
  case less
  show ?case
  proof (cases "i < length data")
    case True
    then have rec: "vpdSerial data j \<noteq> Panics" if "i < j" for j
      using less that by simp
    have "vpdKeywords sub 0 \<noteq> Panics" for sub by (rule vpdKeywords_no_panic)
    with True rec show ?thesis
      by (subst vpdSerial.simps) (auto simp: Let_def bindOut_def split: outcome.split option.split)
  qed (subst vpdSerial.simps, simp)
qed

lemma dsnFrom_no_panic: "dsnFrom cfg off \<noteq> Panics"
proof (induction "length cfg - off" arbitrary: off rule: less_induct)
  case less
  show ?case
  proof (cases "off + 4 \<le> length cfg")
    case True
    then have rec: "dsnFrom cfg j \<noteq> Panics" if "off < j" for j
      using less that by simp
    with True show ?thesis by (subst dsnFrom.simps) (auto simp: Let_def)
  qed (subst dsnFrom.simps, simp)
qed

lemma readSerialIn_no_panic: "readSerialIn fs addr names \<noteq> Panics"
proof (induction names)
  case (Cons name names)
  have "serialFrom name b \<noteq> Panics" for b
    by (simp add: serialFrom_def vpdSerial_no_panic configDSN_def dsnFrom_no_panic)
  with Cons show ?case
    by (auto simp: bindOut_def split: sum.split ioErr.split outcome.split option.split)
qed simp

lemma scanEntries_no_panic: "scanEntries fs v entries \<noteq> Panics"
proof (induction entries)
  case (Cons addr addrs)
  have "readSerial fs addr \<noteq> Panics" unfolding readSerial_def by (rule readSerialIn_no_panic)
  with Cons show ?case
    by (auto simp: bindOut_def Let_def split: outcome.split option.split sum.split)
qed simp

subsection \<open>VPD images\<close>

text \<open>A keyword entry, a large resource and an image with an identifier string before the read-only keywords.\<close>

definition vpdEntry :: "byte list \<times> byte list \<Rightarrow> byte list" where
  "vpdEntry kv = fst kv @ of_nat (length (snd kv)) # snd kv"

definition vpdLarge :: "byte \<Rightarrow> byte list \<Rightarrow> byte list" where
  "vpdLarge tag body = tag # of_nat (length body mod 256) # of_nat (length body div 256) # body"

definition vpdImage :: "byte list \<Rightarrow> (byte list \<times> byte list) list \<Rightarrow> byte list" where
  "vpdImage name kws = vpdLarge 0x82 name @ vpdLarge 0x90 (concat (map vpdEntry kws)) @ [0x78]"

definition wellFormedEntry :: "byte list \<times> byte list \<Rightarrow> bool" where
  "wellFormedEntry kv \<longleftrightarrow> length (fst kv) = 2 \<and> length (snd kv) < 256"

lemma unat_byte: "n < 256 \<Longrightarrow> unat (of_nat n :: byte) = n"
  by (simp add: unat_of_nat)

lemma vpdKeywords_entry:
  assumes "wellFormedEntry (k, v)"
  shows "vpdKeywords (pre @ vpdEntry (k, v) @ rest) (length pre) =
    (if bytesString k = ''SN'' then Returns (Some (TrimSpace (bytesString v)))
     else vpdKeywords (pre @ vpdEntry (k, v) @ rest) (length (pre @ vpdEntry (k, v))))"
proof -
  let ?d = "pre @ vpdEntry (k, v) @ rest"
  have k: "length k = 2" "length v < 256" using assms by (simp_all add: wellFormedEntry_def)
  have "?d ! (length pre + 2) = of_nat (length v)" using k by (simp add: vpdEntry_def nth_append)
  then have n: "unat (?d ! (length pre + 2)) = length v" using k by (simp add: unat_byte)
  have sl: "take 2 (drop (length pre) ?d) = k" using k by (simp add: vpdEntry_def)
  have sv: "take (length v) (drop (length pre + 3) ?d) = v" using k by (simp add: vpdEntry_def)
  have len: "length ?d = length pre + 3 + length v + length rest" using k by (simp add: vpdEntry_def)
  have le: "length (vpdEntry (k, v)) = 3 + length v" using k by (simp add: vpdEntry_def)
  show ?thesis
    by (subst vpdKeywords.simps) (use n sl sv len le in \<open>simp add: Let_def add.assoc\<close>)
qed

lemma vpdKeywords_finds:
  assumes "\<forall>kv \<in> set kws. wellFormedEntry kv" and "find (\<lambda>kv. bytesString (fst kv) = ''SN'') kws = Some (k, v)"
  shows "vpdKeywords (pre @ concat (map vpdEntry kws)) (length pre) = Returns (Some (TrimSpace (bytesString v)))"
  using assms
proof (induction kws arbitrary: pre)
  case (Cons kv kws)
  obtain k' v' where kv: "kv = (k', v')" by (cases kv)
  have "wellFormedEntry (k', v')" using Cons.prems kv by simp
  note step = vpdKeywords_entry [OF this, of pre "concat (map vpdEntry kws)"]
  show ?case
  proof (cases "bytesString k' = ''SN''")
    case True
    with Cons.prems kv step show ?thesis by simp
  next
    case False
    with Cons.prems kv have "find (\<lambda>kv. bytesString (fst kv) = ''SN'') kws = Some (k, v)" by simp
    with Cons.IH [of "pre @ vpdEntry (k', v')"] Cons.prems False step kv show ?thesis by simp
  qed
qed simp

text \<open>One large resource that starts at the current index.\<close>

lemma vpdSerial_large:
  assumes "length body < 65536" and "tag AND 0x80 \<noteq> 0"
  shows "vpdSerial (pre @ vpdLarge tag body @ rest) (length pre) =
    (if tag AND 0x7f = 0x10 then
       (case vpdKeywords body 0 of Panics \<Rightarrow> Panics
        | Returns r \<Rightarrow> (case r of Some sn \<Rightarrow> Returns (Some sn)
            | None \<Rightarrow> vpdSerial (pre @ vpdLarge tag body @ rest) (length (pre @ vpdLarge tag body))))
     else vpdSerial (pre @ vpdLarge tag body @ rest) (length (pre @ vpdLarge tag body)))"
proof -
  let ?d = "pre @ vpdLarge tag body @ rest"
  have nz: "tag \<noteq> 0x78" using assms(2) by auto
  have at: "?d ! length pre = tag" "?d ! (length pre + 1) = of_nat (length body mod 256)"
      "?d ! (length pre + 2) = of_nat (length body div 256)"
    by (simp_all add: vpdLarge_def nth_append)
  have l: "unat (ucast (of_nat (length body mod 256) :: byte) OR push_bit 8 (ucast (of_nat (length body div 256) :: byte)) :: 64 word)
      = length body"
    unfolding le16 using assms(1) by (simp add: unat_byte)
  have sub: "take (length body) (drop (length pre + 3) ?d) = body" by (simp add: vpdLarge_def)
  have len: "length ?d = length pre + 3 + length body + length rest" by (simp add: vpdLarge_def)
  have le: "length (vpdLarge tag body) = 3 + length body" by (simp add: vpdLarge_def)
  show ?thesis
    by (subst vpdSerial.simps)
      (use assms nz at l sub len le in \<open>simp add: Let_def bindOut_def add.assoc split: outcome.split option.split\<close>)
qed

subsection \<open>One device per board\<close>







subsection \<open>Properties\<close>

text \<open>C14: reading serials never panics. Whatever bytes the VPD image and the config space hold,
  the resource, keyword and capability walks terminate without reading outside their buffers,
  and so does the enumeration of any sysfs tree.\<close>

theorem serial_parsers_total:
  "(\<exists>r. vpdSerial data 0 = Returns r) \<and> (\<exists>r. configDSN cfg = Returns r) \<and> (\<exists>r. PCI_Enumerate fs p = Returns r)"
proof -
  have "PCI_Enumerate fs p \<noteq> Panics"
    using scanEntries_no_panic [of fs "pe_VendorID p"]
    by (auto simp: PCI_Enumerate_def bindOut_def split: sum.split outcome.split)
  then show ?thesis
    using vpdSerial_no_panic [of data 0] dsnFrom_no_panic [of cfg pcieExtCapStart]
    unfolding configDSN_def by (metis outcome.exhaust)
qed

text \<open>C16: the VPD reader finds the board serial of a well-formed image. For an image with an
  identifier string followed by the read-only keyword section, it returns the trimmed value of
  the first SN keyword.\<close>

theorem vpd_finds_serial:
  assumes "length name < 65536" and "length (concat (map vpdEntry kws)) < 65536"
    and "\<forall>kv \<in> set kws. wellFormedEntry kv"
    and "find (\<lambda>kv. bytesString (fst kv) = ''SN'') kws = Some (k, v)"
  shows "vpdSerial (vpdImage name kws) 0 = Returns (Some (TrimSpace (bytesString v)))"
proof -
  let ?body = "concat (map vpdEntry kws)"
  let ?id = "vpdLarge 0x82 name"
  have "vpdSerial (vpdImage name kws) 0 = vpdSerial (vpdImage name kws) (length ?id)"
    using vpdSerial_large [OF assms(1), of "0x82" "[]" "vpdLarge 0x90 ?body @ [0x78]"] by (simp add: vpdImage_def)
  also have "\<dots> = Returns (Some (TrimSpace (bytesString v)))"
    using vpdSerial_large [OF assms(2), of "0x90" ?id "[0x78]"] vpdKeywords_finds [OF assms(3,4), of "[]"]
    by (simp add: vpdImage_def)
  finally show ?thesis .
qed

definition exKeywords :: "(byte list \<times> byte list) list" where
  "exKeywords = [([0x50, 0x4E], [0x41, 0x42]), ([0x53, 0x4E], [0x20, 0x4D, 0x54, 0x31, 0x20])]"

theorem vpd_finds_serial_witness: "vpdSerial (vpdImage [0x42, 0x46] exKeywords) 0 = Returns (Some ''MT1'')"
proof -
  have "find (\<lambda>kv. bytesString (fst kv) = ''SN'') exKeywords = Some ([0x53, 0x4E], [0x20, 0x4D, 0x54, 0x31, 0x20])"
    by code_simp
  then have "vpdSerial (vpdImage [0x42, 0x46] exKeywords) 0 =
      Returns (Some (TrimSpace (bytesString [0x20, 0x4D, 0x54, 0x31, 0x20])))"
    by (intro vpd_finds_serial) (simp_all add: exKeywords_def wellFormedEntry_def vpdEntry_def)
  moreover have "TrimSpace (bytesString [0x20, 0x4D, 0x54, 0x31, 0x20]) = ''MT1''" by code_simp
  ultimately show ?thesis by simp
qed





end
