(* ===== verification/Kube.thy ===== *)
theory Kube
  imports GoStrings
begin

text \<open>
  What the program sees of the Kubernetes API machinery: the classes of API errors its code
  tells apart (the predicates of k8s.io/apimachinery/pkg/api/errors and meta), and the result
  of a reconcile call. Clients themselves are parameters of the components that use them.
\<close>

datatype apiErr = NotFound string | Forbidden string | Conflict string | AlreadyExists string
  | NoMatch string | OtherAPI string

fun apiText :: "apiErr \<Rightarrow> string" where
  "apiText (NotFound s) = s"
| "apiText (Forbidden s) = s"
| "apiText (Conflict s) = s"
| "apiText (AlreadyExists s) = s"
| "apiText (NoMatch s) = s"
| "apiText (OtherAPI s) = s"

definition IsNotFound :: "apiErr \<Rightarrow> bool" where "IsNotFound e = (case e of NotFound _ \<Rightarrow> True | _ \<Rightarrow> False)"
definition IsForbidden :: "apiErr \<Rightarrow> bool" where "IsForbidden e = (case e of Forbidden _ \<Rightarrow> True | _ \<Rightarrow> False)"
definition IsConflict :: "apiErr \<Rightarrow> bool" where "IsConflict e = (case e of Conflict _ \<Rightarrow> True | _ \<Rightarrow> False)"
definition IsAlreadyExists :: "apiErr \<Rightarrow> bool" where "IsAlreadyExists e = (case e of AlreadyExists _ \<Rightarrow> True | _ \<Rightarrow> False)"
definition IsNoMatch :: "apiErr \<Rightarrow> bool" where "IsNoMatch e = (case e of NoMatch _ \<Rightarrow> True | _ \<Rightarrow> False)"

lemmas apiErr_tests [simp] = IsNotFound_def IsForbidden_def IsConflict_def IsAlreadyExists_def IsNoMatch_def

record GroupVersionKind =
  gvk_Group :: string
  gvk_Version :: string
  gvk_Kind :: string

definition GVK :: "string \<Rightarrow> string \<Rightarrow> string \<Rightarrow> GroupVersionKind" where
  "GVK g v k = \<lparr>gvk_Group = g, gvk_Version = v, gvk_Kind = k\<rparr>"

text \<open>\<^verbatim>\<open>ctrl.Result\<close>: the delay in seconds after which to come back, 0 for none.\<close>

record ctrlResult =
  cr_RequeueAfter :: nat

definition noRequeue :: ctrlResult where "noRequeue = \<lparr>cr_RequeueAfter = 0\<rparr>"

subsection \<open>retry.RetryOnConflict\<close>

text \<open>
  What the library documents of its retry helper: it runs the closure, again from the state the
  last run left while the run ends in a conflict, and returns the outcome of the last run.
  \<open>'x\<close> holds the cluster and the variables the closure assigns.
\<close>

type_synonym ('x, 'e) retryClosure = "'x \<Rightarrow> 'x \<times> 'e option"

inductive retriedOn :: "('e \<Rightarrow> bool) \<Rightarrow> ('x, 'e) retryClosure \<Rightarrow> 'x \<Rightarrow> 'x \<times> 'e option \<Rightarrow> bool"
  for conflict :: "'e \<Rightarrow> bool" and f :: "('x, 'e) retryClosure" where
  last: "retriedOn conflict f x (f x)"
| again: "f x = (y, Some e) \<Longrightarrow> conflict e \<Longrightarrow> retriedOn conflict f y out \<Longrightarrow> retriedOn conflict f x out"

definition retryContractOn :: "('e \<Rightarrow> bool) \<Rightarrow> (('x, 'e) retryClosure \<Rightarrow> ('x, 'e) retryClosure) \<Rightarrow> bool" where
  "retryContractOn conflict retry \<longleftrightarrow> (\<forall>f x. retriedOn conflict f x (retry f x))"

text \<open>Facts of every run hold across retries, and the outcome is that of one run.\<close>

lemma retried_inv:
  assumes "retriedOn conflict f x out" and "\<And>x. I x (fst (f x))" and "\<And>x. I x x" and "\<And>x y z. I x y \<Longrightarrow> I y z \<Longrightarrow> I x z"
  shows "I x (fst out)"
  using assms(1) by (induction) (use assms(2,3,4) in \<open>metis fst_conv\<close>)+

lemma retried_last:
  assumes "retriedOn conflict f x out" shows "\<exists>y. out = f y"
  using assms by induction auto

text \<open>What a run that ends in a conflict keeps holds before the last run.\<close>

lemma retried_stable:
  assumes "retriedOn conflict f x out" and "P x" and "\<And>x y e. f x = (y, Some e) \<Longrightarrow> conflict e \<Longrightarrow> P x \<Longrightarrow> P y"
  shows "\<exists>y. P y \<and> out = f y"
  using assms(1,2) by induction (use assms(3) in blast)+

text \<open>A bounded retry loop, as the library has it, keeps the contract.\<close>

fun retryLoopOn :: "('e \<Rightarrow> bool) \<Rightarrow> nat \<Rightarrow> ('x, 'e) retryClosure \<Rightarrow> ('x, 'e) retryClosure" where
  "retryLoopOn conflict 0 f x = f x"
| "retryLoopOn conflict (Suc n) f x =
     (case f x of (y, Some e) \<Rightarrow> if conflict e then retryLoopOn conflict n f y else (y, Some e) | r \<Rightarrow> r)"

lemma retryLoopOn_contract: "retryContractOn conflict (retryLoopOn conflict n :: ('x, 'e) retryClosure \<Rightarrow> ('x, 'e) retryClosure)"
proof -
  have "retriedOn conflict f x (retryLoopOn conflict n f x)" for f :: "('x, 'e) retryClosure" and x and conflict :: "'e \<Rightarrow> bool"
  proof (induction n arbitrary: x)
    case 0
    show ?case using retriedOn.last [of conflict f x] by simp
  next
    case (Suc n)
    show ?case
    proof (cases "\<exists>y e. f x = (y, Some e) \<and> conflict e")
      case True
      then obtain y e where "f x = (y, Some e)" "conflict e" by auto
      with retriedOn.again [of f x y e conflict, OF this Suc.IH] show ?thesis by simp
    next
      case False
      then have "retryLoopOn conflict (Suc n) f x = f x" by (auto split: prod.split option.split)
      then show ?thesis using retriedOn.last [of conflict f x] by simp
    qed
  qed
  then show ?thesis by (simp add: retryContractOn_def)
qed

end
