(* ===== verification/Inventory.thy ===== *)
theory Inventory
  imports Pci Kube
begin

text \<open>
  pkg/discovery/types.go (annotation keys), inventory.go, mock.go and annotator.go: assigning
  live devices to DataProcessingUnit objects and stamping the result. A DPU object is the typed
  view of what the code reads of it. Go ranges over the map annotationsByVendor in an
  unspecified order; where that order can matter (\<open>claimedSerial\<close>) it is a parameter,
  one order per DPU name.
\<close>

subsection \<open>Annotation keys\<close>

definition SerialNumberAnnotation :: string where [const_defs]: "SerialNumberAnnotation = ''provisioning.dpu.nvidia.com/serial-number''"
definition PCIAddressAnnotation :: string where [const_defs]: "PCIAddressAnnotation = ''provisioning.dpu.nvidia.com/pci-address''"
definition BFBURLAnnotation :: string where [const_defs]: "BFBURLAnnotation = ''dpu.nvidia.com/bfb-url''"
definition FlavorAnnotation :: string where [const_defs]: "FlavorAnnotation = ''dpu.nvidia.com/flavor''"
definition BFBNameAnnotation :: string where [const_defs]: "BFBNameAnnotation = ''dpu.nvidia.com/bfb''"
definition ProductNameAnnotation :: string where [const_defs]: "ProductNameAnnotation = ''discovery.opiproject.org/product-name''"
definition AMDSerialNumberAnnotation :: string where [const_defs]: "AMDSerialNumberAnnotation = ''dpu.amd.com/serial-number''"
definition AMDFirmwareURLAnnotation :: string where [const_defs]: "AMDFirmwareURLAnnotation = ''dpu.amd.com/firmware-url''"
definition AMDProfileAnnotation :: string where [const_defs]: "AMDProfileAnnotation = ''dpu.amd.com/profile''"
definition AMDFirmwareNameAnnotation :: string where [const_defs]: "AMDFirmwareNameAnnotation = ''dpu.amd.com/firmware''"
definition MarvellSerialNumberAnnotation :: string where [const_defs]: "MarvellSerialNumberAnnotation = ''dpu.marvell.com/serial-number''"
definition MarvellFirmwareURLAnnotation :: string where [const_defs]: "MarvellFirmwareURLAnnotation = ''dpu.marvell.com/firmware-url''"
definition MarvellFlavorAnnotation :: string where [const_defs]: "MarvellFlavorAnnotation = ''dpu.marvell.com/flavor''"
definition MarvellFirmwareNameAnnotation :: string where [const_defs]: "MarvellFirmwareNameAnnotation = ''dpu.marvell.com/firmware''"

record VendorAnnotations =
  va_Serial :: string
  va_FirmwareURL :: string
  va_Flavor :: string
  va_FirmwareName :: string

definition annotationsByVendor :: "(16 word \<times> VendorAnnotations) list" where
  "annotationsByVendor =
     [(NVIDIAVendorID, \<lparr>va_Serial = SerialNumberAnnotation, va_FirmwareURL = BFBURLAnnotation,
         va_Flavor = FlavorAnnotation, va_FirmwareName = BFBNameAnnotation\<rparr>),
      (AMDVendorID, \<lparr>va_Serial = AMDSerialNumberAnnotation, va_FirmwareURL = AMDFirmwareURLAnnotation,
         va_Flavor = AMDProfileAnnotation, va_FirmwareName = AMDFirmwareNameAnnotation\<rparr>),
      (MarvellVendorID, \<lparr>va_Serial = MarvellSerialNumberAnnotation, va_FirmwareURL = MarvellFirmwareURLAnnotation,
         va_Flavor = MarvellFlavorAnnotation, va_FirmwareName = MarvellFirmwareNameAnnotation\<rparr>)]"

definition AnnotationsFor :: "16 word \<Rightarrow> VendorAnnotations option" where
  "AnnotationsFor vendorID = map_of annotationsByVendor vendorID"

definition vendorNames :: "(string \<times> 16 word) list" where
  "vendorNames = [(''nvidia'', NVIDIAVendorID), (''bluefield'', NVIDIAVendorID), (''amd'', AMDVendorID),
     (''pensando'', AMDVendorID), (''marvell'', MarvellVendorID), (''octeon'', MarvellVendorID)]"

definition ParseVendor :: "string \<Rightarrow> (string, 16 word) result" where
  "ParseVendor s =
     (let key = ToLower (TrimSpace s) in
      case map_of vendorNames key of Some vid \<Rightarrow> Ok vid
      | None \<Rightarrow>
          (case ParseUint16 (TrimPrefix key ''0x'') of
             Some v \<Rightarrow> if AnnotationsFor v \<noteq> None then Ok v
                       else Err (''vendor '' @ s @ '' is not a supported DPU vendor'')
           | None \<Rightarrow> Err (''unknown vendor '' @ Quote s @ '': want nvidia, amd, marvell, or a hex PCI id'')))"

definition DPFPCIAddress :: "string \<Rightarrow> string" where
  "DPFPCIAddress pci =
     (let s = ReplaceAllChar (TrimSpace pci) CHR '':'' CHR ''-'' in
      case LastIndex s ''.'' of Some i \<Rightarrow> take i s | None \<Rightarrow> s)"

subsection \<open>Enumerators\<close>

text \<open>\<open>MockEnumerator\<close> and \<open>MutableEnumerator\<close>; the third implementation is \<open>PCI_Enumerate\<close>.\<close>

definition Mock_Enumerate :: "Device list \<Rightarrow> (string, Device list) result" where
  "Mock_Enumerate devices = Ok devices"

record MutableEnumerator =
  me_Devices :: "Device list"
  me_Err :: "string option"

definition Mutable_Enumerate :: "MutableEnumerator \<Rightarrow> (string, Device list) result" where
  "Mutable_Enumerate m = (case me_Err m of Some e \<Rightarrow> Err e | None \<Rightarrow> Ok (me_Devices m))"

definition Mutable_Set :: "MutableEnumerator \<Rightarrow> Device list \<Rightarrow> string option \<Rightarrow> MutableEnumerator" where
  "Mutable_Set m devices err = m\<lparr>me_Devices := devices, me_Err := err\<rparr>"

text \<open>The argument is what \<^verbatim>\<open>Enumerate()\<close> returned, \<^const>\<open>None\<close> for a nil enumerator.\<close>

definition LiveDevices :: "(string, Device list) result option \<Rightarrow> (string, Device list) result" where
  "LiveDevices e =
     (case e of None \<Rightarrow> Err ''no hardware enumerator configured''
      | Some (Inl err) \<Rightarrow> Err err
      | Some (Inr found) \<Rightarrow> Ok (filter (\<lambda>d. ValidateIdentity d = Ok ()) found))"

subsection \<open>Identity annotations\<close>

definition IdentityKeys :: "string list" where
  "IdentityKeys = [PCIAddressAnnotation, ProductNameAnnotation] @ map (\<lambda>p. va_Serial (snd p)) annotationsByVendor"

type_synonym vendorOrder = "VendorAnnotations list"

fun claimedSerial :: "vendorOrder \<Rightarrow> strmap \<Rightarrow> string" where
  "claimedSerial [] ann = ''''"
| "claimedSerial (k # ks) ann =
     (let s = TrimSpace (sget ann (va_Serial k)) in if s \<noteq> '''' then s else claimedSerial ks ann)"

definition claimedPCI :: "strmap \<Rightarrow> string" where
  "claimedPCI ann = TrimSpace (sget ann PCIAddressAnnotation)"

definition HasIdentity :: "vendorOrder \<Rightarrow> strmap \<Rightarrow> bool" where
  "HasIdentity ord ann \<longleftrightarrow> claimedSerial ord ann \<noteq> '''' \<or> claimedPCI ann \<noteq> '''' \<or>
     TrimSpace (sget ann ProductNameAnnotation) \<noteq> ''''"

definition StripIdentity :: "strmap \<Rightarrow> strmap" where
  "StripIdentity ann = fold fmdrop IdentityKeys ann"

definition IdentityAnnotations :: "Device \<Rightarrow> (string, strmap) result" where
  "IdentityAnnotations d =
     (case ValidateIdentity d of Inl e \<Rightarrow> Err e
      | Inr _ \<Rightarrow>
        (case AnnotationsFor (dv_VendorID d) of
           None \<Rightarrow> Err (''device '' @ dv_PCIAddress d @ '': no annotation keys for PCI vendor'')
         | Some keys \<Rightarrow>
             let out = fmupd ProductNameAnnotation (dv_ProductName d) (fmupd (va_Serial keys) (dv_SerialNumber d) fmempty);
                 pci = DPFPCIAddress (dv_PCIAddress d)
             in Ok (if va_Serial keys = SerialNumberAnnotation \<and> pci \<noteq> '''' then fmupd PCIAddressAnnotation pci out
                    else out)))"

subsection \<open>AssignDevices\<close>

record DPUView =
  vw_Name :: string
  vw_Annotations :: strmap

record Assignment =
  as_Device :: "Device option"
  as_Bound :: bool
  as_Clear :: bool

text \<open>The zero assignment, which Go also returns for a missing key; its device is the zero Device.\<close>

definition zeroAssignment :: Assignment where
  "zeroAssignment = \<lparr>as_Device = None, as_Bound = False, as_Clear = False\<rparr>"

record assignState =
  st_out :: "(string, Assignment) fmap"
  st_used :: "string list"

definition getAsg :: "(string, Assignment) fmap \<Rightarrow> string \<Rightarrow> Assignment" where
  "getAsg out n = (case fmlookup out n of None \<Rightarrow> zeroAssignment | Some a \<Rightarrow> a)"

definition indexSerial :: "Device list \<Rightarrow> (string, Device) fmap" where
  "indexSerial live = fold (\<lambda>d. fmupd (dv_SerialNumber d) d) live fmempty"

definition indexPCI :: "Device list \<Rightarrow> (string, Device) fmap" where
  "indexPCI live = fold (\<lambda>d m. let m1 = fmupd (dv_PCIAddress d) d m; p = DPFPCIAddress (dv_PCIAddress d)
     in if p \<noteq> '''' then fmupd p d m1 else m1) live fmempty"

definition bindDevice :: "string \<Rightarrow> Device \<Rightarrow> assignState \<Rightarrow> assignState" where
  "bindDevice n d st =
     st\<lparr>st_out := fmupd n \<lparr>as_Device = Some d, as_Bound = True, as_Clear = False\<rparr> (st_out st),
        st_used := dv_SerialNumber d # st_used st\<rparr>"

text \<open>First loop: a claimed serial that is live and not taken.\<close>

definition serialStep :: "(string \<Rightarrow> vendorOrder) \<Rightarrow> (string, Device) fmap \<Rightarrow> DPUView \<Rightarrow> assignState \<Rightarrow> assignState" where
  "serialStep ord bySerial dpu st =
     (let s = claimedSerial (ord (vw_Name dpu)) (vw_Annotations dpu) in
      if s = '''' then st
      else case fmlookup bySerial s of None \<Rightarrow> st
      | Some d \<Rightarrow> if dv_SerialNumber d \<in> set (st_used st) then st else bindDevice (vw_Name dpu) d st)"

text \<open>Second loop: a claimed PCI address, for DPUs not bound yet.\<close>

definition pciStep :: "(string, Device) fmap \<Rightarrow> DPUView \<Rightarrow> assignState \<Rightarrow> assignState" where
  "pciStep byPCI dpu st =
     (if as_Bound (getAsg (st_out st) (vw_Name dpu)) then st
      else
        let p = claimedPCI (vw_Annotations dpu) in
        if p = '''' then st
        else case fmlookup byPCI p of None \<Rightarrow> st
        | Some d \<Rightarrow> if dv_SerialNumber d \<in> set (st_used st) then st else bindDevice (vw_Name dpu) d st)"

text \<open>Third loop: what is not bound is cleared when it carries identity, empty otherwise.\<close>

definition clearStep :: "(string \<Rightarrow> vendorOrder) \<Rightarrow> DPUView \<Rightarrow> assignState \<Rightarrow> assignState" where
  "clearStep ord dpu st =
     (if as_Bound (getAsg (st_out st) (vw_Name dpu)) then st
      else if HasIdentity (ord (vw_Name dpu)) (vw_Annotations dpu) then
        st\<lparr>st_out := fmupd (vw_Name dpu) (zeroAssignment\<lparr>as_Clear := True\<rparr>) (st_out st)\<rparr>
      else st)"

definition unusedDevices :: "Device list \<Rightarrow> string list \<Rightarrow> Device list" where
  "unusedDevices live used = filter (\<lambda>d. dv_SerialNumber d \<notin> set used) live"

text \<open>
  The four phases. The DPUs the third loop collects are those not bound when it runs: it never
  binds, so the two lists can be read off the state it starts from.
\<close>

definition AssignDevices :: "(string \<Rightarrow> vendorOrder) \<Rightarrow> DPUView list \<Rightarrow> Device list \<Rightarrow> (string, Assignment) fmap" where
  "AssignDevices ord dpus live =
     (let st1 = fold (serialStep ord (indexSerial live)) dpus \<lparr>st_out = fmempty, st_used = []\<rparr>;
          st2 = fold (pciStep (indexPCI live)) dpus st1;
          unbound = filter (\<lambda>v. \<not> as_Bound (getAsg (st_out st2) (vw_Name v))) dpus;
          cleared = filter (\<lambda>v. HasIdentity (ord (vw_Name v)) (vw_Annotations v)) unbound;
          empties = filter (\<lambda>v. \<not> HasIdentity (ord (vw_Name v)) (vw_Annotations v)) unbound;
          st3 = fold (clearStep ord) dpus st2;
          leftover = sort_key dv_PCIAddress (unusedDevices live (st_used st3));
          st4 = fold (\<lambda>(v, d). bindDevice (vw_Name v) d) (zip (sort_key vw_Name empties) leftover) st3;
          leftover = unusedDevices live (st_used st4);
          still = filter (\<lambda>v. \<not> as_Bound (getAsg (st_out st4) (vw_Name v))) cleared
      in if length still = 1 \<and> length leftover = 1 then
           fmupd (vw_Name (hd still)) \<lparr>as_Device = Some (hd leftover), as_Bound = True, as_Clear = True\<rparr> (st_out st4)
         else st_out st4)"

subsection \<open>Annotator\<close>

record DPUObject =
  do_Name :: string
  do_NodeName :: string
  do_ProductName :: string
  do_Annotations :: strmap

record 'w Annotator =
  an_Get :: "'w \<Rightarrow> string \<Rightarrow> (apiErr, DPUObject) result"
  an_List :: "'w \<Rightarrow> (apiErr, DPUObject list) result"
  an_Patch :: "'w \<Rightarrow> string \<Rightarrow> strmap \<Rightarrow> 'w \<times> apiErr option"
  an_Enumerate :: "'w \<Rightarrow> (string, Device list) result option"
  an_NodeName :: string
  an_VendorID :: "16 word"
  an_FirmwareURL :: string
  an_Flavor :: string
  an_FirmwareName :: string

definition InventoryRefresh :: nat where "InventoryRefresh = 15"

definition ownsSource :: "'w Annotator \<Rightarrow> DPUObject \<Rightarrow> bool" where
  "ownsSource a dpu =
     (let product = do_ProductName dpu in
      if an_VendorID a = 0 then True
      else if an_VendorID a = NVIDIAVendorID then HasPrefix product ''BlueField''
      else if an_VendorID a = AMDVendorID then HasPrefix product ''Pensando'' \<or> HasPrefix product ''DSC''
      else if an_VendorID a = MarvellVendorID then HasPrefix product ''Marvell'' \<or> HasPrefix product ''OCTEON''
      else False)"

definition nodeViews :: "'w Annotator \<Rightarrow> 'w \<Rightarrow> string \<Rightarrow> (apiErr, DPUView list) result" where
  "nodeViews a w node =
     (case an_List a w of Inl e \<Rightarrow> Err e
      | Inr items \<Rightarrow>
          Ok (map (\<lambda>i. \<lparr>vw_Name = do_Name i, vw_Annotations = do_Annotations i\<rparr>)
               (filter (\<lambda>i. ownsSource a i \<and> (node = '''' \<or> do_NodeName i = node)) items)))"

definition firmwareFor :: "'w Annotator \<Rightarrow> 16 word \<Rightarrow> strmap" where
  "firmwareFor a vendorID =
     (case AnnotationsFor vendorID of None \<Rightarrow> fmempty
      | Some keys \<Rightarrow>
          let o1 = (if an_FirmwareURL a \<noteq> '''' then fmupd (va_FirmwareURL keys) (an_FirmwareURL a) fmempty else fmempty);
              o2 = (if an_Flavor a \<noteq> '''' then fmupd (va_Flavor keys) (an_Flavor a) o1 else o1)
          in if an_FirmwareName a \<noteq> '''' then fmupd (va_FirmwareName keys) (an_FirmwareName a) o2 else o2)"

text \<open>The zero Device has no PCI address, so stamping it is refused.\<close>

definition desiredAnnotations :: "'w Annotator \<Rightarrow> strmap \<Rightarrow> Assignment \<Rightarrow> (string, strmap) result" where
  "desiredAnnotations a have' asg =
     (let desired = (if as_Clear asg \<or> as_Bound asg then StripIdentity have' else have') in
      if \<not> as_Bound asg then Ok desired
      else case as_Device asg of None \<Rightarrow> Err ''discovered device has empty PCI address''
      | Some d \<Rightarrow>
          (case IdentityAnnotations d of Inl e \<Rightarrow> Err e
           | Inr ident \<Rightarrow> Ok (fmadd (fmadd desired ident) (firmwareFor a (dv_VendorID d)))))"

definition annotationsEqual :: "strmap \<Rightarrow> strmap \<Rightarrow> bool" where
  "annotationsEqual have' desired \<longleftrightarrow>
     (if fcard (fmdom have') \<noteq> fcard (fmdom desired) then fcard (fmdom have') = 0 \<and> fcard (fmdom desired) = 0
      else list_all (\<lambda>k. sget have' k = sget desired k) (keys_of desired))"

definition Annotator_Reconcile ::
    "(string \<Rightarrow> vendorOrder) \<Rightarrow> 'w Annotator \<Rightarrow> string \<Rightarrow> 'w \<Rightarrow> 'w \<times> ctrlResult \<times> string option" where
  "Annotator_Reconcile ord a name w =
     (case an_Get a w name of
        Inl e \<Rightarrow> (w, noRequeue, if IsNotFound e then None else Some (apiText e))
      | Inr dpu \<Rightarrow>
        let node = do_NodeName dpu in
        if an_NodeName a \<noteq> '''' \<and> node \<noteq> an_NodeName a then (w, noRequeue, None)
        else if \<not> ownsSource a dpu then (w, \<lparr>cr_RequeueAfter = InventoryRefresh\<rparr>, None)
        else case LiveDevices (an_Enumerate a w) of
          Inl e \<Rightarrow> (w, noRequeue, Some (''enumerate dpu hardware: '' @ e))
        | Inr live \<Rightarrow>
          (case nodeViews a w node of Inl e \<Rightarrow> (w, noRequeue, Some (''list DataProcessingUnits: '' @ apiText e))
           | Inr views \<Rightarrow>
             let asg = getAsg (AssignDevices ord views live) (do_Name dpu) in
             (case desiredAnnotations a (do_Annotations dpu) asg of Inl e \<Rightarrow> (w, noRequeue, Some e)
              | Inr desired \<Rightarrow>
                  if annotationsEqual (do_Annotations dpu) desired then (w, \<lparr>cr_RequeueAfter = InventoryRefresh\<rparr>, None)
                  else
                    let (w', err) = an_Patch a w (do_Name dpu) desired in
                    case err of Some e \<Rightarrow> (w', noRequeue, Some (''stamp hardware annotations: '' @ apiText e))
                    | None \<Rightarrow> (w', \<lparr>cr_RequeueAfter = InventoryRefresh\<rparr>, None))))"

end
