(* ===== verification/InventoryFacts.thy ===== *)
theory InventoryFacts
  imports Inventory
begin

text \<open>
  Correctness of the device assignment: bindings are to live devices and never shared, stale
  identity is always cleared, a claimed serial wins, and a stamped binding is stable.
\<close>

subsection \<open>The invariant of the phases\<close>

definition boundTo :: "(string, Assignment) fmap \<Rightarrow> string \<Rightarrow> Device \<Rightarrow> bool" where
  "boundTo out n d \<longleftrightarrow> (\<exists>a. fmlookup out n = Some a \<and> as_Bound a \<and> as_Device a = Some d)"

definition assignInv :: "Device list \<Rightarrow> assignState \<Rightarrow> bool" where
  "assignInv live st \<longleftrightarrow>
     (\<forall>n a. fmlookup (st_out st) n = Some a \<longrightarrow> as_Bound a \<longrightarrow> as_Device a \<noteq> None) \<and>
     (\<forall>n d. boundTo (st_out st) n d \<longrightarrow> d \<in> set live \<and> dv_SerialNumber d \<in> set (st_used st)) \<and>
     (\<forall>n m d e. boundTo (st_out st) n d \<longrightarrow> boundTo (st_out st) m e \<longrightarrow>
        dv_SerialNumber d = dv_SerialNumber e \<longrightarrow> n = m)"

lemma assignInv_device: "assignInv live st \<Longrightarrow> fmlookup (st_out st) n = Some a \<Longrightarrow> as_Bound a \<Longrightarrow> as_Device a \<noteq> None"
  unfolding assignInv_def by blast

lemma assignInv_live:
  "assignInv live st \<Longrightarrow> boundTo (st_out st) n d \<Longrightarrow> d \<in> set live \<and> dv_SerialNumber d \<in> set (st_used st)"
  unfolding assignInv_def by blast

lemma assignInv_inj:
  "assignInv live st \<Longrightarrow> boundTo (st_out st) n d \<Longrightarrow> boundTo (st_out st) m e \<Longrightarrow>
     dv_SerialNumber d = dv_SerialNumber e \<Longrightarrow> n = m"
  unfolding assignInv_def by blast

lemma assignInv_start [simp]: "assignInv live \<lparr>st_out = fmempty, st_used = []\<rparr>"
  by (simp add: assignInv_def boundTo_def)

lemma boundTo_upd:
  "boundTo (fmupd n a out) m d \<longleftrightarrow> (if m = n then as_Bound a \<and> as_Device a = Some d else boundTo out m d)"
  by (simp add: boundTo_def)

lemma assignInv_fresh:
  assumes inv: "assignInv live st" and d: "d \<in> set live" "dv_SerialNumber d \<notin> set (st_used st)"
    and a: "as_Bound a" "as_Device a = Some d"
  shows "assignInv live (st\<lparr>st_out := fmupd n a (st_out st), st_used := dv_SerialNumber d # st_used st\<rparr>)"
    (is "assignInv live ?st")
proof -
  have old: "dv_SerialNumber e \<noteq> dv_SerialNumber d" if "boundTo (st_out st) m e" for m e
    using assignInv_live [OF inv that] d(2) by metis
  have "as_Device b \<noteq> None" if "fmlookup (st_out ?st) m = Some b" "as_Bound b" for m b
    using assignInv_device [OF inv] that a(2) by (auto split: if_splits)
  moreover have "e \<in> set live \<and> dv_SerialNumber e \<in> set (st_used ?st)" if "boundTo (st_out ?st) m e" for m e
    using assignInv_live [OF inv] that d(1) a(2) by (auto simp: boundTo_upd split: if_splits)
  moreover have "m = k" if "boundTo (st_out ?st) m e" "boundTo (st_out ?st) k f" "dv_SerialNumber e = dv_SerialNumber f" for m k e f
    using that a(2) old assignInv_inj [OF inv] by (simp add: boundTo_upd split: if_splits) (metis option.inject)+
  ultimately show ?thesis unfolding assignInv_def by blast
qed

lemma bindDevice_inv:
  "assignInv live st \<Longrightarrow> d \<in> set live \<Longrightarrow> dv_SerialNumber d \<notin> set (st_used st) \<Longrightarrow> assignInv live (bindDevice n d st)"
  by (simp add: bindDevice_def assignInv_fresh)

lemma indexSerial_live:
  "fmlookup (indexSerial live) s = Some d \<Longrightarrow> d \<in> set live \<and> dv_SerialNumber d = s"
proof -
  have "d \<in> set live \<and> dv_SerialNumber d = s \<or> fmlookup m s = Some d"
    if "fmlookup (fold (\<lambda>d. fmupd (dv_SerialNumber d) d) live m) s = Some d" for m
    using that
  proof (induction live arbitrary: m)
    case (Cons e live)
    from Cons.prems have "fmlookup (fold (\<lambda>d. fmupd (dv_SerialNumber d) d) live (fmupd (dv_SerialNumber e) e m)) s = Some d"
      by simp
    from Cons.IH [OF this] show ?case by (auto split: if_splits)
  qed simp
  from this [of fmempty] show "fmlookup (indexSerial live) s = Some d \<Longrightarrow> d \<in> set live \<and> dv_SerialNumber d = s"
    by (simp add: indexSerial_def)
qed

lemma indexPCI_live: "fmlookup (indexPCI live) p = Some d \<Longrightarrow> d \<in> set live"
proof -
  let ?f = "\<lambda>d m. let m1 = fmupd (dv_PCIAddress d) d m; p = DPFPCIAddress (dv_PCIAddress d)
     in if p \<noteq> '''' then fmupd p d m1 else m1"
  have "fmlookup (fold ?f live m) p = Some d \<Longrightarrow> d \<in> set live \<or> fmlookup m p = Some d" for m
  proof (induction live arbitrary: m)
    case (Cons e live)
    from Cons.IH [of "?f e m"] Cons.prems have "d \<in> set live \<or> fmlookup (?f e m) p = Some d" by simp
    then show ?case by (auto simp: Let_def split: if_splits)
  qed simp
  from this [of fmempty] show "fmlookup (indexPCI live) p = Some d \<Longrightarrow> d \<in> set live"
    by (simp add: indexPCI_def)
qed

lemma serialStep_inv: "assignInv live st \<Longrightarrow> assignInv live (serialStep ord (indexSerial live) v st)"
  by (auto simp: serialStep_def Let_def dest: indexSerial_live split: option.split intro: bindDevice_inv)

lemma pciStep_inv: "assignInv live st \<Longrightarrow> assignInv live (pciStep (indexPCI live) v st)"
  by (auto simp: pciStep_def Let_def dest: indexPCI_live split: option.split intro: bindDevice_inv)

lemma clearStep_inv: "assignInv live st \<Longrightarrow> assignInv live (clearStep ord v st)"
  unfolding clearStep_def assignInv_def by (simp add: boundTo_upd zeroAssignment_def)

lemma fold_inv: "(\<And>x st. P st \<Longrightarrow> P (f x st)) \<Longrightarrow> P st \<Longrightarrow> P (fold f xs st)"
  by (induction xs arbitrary: st) auto

lemma fillEmpties_inv:
  assumes "assignInv live st" and "distinct (map (dv_SerialNumber \<circ> snd) ps)"
    and "\<forall>(v, d) \<in> set ps. d \<in> set live \<and> dv_SerialNumber d \<notin> set (st_used st)"
  shows "assignInv live (fold (\<lambda>(v, d). bindDevice (vw_Name v) d) ps st)"
  using assms
proof (induction ps arbitrary: st)
  case (Cons p ps)
  obtain v d where p: "p = (v, d)" by (cases p)
  have i: "assignInv live (bindDevice (vw_Name v) d st)"
    using Cons.prems p by (auto intro: bindDevice_inv)
  have "\<forall>(v', d') \<in> set ps. d' \<in> set live \<and> dv_SerialNumber d' \<notin> set (st_used (bindDevice (vw_Name v) d st))"
    using Cons.prems(2,3) p by (force simp: bindDevice_def)
  with Cons.IH [OF i] Cons.prems(2) p show ?case by simp
qed simp

lemma distinct_zip_snd:
  assumes "distinct (map f ys)"
  shows "distinct (map (f \<circ> snd) (zip xs ys))"
proof -
  have "map (f \<circ> snd) (zip xs ys) = take (min (length xs) (length ys)) (map f ys)"
    by (induction xs ys rule: list_induct2') auto
  with assms show ?thesis by (metis distinct_take)
qed

text \<open>The state after the fourth phase, named for the proofs below.\<close>

definition phase2 :: "(string \<Rightarrow> vendorOrder) \<Rightarrow> DPUView list \<Rightarrow> Device list \<Rightarrow> assignState" where
  "phase2 ord dpus live = fold (pciStep (indexPCI live)) dpus
     (fold (serialStep ord (indexSerial live)) dpus \<lparr>st_out = fmempty, st_used = []\<rparr>)"

definition emptiesOf :: "(string \<Rightarrow> vendorOrder) \<Rightarrow> DPUView list \<Rightarrow> Device list \<Rightarrow> DPUView list" where
  "emptiesOf ord dpus live = filter (\<lambda>v. \<not> HasIdentity (ord (vw_Name v)) (vw_Annotations v))
     (filter (\<lambda>v. \<not> as_Bound (getAsg (st_out (phase2 ord dpus live)) (vw_Name v))) dpus)"

definition phase3 :: "(string \<Rightarrow> vendorOrder) \<Rightarrow> DPUView list \<Rightarrow> Device list \<Rightarrow> assignState" where
  "phase3 ord dpus live = fold (clearStep ord) dpus (phase2 ord dpus live)"

definition phase4 :: "(string \<Rightarrow> vendorOrder) \<Rightarrow> DPUView list \<Rightarrow> Device list \<Rightarrow> assignState" where
  "phase4 ord dpus live = fold (\<lambda>(v, d). bindDevice (vw_Name v) d)
     (zip (sort_key vw_Name (emptiesOf ord dpus live))
          (sort_key dv_PCIAddress (unusedDevices live (st_used (phase3 ord dpus live)))))
     (phase3 ord dpus live)"

lemma AssignDevices_phases:
  "AssignDevices ord dpus live = st_out (phase4 ord dpus live) \<or>
   (\<exists>v d. v \<in> set dpus \<and> \<not> as_Bound (getAsg (st_out (phase4 ord dpus live)) (vw_Name v)) \<and>
      HasIdentity (ord (vw_Name v)) (vw_Annotations v) \<and>
      d \<in> set (unusedDevices live (st_used (phase4 ord dpus live))) \<and>
      AssignDevices ord dpus live =
        fmupd (vw_Name v) \<lparr>as_Device = Some d, as_Bound = True, as_Clear = True\<rparr> (st_out (phase4 ord dpus live)))"
proof -
  define cleared where "cleared = filter (\<lambda>v. HasIdentity (ord (vw_Name v)) (vw_Annotations v))
     (filter (\<lambda>v. \<not> as_Bound (getAsg (st_out (phase2 ord dpus live)) (vw_Name v))) dpus)"
  define still where "still = filter (\<lambda>v. \<not> as_Bound (getAsg (st_out (phase4 ord dpus live)) (vw_Name v))) cleared"
  define left where "left = unusedDevices live (st_used (phase4 ord dpus live))"
  have run: "AssignDevices ord dpus live =
    (if length still = 1 \<and> length left = 1 then
       fmupd (vw_Name (hd still)) \<lparr>as_Device = Some (hd left), as_Bound = True, as_Clear = True\<rparr>
         (st_out (phase4 ord dpus live))
     else st_out (phase4 ord dpus live))"
    unfolding AssignDevices_def Let_def still_def left_def cleared_def phase4_def phase3_def emptiesOf_def phase2_def
    by (rule refl)
  show ?thesis
  proof (cases "length still = 1 \<and> length left = 1")
    case True
    then have "hd still \<in> set still" "hd left \<in> set left" by (metis hd_in_set length_0_conv zero_neq_one)+
    then have "hd still \<in> set dpus" "HasIdentity (ord (vw_Name (hd still))) (vw_Annotations (hd still))"
        "\<not> as_Bound (getAsg (st_out (phase4 ord dpus live)) (vw_Name (hd still)))"
        "hd left \<in> set (unusedDevices live (st_used (phase4 ord dpus live)))"
      by (simp_all add: still_def cleared_def left_def)
    moreover from True run have "AssignDevices ord dpus live =
       fmupd (vw_Name (hd still)) \<lparr>as_Device = Some (hd left), as_Bound = True, as_Clear = True\<rparr>
         (st_out (phase4 ord dpus live))" by simp
    ultimately show ?thesis by blast
  next
    case False
    with run show ?thesis by (simp only: if_False simp_thms)
  qed
qed

lemma phase3_inv: "assignInv live (phase3 ord dpus live)"
  unfolding phase3_def phase2_def
  by (intro fold_inv [where P = "assignInv live"] clearStep_inv pciStep_inv serialStep_inv) simp_all

lemma phase4_inv: "distinct (map dv_SerialNumber live) \<Longrightarrow> assignInv live (phase4 ord dpus live)"
proof -
  assume d: "distinct (map dv_SerialNumber live)"
  let ?left = "sort_key dv_PCIAddress (unusedDevices live (st_used (phase3 ord dpus live)))"
  have "distinct (map dv_SerialNumber (unusedDevices live (st_used (phase3 ord dpus live))))"
    using d by (simp add: unusedDevices_def distinct_map_filter)
  then have ds: "distinct (map dv_SerialNumber ?left)"
    by (simp add: distinct_map)
  have "\<forall>(v, d) \<in> set (zip xs ?left). d \<in> set live \<and> dv_SerialNumber d \<notin> set (st_used (phase3 ord dpus live))" for xs
    by (auto simp: unusedDevices_def dest!: set_zip_rightD)
  then show ?thesis
    unfolding phase4_def by (intro fillEmpties_inv phase3_inv distinct_zip_snd ds)
qed

lemma AssignDevices_inv:
  assumes "distinct (map dv_SerialNumber live)"
  shows "\<exists>used. assignInv live \<lparr>st_out = AssignDevices ord dpus live, st_used = used\<rparr>"
proof -
  note inv = phase4_inv [OF assms, of ord dpus]
  let ?p = "phase4 ord dpus live"
  from AssignDevices_phases [of ord dpus live] show ?thesis
  proof
    assume "AssignDevices ord dpus live = st_out ?p"
    with inv show ?thesis by (intro exI [of _ "st_used ?p"]) (simp add: assignInv_def)
  next
    assume "\<exists>v d. v \<in> set dpus \<and> \<not> as_Bound (getAsg (st_out ?p) (vw_Name v)) \<and>
      HasIdentity (ord (vw_Name v)) (vw_Annotations v) \<and> d \<in> set (unusedDevices live (st_used ?p)) \<and>
      AssignDevices ord dpus live =
        fmupd (vw_Name v) \<lparr>as_Device = Some d, as_Bound = True, as_Clear = True\<rparr> (st_out ?p)"
    then obtain v :: DPUView and d where d: "d \<in> set live" "dv_SerialNumber d \<notin> set (st_used ?p)"
        and run: "AssignDevices ord dpus live =
          fmupd (vw_Name v) \<lparr>as_Device = Some d, as_Bound = True, as_Clear = True\<rparr> (st_out ?p)"
      unfolding unusedDevices_def set_filter mem_Collect_eq by blast
    from assignInv_fresh [OF inv d, of "\<lparr>as_Device = Some d, as_Bound = True, as_Clear = True\<rparr>" "vw_Name v"] run
    show ?thesis by (intro exI [of _ "dv_SerialNumber d # st_used ?p"]) (simp add: assignInv_def)
  qed
qed

subsection \<open>Bindings of the first two phases are kept\<close>

lemma getAsg_bound: "as_Bound (getAsg out n) \<longleftrightarrow> (\<exists>a. fmlookup out n = Some a \<and> as_Bound a)"
  by (simp add: getAsg_def zeroAssignment_def split: option.split)

lemma bindDevice_other: "n \<noteq> m \<Longrightarrow> fmlookup (st_out (bindDevice n d st)) m = fmlookup (st_out st) m"
  by (simp add: bindDevice_def)

lemma pciStep_keeps: "as_Bound (getAsg (st_out st) n) \<Longrightarrow> fmlookup (st_out (pciStep ix v st)) n = fmlookup (st_out st) n"
  by (cases "vw_Name v = n") (simp_all add: pciStep_def Let_def bindDevice_other split: option.split)

lemma clearStep_keeps: "as_Bound (getAsg (st_out st) n) \<Longrightarrow> fmlookup (st_out (clearStep ord v st)) n = fmlookup (st_out st) n"
  by (cases "vw_Name v = n") (simp_all add: clearStep_def)

lemma fold_keeps:
  assumes "\<And>v st. as_Bound (getAsg (st_out st) n) \<Longrightarrow> fmlookup (st_out (f v st)) n = fmlookup (st_out st) n"
    and "as_Bound (getAsg (st_out st) n)"
  shows "fmlookup (st_out (fold f vs st)) n = fmlookup (st_out st) n"
  using assms(2)
proof (induction vs arbitrary: st)
  case (Cons v vs)
  have k: "fmlookup (st_out (f v st)) n = fmlookup (st_out st) n" by (rule assms(1)) (rule Cons.prems)
  then have "as_Bound (getAsg (st_out (f v st)) n)" using Cons.prems by (simp add: getAsg_def)
  from Cons.IH [OF this] k show ?case by simp
qed simp

lemma fill_other:
  "n \<notin> vw_Name ` fst ` set ps \<Longrightarrow>
     fmlookup (st_out (fold (\<lambda>(v, d). bindDevice (vw_Name v) d) ps st)) n = fmlookup (st_out st) n"
  by (induction ps arbitrary: st) (auto simp: bindDevice_other)

lemma AssignDevices_keeps:
  assumes "as_Bound (getAsg (st_out (phase2 ord dpus live)) n)"
  shows "fmlookup (AssignDevices ord dpus live) n = fmlookup (st_out (phase2 ord dpus live)) n"
proof -
  have p3: "fmlookup (st_out (phase3 ord dpus live)) n = fmlookup (st_out (phase2 ord dpus live)) n"
    unfolding phase3_def by (rule fold_keeps [OF clearStep_keeps assms])
  have "n \<notin> vw_Name ` fst ` set (zip (sort_key vw_Name (emptiesOf ord dpus live)) ys)" for ys :: "Device list"
    using assms by (auto simp: emptiesOf_def dest!: set_zip_leftD)
  then have p4: "fmlookup (st_out (phase4 ord dpus live)) n = fmlookup (st_out (phase2 ord dpus live)) n"
    using p3 by (simp add: phase4_def fill_other)
  then have b4: "as_Bound (getAsg (st_out (phase4 ord dpus live)) n)" using assms by (simp add: getAsg_def)
  from AssignDevices_phases [of ord dpus live] show ?thesis
  proof
    assume "AssignDevices ord dpus live = st_out (phase4 ord dpus live)"
    with p4 show ?thesis by simp
  next
    assume "\<exists>v d. v \<in> set dpus \<and> \<not> as_Bound (getAsg (st_out (phase4 ord dpus live)) (vw_Name v)) \<and>
      HasIdentity (ord (vw_Name v)) (vw_Annotations v) \<and> d \<in> set (unusedDevices live (st_used (phase4 ord dpus live))) \<and>
      AssignDevices ord dpus live =
        fmupd (vw_Name v) \<lparr>as_Device = Some d, as_Bound = True, as_Clear = True\<rparr> (st_out (phase4 ord dpus live))"
    then obtain v :: DPUView and d where "\<not> as_Bound (getAsg (st_out (phase4 ord dpus live)) (vw_Name v))"
        and run: "AssignDevices ord dpus live =
          fmupd (vw_Name v) \<lparr>as_Device = Some d, as_Bound = True, as_Clear = True\<rparr> (st_out (phase4 ord dpus live))"
      by blast
    with b4 have "vw_Name v \<noteq> n" by auto
    with run p4 show ?thesis by simp
  qed
qed

subsection \<open>Stale identity is cleared\<close>

definition settled :: "(string, Assignment) fmap \<Rightarrow> string \<Rightarrow> bool" where
  "settled out n \<longleftrightarrow> (\<exists>a. fmlookup out n = Some a \<and> (as_Bound a \<or> as_Clear a))"

lemma settled_upd: "as_Bound a \<or> as_Clear a \<Longrightarrow> settled out n \<Longrightarrow> settled (fmupd m a out) n"
  by (auto simp: settled_def)

lemma clearStep_settled: "settled (st_out st) n \<Longrightarrow> settled (st_out (clearStep ord v st)) n"
  by (simp add: clearStep_def settled_upd)

lemma clearStep_settles:
  "HasIdentity (ord (vw_Name v)) (vw_Annotations v) \<Longrightarrow> settled (st_out (clearStep ord v st)) (vw_Name v)"
  by (auto simp: clearStep_def settled_def getAsg_bound)

lemma phase3_settled:
  assumes "v \<in> set dpus" and "HasIdentity (ord (vw_Name v)) (vw_Annotations v)"
  shows "settled (st_out (fold (clearStep ord) dpus st)) (vw_Name v)"
proof -
  from assms(1) obtain pre post where split: "dpus = pre @ v # post" by (meson split_list)
  have "settled (st_out (clearStep ord v (fold (clearStep ord) pre st))) (vw_Name v)"
    by (rule clearStep_settles [of ord v, OF assms(2)])
  then show ?thesis
    unfolding split fold_append o_apply fold_simps
    by (rule fold_inv [where P = "\<lambda>st. settled (st_out st) (vw_Name v)", rotated]) (rule clearStep_settled)
qed

lemma AssignDevices_settled:
  assumes "v \<in> set dpus" and "HasIdentity (ord (vw_Name v)) (vw_Annotations v)"
  shows "settled (AssignDevices ord dpus live) (vw_Name v)"
proof -
  have p3: "settled (st_out (phase3 ord dpus live)) (vw_Name v)"
    unfolding phase3_def by (rule phase3_settled [of v dpus ord, OF assms])
  have p4: "settled (st_out (phase4 ord dpus live)) (vw_Name v)"
    unfolding phase4_def
    by (rule fold_inv [where P = "\<lambda>st. settled (st_out st) (vw_Name v)", OF _ p3])
      (auto simp: bindDevice_def settled_upd)
  from AssignDevices_phases [of ord dpus live] p4 show ?thesis by (auto simp: settled_upd)
qed

subsection \<open>A claimed serial wins\<close>

lemma serialStep_other: "vw_Name v \<noteq> n \<Longrightarrow> fmlookup (st_out (serialStep ord ix v st)) n = fmlookup (st_out st) n"
  by (simp add: serialStep_def Let_def bindDevice_other split: option.split)

lemma serialFold_other:
  "n \<notin> vw_Name ` set vs \<Longrightarrow> fmlookup (st_out (fold (serialStep ord ix) vs st)) n = fmlookup (st_out st) n"
  by (induction vs arbitrary: st) (auto simp: serialStep_other)

lemma serialStep_used:
  "set (st_used (serialStep ord (indexSerial live) v st)) \<subseteq>
     insert (claimedSerial (ord (vw_Name v)) (vw_Annotations v)) (set (st_used st))"
  by (auto simp: serialStep_def Let_def bindDevice_def dest: indexSerial_live split: option.splits)

lemma serialFold_used:
  "set (st_used (fold (serialStep ord (indexSerial live)) vs st)) \<subseteq>
     set (st_used st) \<union> (\<lambda>v. claimedSerial (ord (vw_Name v)) (vw_Annotations v)) ` set vs"
proof (induction vs arbitrary: st)
  case (Cons v vs)
  from Cons.IH [of "serialStep ord (indexSerial live) v st"] serialStep_used [of ord live v st]
  show ?case by auto
qed simp

lemma indexSerial_total:
  assumes "d \<in> set live" and "distinct (map dv_SerialNumber live)"
  shows "fmlookup (indexSerial live) (dv_SerialNumber d) = Some d"
proof -
  have other: "fmlookup (fold (\<lambda>d. fmupd (dv_SerialNumber d) d) ds m) k = fmlookup m k"
    if "k \<notin> dv_SerialNumber ` set ds" for ds :: "Device list" and m k
    using that by (induction ds arbitrary: m) auto
  from assms(1) obtain ys zs where split: "live = ys @ d # zs" by (meson split_list)
  with assms(2) have "dv_SerialNumber d \<notin> dv_SerialNumber ` set zs" by auto
  with split show ?thesis by (simp add: indexSerial_def other)
qed

lemma serial_wins:
  assumes dpus: "dpus = pre @ v # post" "distinct (map vw_Name dpus)"
    and live: "d \<in> set live" "distinct (map dv_SerialNumber live)"
    and claim: "claimedSerial (ord (vw_Name v)) (vw_Annotations v) = dv_SerialNumber d" "dv_SerialNumber d \<noteq> ''''"
    and first: "\<forall>u \<in> set pre. claimedSerial (ord (vw_Name u)) (vw_Annotations u) \<noteq> dv_SerialNumber d"
  shows "boundTo (AssignDevices ord dpus live) (vw_Name v) d"
proof -
  let ?n = "vw_Name v"
  define st0 where "st0 = fold (serialStep ord (indexSerial live)) pre \<lparr>st_out = fmempty, st_used = []\<rparr>"
  have "dv_SerialNumber d \<notin> set (st_used st0)"
  proof
    assume "dv_SerialNumber d \<in> set (st_used st0)"
    with serialFold_used [of ord live pre "\<lparr>st_out = fmempty, st_used = []\<rparr>"]
    have "dv_SerialNumber d \<in> (\<lambda>v. claimedSerial (ord (vw_Name v)) (vw_Annotations v)) ` set pre"
      unfolding st0_def by (simp add: subset_iff)
    with first show False by auto
  qed
  then have "serialStep ord (indexSerial live) v st0 = bindDevice ?n d st0"
    using claim indexSerial_total [OF live] by (simp add: serialStep_def)
  then have "fmlookup (st_out (fold (serialStep ord (indexSerial live)) dpus \<lparr>st_out = fmempty, st_used = []\<rparr>)) ?n =
      Some \<lparr>as_Device = Some d, as_Bound = True, as_Clear = False\<rparr>"
    using dpus by (simp add: serialFold_other st0_def) (simp add: bindDevice_def)
  then have p2: "fmlookup (st_out (phase2 ord dpus live)) ?n = Some \<lparr>as_Device = Some d, as_Bound = True, as_Clear = False\<rparr>"
    unfolding phase2_def by (subst fold_keeps [OF pciStep_keeps]) (simp_all add: getAsg_def)
  then have "as_Bound (getAsg (st_out (phase2 ord dpus live)) ?n)" by (simp add: getAsg_def)
  from AssignDevices_keeps [OF this] p2 show ?thesis by (simp add: boundTo_def)
qed

subsection \<open>Stamped identity\<close>

lemma annotation_keys_neq [simp]:
  "SerialNumberAnnotation \<noteq> PCIAddressAnnotation" "SerialNumberAnnotation \<noteq> ProductNameAnnotation"
  "AMDSerialNumberAnnotation \<noteq> PCIAddressAnnotation" "AMDSerialNumberAnnotation \<noteq> ProductNameAnnotation"
  "MarvellSerialNumberAnnotation \<noteq> PCIAddressAnnotation" "MarvellSerialNumberAnnotation \<noteq> ProductNameAnnotation"
  "SerialNumberAnnotation \<noteq> AMDSerialNumberAnnotation" "AMDSerialNumberAnnotation \<noteq> SerialNumberAnnotation"
  "SerialNumberAnnotation \<noteq> MarvellSerialNumberAnnotation" "MarvellSerialNumberAnnotation \<noteq> SerialNumberAnnotation"
  "AMDSerialNumberAnnotation \<noteq> MarvellSerialNumberAnnotation" "MarvellSerialNumberAnnotation \<noteq> AMDSerialNumberAnnotation"
  by (simp_all add: const_defs)

definition vendorKeys :: "VendorAnnotations set" where
  "vendorKeys = set (map snd annotationsByVendor)"

lemma AnnotationsFor_keys: "AnnotationsFor vid = Some k \<Longrightarrow> k \<in> vendorKeys"
  unfolding AnnotationsFor_def vendorKeys_def by (force dest!: map_of_SomeD)

lemma serial_key_inj: "k \<in> vendorKeys \<Longrightarrow> k' \<in> vendorKeys \<Longrightarrow> va_Serial k = va_Serial k' \<Longrightarrow> k = k'"
  by (auto simp: vendorKeys_def annotationsByVendor_def)

lemma serial_key_neq: "k \<in> vendorKeys \<Longrightarrow> va_Serial k \<noteq> PCIAddressAnnotation \<and> va_Serial k \<noteq> ProductNameAnnotation"
  by (auto simp: vendorKeys_def annotationsByVendor_def)

lemma serial_firmware_neq:
  "k \<in> vendorKeys \<Longrightarrow> k' \<in> vendorKeys \<Longrightarrow>
     va_Serial k \<noteq> va_FirmwareURL k' \<and> va_Serial k \<noteq> va_Flavor k' \<and> va_Serial k \<noteq> va_FirmwareName k'"
  by (auto simp: vendorKeys_def annotationsByVendor_def const_defs)

lemma claimedSerial_only:
  assumes "k0 \<in> set ord" and "\<forall>k \<in> set ord. TrimSpace (sget ann (va_Serial k)) = (if k = k0 then s else '''')" and "s \<noteq> ''''"
  shows "claimedSerial ord ann = s"
  using assms by (induction ord) (auto simp: Let_def split: if_splits)

lemma claimedSerial_none: "\<forall>k \<in> set ord. TrimSpace (sget ann (va_Serial k)) = '''' \<Longrightarrow> claimedSerial ord ann = ''''"
  by (induction ord) (auto simp: Let_def)

lemma StripIdentity_serial: "k \<in> vendorKeys \<Longrightarrow> sget (StripIdentity ann) (va_Serial k) = ''''"
  by (auto simp: StripIdentity_def sget_drop_list IdentityKeys_def vendorKeys_def)

lemma firmwareFor_serial: "k \<in> vendorKeys \<Longrightarrow> va_Serial k |\<notin>| fmdom (firmwareFor a vid)"
  using serial_firmware_neq AnnotationsFor_keys
  by (auto simp: firmwareFor_def Let_def split: option.split)

text \<open>A device the annotator can stamp: identity present, vendor known, serial without outer space.\<close>

definition stampable :: "Device \<Rightarrow> bool" where
  "stampable d \<longleftrightarrow> ValidateIdentity d = Ok () \<and> AnnotationsFor (dv_VendorID d) \<noteq> None \<and>
     TrimSpace (dv_SerialNumber d) = dv_SerialNumber d"

lemma stampable_serial: "stampable d \<Longrightarrow> dv_SerialNumber d \<noteq> ''''"
  by (auto simp: stampable_def ValidateIdentity_def split: if_splits)

lemma desired_serial:
  assumes "stampable d" and "as_Bound asg" and "as_Device asg = Some d" and "set ord = vendorKeys"
  shows "\<exists>new. desiredAnnotations a have' asg = Inr new \<and> claimedSerial ord new = dv_SerialNumber d"
proof -
  from assms(1) obtain k0 where k0: "AnnotationsFor (dv_VendorID d) = Some k0" and v: "ValidateIdentity d = Ok ()"
      and t: "TrimSpace (dv_SerialNumber d) = dv_SerialNumber d"
    by (auto simp: stampable_def)
  note k0v = AnnotationsFor_keys [OF k0]
  define base where "base = fmupd ProductNameAnnotation (dv_ProductName d) (fmupd (va_Serial k0) (dv_SerialNumber d) fmempty)"
  define ident where "ident = (if va_Serial k0 = SerialNumberAnnotation \<and> DPFPCIAddress (dv_PCIAddress d) \<noteq> ''''
      then fmupd PCIAddressAnnotation (DPFPCIAddress (dv_PCIAddress d)) base else base)"
  have i: "IdentityAnnotations d = Inr ident"
    using v k0 by (simp add: IdentityAnnotations_def ident_def base_def Let_def)
  have ids: "va_Serial k |\<in>| fmdom ident \<longleftrightarrow> k = k0" "sget ident (va_Serial k0) = dv_SerialNumber d"
    if "k \<in> vendorKeys" for k
    using serial_key_neq [OF that] serial_key_neq [OF k0v] serial_key_inj [OF that k0v]
    by (auto simp: ident_def base_def)
  define new where "new = fmadd (fmadd (StripIdentity have') ident) (firmwareFor a (dv_VendorID d))"
  have run: "desiredAnnotations a have' asg = Inr new"
    using assms(2,3) i by (simp add: desiredAnnotations_def new_def)
  have "sget new (va_Serial k) = (if k = k0 then dv_SerialNumber d else '''')" if "k \<in> vendorKeys" for k
    using ids [OF that] firmwareFor_serial [OF that, of a "dv_VendorID d"] StripIdentity_serial [OF that, of have'] by (simp add: new_def)
  then have "claimedSerial ord new = dv_SerialNumber d"
    using assms(4) k0v t stampable_serial [OF assms(1)] by (intro claimedSerial_only [of k0]) auto
  with run show ?thesis by blast
qed

text \<open>What the annotator writes for every DPU of a pass.\<close>

definition restamp :: "'w Annotator \<Rightarrow> (string, Assignment) fmap \<Rightarrow> DPUView \<Rightarrow> DPUView" where
  "restamp a out v = (case desiredAnnotations a (vw_Annotations v) (getAsg out (vw_Name v)) of
     Inl _ \<Rightarrow> v | Inr new \<Rightarrow> v\<lparr>vw_Annotations := new\<rparr>)"

lemma restamp_name [simp]: "vw_Name (restamp a out v) = vw_Name v"
  by (simp add: restamp_def split: sum.split)

lemma claimedSerial_empty: "claimedSerial ord ann = '''' \<longleftrightarrow> (\<forall>k \<in> set ord. TrimSpace (sget ann (va_Serial k)) = '''')"
  by (induction ord) (auto simp: Let_def)

lemma restamp_claim:
  assumes live: "\<forall>d \<in> set live. stampable d" "distinct (map dv_SerialNumber live)"
    and v: "v \<in> set dpus" and ords: "\<And>n. set (ord n) = vendorKeys" "\<And>n. set (ord' n) = vendorKeys"
    and out: "out = AssignDevices ord dpus live"
  shows "claimedSerial (ord' (vw_Name v)) (vw_Annotations (restamp a out v)) =
    (case as_Device (getAsg out (vw_Name v)) of Some d \<Rightarrow> (if as_Bound (getAsg out (vw_Name v)) then dv_SerialNumber d else '''')
     | None \<Rightarrow> '''')"
proof -
  let ?g = "getAsg out (vw_Name v)"
  obtain used where inv: "assignInv live \<lparr>st_out = out, st_used = used\<rparr>"
    using AssignDevices_inv [OF live(2)] out by blast
  show ?thesis
  proof (cases "as_Bound ?g")
    case True
    then obtain asg where asg: "fmlookup out (vw_Name v) = Some asg" "as_Bound asg" by (auto simp: getAsg_bound)
    with assignInv_device [OF inv] obtain d where d: "as_Device asg = Some d" by fastforce
    then have "boundTo out (vw_Name v) d" using asg by (simp add: boundTo_def)
    with assignInv_live [OF inv] live(1) have "stampable d" by simp
    from desired_serial [OF this asg(2) d ords(2) [of "vw_Name v"], of a "vw_Annotations v"] asg d show ?thesis
      by (auto simp: restamp_def getAsg_def)
  next
    case False
    have "claimedSerial (ord' (vw_Name v)) (vw_Annotations (restamp a out v)) = ''''"
    proof (cases "as_Clear ?g")
      case True
      with False have "vw_Annotations (restamp a out v) = StripIdentity (vw_Annotations v)"
        by (simp add: restamp_def desiredAnnotations_def)
      then show ?thesis using ords(2) StripIdentity_serial by (simp add: claimedSerial_none)
    next
      case nc: False
      with False have "\<not> settled out (vw_Name v)" by (auto simp: settled_def getAsg_def)
      with AssignDevices_settled [where ord = ord and live = live, OF v] out
      have "\<not> HasIdentity (ord (vw_Name v)) (vw_Annotations v)" by blast
      then have "claimedSerial (ord (vw_Name v)) (vw_Annotations v) = ''''" by (simp add: HasIdentity_def)
      then have "claimedSerial (ord' (vw_Name v)) (vw_Annotations v) = ''''"
        using ords by (simp add: claimedSerial_empty)
      moreover have "vw_Annotations (restamp a out v) = vw_Annotations v"
        using False nc by (simp add: restamp_def desiredAnnotations_def)
      ultimately show ?thesis by simp
    qed
    with False show ?thesis by (simp split: option.split)
  qed
qed

subsection \<open>Properties\<close>

text \<open>C12: the device assignment is sound. With distinct serials on the bus, every binding is to a
  device that is live now, no device is bound to two DPUs, and every DPU that carries hardware
  identity is either bound or marked to be cleared, so no stale identity survives a pass. This
  holds for every order in which Go ranges over the vendor map.\<close>

theorem assign_sound:
  assumes "distinct (map dv_SerialNumber live)"
  shows "(\<forall>n d. boundTo (AssignDevices ord dpus live) n d \<longrightarrow> d \<in> set live) \<and>
    (\<forall>n m d e. boundTo (AssignDevices ord dpus live) n d \<and> boundTo (AssignDevices ord dpus live) m e \<and>
       dv_SerialNumber d = dv_SerialNumber e \<longrightarrow> n = m) \<and>
    (\<forall>v \<in> set dpus. HasIdentity (ord (vw_Name v)) (vw_Annotations v) \<longrightarrow>
       settled (AssignDevices ord dpus live) (vw_Name v))"
proof -
  obtain used where inv: "assignInv live \<lparr>st_out = AssignDevices ord dpus live, st_used = used\<rparr>"
    using AssignDevices_inv [OF assms] by blast
  have "settled (AssignDevices ord dpus live) (vw_Name v)"
    if "v \<in> set dpus" "HasIdentity (ord (vw_Name v)) (vw_Annotations v)" for v
    by (rule AssignDevices_settled [where ord = ord, OF that])
  with assignInv_live [OF inv] assignInv_inj [OF inv] show ?thesis by auto
qed

definition exDevice :: "string \<Rightarrow> string \<Rightarrow> Device" where
  "exDevice pci serial = StaticDevice NVIDIAVendorID serial pci ''''"

definition exLive :: "Device list" where
  "exLive = [exDevice ''0000:0f:00.0'' ''MT1'', exDevice ''0000:1f:00.0'' ''MT2'']"

definition exViews :: "DPUView list" where
  "exViews = [\<lparr>vw_Name = ''dpu-a'', vw_Annotations = fmap_of_list [(SerialNumberAnnotation, ''MT2'')]\<rparr>,
     \<lparr>vw_Name = ''dpu-b'', vw_Annotations = fmempty\<rparr>]"

definition exOrder :: "string \<Rightarrow> vendorOrder" where
  "exOrder n = map snd annotationsByVendor"

theorem assign_sound_witness:
  "settled (AssignDevices exOrder exViews exLive) ''dpu-a'' \<and>
   \<not> boundTo (AssignDevices exOrder exViews exLive) ''dpu-b'' (exDevice ''0000:1f:00.0'' ''MT2'')"
proof -
  let ?out = "AssignDevices exOrder exViews exLive"
  have d: "distinct (map dv_SerialNumber exLive)" by code_simp
  have "boundTo ?out ''dpu-a'' (exDevice ''0000:1f:00.0'' ''MT2'')"
  proof -
    have "fmlookup ?out ''dpu-a'' =
        Some \<lparr>as_Device = Some (exDevice ''0000:1f:00.0'' ''MT2''), as_Bound = True, as_Clear = False\<rparr>" by code_simp
    then show ?thesis by (simp add: boundTo_def)
  qed
  with assign_sound [OF d, of exOrder exViews]
  have "\<not> boundTo ?out ''dpu-b'' (exDevice ''0000:1f:00.0'' ''MT2'')" by blast
  moreover have "HasIdentity (exOrder ''dpu-a'') (vw_Annotations (hd exViews))" "vw_Name (hd exViews) = ''dpu-a''"
    by code_simp+
  moreover have "hd exViews \<in> set exViews" by (simp add: exViews_def)
  ultimately show ?thesis using assign_sound [OF d, of exOrder exViews] by metis
qed

text \<open>C13: bindings are stable. After a pass the annotator stamps every DPU with what the pass
  assigned; in the next pass over the same devices, whatever order Go ranges over the vendor
  map, each DPU that was bound is bound to the same device again.\<close>

theorem assign_stable:
  assumes "\<forall>d \<in> set live. stampable d" and "distinct (map dv_SerialNumber live)"
    and "distinct (map vw_Name dpus)"
    and "\<And>n. set (ord n) = vendorKeys" and "\<And>n. set (ord' n) = vendorKeys"
    and "v \<in> set dpus" and "boundTo (AssignDevices ord dpus live) (vw_Name v) d"
  shows "boundTo (AssignDevices ord' (map (restamp a (AssignDevices ord dpus live)) dpus) live) (vw_Name v) d"
proof -
  define out where "out = AssignDevices ord dpus live"
  obtain used where inv: "assignInv live \<lparr>st_out = out, st_used = used\<rparr>"
    using AssignDevices_inv [OF assms(2)] out_def by blast
  note claim = restamp_claim [where a = a and ord = ord and ord' = ord', OF assms(1,2) _ assms(4,5) out_def]
  have bound: "boundTo out (vw_Name v) d" using assms(7) by (simp add: out_def)
  then have dl: "d \<in> set live" using assignInv_live [OF inv] by simp
  with assms(1) have sn: "dv_SerialNumber d \<noteq> ''''" by (simp add: stampable_serial)
  from assms(6) obtain pre post where split: "dpus = pre @ v # post" by (meson split_list)
  have cv: "claimedSerial (ord' (vw_Name v)) (vw_Annotations (restamp a out v)) = dv_SerialNumber d"
    using claim [OF assms(6)] bound by (auto simp: boundTo_def getAsg_def)
  have cu: "claimedSerial (ord' (vw_Name u)) (vw_Annotations (restamp a out u)) \<noteq> dv_SerialNumber d"
    if u: "u \<in> set pre" for u
  proof
    assume eq: "claimedSerial (ord' (vw_Name u)) (vw_Annotations (restamp a out u)) = dv_SerialNumber d"
    have "u \<in> set dpus" using u split by simp
    from claim [OF this] eq sn obtain e where "as_Device (getAsg out (vw_Name u)) = Some e" "as_Bound (getAsg out (vw_Name u))"
        "dv_SerialNumber e = dv_SerialNumber d" by (auto split: option.splits if_splits)
    then have "boundTo out (vw_Name u) e"
      by (auto simp: boundTo_def getAsg_def zeroAssignment_def split: option.splits)
    with assignInv_inj [OF inv] bound \<open>dv_SerialNumber e = dv_SerialNumber d\<close> have "vw_Name u = vw_Name v" by simp
    moreover have "vw_Name u \<in> vw_Name ` set pre" using u by simp
    ultimately show False using assms(3) split by simp
  qed
  have "boundTo (AssignDevices ord' (map (restamp a out) dpus) live) (vw_Name (restamp a out v)) d"
  proof (rule serial_wins [where pre = "map (restamp a out) pre" and post = "map (restamp a out) post"])
    show "map (restamp a out) dpus = map (restamp a out) pre @ restamp a out v # map (restamp a out) post"
      by (simp add: split)
    show "distinct (map vw_Name (map (restamp a out) dpus))" using assms(3) by (simp add: o_def)
    show "\<forall>u \<in> set (map (restamp a out) pre). claimedSerial (ord' (vw_Name u)) (vw_Annotations u) \<noteq> dv_SerialNumber d"
      using cu by simp
  qed (use dl assms(2) cv sn in simp_all)
  then show ?thesis by (simp add: out_def)
qed

definition exAnnotator :: "unit Annotator" where
  "exAnnotator = \<lparr>an_Get = (\<lambda>_ _. Err (NotFound '''')), an_List = (\<lambda>_. Ok []), an_Patch = (\<lambda>w _ _. (w, None)),
     an_Enumerate = (\<lambda>_. None), an_NodeName = '''', an_VendorID = 0, an_FirmwareURL = '''', an_Flavor = '''',
     an_FirmwareName = ''''\<rparr>"

theorem assign_stable_witness:
  "boundTo (AssignDevices exOrder (map (restamp exAnnotator (AssignDevices exOrder exViews exLive)) exViews) exLive)
     ''dpu-b'' (exDevice ''0000:0f:00.0'' ''MT1'')"
proof -
  let ?v = "\<lparr>vw_Name = ''dpu-b'', vw_Annotations = fmempty\<rparr>"
  have "fmlookup (AssignDevices exOrder exViews exLive) ''dpu-b'' =
      Some \<lparr>as_Device = Some (exDevice ''0000:0f:00.0'' ''MT1''), as_Bound = True, as_Clear = False\<rparr>" by code_simp
  then have b: "boundTo (AssignDevices exOrder exViews exLive) (vw_Name ?v) (exDevice ''0000:0f:00.0'' ''MT1'')"
    by (simp add: boundTo_def)
  have st: "list_all (\<lambda>d. ValidateIdentity d = Ok () \<and> AnnotationsFor (dv_VendorID d) \<noteq> None \<and>
      TrimSpace (dv_SerialNumber d) = dv_SerialNumber d) exLive" by code_simp
  have d1: "distinct (map dv_SerialNumber exLive)" "distinct (map vw_Name exViews)" by code_simp+
  have o: "set (exOrder n) = vendorKeys" for n by (simp add: exOrder_def vendorKeys_def)
  have mem: "?v \<in> set exViews" by (simp add: exViews_def)
  have "\<forall>d \<in> set exLive. stampable d" using st by (simp add: list_all_iff stampable_def)
  from assign_stable [OF this d1 o o mem b] show ?thesis by simp
qed

text \<open>A claimed serial wins. A DPU whose serial annotation names a live device is bound to
  exactly that device, unless an earlier DPU of the list claims the same serial; position on the
  bus and names do not matter.\<close>

theorem assign_serial_wins:
  assumes "dpus = pre @ v # post" and "distinct (map vw_Name dpus)"
    and "d \<in> set live" and "distinct (map dv_SerialNumber live)"
    and "claimedSerial (ord (vw_Name v)) (vw_Annotations v) = dv_SerialNumber d" and "dv_SerialNumber d \<noteq> ''''"
    and "\<forall>u \<in> set pre. claimedSerial (ord (vw_Name u)) (vw_Annotations u) \<noteq> dv_SerialNumber d"
  shows "boundTo (AssignDevices ord dpus live) (vw_Name v) d"
  by (rule serial_wins [where ord = ord, OF assms])

theorem assign_serial_wins_witness:
  "boundTo (AssignDevices exOrder exViews exLive) ''dpu-a'' (exDevice ''0000:1f:00.0'' ''MT2'')"
proof -
  let ?v = "hd exViews"
  have "exViews = [] @ ?v # tl exViews" by (simp add: exViews_def)
  moreover have "distinct (map vw_Name exViews)" "distinct (map dv_SerialNumber exLive)" by code_simp+
  moreover have "exDevice ''0000:1f:00.0'' ''MT2'' \<in> set exLive" by (simp add: exLive_def)
  moreover have "claimedSerial (exOrder (vw_Name ?v)) (vw_Annotations ?v) = dv_SerialNumber (exDevice ''0000:1f:00.0'' ''MT2'')"
      "dv_SerialNumber (exDevice ''0000:1f:00.0'' ''MT2'') \<noteq> ''''" "vw_Name ?v = ''dpu-a''" by code_simp+
  ultimately show ?thesis
    using assign_serial_wins [of exViews "[]" ?v "tl exViews" "exDevice ''0000:1f:00.0'' ''MT2''" exLive exOrder] by simp
qed

text \<open>The equality test of the annotator reads a missing key as the empty string: maps that differ can pass for equal.\<close>

theorem annotationsEqual_gap:
  "annotationsEqual (fmap_of_list [(AMDSerialNumberAnnotation, ''S''), (SerialNumberAnnotation, ''stale'')])
     (fmap_of_list [(AMDSerialNumberAnnotation, ''S''), (ProductNameAnnotation, '''')])"
  by code_simp

end
