(* ===== verification/MappingSpec.thy ===== *)
theory MappingSpec
  imports Json
begin

text \<open>
  The mapping documents of pkg/mapping: the types and the validation of spec.go, the file
  filter and directory loader of load.go, the assigned-writer table of condition_writers.go
  and the schema walk of schema_path.go. The YAML decoder and the file system are parameters
  of the loaders. A Go \<^verbatim>\<open>any\<close> that may be nil is an optional value; errors keep the
  place and the rule that was broken instead of a formatted text.
\<close>

subsection \<open>Documents\<close>

definition APIVersion :: string where "APIVersion = ''translation.opi.nvidia.com/v1alpha1''"
definition Kind :: string where "Kind = ''FieldMapping''"
definition ReservedConditionType :: string where "ReservedConditionType = ''Ready''"
definition StatusSchemaConditions :: string where "StatusSchemaConditions = ''conditions''"
definition StatusSchemaPruned :: string where "StatusSchemaPruned = ''pruned''"

record MapRef =
  mr_Group :: string
  mr_Version :: string
  mr_Kind :: string

record Value =
  va_From :: string
  va_CEL :: string
  va_Value :: string
  va_Default :: "jv option"
  va_Required :: bool

record Field =
  fd_To :: string
  fd_From :: string
  fd_CEL :: string
  fd_Value :: "jv option"
  fd_Default :: "jv option"
  fd_Required :: bool

record Emit =
  em_Target :: MapRef
  em_Name :: Value
  em_Namespace :: Value
  em_When :: string
  em_ForEach :: "string option"
  em_Fields :: "Field list"

record StatusCondition =
  sc_Type :: string
  sc_Status :: string
  sc_Reason :: string
  sc_Message :: string

record StatusMapping =
  sm_When :: string
  sm_Schema :: string
  sm_Fields :: "Field list"
  sm_Conditions :: "StatusCondition list"

record Spec =
  sp_APIVersion :: string
  sp_Kind :: string
  sp_Name :: string
  sp_Source :: MapRef
  sp_Defaults :: "Value option"
  sp_Emit :: "Emit list"
  sp_Status :: "StatusMapping option"
  sp_PruneWhen :: string

definition value_empty :: "Value \<Rightarrow> bool" where
  "value_empty v \<longleftrightarrow> va_From v = '''' \<and> va_CEL v = '''' \<and> va_Value v = ''''"

definition nonEmpty :: "string \<Rightarrow> jv option" where
  "nonEmpty s = (if s = '''' then None else Some (JStr s))"

definition asField :: "Value \<Rightarrow> Field" where
  "asField v = \<lparr>fd_To = '''', fd_From = va_From v, fd_CEL = va_CEL v, fd_Value = nonEmpty (va_Value v),
     fd_Default = va_Default v, fd_Required = va_Required v\<rparr>"

subsection \<open>Validation\<close>

datatype place = AtDefaults | AtEmitName nat | AtEmitNamespace nat | AtEmitField nat nat | AtStatusField nat

datatype map_err = BadAPIVersion string | BadKind string | NameMissing | SourceMissing | NotOneSource place | NoEmit
  | TargetIncomplete nat | EmitNameMissing nat | ToMissing place | TypeMissing nat | StatusMissing nat | TypeReserved nat
  | SchemaMissing | SchemaUnknown string
  | EmitErr nat string map_err | NameErr map_err | NamespaceErr map_err | FieldErr string map_err
  | StatusWhenErr map_err | ConditionErr string map_err | PruneErr map_err
  | NotAListErr string | NameNotString jv | NamespaceNotString jv | RequiredEmpty | ItemNotObject string
  | CelErr string string | CelNotBool string | CelNotString string | PathErr path_err
  | ReadErr string | DecodeErr string | InFile string map_err | NoDocuments
  | TableKind string | TableEmpty | RowIncomplete nat | RowSchema nat string | RowReady nat string
  | RowDuplicate string string string

definition sourceCount :: "string \<Rightarrow> string \<Rightarrow> bool \<Rightarrow> nat" where
  "sourceCount from cel hasValue =
     (if from \<noteq> '''' then 1 else 0) + (if cel \<noteq> '''' then 1 else 0) + (if hasValue then 1 else 0)"

definition validateField :: "place \<Rightarrow> Field \<Rightarrow> (map_err, unit) result" where
  "validateField at f =
     (if fd_To f = '''' then Err (ToMissing at)
      else if sourceCount (fd_From f) (fd_CEL f) (fd_Value f \<noteq> None) \<noteq> 1 then Err (NotOneSource at)
      else Ok ())"

definition valueSourcesOK :: "place \<Rightarrow> Value \<Rightarrow> (map_err, unit) result" where
  "valueSourcesOK at v =
     (if sourceCount (va_From v) (va_CEL v) (va_Value v \<noteq> '''') \<noteq> 1 then Err (NotOneSource at) else Ok ())"

definition validateEmit :: "nat \<Rightarrow> Emit \<Rightarrow> (map_err, unit) result" where
  "validateEmit i e =
     (if mr_Kind (em_Target e) = '''' \<or> mr_Version (em_Target e) = '''' then Err (TargetIncomplete i)
      else if value_empty (em_Name e) then Err (EmitNameMissing i)
      else bind_res (valueSourcesOK (AtEmitName i) (em_Name e)) (\<lambda>_.
           bind_res (if \<not> value_empty (em_Namespace e) then valueSourcesOK (AtEmitNamespace i) (em_Namespace e) else Ok ())
             (\<lambda>_. check_all (\<lambda>j f. validateField (AtEmitField i j) f) 0 (em_Fields e))))"

definition validateCondition :: "nat \<Rightarrow> StatusCondition \<Rightarrow> (map_err, unit) result" where
  "validateCondition i c =
     (if TrimSpace (sc_Type c) = '''' then Err (TypeMissing i)
      else if TrimSpace (sc_Status c) = '''' then Err (StatusMissing i)
      else if EqualFold (TrimSpace (sc_Type c)) ReservedConditionType then Err (TypeReserved i)
      else Ok ())"

definition validateStatus :: "StatusMapping \<Rightarrow> (map_err, unit) result" where
  "validateStatus st =
     bind_res (check_all (\<lambda>i f. validateField (AtStatusField i) f) 0 (sm_Fields st)) (\<lambda>_.
     bind_res (check_all validateCondition 0 (sm_Conditions st)) (\<lambda>_.
       if sm_Conditions st = [] then Ok ()
       else if sm_Schema st = StatusSchemaConditions \<or> sm_Schema st = StatusSchemaPruned then Ok ()
       else if sm_Schema st = '''' then Err SchemaMissing
       else Err (SchemaUnknown (sm_Schema st))))"

definition Validate :: "Spec \<Rightarrow> (map_err, unit) result" where
  "Validate s =
     (if sp_APIVersion s \<noteq> APIVersion then Err (BadAPIVersion (sp_APIVersion s))
      else if sp_Kind s \<noteq> Kind then Err (BadKind (sp_Kind s))
      else if TrimSpace (sp_Name s) = '''' then Err NameMissing
      else if mr_Kind (sp_Source s) = '''' \<or> mr_Version (sp_Source s) = '''' then Err SourceMissing
      else bind_res (case sp_Defaults s of
               Some ns \<Rightarrow> if \<not> value_empty ns then valueSourcesOK AtDefaults ns else Ok ()
             | None \<Rightarrow> Ok ()) (\<lambda>_.
        if sp_Emit s = [] then Err NoEmit
        else bind_res (check_all validateEmit 0 (sp_Emit s)) (\<lambda>_.
          case sp_Status s of None \<Rightarrow> Ok () | Some st \<Rightarrow> validateStatus st)))"

subsection \<open>Loading a directory of documents\<close>

definition isMappingFile :: "string \<Rightarrow> bool" where
  "isMappingFile name =
     (let lower = ToLower name in
      if lower = ''kustomization.yaml'' \<or> lower = ''kustomization.yml'' \<or> lower = ''kustomize.yaml'' then False
      else HasSuffix lower ''.yaml'' \<or> HasSuffix lower ''.yml'')"

text \<open>
  \<open>read\<close> is \<^verbatim>\<open>os.ReadFile\<close> and \<open>unmarshal\<close> the YAML decoder, each with its error
  text; the entries of a directory are names with the directory flag.
\<close>

definition LoadFile ::
    "(string \<Rightarrow> (string, string) result) \<Rightarrow> (string \<Rightarrow> (string, Spec) result) \<Rightarrow> string \<Rightarrow> (map_err, Spec) result" where
  "LoadFile read unmarshal path =
     (case read path of Inl e \<Rightarrow> Err (ReadErr e)
      | Inr b \<Rightarrow>
        (case unmarshal b of Inl e \<Rightarrow> Err (InFile path (DecodeErr e))
         | Inr s \<Rightarrow>
           (case Validate s of Inl e \<Rightarrow> Err (InFile path e) | Inr _ \<Rightarrow> Ok s)))"

definition LoadDir ::
    "(string \<Rightarrow> (string, (string \<times> bool) list) result) \<Rightarrow> (string \<Rightarrow> (string, string) result) \<Rightarrow>
     (string \<Rightarrow> (string, Spec) result) \<Rightarrow> string \<Rightarrow> (map_err, Spec list) result" where
  "LoadDir readDir read unmarshal dir =
     (case readDir dir of Inl e \<Rightarrow> Err (ReadErr e)
      | Inr entries \<Rightarrow>
        bind_res (traverse (\<lambda>(name, _). LoadFile read unmarshal (dir @ ''/'' @ name))
             (filter (\<lambda>(name, isDir). \<not> isDir \<and> isMappingFile name) entries))
          (\<lambda>specs. if specs = [] then Err NoDocuments else Ok specs))"

subsection \<open>The table of condition writers\<close>

definition ConditionWriterTableKind :: string where "ConditionWriterTableKind = ''ConditionWriterTable''"
definition DaemonWriter :: string where "DaemonWriter = ''vsp-opi-daemon''"
definition LifecycleWriter :: string where "LifecycleWriter = ''lifecycle''"
definition mappingWriterPrefix :: string where "mappingWriterPrefix = ''mapping:''"

record ConditionWriter =
  cw_Object :: MapRef
  cw_Type :: string
  cw_Writer :: string
  cw_Schema :: string

record ConditionWriterTable =
  wt_APIVersion :: string
  wt_Kind :: string
  wt_Writers :: "ConditionWriter list"

definition writerKey :: "ConditionWriter \<Rightarrow> string" where
  "writerKey w = mr_Group (cw_Object w) @ ''/'' @ mr_Version (cw_Object w) @ ''/'' @ mr_Kind (cw_Object w) @ '':'' @ cw_Type w"

fun checkWriters :: "(string, string) fmap \<Rightarrow> nat \<Rightarrow> ConditionWriter list \<Rightarrow> (map_err, unit) result" where
  "checkWriters seen i [] = Ok ()"
| "checkWriters seen i (w # ws) =
     (if cw_Type w = '''' \<or> cw_Writer w = '''' \<or> mr_Kind (cw_Object w) = '''' then Err (RowIncomplete i)
      else if cw_Schema w \<noteq> StatusSchemaConditions \<and> cw_Schema w \<noteq> StatusSchemaPruned then Err (RowSchema i (cw_Schema w))
      else if EqualFold (cw_Type w) ReservedConditionType \<and> cw_Writer w \<noteq> DaemonWriter then Err (RowReady i (cw_Writer w))
      else case fmlookup seen (writerKey w) of
        Some prev \<Rightarrow> Err (RowDuplicate prev (cw_Writer w) (writerKey w))
      | None \<Rightarrow> checkWriters (fmupd (writerKey w) (cw_Writer w) seen) (Suc i) ws)"

definition LoadConditionWriterTable ::
    "(string \<Rightarrow> (string, string) result) \<Rightarrow> (string \<Rightarrow> (string, ConditionWriterTable) result) \<Rightarrow> string \<Rightarrow>
     (map_err, ConditionWriterTable) result" where
  "LoadConditionWriterTable read unmarshal path =
     (case read path of Inl e \<Rightarrow> Err (ReadErr e)
      | Inr b \<Rightarrow>
        (case unmarshal b of Inl e \<Rightarrow> Err (InFile path (DecodeErr e))
         | Inr t \<Rightarrow>
           (if wt_Kind t \<noteq> ConditionWriterTableKind then Err (InFile path (TableKind (wt_Kind t)))
            else if wt_Writers t = [] then Err (InFile path TableEmpty)
            else case checkWriters fmempty 0 (wt_Writers t) of
              Inl e \<Rightarrow> Err (InFile path e) | Inr _ \<Rightarrow> Ok t)))"

definition MappingWriter :: "string \<Rightarrow> string" where
  "MappingWriter name = mappingWriterPrefix @ name"

subsection \<open>Paths of a CRD schema\<close>

text \<open>One step down the schema: into \<^verbatim>\<open>properties\<close>, and into \<^verbatim>\<open>items\<close> for a slice step.\<close>

definition objField :: "jobj \<Rightarrow> string \<Rightarrow> jobj option" where
  "objField m k = (case fmlookup m k of None \<Rightarrow> None | Some v \<Rightarrow> asMap v)"

fun schemaWalk :: "jobj \<Rightarrow> string list \<Rightarrow> bool" where
  "schemaWalk node [] = True"
| "schemaWalk node (part # ps) =
     (if part = '''' then schemaWalk node ps
      else case objField node ''properties'' of None \<Rightarrow> False
      | Some props \<Rightarrow>
        (case objField props (TrimSuffix part ''[]'') of None \<Rightarrow> False
         | Some child \<Rightarrow>
           (if HasSuffix part ''[]'' then
              (case objField child ''items'' of None \<Rightarrow> False | Some items \<Rightarrow> schemaWalk items ps)
            else schemaWalk child ps)))"

definition SchemaHasPath :: "jobj \<Rightarrow> string \<Rightarrow> bool" where
  "SchemaHasPath root dotted =
     (if dotted = ''metadata.labels'' \<or> dotted = ''metadata.annotations''
      then schemaWalk root (Split ''metadata'' CHR ''.'')
      else schemaWalk root (Split dotted CHR ''.''))"

subsection \<open>What validation guarantees\<close>

text \<open>The declarative reading of the rules: how many of the three sources of a value are set.\<close>

definition oneSource :: "string \<Rightarrow> string \<Rightarrow> bool \<Rightarrow> bool" where
  "oneSource from cel hasValue \<longleftrightarrow>
     (from \<noteq> '''' \<and> cel = '''' \<and> \<not> hasValue) \<or> (from = '''' \<and> cel \<noteq> '''' \<and> \<not> hasValue) \<or>
     (from = '''' \<and> cel = '''' \<and> hasValue)"

definition wfField :: "Field \<Rightarrow> bool" where
  "wfField f \<longleftrightarrow> fd_To f \<noteq> '''' \<and> oneSource (fd_From f) (fd_CEL f) (fd_Value f \<noteq> None)"

definition wfValue :: "Value \<Rightarrow> bool" where
  "wfValue v \<longleftrightarrow> oneSource (va_From v) (va_CEL v) (va_Value v \<noteq> '''')"

definition wfEmit :: "Emit \<Rightarrow> bool" where
  "wfEmit e \<longleftrightarrow> mr_Kind (em_Target e) \<noteq> '''' \<and> mr_Version (em_Target e) \<noteq> '''' \<and> wfValue (em_Name e) \<and>
     (value_empty (em_Namespace e) \<or> wfValue (em_Namespace e)) \<and> list_all wfField (em_Fields e)"

definition wfCondition :: "StatusCondition \<Rightarrow> bool" where
  "wfCondition c \<longleftrightarrow> TrimSpace (sc_Type c) \<noteq> '''' \<and> TrimSpace (sc_Status c) \<noteq> '''' \<and>
     ToLower (TrimSpace (sc_Type c)) \<noteq> ''ready''"

definition wfStatus :: "StatusMapping \<Rightarrow> bool" where
  "wfStatus st \<longleftrightarrow> list_all wfField (sm_Fields st) \<and> list_all wfCondition (sm_Conditions st) \<and>
     (sm_Conditions st = [] \<or> sm_Schema st \<in> {StatusSchemaConditions, StatusSchemaPruned})"

definition wfSpec :: "Spec \<Rightarrow> bool" where
  "wfSpec s \<longleftrightarrow> sp_APIVersion s = APIVersion \<and> sp_Kind s = Kind \<and> TrimSpace (sp_Name s) \<noteq> '''' \<and>
     mr_Kind (sp_Source s) \<noteq> '''' \<and> mr_Version (sp_Source s) \<noteq> '''' \<and>
     pred_option (\<lambda>v. value_empty v \<or> wfValue v) (sp_Defaults s) \<and>
     sp_Emit s \<noteq> [] \<and> list_all wfEmit (sp_Emit s) \<and> pred_option wfStatus (sp_Status s)"

lemma sourceCount_one: "sourceCount a b c = 1 \<longleftrightarrow> oneSource a b c"
  by (auto simp: sourceCount_def oneSource_def)

lemma wfValue_not_empty: "wfValue v \<Longrightarrow> \<not> value_empty v"
  by (auto simp: wfValue_def oneSource_def value_empty_def)

lemma check_all_list_all:
  assumes "\<And>i x. f i x = Inr () \<longleftrightarrow> P x"
  shows "check_all f k xs = Inr () \<longleftrightarrow> list_all P xs"
  by (simp add: check_all_ok assms list_all_length)

lemma validateField_ok: "validateField at f = Inr () \<longleftrightarrow> wfField f"
  using sourceCount_one by (auto simp: validateField_def wfField_def)

lemma valueSourcesOK_ok: "valueSourcesOK at v = Inr () \<longleftrightarrow> wfValue v"
  using sourceCount_one by (auto simp: valueSourcesOK_def wfValue_def)

lemma validateCondition_ok: "validateCondition i c = Inr () \<longleftrightarrow> wfCondition c"
proof -
  have "ToLower ReservedConditionType = ''ready''" by code_simp
  then show ?thesis by (auto simp: validateCondition_def wfCondition_def EqualFold_def)
qed

lemma validateEmit_ok: "validateEmit i e = Inr () \<longleftrightarrow> wfEmit e"
  by (auto simp: validateEmit_def wfEmit_def bind_res_Inr_iff valueSourcesOK_ok wfValue_not_empty
      check_all_list_all [where P = wfField, OF validateField_ok])

lemma validateStatus_ok: "validateStatus st = Inr () \<longleftrightarrow> wfStatus st"
  by (auto simp: validateStatus_def wfStatus_def bind_res_Inr_iff
      check_all_list_all [where P = wfField, OF validateField_ok]
      check_all_list_all [where P = wfCondition, OF validateCondition_ok])

lemma Validate_wfSpec: "Validate s = Inr () \<longleftrightarrow> wfSpec s"
  by (auto simp: Validate_def wfSpec_def bind_res_Inr_iff valueSourcesOK_ok validateStatus_ok
      check_all_list_all [where P = wfEmit, OF validateEmit_ok] split: option.splits)


text \<open>Every document a directory load returns is valid, and the load drops nothing: it gives
  one document, in order, for each file that is a mapping file by name, and at least one.\<close>

theorem load_dir_valid:
  assumes "LoadDir readDir read unmarshal dir = Inr specs"
  shows "specs \<noteq> [] \<and> list_all wfSpec specs \<and>
    (\<exists>entries. readDir dir = Inr entries \<and>
       list_all2 (\<lambda>entry s. \<exists>b. read (dir @ ''/'' @ fst entry) = Inr b \<and> unmarshal b = Inr s)
         (filter (\<lambda>(name, isDir). \<not> isDir \<and> isMappingFile name) entries) specs)"
proof -
  from assms obtain entries where dir: "readDir dir = Inr entries" and ne: "specs \<noteq> []"
      and tr: "traverse (\<lambda>(name, _). LoadFile read unmarshal (dir @ ''/'' @ name))
             (filter (\<lambda>(name, isDir). \<not> isDir \<and> isMappingFile name) entries) = Inr specs"
    by (auto simp: LoadDir_def bind_res_Inr_iff split: sum.splits if_splits)
  have loaded: "wfSpec s \<and> (\<exists>b. read p = Inr b \<and> unmarshal b = Inr s)" if "LoadFile read unmarshal p = Inr s" for p s
    using that Validate_wfSpec by (auto simp: LoadFile_def split: sum.splits)
  have "list_all wfSpec specs"
    using traverse_Inr_mem [OF tr] loaded by (fastforce simp: list_all_iff)
  moreover have "list_all2 (\<lambda>entry s. \<exists>b. read (dir @ ''/'' @ fst entry) = Inr b \<and> unmarshal b = Inr s)
      (filter (\<lambda>(name, isDir). \<not> isDir \<and> isMappingFile name) entries) specs"
    using tr unfolding traverse_Inr_iff by (rule list_all2_mono) (auto dest: loaded)
  ultimately show ?thesis using dir ne by blast
qed

definition exSpec :: Spec where
  "exSpec = \<lparr>sp_APIVersion = APIVersion, sp_Kind = Kind, sp_Name = ''dpu'',
     sp_Source = \<lparr>mr_Group = ''config.openshift.io'', mr_Version = ''v1'', mr_Kind = ''DataProcessingUnit''\<rparr>,
     sp_Defaults = None,
     sp_Emit = [\<lparr>em_Target = \<lparr>mr_Group = ''provisioning.dpu.nvidia.com'', mr_Version = ''v1alpha1'', mr_Kind = ''DPUDevice''\<rparr>,
        em_Name = \<lparr>va_From = ''metadata.name'', va_CEL = '''', va_Value = '''', va_Default = None, va_Required = True\<rparr>,
        em_Namespace = \<lparr>va_From = '''', va_CEL = '''', va_Value = ''dpf'', va_Default = None, va_Required = False\<rparr>,
        em_When = '''', em_ForEach = None,
        em_Fields = [\<lparr>fd_To = ''spec.node'', fd_From = ''spec.nodeName'', fd_CEL = '''', fd_Value = None,
          fd_Default = None, fd_Required = False\<rparr>]\<rparr>],
     sp_Status = Some \<lparr>sm_When = '''', sm_Schema = StatusSchemaConditions, sm_Fields = [],
       sm_Conditions = [\<lparr>sc_Type = ''DPFReady'', sc_Status = ''ready'', sc_Reason = ''AllChildrenReady'', sc_Message = ''''\<rparr>]\<rparr>,
     sp_PruneWhen = ''''\<rparr>"

theorem load_dir_valid_witness:
  "LoadDir (\<lambda>_. Inr [(''dpu.YAML'', False), (''kustomization.yaml'', False)]) Inr (\<lambda>_. Inr exSpec) ''d'' = Inr [exSpec] \<and>
   wfSpec exSpec"
proof -
  have run: "LoadDir (\<lambda>_. Inr [(''dpu.YAML'', False), (''kustomization.yaml'', False)]) Inr (\<lambda>_. Inr exSpec) ''d'' = Inr [exSpec]"
    by code_simp
  from load_dir_valid [OF run] run show ?thesis by simp
qed

lemma checkWriters_ok:
  assumes "checkWriters seen i ws = Inr ()"
  shows "distinct (map writerKey ws) \<and> (\<forall>w \<in> set ws. writerKey w |\<notin>| fmdom seen \<and>
    (EqualFold (cw_Type w) ReservedConditionType \<longrightarrow> cw_Writer w = DaemonWriter))"
  using assms
proof (induction ws arbitrary: seen i)
  case (Cons w ws)
  from Cons.prems have rest: "checkWriters (fmupd (writerKey w) (cw_Writer w) seen) (Suc i) ws = Inr ()"
    and w: "fmlookup seen (writerKey w) = None" "EqualFold (cw_Type w) ReservedConditionType \<longrightarrow> cw_Writer w = DaemonWriter"
    by (auto split: if_splits option.splits)
  from Cons.IH [OF rest] w show ?case by (auto simp: fmdom_notI)
qed simp

text \<open>The writer table assigns one writer to each condition. In a table that loads, no two
  rows name the same object kind and condition type, and a row for Ready, in any letter case,
  names the per-node daemon.\<close>

theorem writer_table_single:
  assumes "LoadConditionWriterTable read unmarshal path = Inr t"
    and "i < length (wt_Writers t)" and "j < length (wt_Writers t)"
    and "cw_Object (wt_Writers t ! i) = cw_Object (wt_Writers t ! j)"
    and "cw_Type (wt_Writers t ! i) = cw_Type (wt_Writers t ! j)"
  shows "i = j \<and> (ToLower (cw_Type (wt_Writers t ! i)) = ''ready'' \<longrightarrow> cw_Writer (wt_Writers t ! i) = DaemonWriter)"
proof -
  from assms(1) have "checkWriters fmempty 0 (wt_Writers t) = Inr ()"
    by (auto simp: LoadConditionWriterTable_def split: sum.splits if_splits)
  note ok = checkWriters_ok [OF this]
  have "writerKey (wt_Writers t ! i) = writerKey (wt_Writers t ! j)"
    using assms(4,5) by (simp add: writerKey_def)
  then have "i = j"
    using ok assms(2,3) by (metis distinct_conv_nth length_map nth_map)
  moreover have "ToLower ReservedConditionType = ''ready''" by code_simp
  ultimately show ?thesis using ok assms(2) by (simp add: EqualFold_def)
qed

definition exTable :: ConditionWriterTable where
  "exTable = \<lparr>wt_APIVersion = APIVersion, wt_Kind = ConditionWriterTableKind,
     wt_Writers = [
       \<lparr>cw_Object = sp_Source exSpec, cw_Type = ''Ready'', cw_Writer = DaemonWriter, cw_Schema = StatusSchemaConditions\<rparr>,
       \<lparr>cw_Object = sp_Source exSpec, cw_Type = ''DPFReady'', cw_Writer = MappingWriter ''dpu'', cw_Schema = StatusSchemaConditions\<rparr>]\<rparr>"

theorem writer_table_single_witness:
  "LoadConditionWriterTable Inr (\<lambda>_. Inr exTable) ''t'' = Inr exTable \<and> cw_Writer (wt_Writers exTable ! 0) = DaemonWriter"
proof -
  have run: "LoadConditionWriterTable Inr (\<lambda>_. Inr exTable) ''t'' = Inr exTable" by code_simp
  have len: "0 < length (wt_Writers exTable)" by (simp add: exTable_def)
  have "ToLower (cw_Type (wt_Writers exTable ! 0)) = ''ready''" by code_simp
  with writer_table_single [OF run len len refl refl] run show ?thesis by simp
qed

end
