(* ===== verification/MappingEngine.thy ===== *)
theory MappingEngine
  imports MappingSpec Kube
begin

text \<open>
  The interpreter of mapping documents: pkg/mapping/engine.go and the evaluation wrappers of
  cel.go. Two libraries are parameters: the CEL compiler and evaluator (\<open>celLib\<close>, whose
  evaluation already yields plain JSON values) and the accessors of unstructured objects
  (\<open>uops\<close>), whose documented behaviour is the locale \<open>unstructured_ops\<close>. Go's nil
  item and nil list of children are \<open>JNull\<close> and the empty list. Objects are values:
  a destination filled with an object taken from the source shares nothing with it here,
  while in Go a later write below that destination also writes into the source.
\<close>

subsection \<open>Expressions\<close>

record activation =
  av_source :: jobj
  av_item :: jv
  av_children :: "jv list"

record ('a, 'p) celLib =
  cl_env :: "string option"
  cl_Compile :: "string \<Rightarrow> (string, 'a) result"
  cl_Program :: "'a \<Rightarrow> (string, 'p) result"
  cl_Eval :: "'p \<Rightarrow> activation \<Rightarrow> (string, jv) result"

definition celVars :: "jobj \<Rightarrow> jv \<Rightarrow> jv list \<Rightarrow> activation" where
  "celVars source item children =
     \<lparr>av_source = source, av_item = (if item = JNull then JObj fmempty else item), av_children = children\<rparr>"

definition evalCEL :: "('a, 'p) celLib \<Rightarrow> string \<Rightarrow> activation \<Rightarrow> (map_err, jv) result" where
  "evalCEL lib expr vars =
     (case cl_env lib of Some e \<Rightarrow> Err (CelErr expr e)
      | None \<Rightarrow>
        (case cl_Compile lib expr of Inl e \<Rightarrow> Err (CelErr expr e)
         | Inr ast \<Rightarrow>
           (case cl_Program lib ast of Inl e \<Rightarrow> Err (CelErr expr e)
            | Inr prg \<Rightarrow>
              (case cl_Eval lib prg vars of Inl e \<Rightarrow> Err (CelErr expr e) | Inr v \<Rightarrow> Ok v))))"

definition evalBool :: "('a, 'p) celLib \<Rightarrow> string \<Rightarrow> activation \<Rightarrow> (map_err, bool) result" where
  "evalBool lib expr vars =
     (if expr = '''' then Ok True
      else bind_res (evalCEL lib expr vars) (\<lambda>v. case v of JBool b \<Rightarrow> Ok b | _ \<Rightarrow> Err (CelNotBool expr)))"

definition evalString :: "('a, 'p) celLib \<Rightarrow> string \<Rightarrow> activation \<Rightarrow> (map_err, string) result" where
  "evalString lib expr vars =
     (if expr = '''' then Ok ''''
      else if \<not> Contains expr ''?'' then Ok expr
      else bind_res (evalCEL lib expr vars) (\<lambda>v. case v of JStr s \<Rightarrow> Ok s | _ \<Rightarrow> Err (CelNotString expr)))"

definition wrapErr :: "('e \<Rightarrow> 'f) \<Rightarrow> ('e, 'a) result \<Rightarrow> ('f, 'a) result" where
  "wrapErr f r = (case r of Inl e \<Rightarrow> Inl (f e) | Inr a \<Rightarrow> Inr a)"

lemma wrapErr_Inr [simp]: "wrapErr f r = Inr a \<longleftrightarrow> r = Inr a"
  by (simp add: wrapErr_def split: sum.split)

subsection \<open>Values of fields\<close>

definition resolveValue ::
    "('a, 'p) celLib \<Rightarrow> Field \<Rightarrow> jobj \<Rightarrow> jv \<Rightarrow> jv list \<Rightarrow> (map_err, jv) result" where
  "resolveValue lib f source item children =
     (case fd_Value f of Some v \<Rightarrow> Ok v
      | None \<Rightarrow>
        if fd_CEL f \<noteq> '''' then evalCEL lib (fd_CEL f) (celVars source item children)
        else if fd_From f \<noteq> '''' then
          (let path = fd_From f;
               value = (\<lambda>root path. Ok (case Get root path of None \<Rightarrow> JNull | Some v \<Rightarrow> v))
           in if length path > 5 \<and> take 5 path = ''item.'' then
                (case asMap item of None \<Rightarrow> Err (ItemNotObject path) | Some m \<Rightarrow> value m (drop 5 path))
              else value source path)
        else Ok JNull)"

definition fieldValue ::
    "('a, 'p) celLib \<Rightarrow> Field \<Rightarrow> jobj \<Rightarrow> jv \<Rightarrow> jv list \<Rightarrow> (map_err, jv option) result" where
  "fieldValue lib f source item children =
     bind_res (resolveValue lib f source item children) (\<lambda>val0.
       let val = (case fd_Default f of Some d \<Rightarrow> if isEmpty val0 then d else val0 | None \<Rightarrow> val0) in
       if fd_Required f \<and> isEmpty val then Err RequiredEmpty
       else if isEmpty val then Ok None else Ok (Some val))"

text \<open>The loop over the fields, shared by \<^verbatim>\<open>buildObject\<close> and \<^verbatim>\<open>ApplyStatus\<close>.\<close>

fun fillFields ::
    "('a, 'p) celLib \<Rightarrow> jobj \<Rightarrow> jv \<Rightarrow> jv list \<Rightarrow> jobj \<Rightarrow> Field list \<Rightarrow> (map_err, jobj) result" where
  "fillFields lib source item children dest [] = Ok dest"
| "fillFields lib source item children dest (f # fs) =
     (case fieldValue lib f source item children of
        Inl e \<Rightarrow> Err (FieldErr (fd_To f) e)
      | Inr None \<Rightarrow> fillFields lib source item children dest fs
      | Inr (Some val) \<Rightarrow>
          (case Set dest (fd_To f) val of
             Inl e \<Rightarrow> Err (PathErr e)
           | Inr dest' \<Rightarrow> fillFields lib source item children dest' fs))"

subsection \<open>Emitted objects\<close>

record uops =
  us_GVK :: "jobj \<Rightarrow> GroupVersionKind"
  us_SetGVK :: "GroupVersionKind \<Rightarrow> jobj \<Rightarrow> jobj"
  us_Name :: "jobj \<Rightarrow> string"
  us_SetName :: "string \<Rightarrow> jobj \<Rightarrow> jobj"
  us_Namespace :: "jobj \<Rightarrow> string"
  us_SetNamespace :: "string \<Rightarrow> jobj \<Rightarrow> jobj"
  us_Labels :: "jobj \<Rightarrow> strmap"
  us_SetLabels :: "strmap \<Rightarrow> jobj \<Rightarrow> jobj"

definition labelSourceKind :: string where [const_defs]: "labelSourceKind = ''translation.opi.nvidia.com/source-kind''"
definition labelSourceName :: string where [const_defs]: "labelSourceName = ''translation.opi.nvidia.com/source-name''"
definition labelMapping :: string where [const_defs]: "labelMapping = ''translation.opi.nvidia.com/mapping''"

definition resolveNamespace ::
    "('a, 'p) celLib \<Rightarrow> Spec \<Rightarrow> Emit \<Rightarrow> jobj \<Rightarrow> jv \<Rightarrow> (map_err, string) result" where
  "resolveNamespace lib spec emit source item =
     (let nsVal = (if value_empty (em_Namespace emit) then
                     (case sp_Defaults spec of Some d \<Rightarrow> if value_empty d then em_Namespace emit else d
                      | None \<Rightarrow> em_Namespace emit)
                   else em_Namespace emit)
      in if value_empty nsVal then Ok ''''
         else bind_res (wrapErr NamespaceErr (fieldValue lib (asField nsVal) source item [])) (\<lambda>v.
           case v of None \<Rightarrow> Ok '''' | Some (JStr s) \<Rightarrow> Ok s | Some w \<Rightarrow> Err (NamespaceNotString w)))"

definition resolveName :: "('a, 'p) celLib \<Rightarrow> Emit \<Rightarrow> jobj \<Rightarrow> jv \<Rightarrow> (map_err, string) result" where
  "resolveName lib emit source item =
     bind_res (wrapErr NameErr (resolveValue lib (asField (em_Name emit)) source item [])) (\<lambda>name0.
       let fallback = (case va_Default (em_Name emit) of Some d \<Rightarrow> d | None \<Rightarrow> name0);
           name = (case name0 of JStr v \<Rightarrow> if v = '''' then fallback else name0 | _ \<Rightarrow> fallback)
       in case name of JStr v \<Rightarrow> if v = '''' then Err (NameNotString name) else Ok v
          | _ \<Rightarrow> Err (NameNotString name))"

definition stampLabels :: "Spec \<Rightarrow> jobj \<Rightarrow> strmap \<Rightarrow> strmap" where
  "stampLabels spec source labels =
     (let labels = fmupd labelSourceKind (mr_Kind (sp_Source spec)) (fmupd labelMapping (sp_Name spec) labels)
      in case Get source ''metadata.name'' of Some (JStr s) \<Rightarrow> fmupd labelSourceName s labels | _ \<Rightarrow> labels)"

definition buildObject ::
    "('a, 'p) celLib \<Rightarrow> uops \<Rightarrow> Spec \<Rightarrow> Emit \<Rightarrow> jobj \<Rightarrow> jv \<Rightarrow> (map_err, jobj) result" where
  "buildObject lib U spec emit source item =
     bind_res (resolveName lib emit source item) (\<lambda>nameStr.
     bind_res (resolveNamespace lib spec emit source item) (\<lambda>ns.
     bind_res (fillFields lib source item [] fmempty (em_Fields emit)) (\<lambda>dest.
       let t = em_Target emit;
           u1 = us_SetGVK U (GVK (mr_Group t) (mr_Version t) (mr_Kind t)) dest;
           u2 = us_SetName U nameStr u1;
           u3 = (if ns \<noteq> '''' then us_SetNamespace U ns u2 else u2)
       in Ok (us_SetLabels U (stampLabels spec source (us_Labels U u3)) u3))))"

fun emitItems ::
    "('a, 'p) celLib \<Rightarrow> uops \<Rightarrow> Spec \<Rightarrow> Emit \<Rightarrow> jobj \<Rightarrow> jv list \<Rightarrow> (map_err, jobj list) result" where
  "emitItems lib U spec emit source [] = Ok []"
| "emitItems lib U spec emit source (item # items) =
     (case evalBool lib (em_When emit) (celVars source item []) of Inl e \<Rightarrow> Err e
      | Inr False \<Rightarrow> emitItems lib U spec emit source items
      | Inr True \<Rightarrow>
          bind_res (buildObject lib U spec emit source item) (\<lambda>obj.
          bind_res (emitItems lib U spec emit source items) (\<lambda>objs. Ok (obj # objs))))"

text \<open>The items an emit rule expands over: one nil item without a \<^verbatim>\<open>forEach\<close>, none when its list is absent.\<close>

definition emitList :: "Emit \<Rightarrow> jobj \<Rightarrow> (map_err, jv list) result" where
  "emitList emit source =
     (case em_ForEach emit of None \<Rightarrow> Ok [JNull]
      | Some path \<Rightarrow>
          (case Get source path of None \<Rightarrow> Ok []
           | Some raw \<Rightarrow> (case asList raw of None \<Rightarrow> Err (NotAListErr path) | Some l \<Rightarrow> Ok l)))"

definition applyEmit ::
    "('a, 'p) celLib \<Rightarrow> uops \<Rightarrow> Spec \<Rightarrow> Emit \<Rightarrow> jobj \<Rightarrow> (map_err, jobj list) result" where
  "applyEmit lib U spec emit source =
     bind_res (emitList emit source) (emitItems lib U spec emit source)"

fun applyEmits ::
    "('a, 'p) celLib \<Rightarrow> uops \<Rightarrow> Spec \<Rightarrow> jobj \<Rightarrow> nat \<Rightarrow> Emit list \<Rightarrow> (map_err, jobj list) result" where
  "applyEmits lib U spec source i [] = Ok []"
| "applyEmits lib U spec source i (e # es) =
     bind_res (wrapErr (EmitErr i (mr_Kind (em_Target e))) (applyEmit lib U spec e source)) (\<lambda>objs.
     bind_res (applyEmits lib U spec source (Suc i) es) (\<lambda>rest. Ok (objs @ rest)))"

definition Apply :: "('a, 'p) celLib \<Rightarrow> uops \<Rightarrow> Spec \<Rightarrow> jobj \<Rightarrow> (map_err, jobj list) result" where
  "Apply lib U spec source =
     bind_res (Validate spec) (\<lambda>_. applyEmits lib U spec source 0 (sp_Emit spec))"

definition ShouldPrune :: "('a, 'p) celLib \<Rightarrow> Spec \<Rightarrow> jobj \<Rightarrow> (map_err, bool) result" where
  "ShouldPrune lib spec source =
     (if sp_PruneWhen spec = '''' then Ok True
      else wrapErr PruneErr (evalBool lib (sp_PruneWhen spec) (celVars source JNull [])))"

subsection \<open>Status roll-up\<close>

definition condType :: "jobj \<Rightarrow> string" where
  "condType m = (case fmlookup m ''type'' of Some (JStr t) \<Rightarrow> t | _ \<Rightarrow> '''')"

definition condKey :: "string \<Rightarrow> string" where
  "condKey t = ToLower (TrimSpace t)"

definition preservedStatusConditions :: "jobj \<Rightarrow> StatusCondition list \<Rightarrow> jv list" where
  "preservedStatusConditions source owned =
     (case Get source ''status.conditions'' of
        Some (JList l) \<Rightarrow>
          filter (\<lambda>item. case asMap item of None \<Rightarrow> False
            | Some m \<Rightarrow> condKey (condType m) \<noteq> '''' \<and>
                condKey (condType m) \<notin> set (map (\<lambda>c. condKey (sc_Type c)) owned)) l
      | _ \<Rightarrow> [])"

definition optText ::
    "('a, 'p) celLib \<Rightarrow> string \<Rightarrow> string \<Rightarrow> activation \<Rightarrow> jobj \<Rightarrow> (map_err, jobj) result" where
  "optText lib key expr vars cond =
     (if expr = '''' then Ok cond
      else bind_res (evalString lib expr vars) (\<lambda>s. Ok (fmupd key (JStr s) cond)))"

definition ownCondition ::
    "('a, 'p) celLib \<Rightarrow> activation \<Rightarrow> StatusCondition \<Rightarrow> (map_err, jv) result" where
  "ownCondition lib vars c =
     wrapErr (ConditionErr (sc_Type c))
       (bind_res (evalBool lib (sc_Status c) vars) (\<lambda>ok.
        let cond = fmupd ''status'' (JStr (if ok then ''True'' else ''False'')) (fmupd ''type'' (JStr (sc_Type c)) fmempty)
        in bind_res (optText lib ''reason'' (sc_Reason c) vars cond) (\<lambda>cond.
           bind_res (optText lib ''message'' (sc_Message c) vars cond) (\<lambda>cond. Ok (JObj cond)))))"

definition ApplyStatus ::
    "('a, 'p) celLib \<Rightarrow> Spec \<Rightarrow> jobj \<Rightarrow> jv list \<Rightarrow> (map_err, jobj option) result" where
  "ApplyStatus lib spec source children =
     bind_res (Validate spec) (\<lambda>_.
       case sp_Status spec of None \<Rightarrow> Ok None
       | Some st \<Rightarrow>
         let vars = celVars source JNull children in
         bind_res (if sm_When st = '''' then Ok True else wrapErr StatusWhenErr (evalBool lib (sm_When st) vars)) (\<lambda>owns.
           if \<not> owns then Ok None
           else
             bind_res (fillFields lib source JNull children fmempty (sm_Fields st)) (\<lambda>obj.
             let statusMap = (case Get obj ''status'' of Some raw \<Rightarrow>
                   (case asMap raw of Some m \<Rightarrow> m | None \<Rightarrow> fmempty) | None \<Rightarrow> fmempty) in
             bind_res (traverse (ownCondition lib vars) (sm_Conditions st)) (\<lambda>own.
               let conds = preservedStatusConditions source (sm_Conditions st) @ own;
                   statusMap = (if conds \<noteq> [] then fmupd ''conditions'' (JList conds) statusMap else statusMap)
               in Ok (if statusMap = fmempty then None else Some statusMap)))))"

end
