(* ===== verification/DeadFields.thy ===== *)
theory DeadFields
  imports MappingEngine
begin

text \<open>
  pkg/translation/dead_fields.go: removing from an emitted object what the live CRD schema does
  not declare, before it is applied (\<open>pruneMap\<close>) and after the server refused it
  (\<open>omitLiveUnknownFields\<close>). Go edits the object in place; the model returns the edited
  object. The two regular expressions are matchers written out: in both, the first character
  that ends the greedy part cannot belong to it, so no backtracking is needed.
\<close>

subsection \<open>The field a server error names\<close>

definition isWord :: "char \<Rightarrow> bool" where
  "isWord c \<longleftrightarrow> isDigit c \<or> (let n = (of_char c :: nat) in 65 \<le> n \<and> n \<le> 90 \<or> 97 \<le> n \<and> n \<le> 122) \<or> c = CHR ''_''"

definition isLetter :: "char \<Rightarrow> bool" where
  "isLetter c \<longleftrightarrow> (let n = (of_char c :: nat) in 65 \<le> n \<and> n \<le> 90 \<or> 97 \<le> n \<and> n \<le> 122)"

definition isPathChar :: "char \<Rightarrow> bool" where
  "isPathChar c \<longleftrightarrow> isWord c \<or> c = CHR ''.''"

text \<open>The class \<^verbatim>\<open>\s\<close> of Go regular expressions: the white space of \<open>isSpace\<close> but for the vertical tab.\<close>

definition isReSpace :: "char \<Rightarrow> bool" where
  "isReSpace c \<longleftrightarrow> isSpace c \<and> c \<noteq> CHR 0x0B"

definition dropSpace :: "string \<Rightarrow> string" where
  "dropSpace s = dropWhile isReSpace s"

definition hasPrefixFold :: "string \<Rightarrow> string \<Rightarrow> bool" where
  "hasPrefixFold s p \<longleftrightarrow> HasPrefix (ToLower s) (ToLower p)"

text \<open>\<^verbatim>\<open>(\.?[A-Za-z][\w.]*)\s*:\s*field not declared in schema\<close>, anchored at the head of the text.\<close>

definition declaredHere :: "string \<Rightarrow> string option" where
  "declaredHere s =
     (let (dot, body) = (case s of c # t \<Rightarrow> if c = CHR ''.'' then (''.'', t) else ('''', s) | [] \<Rightarrow> ('''', s)) in
      case body of [] \<Rightarrow> None
      | c # _ \<Rightarrow>
        if \<not> isLetter c then None
        else
          let name = takeWhile isPathChar body;
              rest = dropSpace (dropWhile isPathChar body)
          in case rest of [] \<Rightarrow> None
             | d # t \<Rightarrow> if d = CHR '':'' \<and> hasPrefixFold (dropSpace t) ''field not declared in schema''
                        then Some (dot @ name) else None)"

text \<open>The search for it after a character that cannot belong to a path.\<close>

fun undeclaredScan :: "string \<Rightarrow> string option" where
  "undeclaredScan [] = None"
| "undeclaredScan (c # s) =
     (case (if isPathChar c then None else declaredHere s) of Some p \<Rightarrow> Some p | None \<Rightarrow> undeclaredScan s)"

definition undeclaredMatch :: "string \<Rightarrow> string option" where
  "undeclaredMatch s = (case declaredHere s of Some p \<Rightarrow> Some p | None \<Rightarrow> undeclaredScan s)"

definition unknownPrefix :: string where
  "unknownPrefix = ''unknown field '' @ [CHR 0x22]"

fun unknownMatch :: "string \<Rightarrow> string option" where
  "unknownMatch [] = None"
| "unknownMatch (c # s) =
     (let body = drop (length unknownPrefix) (c # s); name = takeWhile (\<lambda>d. d \<noteq> CHR 0x22) body in
      if hasPrefixFold (c # s) unknownPrefix \<and> name \<noteq> [] \<and> dropWhile (\<lambda>d. d \<noteq> CHR 0x22) body \<noteq> []
      then Some name else unknownMatch s)"

definition normalizeFieldPath :: "string \<Rightarrow> string" where
  "normalizeFieldPath p =
     ReplaceAllChar (TrimPrefix (TrimPrefix (TrimSpace p) ''.'') ''/'') CHR ''/'' CHR ''.''"

definition undeclaredFieldPath :: "string option \<Rightarrow> string" where
  "undeclaredFieldPath err =
     (case err of None \<Rightarrow> ''''
      | Some s \<Rightarrow>
        (case undeclaredMatch s of Some m \<Rightarrow> normalizeFieldPath m
         | None \<Rightarrow> (case unknownMatch s of Some m \<Rightarrow> normalizeFieldPath m | None \<Rightarrow> '''')))"

subsection \<open>Dropping one field\<close>

text \<open>\<open>None\<close> when nothing was dropped.\<close>

fun dropNestedMap :: "jobj \<Rightarrow> string list \<Rightarrow> jobj option" where
  "dropNestedMap m [] = None"
| "dropNestedMap m [p] = (if fmlookup m p = None then None else Some (fmdrop p m))"
| "dropNestedMap m (p # q # ps) =
     (case objField m p of None \<Rightarrow> None
      | Some child \<Rightarrow> map_option (\<lambda>c. fmupd p (JObj c) m) (dropNestedMap child (q # ps)))"

definition dropField :: "jobj \<Rightarrow> string \<Rightarrow> jobj option" where
  "dropField obj dotted =
     (let parts = Split dotted CHR ''.'' in if hd parts = '''' then None else dropNestedMap obj parts)"

definition omitLiveUnknownFields :: "jobj \<Rightarrow> apiErr \<Rightarrow> (string, jobj) result" where
  "omitLiveUnknownFields obj err =
     (let path = undeclaredFieldPath (Some (apiText err)) in
      if path = '''' then Err (apiText err)
      else case dropField obj path of
             None \<Rightarrow> Err (apiText err @ '' (could not drop '' @ path @ '')'')
           | Some obj' \<Rightarrow> Ok obj')"

subsection \<open>Pruning by schema\<close>

definition nestedSchema :: "jobj \<Rightarrow> string \<Rightarrow> jobj option" where
  "nestedSchema root name = (case objField root ''properties'' of None \<Rightarrow> None | Some props \<Rightarrow> objField props name)"

definition preserveUnknown :: "jobj \<Rightarrow> bool" where
  "preserveUnknown crdSchema \<longleftrightarrow>
     fmlookup crdSchema ''x-kubernetes-preserve-unknown-fields'' = Some (JBool True) \<or>
     fmlookup crdSchema ''additionalProperties'' \<noteq> None"

text \<open>
  \<open>pruneMap\<close> on the value of a key: an object is pruned by its schema, anything else stays.
  The loop over the keys is a map over the entries that are kept.
\<close>

primrec pruneVal :: "jv \<Rightarrow> jobj \<Rightarrow> jv" where
  "pruneVal JNull = (\<lambda>_. JNull)"
| "pruneVal (JBool b) = (\<lambda>_. JBool b)"
| "pruneVal (JInt i) = (\<lambda>_. JInt i)"
| "pruneVal (JStr s) = (\<lambda>_. JStr s)"
| "pruneVal (JList l) = (\<lambda>_. JList l)"
| "pruneVal (JObj m) = (\<lambda>crdSchema.
     if preserveUnknown crdSchema then JObj m
     else case objField crdSchema ''properties'' of None \<Rightarrow> JObj m
     | Some props \<Rightarrow>
       JObj (fmmap_keys (\<lambda>k prune. prune (the (objField props k)))
         (fmfilter (\<lambda>k. objField props k \<noteq> None) (fmmap pruneVal m))))"

definition pruneMap :: "jobj \<Rightarrow> jobj \<Rightarrow> jobj" where
  "pruneMap m crdSchema = (case pruneVal (JObj m) crdSchema of JObj m' \<Rightarrow> m' | _ \<Rightarrow> m)"

text \<open>The paths it reports, which go to the log; Go lists them in map order, the model by ascending keys.\<close>

primrec droppedIn :: "jv \<Rightarrow> jobj \<Rightarrow> string \<Rightarrow> string list" where
  "droppedIn JNull = (\<lambda>_ _. [])"
| "droppedIn (JBool b) = (\<lambda>_ _. [])"
| "droppedIn (JInt i) = (\<lambda>_ _. [])"
| "droppedIn (JStr s) = (\<lambda>_ _. [])"
| "droppedIn (JList l) = (\<lambda>_ _. [])"
| "droppedIn (JObj m) = (\<lambda>crdSchema prefix.
     if preserveUnknown crdSchema then []
     else case objField crdSchema ''properties'' of None \<Rightarrow> []
     | Some props \<Rightarrow>
       let inner = fmmap droppedIn m in
       concat (map (\<lambda>k. let path = prefix @ ''.'' @ k in
           case objField props k of None \<Rightarrow> [path]
           | Some child \<Rightarrow> (case fmlookup inner k of None \<Rightarrow> [] | Some f \<Rightarrow> f child path))
         (sorted_list_of_fset (fmdom m))))"

definition pruneUnknownSpec :: "jobj \<Rightarrow> jobj option \<Rightarrow> jobj \<times> string list" where
  "pruneUnknownSpec obj crdSchema =
     (case crdSchema of None \<Rightarrow> (obj, [])
      | Some root \<Rightarrow>
        case objField obj ''spec'' of None \<Rightarrow> (obj, [])
        | Some spec \<Rightarrow>
          case nestedSchema root ''spec'' of None \<Rightarrow> (obj, [])
          | Some specSchema \<Rightarrow>
            (fmupd ''spec'' (JObj (pruneMap spec specSchema)) obj, droppedIn (JObj spec) specSchema ''spec''))"

text \<open>The schema of the storage version of a CRD.\<close>

fun storageVersion :: "jv list \<Rightarrow> jobj option" where
  "storageVersion [] = None"
| "storageVersion (raw # rest) =
     (let v = (case asMap raw of Some m \<Rightarrow> m | None \<Rightarrow> fmempty) in
      if fmlookup v ''storage'' \<noteq> Some (JBool True) then storageVersion rest
      else case objField v ''schema'' of None \<Rightarrow> None | Some sch \<Rightarrow> objField sch ''openAPIV3Schema'')"

definition storageOpenAPI :: "jobj \<Rightarrow> jobj option" where
  "storageOpenAPI crd =
     (let spec = (case objField crd ''spec'' of Some m \<Rightarrow> m | None \<Rightarrow> fmempty);
          versions = (case fmlookup spec ''versions'' of Some v \<Rightarrow> (case asList v of Some l \<Rightarrow> l | None \<Rightarrow> []) | None \<Rightarrow> [])
      in storageVersion versions)"

end
