(* ===== verification/Operator.thy ===== *)
theory Operator
  imports Release Kube
begin

text \<open>
  What the lifecycle manager reads of the cluster: pkg/lifecycle/dependency_checker.go (the
  probes and the prerequisite check), status.go (the health of the vendor operator),
  dpu_observe.go (the state of the NVIDIA DPU objects) and readiness.go. A ClusterProbe is a
  record of functions of a world \<open>'w\<close>; the REST mapper, the discovery client and the
  Kubernetes client are parameters of the REST probe. Nested reads of unstructured objects
  are reads along a path of keys.
\<close>

subsection \<open>Nested reads\<close>

definition NestedString :: "jobj \<Rightarrow> string list \<Rightarrow> string" where
  "NestedString o' ks = (case getParts (JObj o') ks of Some (JStr s) \<Rightarrow> s | _ \<Rightarrow> '''')"

definition NestedInt64 :: "jobj \<Rightarrow> string list \<Rightarrow> int option" where
  "NestedInt64 o' ks = (case getParts (JObj o') ks of Some (JInt n) \<Rightarrow> Some n | _ \<Rightarrow> None)"

definition NestedSlice :: "jobj \<Rightarrow> string list \<Rightarrow> jv list" where
  "NestedSlice o' ks = (case getParts (JObj o') ks of Some (JList l) \<Rightarrow> l | _ \<Rightarrow> [])"

subsection \<open>Probes\<close>

record ResourceCheck =
  rc_Name :: string
  rc_Present :: bool
  rc_Healthy :: bool
  rc_Message :: string

definition absentCheck :: "string \<Rightarrow> string \<Rightarrow> ResourceCheck" where
  "absentCheck name msg = \<lparr>rc_Name = name, rc_Present = False, rc_Healthy = False, rc_Message = msg\<rparr>"

record 'w ClusterProbe =
  pb_ServerVersion :: "'w \<Rightarrow> (string, string) result"
  pb_HasAPI :: "'w \<Rightarrow> string \<Rightarrow> string \<Rightarrow> string \<Rightarrow> bool"
  pb_NeedsKamaji :: "'w \<Rightarrow> bool"
  pb_Deployment :: "'w \<Rightarrow> string \<Rightarrow> string \<Rightarrow> ResourceCheck"

definition apiKey :: "string \<Rightarrow> string \<Rightarrow> string" where
  "apiKey grp kind = grp @ ''/'' @ kind"

record StaticProbe =
  st_Version :: string
  st_VersionErr :: "string option"
  st_Present :: "(string, bool) fmap"
  st_KamajiNeed :: bool
  st_Deployments :: "(string, ResourceCheck) fmap option"

definition static_ServerVersion :: "StaticProbe \<Rightarrow> (string, string) result" where
  "static_ServerVersion s =
     (case st_VersionErr s of Some e \<Rightarrow> Err e
      | None \<Rightarrow> if TrimSpace (st_Version s) = '''' then Err ''no kubernetes version'' else Ok (st_Version s))"

definition static_HasAPI :: "StaticProbe \<Rightarrow> string \<Rightarrow> string \<Rightarrow> string \<Rightarrow> bool" where
  "static_HasAPI s grp kind version = (fmlookup (st_Present s) (apiKey grp kind) = Some True)"

definition static_Deployment :: "StaticProbe \<Rightarrow> string \<Rightarrow> string \<Rightarrow> ResourceCheck" where
  "static_Deployment s namespace name =
     (case st_Deployments s of None \<Rightarrow> absentCheck name ''deployment not observed''
      | Some ds \<Rightarrow> (case fmlookup ds (releaseKey namespace name) of Some got \<Rightarrow> got
                   | None \<Rightarrow> absentCheck name ''deployment not found''))"

definition staticProbe :: "StaticProbe \<Rightarrow> 'w ClusterProbe" where
  "staticProbe s = \<lparr>pb_ServerVersion = (\<lambda>_. static_ServerVersion s), pb_HasAPI = (\<lambda>_. static_HasAPI s),
     pb_NeedsKamaji = (\<lambda>_. st_KamajiNeed s), pb_Deployment = (\<lambda>_. static_Deployment s)\<rparr>"

text \<open>
  The REST probe. \<open>rp_Mapper\<close> says whether the mapper resolves a kind, \<open>rp_Discovery\<close>
  is the version the discovery client reports (no text for a nil answer), \<open>rp_Client\<close> the
  client's list of DPUClusters and its read of a Deployment.
\<close>

record 'w RESTClusterProbe =
  rp_Mapper :: "('w \<Rightarrow> string \<Rightarrow> string \<Rightarrow> string \<Rightarrow> bool) option"
  rp_Discovery :: "('w \<Rightarrow> (string, string option) result) option"
  rp_Client :: "(('w \<Rightarrow> (apiErr, jobj list) result) \<times> ('w \<Rightarrow> string \<Rightarrow> string \<Rightarrow> (apiErr, jobj) result)) option"

definition DepCertManager :: string where "DepCertManager = ''cert-manager''"
definition DepArgoCD :: string where "DepArgoCD = ''argo-cd''"
definition DepKamaji :: string where "DepKamaji = ''kamaji''"
definition DepCluster :: string where "DepCluster = ''cluster''"

definition rest_ServerVersion :: "'w RESTClusterProbe \<Rightarrow> 'w \<Rightarrow> (string, string) result" where
  "rest_ServerVersion p w =
     (case rp_Discovery p of None \<Rightarrow> Err ''no discovery client''
      | Some d \<Rightarrow> (case d w of Inl e \<Rightarrow> Err e
          | Inr None \<Rightarrow> Err ''empty kubernetes version''
          | Inr (Some v) \<Rightarrow> if TrimSpace v = '''' then Err ''empty kubernetes version'' else Ok v))"

definition rest_HasAPI :: "'w RESTClusterProbe \<Rightarrow> 'w \<Rightarrow> string \<Rightarrow> string \<Rightarrow> string \<Rightarrow> bool" where
  "rest_HasAPI p w grp kind version =
     (case rp_Mapper p of None \<Rightarrow> False | Some m \<Rightarrow> m w grp kind version)"

definition rest_NeedsKamaji :: "'w RESTClusterProbe \<Rightarrow> 'w \<Rightarrow> bool" where
  "rest_NeedsKamaji p w =
     (case rp_Client p of None \<Rightarrow> False
      | Some (list, _) \<Rightarrow> (case list w of Inl _ \<Rightarrow> False
          | Inr items \<Rightarrow> list_ex (\<lambda>o'. NestedString o' [''spec'', ''type''] = DepKamaji) items))"

definition deploymentCheck :: "string \<Rightarrow> jobj \<Rightarrow> ResourceCheck" where
  "deploymentCheck name o' =
     (let replicas = (case NestedInt64 o' [''spec'', ''replicas''] of Some n \<Rightarrow> n | None \<Rightarrow> 1);
          ready = (case NestedInt64 o' [''status'', ''readyReplicas''] of Some n \<Rightarrow> n | None \<Rightarrow> 0);
          available = (case NestedInt64 o' [''status'', ''availableReplicas''] of Some n \<Rightarrow> n | None \<Rightarrow> 0);
          healthy = (ready \<ge> replicas \<and> (replicas = 0 \<or> available > 0))
      in \<lparr>rc_Name = name, rc_Present = True, rc_Healthy = healthy,
          rc_Message = (if healthy then '''' else ''ready '' @ Itoa ready @ ''/'' @ Itoa replicas)\<rparr>)"

definition rest_Deployment :: "'w RESTClusterProbe \<Rightarrow> 'w \<Rightarrow> string \<Rightarrow> string \<Rightarrow> ResourceCheck" where
  "rest_Deployment p w namespace name =
     (let full = namespace @ ''/'' @ name in
      case rp_Client p of None \<Rightarrow> absentCheck full ''no client''
      | Some (_, get) \<Rightarrow> (case get w namespace name of
          Inl e \<Rightarrow> absentCheck full (if IsNotFound e then ''not found'' else apiText e)
        | Inr o' \<Rightarrow> deploymentCheck full o'))"

definition restProbe :: "'w RESTClusterProbe \<Rightarrow> 'w ClusterProbe" where
  "restProbe p = \<lparr>pb_ServerVersion = rest_ServerVersion p, pb_HasAPI = rest_HasAPI p,
     pb_NeedsKamaji = rest_NeedsKamaji p, pb_Deployment = rest_Deployment p\<rparr>"

subsection \<open>Required resources\<close>

definition nvidiaProvisioningGroup :: string where "nvidiaProvisioningGroup = ''provisioning.dpu.nvidia.com''"
definition vendorAPIVersion :: string where "vendorAPIVersion = ''v1alpha1''"
definition dpuKind :: string where "dpuKind = ''DPU''"
definition unknownVendorMsg :: string where "unknownVendorMsg = ''unknown vendor''"

definition nvidiaProbeGVK :: GroupVersionKind where "nvidiaProbeGVK = GVK nvidiaProvisioningGroup vendorAPIVersion dpuKind"
definition amdProbeGVK :: GroupVersionKind where "amdProbeGVK = GVK ''dpu.amd.com'' vendorAPIVersion ''DSCDevice''"

definition requiredDPFCRDs :: "GroupVersionKind list" where
  "requiredDPFCRDs = [
     GVK nvidiaProvisioningGroup vendorAPIVersion dpuKind,
     GVK nvidiaProvisioningGroup vendorAPIVersion ''DPUDevice'',
     GVK nvidiaProvisioningGroup vendorAPIVersion ''BFB'',
     GVK ''svc.dpu.nvidia.com'' vendorAPIVersion ''DPUService'',
     GVK ''operator.dpu.nvidia.com'' vendorAPIVersion ''DPFOperatorConfig'']"

type_synonym namedDeploy = "string \<times> string"

definition requiredDPFControllers :: "namedDeploy list" where
  "requiredDPFControllers = [
     (DefaultNamespace, ''dpf-operator-controller-manager''),
     (DefaultNamespace, ''dpf-provisioning-controller-manager''),
     (DefaultNamespace, ''dpuservice-controller-manager'')]"

definition requiredPrereqControllers :: "namedDeploy list" where
  "requiredPrereqControllers = [(''cert-manager'', ''cert-manager''), (DefaultNamespace, ''argo-cd-argocd-server'')]"

definition argoDeployFallbacks :: "namedDeploy list" where
  "argoDeployFallbacks = [(''argocd'', ''argocd-server''), (''argo-cd'', ''argocd-server'')]"

definition certManagerAPI :: GroupVersionKind where "certManagerAPI = GVK ''cert-manager.io'' ''v1'' ''Certificate''"
definition argoAPI :: GroupVersionKind where "argoAPI = GVK ''argoproj.io'' ''v1alpha1'' ''Application''"
definition kamajiAPI :: GroupVersionKind where "kamajiAPI = GVK ''kamaji.clastix.io'' ''v1alpha1'' ''TenantControlPlane''"

definition hasGVK :: "'w ClusterProbe \<Rightarrow> 'w \<Rightarrow> GroupVersionKind \<Rightarrow> bool" where
  "hasGVK p w g = pb_HasAPI p w (gvk_Group g) (gvk_Kind g) (gvk_Version g)"

definition SupportedKubernetesVersion :: string where "SupportedKubernetesVersion = ''v1.36.4''"

definition ReadyClusterProbe :: StaticProbe where
  "ReadyClusterProbe = \<lparr>st_Version = SupportedKubernetesVersion, st_VersionErr = None,
     st_Present = fold (\<lambda>g. fmupd (apiKey (gvk_Group g) (gvk_Kind g)) True) ([certManagerAPI, argoAPI] @ requiredDPFCRDs) fmempty,
     st_KamajiNeed = False,
     st_Deployments = Some (fold (\<lambda>(ns, n). fmupd (releaseKey ns n)
         \<lparr>rc_Name = n, rc_Present = True, rc_Healthy = True, rc_Message = ''''\<rparr>)
       (requiredDPFControllers @ requiredPrereqControllers) fmempty)\<rparr>"

subsection \<open>Dependencies\<close>

record DependencyReport =
  dr_OK :: bool
  dr_Kubernetes :: string
  dr_Missing :: "string list"
  dr_Message :: string

definition emptyReport :: DependencyReport where
  "emptyReport = \<lparr>dr_OK = False, dr_Kubernetes = '''', dr_Missing = [], dr_Message = ''''\<rparr>"

definition clusterAccessMsg :: string where "clusterAccessMsg = ''cannot reach the Kubernetes API''"

definition kubernetesMinorSupported :: "string \<Rightarrow> bool" where
  "kubernetesMinorSupported got =
     (case parseVersion got of Inl _ \<Rightarrow> False
      | Inr have \<Rightarrow> (case parseVersion SupportedKubernetesVersion of Inl _ \<Rightarrow> False
          | Inr want \<Rightarrow> major have = major want \<and> minor have = minor want))"

definition kubernetesMinor :: "string \<Rightarrow> string" where
  "kubernetesMinor v = (case parseVersion v of Inl _ \<Rightarrow> v
     | Inr p \<Rightarrow> ''v'' @ Itoa (major p) @ ''.'' @ Itoa (minor p))"

definition missingDependencies :: "'w ClusterProbe \<Rightarrow> 'w \<Rightarrow> string list" where
  "missingDependencies p w =
     (if \<not> hasGVK p w certManagerAPI then [DepCertManager] else []) @
     (if \<not> hasGVK p w argoAPI then [DepArgoCD] else []) @
     (if pb_NeedsKamaji p w \<and> \<not> hasGVK p w kamajiAPI then [DepKamaji] else [])"

definition CheckDependencies :: "('w \<Rightarrow> lcm_err option) \<Rightarrow> 'w ClusterProbe option \<Rightarrow> string \<Rightarrow> 'w \<Rightarrow> DependencyReport" where
  "CheckDependencies ctx probe vendor w =
     (case ctx w of Some e \<Rightarrow> emptyReport\<lparr>dr_Message := errText e\<rparr>
      | None \<Rightarrow>
        (case probe of None \<Rightarrow>
           emptyReport\<lparr>dr_Missing := [DepCluster], dr_Message := clusterAccessMsg @ '': no cluster probe''\<rparr>
         | Some p \<Rightarrow>
           (case pb_ServerVersion p w of Inl _ \<Rightarrow>
              emptyReport\<lparr>dr_Missing := [DepCluster], dr_Message := clusterAccessMsg\<rparr>
            | Inr got \<Rightarrow>
              (let out = emptyReport\<lparr>dr_Kubernetes := got\<rparr> in
               if \<not> kubernetesMinorSupported got then
                 out\<lparr>dr_Missing := [''kubernetes''],
                     dr_Message := ''Kubernetes '' @ got @ '' is not the supported minor '' @ kubernetesMinor SupportedKubernetesVersion\<rparr>
               else if vendor \<noteq> VendorNVIDIA then
                 out\<lparr>dr_OK := True, dr_Message := ''cluster access and Kubernetes version are acceptable''\<rparr>
               else if missingDependencies p w \<noteq> [] then
                 out\<lparr>dr_Missing := missingDependencies p w,
                     dr_Message := ''DPF '' @ nvidiaDPFMin @ '' is blocked: missing '' @ Join (missingDependencies p w) '', ''\<rparr>
               else out\<lparr>dr_OK := True, dr_Message := ''DPF prerequisites are present''\<rparr>))))"

subsection \<open>Health of the vendor operator\<close>

definition OperatorInstalling :: string where [const_defs]: "OperatorInstalling = ''Installing''"
definition OperatorReady :: string where [const_defs]: "OperatorReady = ''Ready''"
definition OperatorDegraded :: string where [const_defs]: "OperatorDegraded = ''Degraded''"

record OperatorStatus =
  os_Phase :: string
  os_Ready :: bool
  os_CRDs :: "ResourceCheck list"
  os_Controllers :: "ResourceCheck list"
  os_Prerequisites :: "ResourceCheck list"
  os_Message :: string

definition emptyOperator :: OperatorStatus where
  "emptyOperator = \<lparr>os_Phase = '''', os_Ready = False, os_CRDs = [], os_Controllers = [], os_Prerequisites = [], os_Message = ''''\<rparr>"

definition operatorMsg :: "string \<Rightarrow> string \<Rightarrow> OperatorStatus" where
  "operatorMsg phase msg = emptyOperator\<lparr>os_Phase := phase, os_Message := msg\<rparr>"

definition checkLabel :: "ResourceCheck \<Rightarrow> string" where
  "checkLabel c = (if rc_Name c = '''' then ''resource'' else rc_Name c)"

definition classifyOperator :: "OperatorStatus \<Rightarrow> OperatorStatus" where
  "classifyOperator out =
     (let checks = os_CRDs out @ os_Controllers out @ os_Prerequisites out;
          absent = map checkLabel (filter (\<lambda>c. \<not> rc_Present c) checks);
          unhealthy = map checkLabel (filter (\<lambda>c. rc_Present c \<and> \<not> rc_Healthy c) checks)
      in if absent \<noteq> [] then
           out\<lparr>os_Phase := OperatorInstalling, os_Message := ''installing: missing '' @ Join absent '', ''\<rparr>
         else if unhealthy \<noteq> [] then
           out\<lparr>os_Phase := OperatorDegraded, os_Message := ''degraded: '' @ Join unhealthy '', ''\<rparr>
         else
           out\<lparr>os_Phase := OperatorReady, os_Ready := True,
               os_Message := ''DPF CRDs, controllers, and prerequisites are healthy''\<rparr>)"

text \<open>The Argo CD server: at its own place, else the first fallback that exists.\<close>

definition argoCheck :: "'w ClusterProbe \<Rightarrow> 'w \<Rightarrow> ResourceCheck" where
  "argoCheck p w =
     (let argo = pb_Deployment p w DefaultNamespace ''argo-cd-argocd-server'' in
      if rc_Present argo then argo
      else case find rc_Present (map (\<lambda>(ns, n). pb_Deployment p w ns n) argoDeployFallbacks) of
        Some got \<Rightarrow> got | None \<Rightarrow> argo)"

definition observePrereqs :: "'w ClusterProbe \<Rightarrow> 'w \<Rightarrow> ResourceCheck list" where
  "observePrereqs p w =
     (let argo = argoCheck p w
      in [pb_Deployment p w ''cert-manager'' ''cert-manager'',
          if rc_Name argo = '''' then argo\<lparr>rc_Name := ''argo-cd''\<rparr> else argo])"

definition observeNVIDIA :: "'w ClusterProbe \<Rightarrow> 'w \<Rightarrow> OperatorStatus" where
  "observeNVIDIA p w = classifyOperator (emptyOperator\<lparr>
     os_CRDs := map (\<lambda>g. \<lparr>rc_Name = gvk_Group g @ ''/'' @ gvk_Kind g, rc_Present = hasGVK p w g,
                          rc_Healthy = hasGVK p w g, rc_Message = ''''\<rparr>) requiredDPFCRDs,
     os_Controllers := map (\<lambda>(ns, n). pb_Deployment p w ns n) requiredDPFControllers,
     os_Prerequisites := observePrereqs p w\<rparr>)"

definition observeAMD :: "'w ClusterProbe \<Rightarrow> 'w \<Rightarrow> OperatorStatus" where
  "observeAMD p w =
     (let present = hasGVK p w amdProbeGVK;
          crd = \<lparr>rc_Name = ''dpu.amd.com/DSCDevice'', rc_Present = present, rc_Healthy = present, rc_Message = ''''\<rparr>
      in if \<not> present then
           emptyOperator\<lparr>os_CRDs := [crd], os_Phase := OperatorInstalling, os_Message := ''AMD DSCDevice CRD is not installed''\<rparr>
         else
           emptyOperator\<lparr>os_CRDs := [crd], os_Phase := OperatorReady, os_Ready := True, os_Message := ''AMD DSC API is present''\<rparr>)"

definition ObserveOperator :: "('w \<Rightarrow> lcm_err option) \<Rightarrow> 'w ClusterProbe option \<Rightarrow> string \<Rightarrow> 'w \<Rightarrow> OperatorStatus" where
  "ObserveOperator ctx probe vendor w =
     (case ctx w of Some e \<Rightarrow> operatorMsg OperatorDegraded (errText e)
      | None \<Rightarrow>
        (case probe of None \<Rightarrow> operatorMsg OperatorInstalling ''no cluster probe''
         | Some p \<Rightarrow>
             if vendor = VendorAMD then observeAMD p w
             else if vendor \<noteq> VendorNVIDIA then operatorMsg OperatorDegraded unknownVendorMsg
             else observeNVIDIA p w))"

definition operatorCondition :: "OperatorStatus \<Rightarrow> string \<times> string \<times> string" where
  "operatorCondition st =
     (let reason = (if os_Phase st = '''' then OperatorInstalling else os_Phase st);
          message = (if os_Message st = '''' then ''vendor operator is '' @ ToLower reason else os_Message st)
      in if os_Ready st \<and> os_Phase st = OperatorReady then (''True'', OperatorReady, message)
         else (''False'', reason, message))"

subsection \<open>Readiness\<close>

record Readiness =
  rd_Ready :: bool
  rd_Message :: string

definition AssessReadiness :: "Intent \<Rightarrow> InstallResult \<Rightarrow> PolicyResult \<Rightarrow> OperatorStatus \<Rightarrow> Readiness" where
  "AssessReadiness i inst pol st =
     (if \<not> in_Known i then \<lparr>rd_Ready = False, rd_Message = unknownVendorMsg\<rparr>
      else if pr_Skew pol \<in> {SkewTooOld, SkewTooNew, SkewUnknownVendor, SkewInvalidConfig, SkewBlocked} then
        \<lparr>rd_Ready = False, rd_Message = ''version policy rejected this install''\<rparr>
      else if \<not> ir_Present inst then \<lparr>rd_Ready = False, rd_Message = ''vendor operator API not detected''\<rparr>
      else if \<not> os_Ready st \<or> os_Phase st \<noteq> OperatorReady then
        \<lparr>rd_Ready = False, rd_Message =
           (if os_Message st = '''' then ''vendor operator CRDs or controllers are not healthy'' else os_Message st)\<rparr>
      else \<lparr>rd_Ready = True, rd_Message = os_Message st\<rparr>)"

subsection \<open>NVIDIA DPU objects\<close>

definition DPUPhaseRebooting :: string where [const_defs]: "DPUPhaseRebooting = ''Rebooting''"
definition DPURequeueAfter :: nat where "DPURequeueAfter = 5"
definition hostPowerCycleRequiredKey :: string where
  "hostPowerCycleRequiredKey = ''provisioning.dpu.nvidia.com/host-power-cycle-required''"
definition rebootMethodSystemReset :: string where "rebootMethodSystemReset = ''SystemLevelReset''"
definition rebootMethodFirmware :: string where "rebootMethodFirmware = ''FirmwareReset''"
definition rebootMethodPowerCycle :: string where "rebootMethodPowerCycle = ''PowerCycle''"
definition rebootPhaseSucceeded :: string where "rebootPhaseSucceeded = ''Succeeded''"

text \<open>One DPU of the list: the header the accessors read, and the object.\<close>

record DPUItem =
  di_Namespace :: string
  di_Name :: string
  di_Annotations :: strmap
  di_Object :: jobj

record DPUReport =
  dp_Ready :: bool
  dp_Phase :: string
  dp_Method :: string
  dp_Names :: "string list"
  dp_Rebooting :: "string list"
  dp_Pending :: string
  dp_Message :: string

definition emptyDPUReport :: DPUReport where
  "emptyDPUReport = \<lparr>dp_Ready = False, dp_Phase = '''', dp_Method = '''', dp_Names = [], dp_Rebooting = [],
     dp_Pending = '''', dp_Message = ''''\<rparr>"

definition nvidiaDPUStalled :: "string \<Rightarrow> string \<Rightarrow> string \<Rightarrow> bool \<Rightarrow> bool" where
  "nvidiaDPUStalled phase method rebootPhase powerCycle =
     (if powerCycle then True
      else if EqualFold (TrimSpace phase) ''Ready'' then False
      else if ToLower (TrimSpace phase) \<in> {''rebooting'', ''perform arm force restart'', ''checking host reboot required''} then True
      else if method = rebootMethodSystemReset \<or> method = rebootMethodFirmware \<or> method = rebootMethodPowerCycle then
        \<not> EqualFold rebootPhase rebootPhaseSucceeded
      else False)"

text \<open>The UTF-8 bytes of the arrow in the summary.\<close>

definition arrow :: string where
  "arrow = [CHR 0xE2, CHR 0x86, CHR 0x92]"

definition entryField :: "jobj \<Rightarrow> string \<Rightarrow> string" where
  "entryField m k = (case fmlookup m k of Some (JStr s) \<Rightarrow> s | _ \<Rightarrow> '''')"

definition entryStep :: "jobj \<Rightarrow> string list \<times> string list \<Rightarrow> string list \<times> string list" where
  "entryStep entry acc =
     (let name = entryField entry ''name''; cur = entryField entry ''current''; nxt = entryField entry ''next_boot'';
          key = name @ ''='' @ cur @ arrow @ nxt
      in case acc of (seen, parts) \<Rightarrow>
           if name = '''' \<or> key \<in> set seen then (seen, parts)
           else (seen @ [key], parts @ [name @ '' '' @ cur @ arrow @ nxt]))"

definition objOf :: "jv \<Rightarrow> jobj" where
  "objOf v = (case asMap v of Some m \<Rightarrow> m | None \<Rightarrow> fmempty)"

definition pendingNvconfigSummary :: "jobj \<Rightarrow> string" where
  "pendingNvconfigSummary o' =
     (let devices = NestedSlice o' [''status'', ''agentStatus'', ''lastObservedPendingNvconfig'', ''devices''];
          entries = concat (map (\<lambda>raw. case fmlookup (objOf raw) ''entries'' of Some (JList l) \<Rightarrow> l | _ \<Rightarrow> []) devices)
      in Join (snd (fold (\<lambda>e. entryStep (objOf e)) entries ([], []))) '', '')"

definition dpuFullName :: "DPUItem \<Rightarrow> string" where
  "dpuFullName d = di_Namespace d @ ''/'' @ di_Name d"

definition dpuPhase :: "DPUItem \<Rightarrow> string" where
  "dpuPhase d = (let p = NestedString (di_Object d) [''status'', ''phase''] in
     if p = '''' then NestedString (di_Object d) [''status'', ''status''] else p)"

definition dpuMethod :: "DPUItem \<Rightarrow> string" where
  "dpuMethod d = NestedString (di_Object d) [''status'', ''agentStatus'', ''rebootMethod'']"

definition dpuStalled :: "DPUItem \<Rightarrow> bool" where
  "dpuStalled d = nvidiaDPUStalled (dpuPhase d) (dpuMethod d)
     (NestedString (di_Object d) [''status'', ''rebootStatus'', ''phase''])
     (sget (di_Annotations d) hostPowerCycleRequiredKey = ''true'')"

text \<open>One round of the loop over the listed DPUs.\<close>

definition dpuStep :: "DPUItem \<Rightarrow> DPUReport \<Rightarrow> DPUReport" where
  "dpuStep d out =
     (let pending = pendingNvconfigSummary (di_Object d);
          out1 = out\<lparr>dp_Names := dp_Names out @ [dpuFullName d],
                    dp_Phase := (if dp_Phase out = '''' then dpuPhase d else dp_Phase out),
                    dp_Method := (if dp_Method out = '''' then dpuMethod d else dp_Method out),
                    dp_Pending := (if pending \<noteq> '''' then pending else dp_Pending out)\<rparr>
      in if dpuStalled d then
           out1\<lparr>dp_Rebooting := dp_Rebooting out1 @ [dpuFullName d], dp_Phase := DPUPhaseRebooting,
                dp_Method := (if dpuMethod d \<noteq> '''' then dpuMethod d else dp_Method out1)\<rparr>
         else out1)"

definition rebootingMessage :: "DPUReport \<Rightarrow> string" where
  "rebootingMessage out =
     ''NVIDIA DPU '' @ Join (dp_Rebooting out) '','' @ '' is Rebooting'' @
     (if dp_Method out \<noteq> '''' then '' (method '' @ dp_Method out @ '')'' else '''') @
     (if dp_Pending out \<noteq> '''' then ''; pending NVCONFIG '' @ dp_Pending out else '''') @
     ''; DPF provisioning is waiting for the required reset. '' @
     ''This adapter does not run mlxfwreset or reboot the host. '' @
     ''Pending NVCONFIG is a DPF host-agent step, not an LCM install failure.''"

definition ObserveNVIDIADPUs ::
    "('w \<Rightarrow> lcm_err option) \<Rightarrow> ('w \<Rightarrow> (apiErr, DPUItem list) result) option \<Rightarrow> 'w \<Rightarrow> DPUReport" where
  "ObserveNVIDIADPUs ctx lister w =
     (let unknown = (\<lambda>msg. emptyDPUReport\<lparr>dp_Phase := skewString SkewUnknown, dp_Message := msg\<rparr>) in
      case lister of None \<Rightarrow> unknown ''no client to list NVIDIA DPUs''
      | Some ls \<Rightarrow>
        (case ctx w of Some e \<Rightarrow> unknown (errText e)
         | None \<Rightarrow>
           (case ls w of Inl e \<Rightarrow> unknown (SanitizeLogValue ''dpu-list'' (apiText e))
            | Inr items \<Rightarrow>
              if items = [] then unknown ''no NVIDIA DPU objects observed''
              else
                let out = fold dpuStep items emptyDPUReport in
                if dp_Rebooting out \<noteq> [] then out\<lparr>dp_Message := rebootingMessage out\<rparr>
                else out\<lparr>dp_Ready := True,
                         dp_Phase := (if dp_Phase out = '''' then OperatorReady else dp_Phase out),
                         dp_Message := ''NVIDIA DPU objects are not in Rebooting''\<rparr>)))"

definition dpuNeedsRequeue :: "DPUReport \<Rightarrow> bool" where
  "dpuNeedsRequeue rep \<longleftrightarrow> dp_Rebooting rep \<noteq> []"

definition dpuCondition :: "DPUReport \<Rightarrow> string \<times> string \<times> string" where
  "dpuCondition rep =
     (let message = (if dp_Message rep = '''' then ''NVIDIA DPU state was not observed'' else dp_Message rep) in
      if dp_Rebooting rep \<noteq> [] \<or> EqualFold (dp_Phase rep) DPUPhaseRebooting then (''False'', DPUPhaseRebooting, message)
      else if dp_Ready rep then (''True'', OperatorReady, message)
      else (''Unknown'', skewString SkewUnknown, message))"

subsection \<open>Properties\<close>

lemma kubernetesMinorSupported_iff:
  "kubernetesMinorSupported got \<longleftrightarrow> (\<exists>p. parseVersion got = Inr (Version 1 36 p))"
proof -
  have "parseVersion SupportedKubernetesVersion = Inr (Version 1 36 4)" by code_simp
  then show ?thesis by (auto simp: kubernetesMinorSupported_def split: sum.splits) (metis version.collapse)
qed

text \<open>The dependency check passes exactly when it should. With a live context and a probe, the
  report is OK if and only if the cluster answers with a 1.36 version and, for nvidia, the APIs
  of cert-manager and Argo CD are there, and Kamaji's when a DPUCluster asks for it; a failed
  check always names what is missing.\<close>

theorem dependencies_exact:
  assumes "ctx w = None"
  shows "(dr_OK (CheckDependencies ctx (Some p) vendor w) \<longleftrightarrow>
      (\<exists>got n. pb_ServerVersion p w = Inr got \<and> parseVersion got = Inr (Version 1 36 n)) \<and>
      (vendor = VendorNVIDIA \<longrightarrow> hasGVK p w certManagerAPI \<and> hasGVK p w argoAPI \<and>
         (pb_NeedsKamaji p w \<longrightarrow> hasGVK p w kamajiAPI))) \<and>
    (dr_OK (CheckDependencies ctx (Some p) vendor w) \<longleftrightarrow> dr_Missing (CheckDependencies ctx (Some p) vendor w) = [])"
proof -
  have m: "missingDependencies p w = [] \<longleftrightarrow> hasGVK p w certManagerAPI \<and> hasGVK p w argoAPI \<and>
      (pb_NeedsKamaji p w \<longrightarrow> hasGVK p w kamajiAPI)"
    by (auto simp: missingDependencies_def)
  show ?thesis
  proof (cases "pb_ServerVersion p w")
    case (Inl e)
    then show ?thesis using assms by (simp add: CheckDependencies_def emptyReport_def)
  next
    case (Inr got)
    then show ?thesis
      using assms m by (auto simp: CheckDependencies_def emptyReport_def Let_def kubernetesMinorSupported_iff)
  qed
qed

theorem dependencies_exact_witness:
  "dr_OK (CheckDependencies (\<lambda>_. None) (Some (staticProbe ReadyClusterProbe)) VendorNVIDIA ()) \<and>
   hasGVK (staticProbe ReadyClusterProbe) () argoAPI"
proof -
  let ?p = "staticProbe ReadyClusterProbe :: unit ClusterProbe"
  have "dr_OK (CheckDependencies (\<lambda>_. None) (Some ?p) VendorNVIDIA ())" by code_simp
  with dependencies_exact [of "\<lambda>_. None" "()" ?p VendorNVIDIA] show ?thesis by blast
qed

lemma classifyOperator_phase:
  assumes "checks = os_CRDs out @ os_Controllers out @ os_Prerequisites out"
  shows "os_Ready (classifyOperator out) \<longleftrightarrow> os_Ready out \<or> list_all rc_Present checks \<and> list_all rc_Healthy checks"
    and "os_Phase (classifyOperator out) = (if \<not> list_all rc_Present checks then OperatorInstalling
        else if \<not> list_all rc_Healthy checks then OperatorDegraded else OperatorReady)"
proof -
  have "map checkLabel (filter (\<lambda>c. \<not> rc_Present c) checks) \<noteq> [] \<longleftrightarrow> \<not> list_all rc_Present checks"
      "list_all rc_Present checks \<Longrightarrow>
        map checkLabel (filter (\<lambda>c. rc_Present c \<and> \<not> rc_Healthy c) checks) \<noteq> [] \<longleftrightarrow> \<not> list_all rc_Healthy checks"
    by (auto simp: filter_empty_conv list_all_iff)
  then show "os_Ready (classifyOperator out) \<longleftrightarrow> os_Ready out \<or> list_all rc_Present checks \<and> list_all rc_Healthy checks"
    and "os_Phase (classifyOperator out) = (if \<not> list_all rc_Present checks then OperatorInstalling
        else if \<not> list_all rc_Healthy checks then OperatorDegraded else OperatorReady)"
    unfolding classifyOperator_def Let_def assms [symmetric] by simp_all
qed

text \<open>Ready means every required resource is there and healthy. The NVIDIA operator is reported
  Ready if and only if all five CRDs, the three controllers, cert-manager and Argo CD (at the
  first place it is found) are present and healthy; it is Installing if and only if something
  is absent, and Degraded if and only if everything is there but something is unhealthy.\<close>

theorem operator_ready_exact:
  assumes "ctx w = None"
    and "st = ObserveOperator ctx (Some p) VendorNVIDIA w"
    and "deploys = map (\<lambda>(ns, n). pb_Deployment p w ns n) requiredDPFControllers @
           [pb_Deployment p w ''cert-manager'' ''cert-manager'', argoCheck p w]"
  shows "(os_Ready st \<longleftrightarrow> list_all (hasGVK p w) requiredDPFCRDs \<and> list_all (\<lambda>d. rc_Present d \<and> rc_Healthy d) deploys) \<and>
    (os_Ready st \<longleftrightarrow> os_Phase st = OperatorReady) \<and>
    (os_Phase st = OperatorInstalling \<longleftrightarrow> \<not> (list_all (hasGVK p w) requiredDPFCRDs \<and> list_all rc_Present deploys)) \<and>
    (os_Phase st = OperatorDegraded \<longleftrightarrow> list_all (hasGVK p w) requiredDPFCRDs \<and> list_all rc_Present deploys \<and>
       \<not> list_all rc_Healthy deploys)"
proof -
  let ?crds = "map (\<lambda>g. \<lparr>rc_Name = gvk_Group g @ ''/'' @ gvk_Kind g, rc_Present = hasGVK p w g,
                          rc_Healthy = hasGVK p w g, rc_Message = ''''\<rparr>) requiredDPFCRDs"
  let ?checks = "?crds @ map (\<lambda>(ns, n). pb_Deployment p w ns n) requiredDPFControllers @ observePrereqs p w"
  have "VendorNVIDIA \<noteq> VendorAMD" by code_simp
  then have st: "st = observeNVIDIA p w" using assms(1,2) by (simp add: ObserveOperator_def)
  have pres: "list_all rc_Present ?checks \<longleftrightarrow> list_all (hasGVK p w) requiredDPFCRDs \<and> list_all rc_Present deploys"
    by (simp add: assms(3) observePrereqs_def Let_def list.pred_map comp_def)
  have heal: "list_all rc_Healthy ?checks \<longleftrightarrow> list_all (hasGVK p w) requiredDPFCRDs \<and> list_all rc_Healthy deploys"
    by (simp add: assms(3) observePrereqs_def Let_def list.pred_map comp_def)
  have both: "list_all (\<lambda>d. rc_Present d \<and> rc_Healthy d) deploys \<longleftrightarrow> list_all rc_Present deploys \<and> list_all rc_Healthy deploys"
    by (auto simp: list_all_iff)
  have phases: "OperatorReady \<noteq> OperatorInstalling" "OperatorReady \<noteq> OperatorDegraded" "OperatorInstalling \<noteq> OperatorDegraded"
    by (simp_all add: const_defs)
  have "(os_Ready st \<longleftrightarrow> list_all rc_Present ?checks \<and> list_all rc_Healthy ?checks) \<and>
      os_Phase st = (if \<not> list_all rc_Present ?checks then OperatorInstalling
        else if \<not> list_all rc_Healthy ?checks then OperatorDegraded else OperatorReady)"
  proof -
    define out where "out = emptyOperator\<lparr>os_CRDs := ?crds,
       os_Controllers := map (\<lambda>(ns, n). pb_Deployment p w ns n) requiredDPFControllers, os_Prerequisites := observePrereqs p w\<rparr>"
    have "?checks = os_CRDs out @ os_Controllers out @ os_Prerequisites out" "\<not> os_Ready out"
      by (simp_all add: out_def emptyOperator_def)
    moreover have "st = classifyOperator out" by (simp only: st observeNVIDIA_def out_def)
    ultimately show ?thesis using classifyOperator_phase [of ?checks out] by blast
  qed
  then show ?thesis unfolding pres heal both using phases by (simp split: if_split) blast
qed

theorem operator_ready_exact_witness:
  "os_Ready (ObserveOperator (\<lambda>_. None) (Some (staticProbe ReadyClusterProbe)) VendorNVIDIA ()) \<and>
   list_all (hasGVK (staticProbe ReadyClusterProbe) ()) requiredDPFCRDs"
proof -
  let ?p = "staticProbe ReadyClusterProbe :: unit ClusterProbe"
  have "os_Ready (ObserveOperator (\<lambda>_. None) (Some ?p) VendorNVIDIA ())" by code_simp
  with operator_ready_exact [of "\<lambda>_. None" "()" _ ?p, OF refl refl refl] show ?thesis by blast
qed

lemma dpuSteps:
  "dp_Names (fold dpuStep items out) = dp_Names out @ map dpuFullName items \<and>
   dp_Rebooting (fold dpuStep items out) = dp_Rebooting out @ map dpuFullName (filter dpuStalled items) \<and>
   dp_Ready (fold dpuStep items out) = dp_Ready out"
  by (induction items arbitrary: out) (simp_all add: dpuStep_def Let_def)

lemma dpuSteps_phase:
  assumes "\<forall>d \<in> set items. \<not> dpuStalled d"
  shows "dp_Phase (fold dpuStep items out) \<in> insert (dp_Phase out) (dpuPhase ` set items)"
  using assms
proof (induction items arbitrary: out)
  case (Cons d items)
  have "dp_Phase (dpuStep d out) \<in> {dp_Phase out, dpuPhase d}"
    using Cons.prems by (simp add: dpuStep_def Let_def)
  with Cons.IH [of "dpuStep d out"] Cons.prems show ?case by auto
qed simp

lemma rebooting_phase_stalled: "EqualFold (dpuPhase d) DPUPhaseRebooting \<Longrightarrow> dpuStalled d"
proof -
  assume eq: "EqualFold (dpuPhase d) DPUPhaseRebooting"
  have "ToLower DPUPhaseRebooting = ''rebooting''" "TrimSpace ''rebooting'' = ''rebooting''" "ToLower ''Ready'' = ''ready''"
    by code_simp+
  with eq have "ToLower (TrimSpace (dpuPhase d)) = ''rebooting''"
    by (metis EqualFold_def TrimSpace_ToLower)
  with \<open>ToLower ''Ready'' = ''ready''\<close> show "dpuStalled d"
    by (simp add: dpuStalled_def nvidiaDPUStalled_def EqualFold_def)
qed

text \<open>The DPU condition tells whether hardware is waiting for a reset. Given the list of DPU
  objects, the report names them all and lists as rebooting exactly the stalled ones, in order;
  the condition is True if and only if there is a DPU and none is stalled, False if and only if
  one is stalled, and Unknown if and only if there is none; the requeue follows the stalls.\<close>

theorem dpu_condition_exact:
  assumes "ctx w = None" and "ls w = Inr items" and "rep = ObserveNVIDIADPUs ctx (Some ls) w"
  shows "dp_Rebooting rep = map dpuFullName (filter dpuStalled items) \<and>
    (fst (dpuCondition rep) = ''True'' \<longleftrightarrow> items \<noteq> [] \<and> (\<forall>d \<in> set items. \<not> dpuStalled d)) \<and>
    (fst (dpuCondition rep) = ''False'' \<longleftrightarrow> (\<exists>d \<in> set items. dpuStalled d)) \<and>
    (fst (dpuCondition rep) = ''Unknown'' \<longleftrightarrow> items = []) \<and>
    (dpuNeedsRequeue rep \<longleftrightarrow> (\<exists>d \<in> set items. dpuStalled d))"
proof (cases "items = []")
  case True
  have "\<not> EqualFold (skewString SkewUnknown) DPUPhaseRebooting" by code_simp
  with True assms show ?thesis
    by (simp add: ObserveNVIDIADPUs_def emptyDPUReport_def dpuCondition_def dpuNeedsRequeue_def)
next
  case False
  define out where "out = fold dpuStep items emptyDPUReport"
  have reb: "dp_Rebooting out = map dpuFullName (filter dpuStalled items)"
    using dpuSteps [of items emptyDPUReport] by (simp add: out_def emptyDPUReport_def)
  have rep: "rep = (if dp_Rebooting out \<noteq> [] then out\<lparr>dp_Message := rebootingMessage out\<rparr>
      else out\<lparr>dp_Ready := True, dp_Phase := (if dp_Phase out = '''' then OperatorReady else dp_Phase out),
               dp_Message := ''NVIDIA DPU objects are not in Rebooting''\<rparr>)"
    using False assms by (simp add: ObserveNVIDIADPUs_def out_def [symmetric])
  show ?thesis
  proof (cases "\<exists>d \<in> set items. dpuStalled d")
    case True
    then have "dp_Rebooting out \<noteq> []" using reb by (auto simp: filter_empty_conv)
    with True False reb rep show ?thesis by (auto simp: dpuCondition_def dpuNeedsRequeue_def Let_def)
  next
    case none: False
    then have "dp_Rebooting out = []" using reb by (auto simp: filter_empty_conv)
    moreover have "\<not> EqualFold (if dp_Phase out = '''' then OperatorReady else dp_Phase out) DPUPhaseRebooting"
    proof -
      have "\<not> EqualFold OperatorReady DPUPhaseRebooting" by code_simp
      moreover have "dp_Phase out = '''' \<or> dp_Phase out \<in> dpuPhase ` set items"
        using dpuSteps_phase [of items emptyDPUReport] none by (auto simp: out_def emptyDPUReport_def)
      ultimately show ?thesis using rebooting_phase_stalled none by auto
    qed
    ultimately show ?thesis using none False reb rep
      by (simp add: dpuCondition_def dpuNeedsRequeue_def Let_def filter_empty_conv)
  qed
qed

definition exDPU :: "string \<Rightarrow> string \<Rightarrow> DPUItem" where
  "exDPU name phase = \<lparr>di_Namespace = ''dpf'', di_Name = name, di_Annotations = fmempty,
     di_Object = fmap_of_list [(''status'', JObj (fmap_of_list [(''phase'', JStr phase)]))]\<rparr>"

theorem dpu_condition_exact_witness:
  "fst (dpuCondition (ObserveNVIDIADPUs (\<lambda>_. None) (Some (\<lambda>_. Inr [exDPU ''a'' ''Ready'', exDPU ''b'' ''Rebooting ''])) ())) = ''False''"
proof -
  let ?ls = "\<lambda>_ :: unit. Inr [exDPU ''a'' ''Ready'', exDPU ''b'' ''Rebooting ''] :: (apiErr, DPUItem list) result"
  have "dpuStalled (exDPU ''b'' ''Rebooting '')" by code_simp
  with dpu_condition_exact [of "\<lambda>_. None" "()" ?ls, OF refl refl refl] show ?thesis by auto
qed

end
