(* ===== verification/Olm.thy ===== *)
theory Olm
  imports Helm Operator
begin

text \<open>
  pkg/lifecycle/olm_client.go: the OLM client interface, the in-memory and the cluster client,
  and the installer that observes or claims a Subscription. A client is a record of
  operations on a state \<open>'s\<close>; the Kubernetes client and the REST mapper of the cluster
  client are parameters. An API error that is none of the package's sentinels reaches the
  caller with its text.
\<close>

subsection \<open>Subscriptions and clients\<close>

record OLMSubscription =
  sb_Name :: string
  sb_Namespace :: string
  sb_Package :: string
  sb_Channel :: string
  sb_Catalog :: string
  sb_CSV :: string
  sb_Version :: string
  sb_Labels :: strmap

definition emptySubscription :: OLMSubscription where
  "emptySubscription = \<lparr>sb_Name = '''', sb_Namespace = '''', sb_Package = '''', sb_Channel = '''', sb_Catalog = '''',
     sb_CSV = '''', sb_Version = '''', sb_Labels = fmempty\<rparr>"

definition sub_Identity :: "OLMSubscription \<Rightarrow> string" where
  "sub_Identity s = sb_Namespace s @ ''/'' @ sb_Name s @ ''@'' @ sb_Version s"

definition sub_ManagedByAdapter :: "OLMSubscription \<Rightarrow> bool" where
  "sub_ManagedByAdapter s \<longleftrightarrow> sget (sb_Labels s) ReleaseOwnerLabel = ReleaseOwner"

type_synonym subres = "OLMSubscription \<times> lcm_err option"

record 's OLMClient =
  ol_APIsPresent :: "'s \<Rightarrow> bool"
  ol_GetSubscription :: "'s \<Rightarrow> string \<Rightarrow> string \<Rightarrow> subres"
  ol_Subscribe :: "'s \<Rightarrow> InstallConfig \<Rightarrow> 's \<times> subres"
  ol_ClaimSubscription :: "'s \<Rightarrow> InstallConfig \<Rightarrow> 's \<times> subres"

definition NVIDIAOLMPublished :: bool where "NVIDIAOLMPublished = False"

definition matchesPinnedOLM :: "OLMSubscription \<Rightarrow> InstallConfig \<Rightarrow> bool" where
  "matchesPinnedOLM sub cfg \<longleftrightarrow> sb_Name sub = ic_ReleaseName cfg \<and> sb_Namespace sub = ic_Namespace cfg \<and>
     versionsEqual (sb_Version sub) (ic_ChartVersion cfg)"

subsection \<open>MemoryOLMClient\<close>

record MemoryOLMClient =
  mo_Present :: bool
  mo_subs :: "(string, OLMSubscription) fmap"
  mo_SubscribeCalls :: int

definition mo_Put :: "MemoryOLMClient \<Rightarrow> OLMSubscription \<Rightarrow> MemoryOLMClient" where
  "mo_Put m sub = m\<lparr>mo_subs := fmupd (releaseKey (sb_Namespace sub) (sb_Name sub)) sub (mo_subs m)\<rparr>"

definition mo_GetSubscription :: "MemoryOLMClient \<Rightarrow> string \<Rightarrow> string \<Rightarrow> subres" where
  "mo_GetSubscription m namespace name =
     (if \<not> mo_Present m then (emptySubscription, Some ErrOLMNotPresent)
      else case fmlookup (mo_subs m) (releaseKey namespace name) of
        None \<Rightarrow> (emptySubscription, Some ErrSubscriptionNotFound) | Some sub \<Rightarrow> (sub, None))"

definition mo_Subscribe :: "MemoryOLMClient \<Rightarrow> InstallConfig \<Rightarrow> MemoryOLMClient \<times> subres" where
  "mo_Subscribe m cfg =
     (m\<lparr>mo_SubscribeCalls := mo_SubscribeCalls m + 1\<rparr>, emptySubscription, Some ErrOLMMutationNotConfigured)"

definition mo_ClaimSubscription :: "MemoryOLMClient \<Rightarrow> InstallConfig \<Rightarrow> MemoryOLMClient \<times> subres" where
  "mo_ClaimSubscription m cfg =
     (if \<not> mo_Present m then (m, emptySubscription, Some ErrOLMNotPresent)
      else
        let key = releaseKey (ic_Namespace cfg) (ic_ReleaseName cfg) in
        case fmlookup (mo_subs m) key of None \<Rightarrow> (m, emptySubscription, Some ErrSubscriptionNotFound)
        | Some existing \<Rightarrow>
            if \<not> matchesPinnedOLM existing cfg then (m, existing, Some ErrSubscriptionUnmanaged)
            else
              let sub = existing\<lparr>sb_Labels := stampAdoptedLabels (sb_Labels existing)\<rparr>
              in (m\<lparr>mo_subs := fmupd key sub (mo_subs m)\<rparr>, sub, None))"

definition memoryOLM :: "MemoryOLMClient OLMClient" where
  "memoryOLM = \<lparr>ol_APIsPresent = mo_Present, ol_GetSubscription = mo_GetSubscription, ol_Subscribe = mo_Subscribe,
     ol_ClaimSubscription = mo_ClaimSubscription\<rparr>"

subsection \<open>ClusterOLMClient\<close>

text \<open>An object as the accessors see it: header and content.\<close>

record KubeObject =
  ko_Namespace :: string
  ko_Name :: string
  ko_Labels :: strmap
  ko_Object :: jobj

record 'w ClusterOLMClient =
  co_Mapper :: "('w \<Rightarrow> GroupVersionKind \<Rightarrow> bool) option"
  co_Client :: "(('w \<Rightarrow> GroupVersionKind \<Rightarrow> string \<Rightarrow> string \<Rightarrow> (apiErr, KubeObject) result) \<times>
                 ('w \<Rightarrow> KubeObject \<Rightarrow> 'w \<times> apiErr option)) option"

definition SubscriptionGVK :: GroupVersionKind where
  "SubscriptionGVK = GVK ''operators.coreos.com'' ''v1alpha1'' ''Subscription''"
definition CSVGVK :: GroupVersionKind where
  "CSVGVK = GVK ''operators.coreos.com'' ''v1alpha1'' ''ClusterServiceVersion''"

definition versionFromCSVRef :: "string \<Rightarrow> string" where
  "versionFromCSVRef csv0 =
     (let csv = TrimSpace csv0;
          whole = (if is_ok (parseVersion csv) then csv else '''')
      in if csv = '''' then ''''
         else case LastIndex csv ''.v'' of Some i \<Rightarrow> drop (i + 1) csv
         | None \<Rightarrow>
           (case LastIndex csv ''.'' of
              Some i \<Rightarrow> if is_ok (parseVersion (drop (i + 1) csv)) then drop (i + 1) csv else whole
            | None \<Rightarrow> whole))"

definition subscriptionFromUnstructured :: "KubeObject \<Rightarrow> OLMSubscription" where
  "subscriptionFromUnstructured obj =
     (let o' = ko_Object obj;
          installed = NestedString o' [statusKey, ''installedCSV''];
          csv = (if installed = '''' then NestedString o' [statusKey, ''currentCSV''] else installed)
      in \<lparr>sb_Name = ko_Name obj, sb_Namespace = ko_Namespace obj,
          sb_Package = NestedString o' [''spec'', helmReleaseNameLabel],
          sb_Channel = NestedString o' [''spec'', ''channel''], sb_Catalog = NestedString o' [''spec'', ''source''],
          sb_CSV = csv, sb_Version = versionFromCSVRef csv, sb_Labels = ko_Labels obj\<rparr>)"

definition fillCSVVersion :: "'w ClusterOLMClient \<Rightarrow> 'w \<Rightarrow> OLMSubscription \<Rightarrow> OLMSubscription" where
  "fillCSVVersion c w sub =
     (case co_Client c of None \<Rightarrow> sub
      | Some (get, _) \<Rightarrow>
          if sb_CSV sub = '''' then sub
          else case get w CSVGVK (sb_Namespace sub) (sb_CSV sub) of Inl _ \<Rightarrow> sub
          | Inr obj \<Rightarrow>
              let ver = NestedString (ko_Object obj) [''spec'', helmReleaseVersionLabel]
              in if ver \<noteq> '''' then sub\<lparr>sb_Version := ver\<rparr> else sub)"

definition co_APIsPresent :: "'w ClusterOLMClient \<Rightarrow> 'w \<Rightarrow> bool" where
  "co_APIsPresent c w = (case co_Mapper c of None \<Rightarrow> False | Some m \<Rightarrow> m w SubscriptionGVK)"

definition co_GetSubscription :: "'w ClusterOLMClient \<Rightarrow> 'w \<Rightarrow> string \<Rightarrow> string \<Rightarrow> subres" where
  "co_GetSubscription c w namespace name =
     (if \<not> co_APIsPresent c w then (emptySubscription, Some ErrOLMNotPresent)
      else case co_Client c of None \<Rightarrow> (emptySubscription, Some ErrSubscriptionNotFound)
      | Some (get, _) \<Rightarrow>
        (case get w SubscriptionGVK namespace name of
           Inl e \<Rightarrow> (emptySubscription, Some (if IsNoMatch e then ErrOLMNotPresent
                     else if IsNotFound e then ErrSubscriptionNotFound else ErrText (apiText e)))
         | Inr obj \<Rightarrow> (fillCSVVersion c w (subscriptionFromUnstructured obj), None)))"

definition co_Subscribe :: "'w \<Rightarrow> InstallConfig \<Rightarrow> 'w \<times> subres" where
  "co_Subscribe w cfg = (w, emptySubscription, Some ErrOLMMutationNotConfigured)"

text \<open>Go would panic at the second read without a client; the first read has then already returned an error.\<close>

definition co_ClaimSubscription :: "'w ClusterOLMClient \<Rightarrow> 'w \<Rightarrow> InstallConfig \<Rightarrow> 'w \<times> subres" where
  "co_ClaimSubscription c w cfg =
     (let (sub, err) = co_GetSubscription c w (ic_Namespace cfg) (ic_ReleaseName cfg) in
      case err of Some e \<Rightarrow> (w, emptySubscription, Some e)
      | None \<Rightarrow>
        if \<not> matchesPinnedOLM sub cfg then (w, sub, Some ErrSubscriptionUnmanaged)
        else case co_Client c of None \<Rightarrow> (w, emptySubscription, Some ErrSubscriptionNotFound)
        | Some (get, update) \<Rightarrow>
          (case get w SubscriptionGVK (ic_Namespace cfg) (ic_ReleaseName cfg) of
             Inl e \<Rightarrow> (w, emptySubscription, Some (ErrText (apiText e)))
           | Inr obj \<Rightarrow>
               let (w1, uerr) = update w (obj\<lparr>ko_Labels := stampAdoptedLabels (ko_Labels obj)\<rparr>) in
               case uerr of Some e \<Rightarrow> (w1, emptySubscription, Some (ErrText (apiText e)))
               | None \<Rightarrow> (w1, co_GetSubscription c w1 (ic_Namespace cfg) (ic_ReleaseName cfg))))"

definition clusterOLM :: "'w ClusterOLMClient \<Rightarrow> 'w OLMClient" where
  "clusterOLM c = \<lparr>ol_APIsPresent = co_APIsPresent c, ol_GetSubscription = co_GetSubscription c,
     ol_Subscribe = co_Subscribe, ol_ClaimSubscription = co_ClaimSubscription c\<rparr>"

subsection \<open>OLMInstaller\<close>

definition observedOLMResult :: "InstallAction \<Rightarrow> OpStatus \<Rightarrow> OLMSubscription \<Rightarrow> string \<Rightarrow> InstallResult" where
  "observedOLMResult action status sub failure =
     emptyInstallResult\<lparr>ir_Action := action, ir_Version := sb_Version sub, ir_Present := (sb_Name sub \<noteq> ''''),
       ir_Observed := sb_Version sub, ir_OpStatus := status, ir_Failure := failure\<rparr>"

definition olm_claimOrLeaveUnmanaged ::
    "'s OLMClient \<Rightarrow> 's \<Rightarrow> Intent \<Rightarrow> InstallConfig \<Rightarrow> OLMSubscription \<Rightarrow> 's \<times> insres" where
  "olm_claimOrLeaveUnmanaged c s i cfg sub =
     (if \<not> in_AdoptExisting i \<or> \<not> matchesPinnedOLM sub cfg then
        (s, observedOLMResult InstallUnmanaged OpSucceeded sub '''', None)
      else
        let (s1, claimed, err) = ol_ClaimSubscription c s cfg in
        case err of Some e \<Rightarrow> (s1, observedOLMResult InstallFailed OpFailed sub (errText e), Some e)
        | None \<Rightarrow>
            if \<not> sub_ManagedByAdapter claimed \<or> \<not> matchesPinnedOLM claimed cfg then
              (s1, observedOLMResult InstallFailed OpFailed claimed ''claim did not produce the pinned owned subscription'',
               Some ErrSubscriptionUnmanaged)
            else (s1, observedOLMResult InstallAdopted OpSucceeded claimed '''', None))"

definition OLMInstaller_Ensure ::
    "('s \<Rightarrow> lcm_err option) \<Rightarrow> 's OLMClient option \<Rightarrow> Intent \<Rightarrow> 's \<Rightarrow> 's \<times> insres" where
  "OLMInstaller_Ensure ctx client i s =
     (case ctx s of Some e \<Rightarrow> (s, installFailure InstallFailed OpTimeout (errText e), Some e)
      | None \<Rightarrow>
        case client of None \<Rightarrow> (s, installFailure InstallFailed OpFailed '''', Some ErrOLMNotPresent)
        | Some c \<Rightarrow>
          if in_Vendor i = VendorAMD then
            (s, emptyInstallResult\<lparr>ir_Action := InstallSkipped, ir_Version := in_PinnedVersion i\<rparr>, Some ErrNoVendorChart)
          else if \<not> ol_APIsPresent c s then (s, emptyInstallResult, Some ErrOLMNotPresent)
          else case DefaultInstallConfig (in_Vendor i) of Inl e \<Rightarrow> (s, installFailure InstallFailed OpFailed '''', Some e)
          | Inr cfg0 \<Rightarrow>
            let (cfg, pol) = ApplyVersionPolicy i cfg0 in
            if pr_Skew pol = SkewInvalidConfig then
              (s, installFailure InstallSkipped OpFailed ''install config is not the pinned allow-list'', Some ErrOLMPackageNotPublished)
            else
              let (sub, err) = ol_GetSubscription c s (ic_Namespace cfg) (ic_ReleaseName cfg) in
              if err = Some ErrOLMNotPresent then (s, emptyInstallResult, err)
              else if err = Some ErrSubscriptionNotFound then
                (s, emptyInstallResult, Some (if \<not> NVIDIAOLMPublished then ErrOLMPackageNotPublished else ErrOLMMutationNotConfigured))
              else case err of Some e \<Rightarrow> (s, installFailure InstallFailed OpFailed (errText e), Some e)
              | None \<Rightarrow>
                if \<not> sub_ManagedByAdapter sub then olm_claimOrLeaveUnmanaged c s i cfg sub
                else (s, observedOLMResult InstallNoop OpNoop sub '''', None))"

subsection \<open>Contract\<close>

text \<open>
  What the installer relies on: a read gives the subscription stored under its key, and a
  claim at most stamps the two ownership labels on the pinned subscription, and only when it
  matches the pin.
\<close>

definition olmAdopted :: "InstallConfig \<Rightarrow> OLMSubscription \<Rightarrow> OLMSubscription \<Rightarrow> bool" where
  "olmAdopted cfg old new \<longleftrightarrow> matchesPinnedOLM old cfg \<and> new = old\<lparr>sb_Labels := stampAdoptedLabels (sb_Labels old)\<rparr>"

abbreviation cfgKey :: "InstallConfig \<Rightarrow> string" where
  "cfgKey cfg \<equiv> releaseKey (ic_Namespace cfg) (ic_ReleaseName cfg)"

locale olm_client =
  fixes c :: "'s OLMClient" and view :: "'s \<Rightarrow> string \<Rightarrow> OLMSubscription option"
  assumes get_view: "ol_GetSubscription c s ns n = (sub, None) \<Longrightarrow> view s (releaseKey ns n) = Some sub"
    and claim_ok: "ol_ClaimSubscription c s cfg = (s', sub, None) \<Longrightarrow>
      (\<exists>old. view s (cfgKey cfg) = Some old \<and> olmAdopted cfg old sub \<and> view s' = (view s)(cfgKey cfg := Some sub))"
    and claim_err: "ol_ClaimSubscription c s cfg = (s', sub, Some e) \<Longrightarrow> view s' = view s"
begin

text \<open>What a run may do: observe, or adopt the pinned subscription that was not ours, on request.\<close>

definition observes :: "Intent \<Rightarrow> 's \<Rightarrow> 's \<times> insres \<Rightarrow> bool" where
  "observes i s out \<longleftrightarrow> (case out of (s', r, err) \<Rightarrow>
     view s' = view s \<and> ir_Action r \<noteq> InstallAdopted \<and>
       (ir_Action r = InstallNoop \<longrightarrow> (\<exists>cfg sub. DefaultInstallConfig (in_Vendor i) = Inr cfg \<and>
          view s (cfgKey cfg) = Some sub \<and> sub_ManagedByAdapter sub)) \<or>
     ir_Action r = InstallAdopted \<and> err = None \<and> in_AdoptExisting i \<and>
       (\<exists>cfg old new. DefaultInstallConfig (in_Vendor i) = Inr cfg \<and> view s (cfgKey cfg) = Some old \<and>
          \<not> sub_ManagedByAdapter old \<and> olmAdopted cfg old new \<and> sub_ManagedByAdapter new \<and>
          view s' = (view s)(cfgKey cfg := Some new)))"

lemma observes_same [intro]:
  "ir_Action r \<noteq> InstallAdopted \<Longrightarrow> ir_Action r \<noteq> InstallNoop \<Longrightarrow> observes i s (s, r, err)"
  by (simp add: observes_def)

lemma olmAdopted_facts: "olmAdopted cfg old new \<Longrightarrow> sub_ManagedByAdapter new \<and> matchesPinnedOLM new cfg"
  by (auto simp: olmAdopted_def sub_ManagedByAdapter_def matchesPinnedOLM_def stampAdoptedLabels_def)

lemma claim_observes:
  assumes "DefaultInstallConfig (in_Vendor i) = Inr cfg" and "view s (cfgKey cfg) = Some sub"
    and "\<not> sub_ManagedByAdapter sub"
  shows "observes i s (olm_claimOrLeaveUnmanaged c s i cfg sub)"
proof (cases "\<not> in_AdoptExisting i \<or> \<not> matchesPinnedOLM sub cfg")
  case True
  then show ?thesis by (auto simp: olm_claimOrLeaveUnmanaged_def observedOLMResult_def)
next
  case False
  obtain s1 claimed err where cl: "ol_ClaimSubscription c s cfg = (s1, claimed, err)" by (metis prod_cases3)
  show ?thesis
  proof (cases err)
    case None
    with cl claim_ok [of s cfg s1 claimed] assms(2) have ad: "olmAdopted cfg sub claimed"
        and v: "view s1 = (view s)(cfgKey cfg := Some claimed)" by auto
    have "olm_claimOrLeaveUnmanaged c s i cfg sub = (s1, observedOLMResult InstallAdopted OpSucceeded claimed '''', None)"
      using False None cl olmAdopted_facts [OF ad] by (simp add: olm_claimOrLeaveUnmanaged_def)
    then show ?thesis using False assms ad v olmAdopted_facts [OF ad]
      by (auto simp: observes_def observedOLMResult_def)
  next
    case (Some e)
    with False cl have "olm_claimOrLeaveUnmanaged c s i cfg sub =
        (s1, observedOLMResult InstallFailed OpFailed sub (errText e), Some e)"
      by (auto simp: olm_claimOrLeaveUnmanaged_def)
    then show ?thesis using claim_err [of s cfg s1 claimed e] cl Some
      by (simp add: observes_def observedOLMResult_def)
  qed
qed


lemma Ensure_observes: "observes i s (OLMInstaller_Ensure ctx (Some c) i s)"
proof (cases "ctx s")
  case (Some e)
  then show ?thesis by (auto simp: OLMInstaller_Ensure_def installFailure_def)
next
  case None
  show ?thesis
  proof (cases "in_Vendor i = VendorAMD \<or> \<not> ol_APIsPresent c s")
    case True
    with None show ?thesis by (auto simp: OLMInstaller_Ensure_def emptyInstallResult_def)
  next
    case live: False
    show ?thesis
    proof (cases "DefaultInstallConfig (in_Vendor i)")
      case (Inl e)
      with None live show ?thesis by (auto simp: OLMInstaller_Ensure_def installFailure_def)
    next
      case (Inr cfg)
      obtain pol where pol: "ApplyVersionPolicy i cfg = (cfg, pol)"
        using ApplyVersionPolicy_settings [of i cfg] by (metis prod.collapse)
      obtain sub err where get: "ol_GetSubscription c s (ic_Namespace cfg) (ic_ReleaseName cfg) = (sub, err)"
        by (metis prod.exhaust)
      note run = OLMInstaller_Ensure_def [of ctx "Some c" i s]
      note facts = None live Inr pol get
      show ?thesis
      proof (cases "pr_Skew pol = SkewInvalidConfig \<or> err \<noteq> None")
        case True
        with facts show ?thesis
          by (auto simp: run installFailure_def emptyInstallResult_def split: option.split)
      next
        case False
        then have v: "view s (cfgKey cfg) = Some sub" using get_view get by auto
        show ?thesis
        proof (cases "sub_ManagedByAdapter sub")
          case True
          with facts False have "OLMInstaller_Ensure ctx (Some c) i s = (s, observedOLMResult InstallNoop OpNoop sub '''', None)"
            by (simp add: run)
          with True v Inr show ?thesis by (simp add: observes_def observedOLMResult_def)
        next
          case unmanaged: False
          with facts False have "OLMInstaller_Ensure ctx (Some c) i s = olm_claimOrLeaveUnmanaged c s i cfg sub"
            by (simp add: run)
          with claim_observes [OF Inr v unmanaged] show ?thesis by simp
        qed
      qed
    qed
  qed
qed

end

interpretation mem_olm: olm_client memoryOLM "\<lambda>m. fmlookup (mo_subs m)"
proof
  show "fmlookup (mo_subs s) (releaseKey ns n) = Some sub" if "ol_GetSubscription memoryOLM s ns n = (sub, None)" for s ns n sub
    using that by (auto simp: memoryOLM_def mo_GetSubscription_def split: if_splits option.splits)
  show "\<exists>old. fmlookup (mo_subs s) (cfgKey cfg) = Some old \<and> olmAdopted cfg old sub \<and>
      fmlookup (mo_subs s') = (fmlookup (mo_subs s))(cfgKey cfg := Some sub)"
    if "ol_ClaimSubscription memoryOLM s cfg = (s', sub, None)" for s cfg s' sub
    using that by (auto simp: memoryOLM_def mo_ClaimSubscription_def olmAdopted_def Let_def fun_eq_iff split: if_splits option.splits)
  show "fmlookup (mo_subs s') = fmlookup (mo_subs s)" if "ol_ClaimSubscription memoryOLM s cfg = (s', sub, Some e)" for s cfg s' sub e
    using that by (auto simp: memoryOLM_def mo_ClaimSubscription_def Let_def split: if_splits option.splits)
qed

subsection \<open>Properties\<close>

text \<open>C34: the OLM installer observes and never creates. Whatever subscriptions exist, a run changes
  at most the ownership labels of the subscription at the pin that was not ours, only on an
  explicit adoption request, and then reports it as adopted; it adds and removes none.\<close>

theorem olm_observe_only:
  assumes "OLMInstaller_Ensure ctx (Some memoryOLM) i m = (m', r, err)"
  shows "(\<forall>k. fmlookup (mo_subs m') k = fmlookup (mo_subs m) k \<or>
      ir_Action r = InstallAdopted \<and> in_AdoptExisting i \<and>
      (\<exists>cfg old. DefaultInstallConfig (in_Vendor i) = Inr cfg \<and> k = cfgKey cfg \<and> fmlookup (mo_subs m) k = Some old \<and>
         \<not> sub_ManagedByAdapter old \<and> matchesPinnedOLM old cfg \<and>
         fmlookup (mo_subs m') k = Some (old\<lparr>sb_Labels := stampAdoptedLabels (sb_Labels old)\<rparr>))) \<and>
    (ir_Action r = InstallAdopted \<longrightarrow> err = None \<and> (\<exists>cfg new. DefaultInstallConfig (in_Vendor i) = Inr cfg \<and>
       fmlookup (mo_subs m') (cfgKey cfg) = Some new \<and> sub_ManagedByAdapter new)) \<and>
    fmdom (mo_subs m') = fmdom (mo_subs m)"
proof -
  note obs = mem_olm.Ensure_observes [of i m ctx, unfolded assms mem_olm.observes_def prod.case]
  show ?thesis
  proof (cases "ir_Action r = InstallAdopted")
    case False
    with obs have "fmlookup (mo_subs m') = fmlookup (mo_subs m)" by blast
    then have "mo_subs m' = mo_subs m" by (simp add: fmlookup_inject)
    with False show ?thesis by simp
  next
    case True
    with obs obtain cfg old new where ad: "in_AdoptExisting i" "err = None" "DefaultInstallConfig (in_Vendor i) = Inr cfg"
        "fmlookup (mo_subs m) (cfgKey cfg) = Some old" "\<not> sub_ManagedByAdapter old" "olmAdopted cfg old new"
        "sub_ManagedByAdapter new" "fmlookup (mo_subs m') = (fmlookup (mo_subs m))(cfgKey cfg := Some new)" by blast
    then have up: "mo_subs m' = fmupd (cfgKey cfg) new (mo_subs m)" by (intro fmap_ext) simp
    have "cfgKey cfg |\<in>| fmdom (mo_subs m)" using ad(4) by (simp add: fmdomI)
    then have "fmdom (mo_subs m') = fmdom (mo_subs m)" by (auto simp: up)
    with True ad up show ?thesis by (auto simp: olmAdopted_def)
  qed
qed

definition exSubscription :: OLMSubscription where
  "exSubscription = emptySubscription\<lparr>sb_Name := NVIDIAReleaseName, sb_Namespace := DefaultNamespace,
     sb_Version := NVIDIAChartVersion\<rparr>"

definition exOLM :: MemoryOLMClient where
  "exOLM = mo_Put \<lparr>mo_Present = True, mo_subs = fmempty, mo_SubscribeCalls = 0\<rparr> exSubscription"

theorem olm_observe_only_witness:
  "\<exists>m' r err cfg new. OLMInstaller_Ensure (\<lambda>_. None) (Some memoryOLM)
       (emptyIntent\<lparr>in_Vendor := VendorNVIDIA, in_Known := True, in_AdoptExisting := True\<rparr>) exOLM = (m', r, err) \<and>
     ir_Action r = InstallAdopted \<and> fmlookup (mo_subs m') (cfgKey cfg) = Some new \<and> sub_ManagedByAdapter new"
proof -
  let ?run = "OLMInstaller_Ensure (\<lambda>_. None) (Some memoryOLM)
       (emptyIntent\<lparr>in_Vendor := VendorNVIDIA, in_Known := True, in_AdoptExisting := True\<rparr>) exOLM"
  obtain m' r err where run: "?run = (m', r, err)" by (metis prod_cases3)
  have "ir_Action (fst (snd ?run)) = InstallAdopted" by code_simp
  with run have "ir_Action r = InstallAdopted" by simp
  with olm_observe_only [OF run] run show ?thesis by blast
qed

end
