(* ===== verification/Ensure.thy ===== *)
theory Ensure
  imports Olm Cleanup
begin

text \<open>
  The install flow of the lifecycle manager: DetectingInstaller of pkg/lifecycle/installer.go
  and ensure.go. The manager runs on a triple of states: the Helm store \<open>'s\<close>, the OLM
  store \<open>'o\<close> and the rest of the cluster \<open>'w\<close>. An installer takes an intent and
  such a state; the installers of the package are composed as the code composes them. The
  Kubernetes client is a record of the calls the manager makes; an update returns the object
  the server stored. \<open>lm_Now w i\<close> is the i-th reading of the clock, in RFC 3339, by one
  merge of conditions that starts at \<open>w\<close>.
\<close>

subsection \<open>The manager\<close>

type_synonym 'st Installer = "Intent \<Rightarrow> 'st \<Rightarrow> 'st \<times> insres"
type_synonym 'w mapper = "'w \<Rightarrow> string \<Rightarrow> string \<Rightarrow> string \<Rightarrow> bool"

text \<open>What the code reads of an arbitrary object.\<close>

record KObject =
  ko_Namespace :: string
  ko_Name :: string
  ko_Labels :: strmap
  ko_Annotations :: strmap

record 'w LCMClient =
  kc_RESTMapping :: "'w mapper"
  kc_ListDPUClusters :: "'w \<Rightarrow> (apiErr, jobj list) result"
  kc_GetDeployment :: "'w \<Rightarrow> string \<Rightarrow> string \<Rightarrow> (apiErr, jobj) result"
  kc_ListDPUs :: "'w \<Rightarrow> (apiErr, DPUItem list) result"
  kc_GetConfig :: "'w \<Rightarrow> string \<Rightarrow> string \<Rightarrow> (apiErr, DpuOperatorConfig) result"
  kc_ListConfigs :: "'w \<Rightarrow> (apiErr, DpuOperatorConfig list) result"
  kc_Update :: "'w \<Rightarrow> DpuOperatorConfig \<Rightarrow> 'w \<times> (apiErr, DpuOperatorConfig) result"
  kc_StatusUpdate :: "'w \<Rightarrow> DpuOperatorConfig \<Rightarrow> 'w \<times> (apiErr, DpuOperatorConfig) result"
  kc_List :: "'w \<Rightarrow> GroupVersionKind \<Rightarrow> string \<Rightarrow> (apiErr, KObject list) result"
  kc_Get :: "'w \<Rightarrow> GroupVersionKind \<Rightarrow> string \<Rightarrow> string \<Rightarrow> (apiErr, KObject) result"
  kc_Delete :: "'w \<Rightarrow> GroupVersionKind \<Rightarrow> KObject \<Rightarrow> 'w \<times> apiErr option"

record ('s, 'o, 'w) LifecycleManager =
  lm_Client :: "'w LCMClient option"
  lm_Now :: "'w \<Rightarrow> nat \<Rightarrow> string"
  lm_Installer :: "('s \<times> 'o \<times> 'w) Installer option"
  lm_Helm :: "'s HelmClient option"
  lm_OLM :: "'o OLMClient option"
  lm_Probe :: "'w ClusterProbe option"
  lm_Discovery :: "('w \<Rightarrow> (string, string option) result) option"
  lm_Index :: "'w ResourceIndex option"
  lm_AllowCRDDeletion :: bool

subsection \<open>Installers\<close>

definition vendorProbeGVK :: "string \<Rightarrow> GroupVersionKind option" where
  "vendorProbeGVK vendor =
     (if vendor = VendorNVIDIA then Some nvidiaProbeGVK else if vendor = VendorAMD then Some amdProbeGVK else None)"

definition vendorAPIPresent :: "'w mapper option \<Rightarrow> string \<Rightarrow> 'w \<Rightarrow> bool" where
  "vendorAPIPresent mapper vendor w =
     (case mapper of None \<Rightarrow> False
      | Some m \<Rightarrow> (case vendorProbeGVK vendor of None \<Rightarrow> False
          | Some g \<Rightarrow> m w (gvk_Group g) (gvk_Kind g) (gvk_Version g)))"

definition Detecting_Ensure ::
    "('s \<times> 'o \<times> 'w \<Rightarrow> lcm_err option) \<Rightarrow> 'w mapper option \<Rightarrow> ('s \<times> 'o \<times> 'w) Installer" where
  "Detecting_Ensure ctx mapper i st =
     (case ctx st of Some e \<Rightarrow> (st, emptyInstallResult, Some e)
      | None \<Rightarrow>
        let present = vendorAPIPresent mapper (in_Vendor i) (snd (snd st)) in
        (st, emptyInstallResult\<lparr>ir_Version := in_PinnedVersion i, ir_Present := present,
               ir_Action := (if present then InstallDetected else InstallAbsent)\<rparr>, None))"

definition fallbackInstallErr :: "lcm_err option \<Rightarrow> bool" where
  "fallbackInstallErr err \<longleftrightarrow> err \<in> {Some ErrHelmMutationNotConfigured, Some ErrOLMNotPresent,
     Some ErrOLMMutationNotConfigured, Some ErrOLMPackageNotPublished, Some ErrNoVendorChart}"

definition helmWithDetect_Ensure ::
    "('s \<times> 'o \<times> 'w \<Rightarrow> lcm_err option) \<Rightarrow> 's HelmInstaller \<Rightarrow> ('s \<times> 'o \<times> 'w) Installer option \<Rightarrow> ('s \<times> 'o \<times> 'w) Installer" where
  "helmWithDetect_Ensure ctx h nxt i st =
     (case st of (s, o', w) \<Rightarrow>
        let (s1, got, err) = HelmInstaller_Ensure (\<lambda>s. ctx (s, o', w)) h i s in
        if fallbackInstallErr err then
          (case nxt of Some n \<Rightarrow> n i (s1, o', w) | None \<Rightarrow> Detecting_Ensure ctx None i (s1, o', w))
        else ((s1, o', w), got, err))"

definition olmWithDetect_Ensure ::
    "('s \<times> 'o \<times> 'w \<Rightarrow> lcm_err option) \<Rightarrow> 'o OLMClient \<Rightarrow> 'w mapper option \<Rightarrow> ('s \<times> 'o \<times> 'w) Installer" where
  "olmWithDetect_Ensure ctx olm mapper i st =
     (case st of (s, o', w) \<Rightarrow>
        let (o1, got, err) = OLMInstaller_Ensure (\<lambda>o'. ctx (s, o', w)) (Some olm) i o' in
        if fallbackInstallErr err then Detecting_Ensure ctx mapper i (s, o1, w) else ((s, o1, w), got, err))"

definition managerMapper :: "('s, 'o, 'w) LifecycleManager \<Rightarrow> 'w mapper option" where
  "managerMapper r = map_option kc_RESTMapping (lm_Client r)"

definition installer ::
    "('s \<times> 'o \<times> 'w \<Rightarrow> lcm_err option) \<Rightarrow> ('s, 'o, 'w) LifecycleManager \<Rightarrow> ('s \<times> 'o \<times> 'w) Installer" where
  "installer ctx r =
     (case lm_Installer r of Some i \<Rightarrow> i
      | None \<Rightarrow>
        let detect = Detecting_Ensure ctx (managerMapper r);
            nxt = (case lm_OLM r of Some olm \<Rightarrow> olmWithDetect_Ensure ctx olm (managerMapper r) | None \<Rightarrow> detect)
        in case lm_Helm r of
             Some helm \<Rightarrow> helmWithDetect_Ensure ctx
                \<lparr>hi_Client = Some helm, hi_AllowDowngrade = False, hi_MaxAttempts = 0\<rparr> (Some nxt)
           | None \<Rightarrow> nxt)"

definition clusterProbe :: "('s, 'o, 'w) LifecycleManager \<Rightarrow> 'w ClusterProbe option" where
  "clusterProbe r =
     (case lm_Probe r of Some p \<Rightarrow> Some p
      | None \<Rightarrow>
        if lm_Client r = None \<and> lm_Discovery r = None then None
        else Some (restProbe \<lparr>rp_Mapper = managerMapper r, rp_Discovery = lm_Discovery r,
               rp_Client = map_option (\<lambda>c. (kc_ListDPUClusters c, kc_GetDeployment c)) (lm_Client r)\<rparr>))"

subsection \<open>EnsureInstalled\<close>

record Result =
  rs_Intent :: Intent
  rs_Preflight :: Preflight
  rs_Settings :: InstallConfig
  rs_Dependencies :: DependencyReport
  rs_Install :: InstallResult
  rs_Policy :: PolicyResult
  rs_Operator :: OperatorStatus
  rs_DPU :: DPUReport
  rs_Readiness :: Readiness

definition startEnsure :: "Intent \<Rightarrow> Preflight \<Rightarrow> Result" where
  "startEnsure i pf = \<lparr>rs_Intent = i, rs_Preflight = pf, rs_Settings = emptyInstallConfig, rs_Dependencies = emptyReport,
     rs_Install = emptyInstallResult, rs_Policy = skewOnly SkewZero, rs_Operator = emptyOperator, rs_DPU = emptyDPUReport,
     rs_Readiness = \<lparr>rd_Ready = False, rd_Message = ''''\<rparr>\<rparr>"

definition skipped :: "string \<Rightarrow> InstallResult" where
  "skipped v = emptyInstallResult\<lparr>ir_Action := InstallSkipped, ir_Version := v\<rparr>"

text \<open>The early returns: install, policy and operator status are set, then readiness is assessed.\<close>

definition assessed :: "Result \<Rightarrow> Result" where
  "assessed out = out\<lparr>rs_Readiness := AssessReadiness (rs_Intent out) (rs_Install out) (rs_Policy out) (rs_Operator out)\<rparr>"

definition EnsureInstalled ::
    "('s \<times> 'o \<times> 'w \<Rightarrow> lcm_err option) \<Rightarrow> ('s, 'o, 'w) LifecycleManager \<Rightarrow> DpuOperatorConfig option \<Rightarrow> 's \<times> 'o \<times> 'w \<Rightarrow>
     ('s \<times> 'o \<times> 'w) \<times> Result \<times> lcm_err option" where
  "EnsureInstalled ctx r cfg st =
     (let i = ParseIntent cfg; pf = RunPreflight i; out = startEnsure i pf;
          ctxw = (\<lambda>w. ctx (fst st, fst (snd st), w))
      in if pf_Skip pf then (st, out\<lparr>rs_Install := skipped ''''\<rparr>, None)
      else if \<not> pf_OK pf then
        (st, assessed (out\<lparr>rs_Install := skipped (in_PinnedVersion i),
               rs_Policy := (skewOnly (pf_Reason pf))\<lparr>pr_Version := in_PinnedVersion i\<rparr>\<rparr>), None)
      else case RejectInstallOverrides cfg of Inl _ \<Rightarrow>
        (st, assessed (out\<lparr>rs_Install := skipped '''', rs_Policy := skewOnly SkewInvalidConfig\<rparr>), None)
      | Inr _ \<Rightarrow>
        case DefaultInstallConfig (in_Vendor i) of Inl _ \<Rightarrow>
          (st, assessed (out\<lparr>rs_Install := skipped '''', rs_Policy := skewOnly SkewUnknownVendor\<rparr>), None)
        | Inr settings0 \<Rightarrow>
          let (settings, pol) = ApplyVersionPolicy i settings0;
              out = out\<lparr>rs_Settings := settings, rs_Policy := pol\<rparr>
          in if pr_Skew pol = SkewInvalidConfig then (st, assessed (out\<lparr>rs_Install := skipped ''''\<rparr>), None)
          else
            let probe = clusterProbe r;
                deps = CheckDependencies ctxw probe (in_Vendor i) (snd (snd st));
                out = out\<lparr>rs_Dependencies := deps\<rparr>
            in if \<not> dr_OK deps then
                 (st, assessed (out\<lparr>rs_Install := skipped (in_PinnedVersion i),
                    rs_Policy := (skewOnly SkewBlocked)\<lparr>pr_Version := in_PinnedVersion i, pr_Message := dr_Message deps\<rparr>,
                    rs_Operator := operatorMsg OperatorInstalling (dr_Message deps)\<rparr>), None)
               else
                 let (st1, inst, err) = installer ctx r i st in
                 case err of Some e \<Rightarrow> (st1, out, Some e)
                 | None \<Rightarrow>
                   let ctx1 = (\<lambda>w. ctx (fst st1, fst (snd st1), w));
                       w1 = snd (snd st1);
                       out = out\<lparr>rs_Install := inst,
                             rs_Policy := (if in_PinnedVersion i = '''' \<and> ir_Version inst \<noteq> ''''
                                then EvaluatePolicy (in_Vendor i) (ir_Version inst) else rs_Policy out),
                             rs_Operator := ObserveOperator ctx1 probe (in_Vendor i) w1,
                             rs_DPU := (if in_Vendor i = VendorNVIDIA
                                then ObserveNVIDIADPUs ctx1 (map_option kc_ListDPUs (lm_Client r)) w1 else emptyDPUReport)\<rparr>
                   in (st1, assessed out, None))"

subsection \<open>What a run does\<close>

lemma AssessReadiness_ready:
  "rd_Ready (AssessReadiness i inst pol st) \<longleftrightarrow> in_Known i \<and>
     pr_Skew pol \<notin> {SkewTooOld, SkewTooNew, SkewUnknownVendor, SkewInvalidConfig, SkewBlocked} \<and>
     ir_Present inst \<and> os_Ready st \<and> os_Phase st = OperatorReady"
  by (simp add: AssessReadiness_def)

lemma skipped_fields [simp]: "ir_Action (skipped v) = InstallSkipped" "\<not> ir_Present (skipped v)"
  by (simp_all add: skipped_def emptyInstallResult_def)

lemma assessed_fields [simp]:
  "rs_Install (assessed out) = rs_Install out" "rs_Policy (assessed out) = rs_Policy out"
  "rs_Operator (assessed out) = rs_Operator out"
  "rd_Ready (rs_Readiness (assessed out)) \<longleftrightarrow> rd_Ready (AssessReadiness (rs_Intent out) (rs_Install out) (rs_Policy out) (rs_Operator out))"
  by (simp_all add: assessed_def)

lemma RunPreflight_go: "\<not> pf_Skip (RunPreflight i) \<Longrightarrow> pf_OK (RunPreflight i) \<Longrightarrow> in_Known i \<and> in_Vendor i \<noteq> ''''"
  by (auto simp: RunPreflight_def split: if_splits)

text \<open>The gates between a request and the installer, as one predicate.\<close>

definition cleared ::
    "('s \<times> 'o \<times> 'w \<Rightarrow> lcm_err option) \<Rightarrow> ('s, 'o, 'w) LifecycleManager \<Rightarrow> DpuOperatorConfig option \<Rightarrow> 's \<times> 'o \<times> 'w \<Rightarrow> bool" where
  "cleared ctx r cfg st \<longleftrightarrow> in_Known (ParseIntent cfg) \<and> in_Vendor (ParseIntent cfg) \<noteq> '''' \<and>
     RejectInstallOverrides cfg = Inr () \<and> is_ok (DefaultInstallConfig (in_Vendor (ParseIntent cfg))) \<and>
     \<not> looksLikeChartURL (in_PinnedVersion (ParseIntent cfg)) \<and>
     dr_OK (CheckDependencies (\<lambda>w. ctx (fst st, fst (snd st), w)) (clusterProbe r) (in_Vendor (ParseIntent cfg)) (snd (snd st)))"

text \<open>A run that stops at a gate, and one that reaches the installer.\<close>

definition stopped :: "'st \<Rightarrow> 'st \<times> Result \<times> lcm_err option \<Rightarrow> bool" where
  "stopped st out \<longleftrightarrow> (case out of (st', res, err) \<Rightarrow>
     st' = st \<and> err = None \<and> ir_Action (rs_Install res) = InstallSkipped \<and> \<not> rd_Ready (rs_Readiness res))"

definition installed ::
    "('s \<times> 'o \<times> 'w \<Rightarrow> lcm_err option) \<Rightarrow> ('s, 'o, 'w) LifecycleManager \<Rightarrow> DpuOperatorConfig option \<Rightarrow> 's \<times> 'o \<times> 'w \<Rightarrow>
     ('s \<times> 'o \<times> 'w) \<times> Result \<times> lcm_err option \<Rightarrow> bool" where
  "installed ctx r cfg st out \<longleftrightarrow> (case out of (st', res, err) \<Rightarrow> \<exists>inst.
     installer ctx r (ParseIntent cfg) st = (st', inst, err) \<and>
     (case err of Some e \<Rightarrow> \<not> rd_Ready (rs_Readiness res)
      | None \<Rightarrow> rs_Install res = inst \<and>
          rs_Operator res = ObserveOperator (\<lambda>w. ctx (fst st', fst (snd st'), w)) (clusterProbe r)
             (in_Vendor (ParseIntent cfg)) (snd (snd st')) \<and>
          rd_Ready (rs_Readiness res) = rd_Ready (AssessReadiness (ParseIntent cfg) inst (rs_Policy res) (rs_Operator res))))"

lemma ApplyVersionPolicy_default:
  assumes "DefaultInstallConfig v = Inr settings" and "ApplyVersionPolicy i settings = (settings', pol)"
  shows "pr_Skew pol = SkewInvalidConfig \<longleftrightarrow> looksLikeChartURL (TrimSpace (in_PinnedVersion i))"
proof -
  have "ValidateInstallConfig settings = Inr ()" using assms(1) by (rule ValidateInstallConfig_default)
  moreover have "ClassifySkew a b \<noteq> SkewInvalidConfig" for a b
    by (auto simp: ClassifySkew_def Let_def split: option.splits sum.splits if_splits)
  ultimately show ?thesis using assms(2)
    by (auto simp: ApplyVersionPolicy_def Let_def skewOnly_def EvaluatePolicy_def split: if_splits)
qed

lemma EnsureInstalled_cases:
  "(\<not> cleared ctx r cfg st \<and> stopped st (EnsureInstalled ctx r cfg st)) \<or>
   (cleared ctx r cfg st \<and> installed ctx r cfg st (EnsureInstalled ctx r cfg st))"
proof -
  let ?i = "ParseIntent cfg"
  note run = EnsureInstalled_def [of ctx r cfg st]
  have start: "\<not> rd_Ready (rs_Readiness (startEnsure i pf))" for i pf by (simp add: startEnsure_def)
  show ?thesis
  proof (cases "pf_Skip (RunPreflight ?i) \<or> \<not> pf_OK (RunPreflight ?i)")
    case True
    then have "\<not> cleared ctx r cfg st" by (auto simp: cleared_def RunPreflight_def split: if_splits)
    moreover have "stopped st (EnsureInstalled ctx r cfg st)"
      using True start by (auto simp: run stopped_def Let_def AssessReadiness_ready)
    ultimately show ?thesis by simp
  next
    case go: False
    then have known: "in_Known ?i" "in_Vendor ?i \<noteq> ''''" using RunPreflight_go by auto
    show ?thesis
    proof (cases "RejectInstallOverrides cfg = Inr () \<and> is_ok (DefaultInstallConfig (in_Vendor ?i))")
      case False
      then have "\<not> cleared ctx r cfg st" by (auto simp: cleared_def)
      moreover have "stopped st (EnsureInstalled ctx r cfg st)"
        using False go by (auto simp: run stopped_def Let_def AssessReadiness_ready split: sum.split)
      ultimately show ?thesis by simp
    next
      case True
      then obtain settings where s: "DefaultInstallConfig (in_Vendor ?i) = Inr settings"
        by (cases "DefaultInstallConfig (in_Vendor ?i)") auto
      obtain settings' pol where pol: "ApplyVersionPolicy ?i settings = (settings', pol)" by (metis prod.exhaust)
      have url: "pr_Skew pol = SkewInvalidConfig \<longleftrightarrow> looksLikeChartURL (in_PinnedVersion ?i)"
        using ApplyVersionPolicy_default [OF s pol] ParseIntent_pin_trimmed by simp
      define deps where "deps = CheckDependencies (\<lambda>w. ctx (fst st, fst (snd st), w)) (clusterProbe r) (in_Vendor ?i) (snd (snd st))"
      show ?thesis
      proof (cases "pr_Skew pol = SkewInvalidConfig \<or> \<not> dr_OK deps")
        case False
        obtain st1 inst err where ins: "installer ctx r ?i st = (st1, inst, err)" by (metis prod_cases3)
        have "cleared ctx r cfg st"
          using known True False url by (simp add: cleared_def deps_def)
        moreover have "installed ctx r cfg st (EnsureInstalled ctx r cfg st)"
          using go True s pol False ins start
          by (auto simp: run installed_def Let_def deps_def [symmetric] startEnsure_def split: option.split)
        ultimately show ?thesis by simp
      next
        case blocked: True
        then have "\<not> cleared ctx r cfg st" using url by (auto simp: cleared_def deps_def)
        moreover have "stopped st (EnsureInstalled ctx r cfg st)"
          using go True s pol blocked
          by (auto simp: run stopped_def Let_def deps_def [symmetric] AssessReadiness_ready)
        ultimately show ?thesis by simp
      qed
    qed
  qed
qed

subsection \<open>Properties\<close>

text \<open>A manager over the in-memory stores and a healthy cluster.\<close>

definition exManager :: "(MemoryHelmClient, MemoryOLMClient, MemoryResourceIndex) LifecycleManager" where
  "exManager = \<lparr>lm_Client = None, lm_Now = (\<lambda>_ _. ''2026-01-01T00:00:00Z''), lm_Installer = None,
     lm_Helm = Some (memoryClient (\<lambda>_. None)), lm_OLM = Some memoryOLM, lm_Probe = Some (staticProbe ReadyClusterProbe),
     lm_Discovery = None, lm_Index = Some memoryIndex, lm_AllowCRDDeletion = False\<rparr>"

text \<open>C17: nothing is installed before every gate is passed. The flow reaches the installer exactly
  when the requested vendor is known, the configuration carries no install override, the vendor
  has pinned settings, the version pin is not a chart reference and the cluster has the
  dependencies; the resulting state is then the installer's. Otherwise the state is unchanged,
  the result says skipped, there is no error and readiness is false.\<close>

theorem ensure_gate:
  assumes "EnsureInstalled ctx r cfg st = (st', res, err)"
  shows "if cleared ctx r cfg st then \<exists>inst. installer ctx r (ParseIntent cfg) st = (st', inst, err)
    else st' = st \<and> err = None \<and> ir_Action (rs_Install res) = InstallSkipped \<and> \<not> rd_Ready (rs_Readiness res)"
  using EnsureInstalled_cases [of ctx r cfg st] assms by (auto simp: stopped_def installed_def)

theorem ensure_gate_witness:
  "fst (EnsureInstalled (\<lambda>_. None) exManager (Some (exampleConfig\<lparr>cfgSpecVendor := ''intel''\<rparr>))
     (newMemoryHelmClient, exOLM, exIndex)) = (newMemoryHelmClient, exOLM, exIndex)"
proof -
  let ?cfg = "Some (exampleConfig\<lparr>cfgSpecVendor := ''intel''\<rparr>)" and ?st = "(newMemoryHelmClient, exOLM, exIndex)"
  obtain st' res err where run: "EnsureInstalled (\<lambda>_. None) exManager ?cfg ?st = (st', res, err)" by (metis prod_cases3)
  have "\<not> in_Known (ParseIntent ?cfg)" by code_simp
  then have "\<not> cleared (\<lambda>_. None) exManager ?cfg ?st" by (simp add: cleared_def)
  with ensure_gate [OF run] run show ?thesis by simp
qed

text \<open>C18: readiness means the whole chain holds. When a run reports the vendor operator ready, every
  gate was passed, the installer succeeded and saw the operator, the version policy did not
  reject the install, and the operator's resources, observed in the state after the installer
  ran, are all present and healthy.\<close>

theorem readiness_chain:
  assumes "EnsureInstalled ctx r cfg st = (st', res, err)" and "rd_Ready (rs_Readiness res)"
  shows "err = None \<and> cleared ctx r cfg st \<and> ir_Present (rs_Install res) \<and>
    (\<exists>inst. installer ctx r (ParseIntent cfg) st = (st', inst, None) \<and> rs_Install res = inst) \<and>
    pr_Skew (rs_Policy res) \<notin> {SkewTooOld, SkewTooNew, SkewUnknownVendor, SkewInvalidConfig, SkewBlocked} \<and>
    os_Ready (ObserveOperator (\<lambda>w. ctx (fst st', fst (snd st'), w)) (clusterProbe r) (in_Vendor (ParseIntent cfg)) (snd (snd st')))"
proof -
  from EnsureInstalled_cases [of ctx r cfg st] assms have "cleared ctx r cfg st" "installed ctx r cfg st (st', res, err)"
    by (auto simp: stopped_def)
  then obtain inst where ins: "installer ctx r (ParseIntent cfg) st = (st', inst, err)"
      and rest: "case err of Some e \<Rightarrow> \<not> rd_Ready (rs_Readiness res)
      | None \<Rightarrow> rs_Install res = inst \<and>
          rs_Operator res = ObserveOperator (\<lambda>w. ctx (fst st', fst (snd st'), w)) (clusterProbe r)
             (in_Vendor (ParseIntent cfg)) (snd (snd st')) \<and>
          rd_Ready (rs_Readiness res) = rd_Ready (AssessReadiness (ParseIntent cfg) inst (rs_Policy res) (rs_Operator res))"
    by (auto simp: installed_def)
  from rest assms(2) have "err = None" by (auto split: option.splits)
  with ins rest assms(2) \<open>cleared ctx r cfg st\<close> show ?thesis by (auto simp: AssessReadiness_ready)
qed

theorem readiness_chain_witness:
  "\<exists>st' res err. EnsureInstalled (\<lambda>_. None) exManager (Some exampleConfig) (newMemoryHelmClient, exOLM, exIndex) = (st', res, err) \<and>
     rd_Ready (rs_Readiness res) \<and> err = None \<and> ir_Present (rs_Install res)"
proof -
  let ?run = "EnsureInstalled (\<lambda>_. None) exManager (Some exampleConfig) (newMemoryHelmClient, exOLM, exIndex)"
  obtain st' res err where run: "?run = (st', res, err)" by (metis prod_cases3)
  have "rd_Ready (rs_Readiness (fst (snd ?run)))" by code_simp
  with run have "rd_Ready (rs_Readiness res)" by simp
  with readiness_chain [OF run] run show ?thesis by blast
qed

end
