(* ===== verification/LifecycleController.thy ===== *)
theory LifecycleController
  imports Ensure ReleaseLocks
begin

text \<open>
  pkg/lifecycle/lifecycle_controller.go and the cluster index of cleanup.go: the reconcile loop
  of a DpuOperatorConfig, its finalizer, its cleanup on deletion and the status conditions the
  manager owns. Two libraries are parameters: the Kubernetes client of theory Ensure and
  \<^verbatim>\<open>retry.RetryOnConflict\<close>, which takes the closure the code passes. A closure works on the
  cluster and on the local variable \<open>cfg\<close> it assigns. The locks that Reconcile takes
  around the whole run are in theory ReleaseLocks.
\<close>

subsection \<open>ClientResourceIndex\<close>

definition opiConfigGroup :: string where "opiConfigGroup = ''config.openshift.io''"
definition sourceAnnotationKey :: string where "sourceAnnotationKey = ''translation.opi.nvidia.com/source''"

definition listGVK :: "'w LCMClient \<Rightarrow> GroupVersionKind \<Rightarrow> string \<Rightarrow> 'w \<Rightarrow> (apiErr, ObjectRef list) result" where
  "listGVK c g ns w =
     (case kc_List c w g ns of Inl e \<Rightarrow> Inl e
      | Inr items \<Rightarrow> Inr (map (\<lambda>item.
          \<lparr>or_Group = gvk_Group g, or_Version = gvk_Version g, or_Kind = gvk_Kind g,
           or_Namespace = ko_Namespace item, or_Name = ko_Name item, or_Owner = sget (ko_Labels item) ReleaseOwnerLabel,
           or_Tenant = '''', or_Referenced = sget (ko_Annotations item) sourceAnnotationKey \<noteq> ''''\<rparr>) items))"

text \<open>The counting loop over the other configurations.\<close>

definition countsAsTenant :: "string \<Rightarrow> DpuOperatorConfig \<Rightarrow> bool" where
  "countsAsTenant exceptConfig item \<longleftrightarrow> \<not> (cfgName item = exceptConfig \<or> cfgDeleting item) \<and>
     (let v = ResolveVendor (Some item) in v = VendorNVIDIA \<or> v = VendorAMD)"

definition opiKinds :: "GroupVersionKind list" where
  "opiKinds = [GVK opiConfigGroup ''v1'' ''DataProcessingUnit'', GVK opiConfigGroup ''v1'' ''ServiceFunctionChain'']"

text \<open>One round of each listing loop: a kind that cannot be listed is passed over.\<close>

definition addOPI :: "'w LCMClient \<Rightarrow> 'w \<Rightarrow> GroupVersionKind \<Rightarrow> CleanupRefs \<Rightarrow> CleanupRefs" where
  "addOPI c w g out =
     (case listGVK c g '''' w of Inl _ \<Rightarrow> out
      | Inr items \<Rightarrow> out\<lparr>cr_OPI := cr_OPI out @ items, cr_CRDDependents := cr_CRDDependents out + int (length items)\<rparr>)"

definition addDataplane :: "'w LCMClient \<Rightarrow> string \<Rightarrow> 'w \<Rightarrow> GroupVersionKind \<Rightarrow> CleanupRefs \<Rightarrow> CleanupRefs" where
  "addDataplane c ns w g out =
     (case listGVK c g ns w of Inl _ \<Rightarrow> out
      | Inr items \<Rightarrow> out\<lparr>cr_Dataplane := cr_Dataplane out @ items,
                        cr_CRDDependents := cr_CRDDependents out + int (length items)\<rparr>)"

definition cri_Refs :: "'w LCMClient option \<Rightarrow> 'w \<Rightarrow> string \<Rightarrow> string \<Rightarrow> 'w \<times> CleanupRefs \<times> lcm_err option" where
  "cri_Refs client w exceptConfig releaseNamespace =
     (case client of None \<Rightarrow> (w, emptyRefs, None)
      | Some c \<Rightarrow>
        let listed = kc_ListConfigs c w;
            rest = (\<lambda>out. (w, fold (addDataplane c releaseNamespace w) requiredDPFCRDs (fold (addOPI c w) opiKinds out), None))
        in case listed of
             Inl e \<Rightarrow> if \<not> IsNoMatch e then (w, emptyRefs, Some (ErrText (apiText e))) else rest emptyRefs
           | Inr items \<Rightarrow> rest (emptyRefs\<lparr>cr_OtherTenants := int (length (filter (countsAsTenant exceptConfig) items))\<rparr>))"

definition refGVK :: "ObjectRef \<Rightarrow> GroupVersionKind" where
  "refGVK o' = GVK (or_Group o') (or_Version o') (or_Kind o')"

definition ignoreNotFound :: "apiErr option \<Rightarrow> lcm_err option" where
  "ignoreNotFound err = (case err of None \<Rightarrow> None | Some e \<Rightarrow> if IsNotFound e then None else Some (ErrText (apiText e)))"

definition cri_DeleteDataplane :: "'w LCMClient option \<Rightarrow> 'w \<Rightarrow> ObjectRef \<Rightarrow> 'w \<times> lcm_err option" where
  "cri_DeleteDataplane client w ref =
     (case client of None \<Rightarrow> (w, Some (ErrText ''no cluster client''))
      | Some c \<Rightarrow>
        case kc_Get c w (refGVK ref) (or_Namespace ref) (or_Name ref) of
          Inl e \<Rightarrow> (w, ignoreNotFound (Some e))
        | Inr obj \<Rightarrow>
          if ko_Namespace obj \<noteq> or_Namespace ref \<or> ko_Name obj \<noteq> or_Name ref
          then (w, Some (ErrText ''namespace or name mismatch''))
          else let (w', err) = kc_Delete c w (refGVK ref) obj in (w', ignoreNotFound err))"

definition ClientResourceIndex :: "'w LCMClient option \<Rightarrow> 'w ResourceIndex" where
  "ClientResourceIndex client = \<lparr>ri_Refs = cri_Refs client, ri_DeleteDataplane = cri_DeleteDataplane client\<rparr>"

text \<open>A fresh, empty MemoryResourceIndex; what it remembers is dropped with it.\<close>

definition emptyIndex :: "'w ResourceIndex" where
  "emptyIndex = \<lparr>ri_Refs = (\<lambda>w _ _. (w, emptyRefs, None)), ri_DeleteDataplane = (\<lambda>w _. (w, None))\<rparr>"

definition resourceIndex :: "('s, 'o, 'w) LifecycleManager \<Rightarrow> 'w ResourceIndex" where
  "resourceIndex r =
     (case lm_Index r of Some i \<Rightarrow> i
      | None \<Rightarrow> if lm_Client r \<noteq> None then ClientResourceIndex (lm_Client r) else emptyIndex)"

subsection \<open>Owned conditions\<close>

definition SupportedConditionType :: string where [const_defs]: "SupportedConditionType = ''VendorOperatorSupported''"
definition OperatorReadyConditionType :: string where [const_defs]: "OperatorReadyConditionType = ''VendorOperatorReady''"
definition DPUReadyConditionType :: string where [const_defs]: "DPUReadyConditionType = ''VendorDPUReady''"
definition CleanupConditionType :: string where [const_defs]: "CleanupConditionType = ''VendorOperatorCleanup''"

record ownedCondition =
  ow_Type :: string
  ow_Status :: string
  ow_Reason :: string
  ow_Message :: string

text \<open>A condition as an entry of the untyped list, and the comparison of one of its keys with a string.\<close>

definition conditionItem :: "ownedCondition \<Rightarrow> jv \<Rightarrow> jobj" where
  "conditionItem c time = fmap_of_list [(''type'', JStr (ow_Type c)), (statusKey, JStr (ow_Status c)),
     (''reason'', JStr (ow_Reason c)), (''message'', JStr (ow_Message c)), (''lastTransitionTime'', time)]"

definition holdsStr :: "jobj \<Rightarrow> string \<Rightarrow> string \<Rightarrow> bool" where
  "holdsStr c k s \<longleftrightarrow> fmlookup c k = Some (JStr s)"

definition ofType :: "string \<Rightarrow> jv \<Rightarrow> bool" where
  "ofType t raw = (case asMap raw of None \<Rightarrow> False | Some c \<Rightarrow> holdsStr c ''type'' t)"

text \<open>The inner loop: \<open>None\<close> when no entry has the type, else the list and whether it changed.\<close>

fun upsertFirst :: "ownedCondition \<Rightarrow> string \<Rightarrow> jv list \<Rightarrow> (jv list \<times> bool) option" where
  "upsertFirst next now [] = None"
| "upsertFirst next now (raw # rest) =
     (case asMap raw of
        None \<Rightarrow> map_option (\<lambda>(l, ch). (raw # l, ch)) (upsertFirst next now rest)
      | Some c \<Rightarrow>
        if \<not> holdsStr c ''type'' (ow_Type next) then
          map_option (\<lambda>(l, ch). (raw # l, ch)) (upsertFirst next now rest)
        else if holdsStr c statusKey (ow_Status next) \<and> holdsStr c ''reason'' (ow_Reason next) \<and>
                holdsStr c ''message'' (ow_Message next) then Some (raw # rest, False)
        else
          let time = (if holdsStr c statusKey (ow_Status next)
                      then (case fmlookup c ''lastTransitionTime'' of Some v \<Rightarrow> v | None \<Rightarrow> JNull)
                      else JStr now)
          in Some (JObj (conditionItem next time) # rest, True))"

definition upsertOne :: "ownedCondition \<Rightarrow> string \<Rightarrow> jv list \<Rightarrow> jv list \<times> bool" where
  "upsertOne next now conds =
     (case upsertFirst next now conds of Some r \<Rightarrow> r
      | None \<Rightarrow> (conds @ [JObj (conditionItem next (JStr now))], True))"

text \<open>The outer loop; \<open>i\<close> counts the readings of the clock.\<close>

fun upsertAll :: "(nat \<Rightarrow> string) \<Rightarrow> nat \<Rightarrow> ownedCondition list \<Rightarrow> jv list \<Rightarrow> jv list \<times> bool" where
  "upsertAll now i [] conds = (conds, False)"
| "upsertAll now i (next # want) conds =
     (let (conds1, ch1) = upsertOne next (now i) conds; (conds2, ch2) = upsertAll now (Suc i) want conds1
      in (conds2, ch1 \<or> ch2))"

definition statusMap :: "DpuOperatorConfig \<Rightarrow> jobj" where
  "statusMap cfg = (case cfgStatus cfg of None \<Rightarrow> fmempty | Some v \<Rightarrow> (case asMap v of None \<Rightarrow> fmempty | Some m \<Rightarrow> m))"

definition existingConditions :: "jobj \<Rightarrow> (string, jv list) result" where
  "existingConditions status =
     (case fmlookup status ''conditions'' of None \<Rightarrow> Ok []
      | Some v \<Rightarrow> (case asList v of None \<Rightarrow> Err ''reading status.conditions'' | Some conds \<Rightarrow> Ok conds))"

definition mergeOwnedConditions ::
    "(nat \<Rightarrow> string) \<Rightarrow> DpuOperatorConfig \<Rightarrow> ownedCondition list \<Rightarrow> (string, DpuOperatorConfig \<times> bool) result" where
  "mergeOwnedConditions now cfg want =
     (let status = statusMap cfg; cfg0 = cfg\<lparr>cfgStatus := Some (JObj status)\<rparr> in
      case existingConditions status of Inl e \<Rightarrow> Err e
      | Inr conds \<Rightarrow>
        let (conds', changed) = upsertAll now 0 want conds in
        if \<not> changed then Ok (cfg0, False)
        else Ok (cfg\<lparr>cfgStatus := Some (JObj (fmupd ''conditions'' (JList conds') status))\<rparr>, True))"

text \<open>
  \<^verbatim>\<open>skewStatus\<close>; the range of a vendor without one prints as two empty strings.
\<close>

definition skewStatus :: "string \<Rightarrow> string \<Rightarrow> Skew \<Rightarrow> string \<times> string" where
  "skewStatus vendor ver skew =
     (let r = (case SupportedRangeFor vendor of Some r \<Rightarrow> r | None \<Rightarrow> emptyRange);
          window = ''['' @ MinInclusive r @ '', '' @ MaxExclusive r @ '')'';
          subject = vendor @ '' operator '' @ ver
      in case skew of
        SkewSupported \<Rightarrow> (''True'', subject @ '' is within the supported range '' @ window)
      | SkewTooOld \<Rightarrow> (''False'', subject @ '' predates the supported range '' @ window @
          ''; expect fields this adapter writes to be missing'')
      | SkewTooNew \<Rightarrow> (''False'', subject @ '' is newer than the supported range '' @ window @
          ''; its CRD schema may have moved since this adapter was tested'')
      | SkewUnpinned \<Rightarrow> (''Unknown'', ''no supported version range is pinned for vendor '' @ Quote vendor)
      | SkewUnknownVendor \<Rightarrow> (''False'', ''vendor '' @ Quote vendor @ '' is not known; allowed values are '' @
          Join KnownVendors '', '')
      | SkewInvalidConfig \<Rightarrow> (''False'', ''install settings are not the pinned vendor/version/namespace; '' @
          ''chart URLs and helm arguments are rejected'')
      | SkewBlocked \<Rightarrow> (''False'', ''cluster access, Kubernetes version, or a DPF prerequisite is missing'')
      | _ \<Rightarrow> (''Unknown'', if TrimSpace ver = ''''
          then ''the installed '' @ vendor @ '' operator version is unknown; set the '' @ VersionAnnotation @ '' annotation''
          else ''could not parse the installed '' @ vendor @ '' operator version '' @ Quote ver))"

definition cleanupConditionStatus :: "CleanupResult \<Rightarrow> string" where
  "cleanupConditionStatus got = (if cu_OpStatus got = OpFailed then ''False'' else ''True'')"

definition cleanupConditionMessage :: "CleanupResult \<Rightarrow> string" where
  "cleanupConditionMessage got =
     (let msg = (if cu_Failure got \<noteq> '''' then cu_Reason got @ '': '' @ cu_Failure got else cu_Reason got);
          msg = (if length (cu_Skipped got) > 0 then msg @ ''; skipped '' @ Join (cu_Skipped got) ''; '' else msg)
      in SanitizeLogValue ''message'' msg)"

fun cleanupActionText :: "CleanupAction \<Rightarrow> string" where
  "cleanupActionText CleanupZero = ''''"
| "cleanupActionText CleanupDeleted = ''deleted''"
| "cleanupActionText CleanupPreserved = ''preserved''"
| "cleanupActionText CleanupSkipped = ''skipped''"
| "cleanupActionText CleanupFailed = ''failed''"
| "cleanupActionText CleanupGone = ''already-gone''"

subsection \<open>Writing under RetryOnConflict\<close>

datatype rec_err = RecAPI apiErr | RecLCM lcm_err | RecStatus string

type_synonym 'w closure = "'w \<times> DpuOperatorConfig \<Rightarrow> ('w \<times> DpuOperatorConfig) \<times> rec_err option"
type_synonym 'w retrier = "'w closure \<Rightarrow> 'w closure"

definition isConflictErr :: "rec_err \<Rightarrow> bool" where
  "isConflictErr e = (case e of RecAPI a \<Rightarrow> IsConflict a | _ \<Rightarrow> False)"

text \<open>The closure of upsertConditions.\<close>

definition upsertAttempt ::
    "('w \<Rightarrow> nat \<Rightarrow> string) \<Rightarrow> 'w LCMClient \<Rightarrow> string \<Rightarrow> string \<Rightarrow> ownedCondition list \<Rightarrow> 'w closure" where
  "upsertAttempt now c ns name want x =
     (case x of (w, cfg) \<Rightarrow>
        case kc_GetConfig c w ns name of Inl e \<Rightarrow> ((w, cfg), Some (RecAPI e))
        | Inr fresh \<Rightarrow>
          case mergeOwnedConditions (now w) fresh want of Inl e \<Rightarrow> ((w, cfg), Some (RecStatus e))
          | Inr (merged, changed) \<Rightarrow>
            if \<not> changed then ((w, merged), None)
            else let (w', res) = kc_StatusUpdate c w merged in
                 case res of Inl e \<Rightarrow> ((w', cfg), Some (RecAPI e)) | Inr stored \<Rightarrow> ((w', stored), None))"

definition upsertConditions ::
    "'w retrier \<Rightarrow> ('s, 'o, 'w) LifecycleManager \<Rightarrow> ownedCondition list \<Rightarrow> 'w closure" where
  "upsertConditions retry r want x =
     (case x of (w, cfg) \<Rightarrow>
        case lm_Client r of None \<Rightarrow>
          (case mergeOwnedConditions (lm_Now r w) cfg want of Inl e \<Rightarrow> ((w, cfg), Some (RecStatus e))
           | Inr (merged, _) \<Rightarrow> ((w, merged), None))
        | Some c \<Rightarrow> retry (upsertAttempt (lm_Now r) c (cfgNamespace cfg) (cfgName cfg) want) (w, cfg))"

definition ownedConditions :: "Result \<Rightarrow> ownedCondition list" where
  "ownedConditions out =
     (let skew = pr_Skew (rs_Policy out);
          (status, message) = skewStatus (in_Vendor (rs_Intent out)) (pr_Version (rs_Policy out)) skew;
          message = (if pr_Message (rs_Policy out) \<noteq> '''' then pr_Message (rs_Policy out) else message);
          (readyStatus, readyReason, readyMsg) = operatorCondition (rs_Operator out);
          (dpuStatus, dpuReason, dpuMsg) = dpuCondition (rs_DPU out)
      in [\<lparr>ow_Type = SupportedConditionType, ow_Status = status, ow_Reason = skewString skew, ow_Message = message\<rparr>,
          \<lparr>ow_Type = OperatorReadyConditionType, ow_Status = readyStatus, ow_Reason = readyReason, ow_Message = readyMsg\<rparr>,
          \<lparr>ow_Type = DPUReadyConditionType, ow_Status = dpuStatus, ow_Reason = dpuReason, ow_Message = dpuMsg\<rparr>])"

definition setOwnedConditions :: "'w retrier \<Rightarrow> ('s, 'o, 'w) LifecycleManager \<Rightarrow> Result \<Rightarrow> 'w closure" where
  "setOwnedConditions retry r out = upsertConditions retry r (ownedConditions out)"

definition ContainsFinalizer :: "DpuOperatorConfig \<Rightarrow> string \<Rightarrow> bool" where
  "ContainsFinalizer cfg f \<longleftrightarrow> f \<in> set (cfgFinalizers cfg)"

definition AddFinalizer :: "DpuOperatorConfig \<Rightarrow> string \<Rightarrow> DpuOperatorConfig" where
  "AddFinalizer cfg f = (if ContainsFinalizer cfg f then cfg else cfg\<lparr>cfgFinalizers := cfgFinalizers cfg @ [f]\<rparr>)"

definition RemoveFinalizer :: "DpuOperatorConfig \<Rightarrow> string \<Rightarrow> DpuOperatorConfig" where
  "RemoveFinalizer cfg f = cfg\<lparr>cfgFinalizers := filter (\<lambda>g. g \<noteq> f) (cfgFinalizers cfg)\<rparr>"

definition finalizerAttempt :: "'w LCMClient \<Rightarrow> string \<Rightarrow> string \<Rightarrow> 'w closure" where
  "finalizerAttempt c ns name x =
     (case x of (w, cfg) \<Rightarrow>
        case kc_GetConfig c w ns name of Inl e \<Rightarrow> ((w, cfg), Some (RecAPI e))
        | Inr fresh \<Rightarrow>
          if \<not> KnownVendor (ResolveVendor (Some fresh)) \<or> ContainsFinalizer fresh CleanupFinalizer then ((w, fresh), None)
          else let (w', res) = kc_Update c w (AddFinalizer fresh CleanupFinalizer) in
               case res of Inl e \<Rightarrow> ((w', cfg), Some (RecAPI e)) | Inr stored \<Rightarrow> ((w', stored), None))"

definition ensureCleanupFinalizer :: "'w retrier \<Rightarrow> 'w LCMClient \<Rightarrow> string \<Rightarrow> string \<Rightarrow> 'w closure" where
  "ensureCleanupFinalizer retry c ns name x =
     (if \<not> KnownVendor (ResolveVendor (Some (snd x))) then (x, None)
      else if ContainsFinalizer (snd x) CleanupFinalizer then (x, None)
      else retry (finalizerAttempt c ns name) x)"

definition unfinalizeAttempt :: "'w LCMClient \<Rightarrow> string \<Rightarrow> string \<Rightarrow> 'w closure" where
  "unfinalizeAttempt c ns name x =
     (case x of (w, cfg) \<Rightarrow>
        case kc_GetConfig c w ns name of Inl e \<Rightarrow> ((w, cfg), Some (RecAPI e))
        | Inr fresh \<Rightarrow>
          if \<not> ContainsFinalizer fresh CleanupFinalizer then ((w, cfg), None)
          else let (w', res) = kc_Update c w (RemoveFinalizer fresh CleanupFinalizer) in
               case res of Inl e \<Rightarrow> ((w', cfg), Some (RecAPI e)) | Inr _ \<Rightarrow> ((w', cfg), None))"

definition removeCleanupFinalizer :: "'w retrier \<Rightarrow> 'w LCMClient \<Rightarrow> string \<Rightarrow> string \<Rightarrow> 'w closure" where
  "removeCleanupFinalizer retry c ns name = retry (unfinalizeAttempt c ns name)"

subsection \<open>Reconcile\<close>

definition isNotFoundErr :: "rec_err \<Rightarrow> bool" where
  "isNotFoundErr e = (case e of RecAPI a \<Rightarrow> IsNotFound a | _ \<Rightarrow> False)"

definition cleanupCondition :: "CleanupResult \<Rightarrow> ownedCondition" where
  "cleanupCondition got = \<lparr>ow_Type = CleanupConditionType, ow_Status = cleanupConditionStatus got,
     ow_Reason = cleanupActionText (cu_Action got), ow_Message = cleanupConditionMessage got\<rparr>"

definition reconcileCleanup ::
    "'w retrier \<Rightarrow> ('s, 'o, 'w) LifecycleManager \<Rightarrow> 'w LCMClient \<Rightarrow> DpuOperatorConfig \<Rightarrow> 's \<Rightarrow> 'w \<Rightarrow> 's \<times> 'w \<times> rec_err option" where
  "reconcileCleanup retry r c cfg s w =
     (if \<not> ContainsFinalizer cfg CleanupFinalizer then (s, w, None)
      else
        let (s1, w1, got) = CleanupInstallations (lm_Helm r) (resourceIndex r) (lm_AllowCRDDeletion r) (Some cfg) s w;
            ((w2, cfg2), err) = upsertConditions retry r [cleanupCondition got] (w1, cfg)
        in if (case err of None \<Rightarrow> False | Some e \<Rightarrow> \<not> isNotFoundErr e) then (s1, w2, err)
           else if cu_OpStatus got = OpFailed \<and> cu_Action got = CleanupFailed \<and> cu_Failure got = errText ErrCleanupChanged
             then (s1, w2, Some (RecLCM ErrCleanupChanged))
           else let ((w3, _), err) = removeCleanupFinalizer retry c (cfgNamespace cfg2) (cfgName cfg2) (w2, cfg2) in
                case err of None \<Rightarrow> (s1, w3, None)
                | Some e \<Rightarrow> (s1, w3, if isNotFoundErr e then None else Some e))"

text \<open>
  A manager without a client panics on its first read: \<open>None\<close>. The request names the
  object by namespace and name.
\<close>

definition Reconcile ::
    "'w retrier \<Rightarrow> ('s \<times> 'o \<times> 'w \<Rightarrow> lcm_err option) \<Rightarrow> ('s, 'o, 'w) LifecycleManager \<Rightarrow> string \<Rightarrow> string \<Rightarrow> 's \<times> 'o \<times> 'w \<Rightarrow>
     (('s \<times> 'o \<times> 'w) \<times> ctrlResult \<times> rec_err option) option" where
  "Reconcile retry ctx r ns name st =
     (case lm_Client r of None \<Rightarrow> None
      | Some c \<Rightarrow> Some (case st of (s, o', w) \<Rightarrow>
          case kc_GetConfig c w ns name of
            Inl e \<Rightarrow> (st, noRequeue, if IsNotFound e then None else Some (RecAPI e))
          | Inr cfg \<Rightarrow>
            if cfgDeleting cfg then
              let (s', w', err) = reconcileCleanup retry r c cfg s w in ((s', o', w'), noRequeue, err)
            else
              let ((w1, cfg1), err) = ensureCleanupFinalizer retry c ns name (w, cfg) in
              case err of Some e \<Rightarrow> ((s, o', w1), noRequeue, Some e)
              | None \<Rightarrow>
                let ((s2, o2, w2), out, err) = EnsureInstalled ctx r (Some cfg1) (s, o', w1) in
                case err of Some e \<Rightarrow> ((s2, o2, w2), noRequeue, Some (RecLCM e))
                | None \<Rightarrow>
                  if pf_Skip (rs_Preflight out) then ((s2, o2, w2), noRequeue, None)
                  else
                    let ((w3, _), err) = setOwnedConditions retry r out (w2, cfg1) in
                    case err of Some e \<Rightarrow> ((s2, o2, w3), noRequeue, Some e)
                    | None \<Rightarrow>
                      ((s2, o2, w3),
                       if \<not> rd_Ready (rs_Readiness out) \<or> dpuNeedsRequeue (rs_DPU out)
                       then \<lparr>cr_RequeueAfter = DPURequeueAfter\<rparr> else noRequeue, None)))"

definition enqueueDpuOperatorConfigs :: "('s, 'o, 'w) LifecycleManager option \<Rightarrow> 'w \<Rightarrow> (string \<times> string) list" where
  "enqueueDpuOperatorConfigs r w =
     (case r of None \<Rightarrow> [] | Some r \<Rightarrow>
        case lm_Client r of None \<Rightarrow> []
        | Some c \<Rightarrow> (case kc_ListConfigs c w of Inl _ \<Rightarrow> []
            | Inr items \<Rightarrow> map (\<lambda>item. (cfgNamespace item, cfgName item)) items))"

end
