(* ===== verification/Translation.thy ===== *)
theory Translation
  imports DeadFields LifecycleController
begin

text \<open>
  pkg/translation/translation_controller.go and readiness.go: the reconcile loop that turns one
  OPI object into vendor objects and mirrors their status back. Parameters are the Kubernetes
  client, the accessors of unstructured objects, the CEL library of theory MappingEngine and
  \<^verbatim>\<open>controllerutil.SetControllerReference\<close>. A call that writes an object into its argument
  returns it. The schema cache of the reconciler is part of the state. The status of a
  condition is a string, as the API server's schema demands: Go's comparison of two statuses
  that are lists or objects, which panics, does not occur. Formatted errors keep their place
  and the error they wrap.
\<close>

subsection \<open>Parameters and state\<close>

record OwnerRef =
  ow_Kind :: string
  ow_Name :: string
  ow_UID :: string

record objOps =
  ob_U :: uops
  ob_Kind :: "jobj \<Rightarrow> string"
  ob_UID :: "jobj \<Rightarrow> string"
  ob_Annotations :: "jobj \<Rightarrow> strmap"
  ob_SetAnnotations :: "strmap \<Rightarrow> jobj \<Rightarrow> jobj"
  ob_OwnerReferences :: "jobj \<Rightarrow> OwnerRef list"
  ob_Finalizers :: "jobj \<Rightarrow> string list"
  ob_SetFinalizers :: "string list \<Rightarrow> jobj \<Rightarrow> jobj"
  ob_Deleting :: "jobj \<Rightarrow> bool"
  ob_ClearManagedFields :: "jobj \<Rightarrow> jobj"
  ob_SetControllerReference :: "jobj \<Rightarrow> jobj \<Rightarrow> (string, jobj) result"

abbreviation ob_Name :: "objOps \<Rightarrow> jobj \<Rightarrow> string" where "ob_Name B \<equiv> us_Name (ob_U B)"
abbreviation ob_Namespace :: "objOps \<Rightarrow> jobj \<Rightarrow> string" where "ob_Namespace B \<equiv> us_Namespace (ob_U B)"
abbreviation ob_GVK :: "objOps \<Rightarrow> jobj \<Rightarrow> GroupVersionKind" where "ob_GVK B \<equiv> us_GVK (ob_U B)"

record 'w TClient =
  tc_Get :: "'w \<Rightarrow> GroupVersionKind \<Rightarrow> string \<Rightarrow> string \<Rightarrow> (apiErr, jobj) result"
  tc_List :: "'w \<Rightarrow> GroupVersionKind \<Rightarrow> strmap \<Rightarrow> (apiErr, jobj list) result"
  tc_Update :: "'w \<Rightarrow> jobj \<Rightarrow> 'w \<times> (apiErr, jobj) result"
  tc_StatusUpdate :: "'w \<Rightarrow> jobj \<Rightarrow> 'w \<times> apiErr option"
  tc_Apply :: "'w \<Rightarrow> jobj \<Rightarrow> 'w \<times> (apiErr, jobj) result"
  tc_Delete :: "'w \<Rightarrow> jobj \<Rightarrow> 'w \<times> apiErr option"
  tc_RESTMapping :: "'w \<Rightarrow> GroupVersionKind \<Rightarrow> (apiErr, string) result"

text \<open>\<open>rr_Recognizes\<close>: the scheme is set and knows DpuOperatorConfig.\<close>

record ('w, 'a, 'p) Reconciler =
  rr_Client :: "'w TClient"
  rr_Obj :: objOps
  rr_Cel :: "('a, 'p) celLib"
  rr_Spec :: Spec
  rr_Recognizes :: bool
  rr_TargetsInstalled :: "('w \<Rightarrow> GroupVersionKind list \<Rightarrow> 'w \<times> (apiErr, bool) result) option"
  rr_Now :: "'w \<Rightarrow> string"

type_synonym schemas = "(GroupVersionKind, jobj option) fmap"

datatype tr_err =
    TrAPI apiErr
  | TrMapping map_err
  | TrApply string string string
  | TrTooMany string string
  | TrDeleteStale string string apiErr
  | TrDeleteAnnotated string string apiErr
  | TrPrune tr_err
  | TrMirror tr_err

subsection \<open>Names and ownership\<close>

definition annSource :: string where [const_defs]: "annSource = ''translation.opi.nvidia.com/source''"
definition cleanupFinalizer :: string where [const_defs]: "cleanupFinalizer = ''translation.opi.nvidia.com/cleanup''"
definition conditionsKey :: string where [const_defs]: "conditionsKey = ''conditions''"
definition typeKey :: string where [const_defs]: "typeKey = ''type''"

definition mapRefGVK :: "MapRef \<Rightarrow> GroupVersionKind" where
  "mapRefGVK o' = GVK (mr_Group o') (mr_Version o') (mr_Kind o')"

definition annSourceValue :: "objOps \<Rightarrow> jobj \<Rightarrow> string" where
  "annSourceValue B src =
     (let key = ob_Name B src; ns = ob_Namespace B src;
          key = (if ns \<noteq> '''' then ns @ ''/'' @ key else key)
      in ob_Kind B src @ '':'' @ key)"

definition stampOwner :: "objOps \<Rightarrow> jobj \<Rightarrow> jobj \<Rightarrow> jobj" where
  "stampOwner B src obj =
     (case ob_SetControllerReference B src obj of Inr obj' \<Rightarrow> obj'
      | Inl _ \<Rightarrow> ob_SetAnnotations B (fmupd annSource (annSourceValue B src) (ob_Annotations B obj)) obj)"

definition ownedBySource :: "objOps \<Rightarrow> jobj \<Rightarrow> jobj \<Rightarrow> string \<Rightarrow> bool" where
  "ownedBySource B child src wantAnn \<longleftrightarrow>
     list_ex (\<lambda>ref. ow_Kind ref = ob_Kind B src \<and> ow_Name ref = ob_Name B src \<and> ow_UID ref \<noteq> '''' \<and>
        ow_UID ref = ob_UID B src) (ob_OwnerReferences B child) \<or>
     sget (ob_Annotations B child) annSource = wantAnn"

definition childKey :: "string \<Rightarrow> string \<Rightarrow> string \<Rightarrow> string" where
  "childKey kind namespace name = kind @ ''|'' @ namespace @ ''|'' @ name"

definition objKey :: "objOps \<Rightarrow> jobj \<Rightarrow> string" where
  "objKey B obj = childKey (ob_Kind B obj) (ob_Namespace B obj) (ob_Name B obj)"

subsection \<open>Children\<close>

definition childSelector :: "objOps \<Rightarrow> Spec \<Rightarrow> jobj \<Rightarrow> strmap" where
  "childSelector B spec src = fmap_of_list [(labelMapping, sp_Name spec), (labelSourceKind, mr_Kind (sp_Source spec)),
     (labelSourceName, ob_Name B src)]"

text \<open>The loop over the rules: each distinct target kind is listed once.\<close>

fun listTargets ::
    "'w TClient \<Rightarrow> strmap \<Rightarrow> 'w \<Rightarrow> GroupVersionKind list \<Rightarrow> Emit list \<Rightarrow> (apiErr, jobj list) result" where
  "listTargets c sel w seen [] = Ok []"
| "listTargets c sel w seen (e # es) =
     (let g = mapRefGVK (em_Target e) in
      if g \<in> set seen then listTargets c sel w seen es
      else case tc_List c w g sel of
             Inl err \<Rightarrow> if IsNoMatch err then listTargets c sel w (g # seen) es else Err err
           | Inr items \<Rightarrow> bind_res (listTargets c sel w (g # seen) es) (\<lambda>rest. Ok (items @ rest)))"

definition listChildObjects :: "('w, 'a, 'p) Reconciler \<Rightarrow> jobj \<Rightarrow> 'w \<Rightarrow> (apiErr, jobj list) result" where
  "listChildObjects r src w =
     listTargets (rr_Client r) (childSelector (rr_Obj r) (rr_Spec r) src) w [] (sp_Emit (rr_Spec r))"

fun pruneLoop ::
    "('w, 'a, 'p) Reconciler \<Rightarrow> jobj \<Rightarrow> string list \<Rightarrow> string \<Rightarrow> 'w \<Rightarrow> jobj list \<Rightarrow> 'w \<times> tr_err option" where
  "pruneLoop r src desired wantAnn w [] = (w, None)"
| "pruneLoop r src desired wantAnn w (child # rest) =
     (let B = rr_Obj r in
      if \<not> ownedBySource B child src wantAnn then pruneLoop r src desired wantAnn w rest
      else if objKey B child \<in> set desired then pruneLoop r src desired wantAnn w rest
      else
        let (w', err) = tc_Delete (rr_Client r) w child in
        case err of Some e \<Rightarrow>
            if \<not> IsNotFound e then (w', Some (TrDeleteStale (ob_Kind B child) (ob_Name B child) e))
            else pruneLoop r src desired wantAnn w' rest
        | None \<Rightarrow> pruneLoop r src desired wantAnn w' rest)"

definition pruneStaleChildren :: "('w, 'a, 'p) Reconciler \<Rightarrow> jobj \<Rightarrow> jobj list \<Rightarrow> 'w \<Rightarrow> 'w \<times> tr_err option" where
  "pruneStaleChildren r src emitted w =
     (let desired = map (objKey (rr_Obj r)) emitted in
      case listChildObjects r src w of Inl e \<Rightarrow> (w, Some (TrAPI e))
      | Inr objs \<Rightarrow> pruneLoop r src desired (annSourceValue (rr_Obj r) src) w objs)"

fun cleanupLoop :: "('w, 'a, 'p) Reconciler \<Rightarrow> string \<Rightarrow> 'w \<Rightarrow> jobj list \<Rightarrow> 'w \<times> tr_err option" where
  "cleanupLoop r want w [] = (w, None)"
| "cleanupLoop r want w (child # rest) =
     (let B = rr_Obj r in
      if sget (ob_Annotations B child) annSource \<noteq> want then cleanupLoop r want w rest
      else
        let (w', err) = tc_Delete (rr_Client r) w child in
        case err of Some e \<Rightarrow>
            if \<not> IsNotFound e then (w', Some (TrDeleteAnnotated (ob_Kind B child) (ob_Name B child) e))
            else cleanupLoop r want w' rest
        | None \<Rightarrow> cleanupLoop r want w' rest)"

definition cleanupAnnotatedChildren :: "('w, 'a, 'p) Reconciler \<Rightarrow> jobj \<Rightarrow> 'w \<Rightarrow> 'w \<times> tr_err option" where
  "cleanupAnnotatedChildren r src w =
     (case listChildObjects r src w of Inl e \<Rightarrow> (w, Some (TrAPI e))
      | Inr objs \<Rightarrow> cleanupLoop r (annSourceValue (rr_Obj r) src) w objs)"

definition reconcileDelete :: "('w, 'a, 'p) Reconciler \<Rightarrow> jobj \<Rightarrow> 'w \<Rightarrow> 'w \<times> ctrlResult \<times> tr_err option" where
  "reconcileDelete r src w =
     (let B = rr_Obj r in
      if cleanupFinalizer \<notin> set (ob_Finalizers B src) then (w, noRequeue, None)
      else
        let (w1, err) = cleanupAnnotatedChildren r src w in
        case err of Some e \<Rightarrow> (w1, noRequeue, Some e)
        | None \<Rightarrow>
          let (w2, res) = tc_Update (rr_Client r) w1
                (ob_SetFinalizers B (filter (\<lambda>f. f \<noteq> cleanupFinalizer) (ob_Finalizers B src)) src)
          in (w2, noRequeue, case res of Inl e \<Rightarrow> Some (TrAPI e) | Inr _ \<Rightarrow> None))"

subsection \<open>Applying one object\<close>

definition crdGVK :: GroupVersionKind where
  "crdGVK = GVK ''apiextensions.k8s.io'' ''v1'' ''CustomResourceDefinition''"

definition liveCRDSchema ::
    "'w TClient \<Rightarrow> GroupVersionKind \<Rightarrow> 'w \<Rightarrow> schemas \<Rightarrow> schemas \<times> (apiErr, jobj option) result" where
  "liveCRDSchema c g w cache =
     (case fmlookup cache g of Some s \<Rightarrow> (cache, Ok s)
      | None \<Rightarrow>
        case tc_RESTMapping c w g of Inl e \<Rightarrow> (cache, if IsNoMatch e then Ok None else Err e)
        | Inr resource \<Rightarrow>
          case tc_Get c w crdGVK '''' (resource @ ''.'' @ gvk_Group g) of Inl e \<Rightarrow> (cache, Err e)
          | Inr crd \<Rightarrow> let openapi = storageOpenAPI crd in (fmupd g openapi cache, Ok openapi))"

text \<open>The bounded retry loop of applyOne, \<open>n\<close> attempts left.\<close>

fun applyTries :: "('w, 'a, 'p) Reconciler \<Rightarrow> nat \<Rightarrow> jobj \<Rightarrow> 'w \<Rightarrow> 'w \<times> (tr_err, jobj) result" where
  "applyTries r 0 obj w = (w, Err (TrTooMany (ob_Kind (rr_Obj r) obj) (ob_Name (rr_Obj r) obj)))"
| "applyTries r (Suc n) obj w =
     (let obj = ob_ClearManagedFields (rr_Obj r) obj; (w', res) = tc_Apply (rr_Client r) w obj in
      case res of Inr stored \<Rightarrow> (w', Ok stored)
      | Inl e \<Rightarrow>
        case omitLiveUnknownFields obj e of
          Inl msg \<Rightarrow> (w', Err (TrApply (ob_Kind (rr_Obj r) obj) (ob_Name (rr_Obj r) obj) msg))
        | Inr obj' \<Rightarrow> applyTries r n obj' w')"

definition applyOne ::
    "('w, 'a, 'p) Reconciler \<Rightarrow> jobj \<Rightarrow> jobj \<Rightarrow> 'w \<times> schemas \<Rightarrow> ('w \<times> schemas) \<times> (tr_err, jobj) result" where
  "applyOne r src obj st =
     (case st of (w, cache) \<Rightarrow>
        let obj = stampOwner (rr_Obj r) src obj;
            (cache', sch) = liveCRDSchema (rr_Client r) (ob_GVK (rr_Obj r) obj) w cache;
            obj = (case sch of Inl _ \<Rightarrow> obj | Inr s \<Rightarrow> fst (pruneUnknownSpec obj s));
            (w', res) = applyTries r 8 obj w
        in ((w', cache'), res))"

text \<open>The loop over the emitted objects, which are afterwards what the server returned.\<close>

fun applyAll ::
    "('w, 'a, 'p) Reconciler \<Rightarrow> jobj \<Rightarrow> jobj list \<Rightarrow> 'w \<times> schemas \<Rightarrow> ('w \<times> schemas) \<times> (tr_err, jobj list) result" where
  "applyAll r src [] st = (st, Ok [])"
| "applyAll r src (obj # objs) st =
     (let (st1, res) = applyOne r src obj st in
      case res of Inl e \<Rightarrow> (st1, Err e)
      | Inr stored \<Rightarrow>
        let (st2, res2) = applyAll r src objs st1 in (st2, bind_res res2 (\<lambda>rest. Ok (stored # rest))))"

subsection \<open>Mirroring status\<close>

definition valueAt :: "jobj \<Rightarrow> string \<Rightarrow> jv" where
  "valueAt m k = (case fmlookup m k of None \<Rightarrow> JNull | Some v \<Rightarrow> v)"

text \<open>The state of mergeConditions: the conditions by type, their order, and whether something changed.\<close>

record mergeState =
  ms_byType :: "(string, jobj) fmap"
  ms_order :: "string list"
  ms_changed :: bool

definition indexExisting :: "jv \<Rightarrow> mergeState \<Rightarrow> mergeState" where
  "indexExisting e st =
     (case asMap e of None \<Rightarrow> st
      | Some m \<Rightarrow> st\<lparr>ms_byType := fmupd (condType m) m (ms_byType st), ms_order := ms_order st @ [condType m]\<rparr>)"

text \<open>A desired entry the loop passes over: not an object, no type, Ready in any spelling, or no status.\<close>

definition addressable :: "jv \<Rightarrow> bool" where
  "addressable d = (case asMap d of None \<Rightarrow> False
     | Some dm \<Rightarrow> condType dm \<noteq> '''' \<and> \<not> EqualFold (condType dm) ReservedConditionType \<and>
         valueAt dm statusKey \<noteq> JNull \<and> valueAt dm statusKey \<noteq> JStr '''')"

definition copyKey :: "string \<Rightarrow> jobj \<Rightarrow> jobj \<Rightarrow> jobj" where
  "copyKey k dm m = (case fmlookup dm k of Some v \<Rightarrow> fmupd k v m | None \<Rightarrow> m)"

definition nextCondition :: "string \<Rightarrow> jobj option \<Rightarrow> jobj \<Rightarrow> jobj" where
  "nextCondition now prev dm =
     (let st = valueAt dm statusKey;
          next = copyKey ''message'' dm (copyKey ''reason'' dm
             (fmap_of_list [(typeKey, JStr (condType dm)), (statusKey, st)]))
      in case prev of Some p \<Rightarrow>
           if valueAt p statusKey = st then copyKey ''lastTransitionTime'' p next
           else fmupd ''lastTransitionTime'' (JStr now) next
         | None \<Rightarrow> fmupd ''lastTransitionTime'' (JStr now) next)"

definition mergeDesired :: "string \<Rightarrow> jv \<Rightarrow> mergeState \<Rightarrow> mergeState" where
  "mergeDesired now d st =
     (if \<not> addressable d then st
      else case asMap d of None \<Rightarrow> st
      | Some dm \<Rightarrow>
        let t = condType dm; prev = fmlookup (ms_byType st) t; next = nextCondition now prev dm in
        st\<lparr>ms_byType := fmupd t next (ms_byType st),
           ms_order := (if prev = None then ms_order st @ [t] else ms_order st),
           ms_changed := (ms_changed st \<or> prev \<noteq> Some next)\<rparr>)"

definition mergeConditions :: "string \<Rightarrow> jv list \<Rightarrow> jv list \<Rightarrow> jv list \<times> bool" where
  "mergeConditions now existing desired =
     (let st0 = fold indexExisting existing \<lparr>ms_byType = fmempty, ms_order = [], ms_changed = False\<rparr>;
          st = fold (mergeDesired now) desired st0
      in (map (\<lambda>t. JObj (case fmlookup (ms_byType st) t of Some m \<Rightarrow> m | None \<Rightarrow> fmempty)) (ms_order st), ms_changed st))"

text \<open>
  The new status and whether it changed. A key whose desired value equals the current one,
  a missing key reading as nil, is not written.
\<close>

definition applyStatus :: "string \<Rightarrow> jobj \<Rightarrow> jobj \<Rightarrow> jobj \<times> bool" where
  "applyStatus now src desired =
     (let cur = (case objField src statusKey of Some m \<Rightarrow> m | None \<Rightarrow> fmempty);
          news = fmfilter (\<lambda>k. k \<noteq> conditionsKey \<and> valueAt cur k \<noteq> valueAt desired k) desired;
          cur1 = cur ++\<^sub>f news;
          changed = (news \<noteq> fmempty);
          desiredConds = (case fmlookup desired conditionsKey of Some v \<Rightarrow> (case asList v of Some l \<Rightarrow> l | None \<Rightarrow> []) | None \<Rightarrow> []);
          existing = (case fmlookup cur1 conditionsKey of Some v \<Rightarrow> (case asList v of Some l \<Rightarrow> l | None \<Rightarrow> []) | None \<Rightarrow> []);
          (merged, condChanged) = (if desiredConds \<noteq> [] then mergeConditions now existing desiredConds else ([], False));
          cur2 = (if condChanged then fmupd conditionsKey (JList merged) cur1 else cur1);
          changed = (changed \<or> condChanged)
      in (if changed then fmupd statusKey (JObj cur2) src else src, changed))"

definition mirrorStatus :: "('w, 'a, 'p) Reconciler \<Rightarrow> jobj \<Rightarrow> 'w \<Rightarrow> 'w \<times> tr_err option" where
  "mirrorStatus r src w =
     (case sp_Status (rr_Spec r) of None \<Rightarrow> (w, None)
      | Some st \<Rightarrow>
        if sm_Schema st = StatusSchemaPruned then (w, None)
        else case listChildObjects r src w of Inl e \<Rightarrow> (w, Some (TrAPI e))
        | Inr objs \<Rightarrow>
          case ApplyStatus (rr_Cel r) (rr_Spec r) src (map JObj objs) of Inl e \<Rightarrow> (w, Some (TrMapping e))
          | Inr None \<Rightarrow> (w, None)
          | Inr (Some desired) \<Rightarrow>
            let (src', changed) = applyStatus (rr_Now r w) src desired in
            if \<not> changed then (w, None)
            else let (w', err) = tc_StatusUpdate (rr_Client r) w src' in (w', map_option TrAPI err))"

subsection \<open>Readiness of the vendor operator\<close>

definition DPFNotReadyRequeue :: nat where "DPFNotReadyRequeue = 15"

definition lcmConfigGVK :: GroupVersionKind where
  "lcmConfigGVK = GVK opiConfigGroup ''v1'' ''DpuOperatorConfig''"

definition lcmConditionReady :: "jobj \<Rightarrow> bool" where
  "lcmConditionReady obj = list_ex (\<lambda>raw. case asMap raw of None \<Rightarrow> False
     | Some cond \<Rightarrow> holdsStr cond ''type'' OperatorReadyConditionType \<and> holdsStr cond ''status'' ''True'')
     (NestedSlice obj [''status'', ''conditions''])"

definition lcmBlocks :: "('w, 'a, 'p) Reconciler \<Rightarrow> 'w \<Rightarrow> (apiErr, bool) result" where
  "lcmBlocks r w =
     (if \<not> rr_Recognizes r then Ok False
      else case tc_List (rr_Client r) w lcmConfigGVK fmempty of
             Inl e \<Rightarrow> if IsNoMatch e then Ok False else Err e
           | Inr items \<Rightarrow> if items = [] then Ok False else Ok (\<not> list_ex lcmConditionReady items))"

text \<open>A REST mapper: the lookup, and its reset when it has one.\<close>

record 'w RESTMapper =
  rm_RESTMapping :: "'w \<Rightarrow> GroupVersionKind \<Rightarrow> apiErr option"
  rm_Reset :: "('w \<Rightarrow> 'w) option"

fun mappingMisses :: "'w RESTMapper \<Rightarrow> 'w \<Rightarrow> bool \<Rightarrow> GroupVersionKind list \<Rightarrow> (apiErr, bool) result" where
  "mappingMisses m w missing [] = Ok missing"
| "mappingMisses m w missing (g # gs) =
     (case rm_RESTMapping m w g of None \<Rightarrow> mappingMisses m w missing gs
      | Some e \<Rightarrow> if IsNoMatch e then mappingMisses m w True gs else Err e)"

definition MapperTargetsInstalled ::
    "'w RESTMapper option \<Rightarrow> 'w \<Rightarrow> GroupVersionKind list \<Rightarrow> 'w \<times> (apiErr, bool) result" where
  "MapperTargetsInstalled mapper w gvks =
     (case mapper of None \<Rightarrow> (w, Ok True)
      | Some m \<Rightarrow>
        if gvks = [] then (w, Ok True)
        else case mappingMisses m w False gvks of Inl e \<Rightarrow> (w, Err e)
        | Inr False \<Rightarrow> (w, Ok True)
        | Inr True \<Rightarrow>
          case rm_Reset m of None \<Rightarrow> (w, Ok False)
          | Some reset \<Rightarrow>
            let w' = reset w in
            case mappingMisses m w' False gvks of Inl e \<Rightarrow> (w', Err e) | Inr missing \<Rightarrow> (w', Ok (\<not> missing)))"

fun ownableLoop :: "'w RESTMapper \<Rightarrow> 'w \<Rightarrow> GroupVersionKind list \<Rightarrow> (apiErr, GroupVersionKind list) result" where
  "ownableLoop m w [] = Ok []"
| "ownableLoop m w (g # gs) =
     (case rm_RESTMapping m w g of None \<Rightarrow> bind_res (ownableLoop m w gs) (\<lambda>rest. Ok (g # rest))
      | Some e \<Rightarrow> if IsNoMatch e then ownableLoop m w gs else Err e)"

definition ownableTargets ::
    "'w RESTMapper option \<Rightarrow> 'w \<Rightarrow> GroupVersionKind list \<Rightarrow> (apiErr, GroupVersionKind list) result" where
  "ownableTargets mapper w gvks = (case mapper of None \<Rightarrow> Ok gvks | Some m \<Rightarrow> ownableLoop m w gvks)"

fun uniqueLoop :: "GroupVersionKind list \<Rightarrow> GroupVersionKind list \<Rightarrow> GroupVersionKind list" where
  "uniqueLoop seen [] = []"
| "uniqueLoop seen (g # gs) = (if g \<in> set seen then uniqueLoop seen gs else g # uniqueLoop (g # seen) gs)"

definition uniqueGVKs :: "objOps \<Rightarrow> jobj list \<Rightarrow> GroupVersionKind list" where
  "uniqueGVKs B objs = uniqueLoop [] (map (ob_GVK B) objs)"

definition crdMatchesTarget :: "Spec \<Rightarrow> jobj \<Rightarrow> bool" where
  "crdMatchesTarget spec crd =
     (let group' = NestedString crd [''spec'', ''group'']; kind = NestedString crd [''spec'', ''names'', ''kind''];
          versions = NestedSlice crd [''spec'', ''versions'']
      in list_ex (\<lambda>emit. let g = mapRefGVK (em_Target emit) in
           gvk_Group g = group' \<and> gvk_Kind g = kind \<and>
           list_ex (\<lambda>raw. case asMap raw of None \<Rightarrow> False
             | Some ver \<Rightarrow> NestedString ver [''name''] = gvk_Version g \<and> fmlookup ver ''served'' = Some (JBool True)) versions)
         (sp_Emit spec))"

definition sourceRequests :: "('w, 'a, 'p) Reconciler \<Rightarrow> 'w \<Rightarrow> (string \<times> string) list" where
  "sourceRequests r w =
     (case tc_List (rr_Client r) w (mapRefGVK (sp_Source (rr_Spec r))) fmempty of Inl _ \<Rightarrow> []
      | Inr items \<Rightarrow> map (\<lambda>o'. (ob_Namespace (rr_Obj r) o', ob_Name (rr_Obj r) o')) items)"

definition enqueueIfLCMReady :: "('w, 'a, 'p) Reconciler \<Rightarrow> jobj option \<Rightarrow> 'w \<Rightarrow> (string \<times> string) list" where
  "enqueueIfLCMReady r obj w =
     (case obj of None \<Rightarrow> [] | Some u \<Rightarrow> if \<not> lcmConditionReady u then [] else sourceRequests r w)"

definition enqueueIfTargetCRD :: "('w, 'a, 'p) Reconciler \<Rightarrow> jobj option \<Rightarrow> 'w \<Rightarrow> (string \<times> string) list" where
  "enqueueIfTargetCRD r obj w =
     (case obj of None \<Rightarrow> [] | Some u \<Rightarrow> if \<not> crdMatchesTarget (rr_Spec r) u then [] else sourceRequests r w)"

subsection \<open>Reconcile\<close>

text \<open>The gate before anything is applied: \<open>Ok False\<close> keeps the source queued.\<close>

definition readyToApply :: "('w, 'a, 'p) Reconciler \<Rightarrow> jobj list \<Rightarrow> 'w \<Rightarrow> 'w \<times> (apiErr, bool) result" where
  "readyToApply r emitted w =
     (if emitted = [] then (w, Ok True)
      else case lcmBlocks r w of Inl e \<Rightarrow> (w, Err e)
      | Inr wait \<Rightarrow>
        if wait then (w, Ok False)
        else case rr_TargetsInstalled r of None \<Rightarrow> (w, Ok True)
        | Some installed' \<Rightarrow> installed' w (uniqueGVKs (rr_Obj r) emitted))"

definition ensureFinalizer :: "('w, 'a, 'p) Reconciler \<Rightarrow> jobj \<Rightarrow> 'w \<Rightarrow> 'w \<times> (apiErr, jobj) result" where
  "ensureFinalizer r src w =
     (let B = rr_Obj r in
      if cleanupFinalizer \<in> set (ob_Finalizers B src) then (w, Ok src)
      else tc_Update (rr_Client r) w (ob_SetFinalizers B (ob_Finalizers B src @ [cleanupFinalizer]) src))"

text \<open>From the gate on: apply, prune, mirror.\<close>

definition applyAndMirror ::
    "('w, 'a, 'p) Reconciler \<Rightarrow> jobj \<Rightarrow> jobj list \<Rightarrow> bool \<Rightarrow> 'w \<times> schemas \<Rightarrow> ('w \<times> schemas) \<times> tr_err option" where
  "applyAndMirror r src emitted pruneAllowed st =
     (let ((w1, cache1), res) = applyAll r src emitted st in
      case res of Inl e \<Rightarrow> ((w1, cache1), Some e)
      | Inr applied \<Rightarrow>
        let (w2, perr) = (if pruneAllowed then pruneStaleChildren r src applied w1 else (w1, None)) in
        case perr of Some e \<Rightarrow> ((w2, cache1), Some (TrPrune e))
        | None \<Rightarrow> let (w3, merr) = mirrorStatus r src w2 in ((w3, cache1), map_option TrMirror merr))"

definition Reconciler_Reconcile ::
    "('w, 'a, 'p) Reconciler \<Rightarrow> string \<Rightarrow> string \<Rightarrow> 'w \<times> schemas \<Rightarrow> ('w \<times> schemas) \<times> ctrlResult \<times> tr_err option" where
  "Reconciler_Reconcile r ns name st =
     (case st of (w, cache) \<Rightarrow>
        let c = rr_Client r; B = rr_Obj r; spec = rr_Spec r in
        case tc_Get c w (mapRefGVK (sp_Source spec)) ns name of
          Inl e \<Rightarrow> (st, noRequeue, if IsNotFound e then None else Some (TrAPI e))
        | Inr src \<Rightarrow>
          if ob_Deleting B src then
            let (w', res, err) = reconcileDelete r src w in ((w', cache), res, err)
          else
            let (w1, res) = ensureFinalizer r src w in
            case res of Inl e \<Rightarrow> ((w1, cache), noRequeue, Some (TrAPI e))
            | Inr src \<Rightarrow>
              case Apply (rr_Cel r) (ob_U B) spec src of Inl e \<Rightarrow> ((w1, cache), noRequeue, Some (TrMapping e))
              | Inr emitted \<Rightarrow>
                case ShouldPrune (rr_Cel r) spec src of Inl e \<Rightarrow> ((w1, cache), noRequeue, Some (TrMapping e))
                | Inr pruneAllowed \<Rightarrow>
                  let (w2, gate) = readyToApply r emitted w1 in
                  case gate of Inl e \<Rightarrow> ((w2, cache), noRequeue, Some (TrAPI e))
                  | Inr False \<Rightarrow> ((w2, cache), \<lparr>cr_RequeueAfter = DPFNotReadyRequeue\<rparr>, None)
                  | Inr True \<Rightarrow>
                    let (st3, err) = applyAndMirror r src emitted pruneAllowed (w2, cache) in (st3, noRequeue, err))"

end
