(* ===== verification/MappingFacts.thy ===== *)
theory MappingFacts
  imports MappingEngine
begin

text \<open>
  What the mapping interpreter guarantees: the contract of unstructured objects and its
  instance on the JSON layout Kubernetes documents, the identity of emitted objects, the
  completeness of emission, delivery of field values, and the single-writer rule for status
  conditions.
\<close>

subsection \<open>Unstructured objects\<close>

text \<open>
  The accessors write below \<^verbatim>\<open>metadata\<close> and fail silently when that key holds
  something other than an object.
\<close>

definition metaOK :: "jobj \<Rightarrow> bool" where
  "metaOK o' \<longleftrightarrow> (case fmlookup o' ''metadata'' of None \<Rightarrow> True | Some v \<Rightarrow> asMap v \<noteq> None)"

definition plainGVK :: "GroupVersionKind \<Rightarrow> bool" where
  "plainGVK g \<longleftrightarrow> CHR ''/'' \<notin> set (gvk_Group g) \<and> CHR ''/'' \<notin> set (gvk_Version g) \<and> gvk_Version g \<noteq> ''''"

definition headerKeys :: "string set" where
  "headerKeys = {''apiVersion'', ''kind'', ''metadata''}"

locale unstructured_ops =
  fixes U :: uops
  assumes meta_GVK: "metaOK (us_SetGVK U g o') = metaOK o'"
    and meta_Name: "metaOK o' \<Longrightarrow> metaOK (us_SetName U n o')"
    and meta_Namespace: "metaOK o' \<Longrightarrow> metaOK (us_SetNamespace U n o')"
    and GVK_GVK: "plainGVK g \<Longrightarrow> us_GVK U (us_SetGVK U g o') = g"
    and GVK_Name: "us_GVK U (us_SetName U n o') = us_GVK U o'"
    and GVK_Namespace: "us_GVK U (us_SetNamespace U n o') = us_GVK U o'"
    and GVK_Labels: "us_GVK U (us_SetLabels U l o') = us_GVK U o'"
    and Name_Name: "metaOK o' \<Longrightarrow> us_Name U (us_SetName U n o') = n"
    and Name_Namespace: "metaOK o' \<Longrightarrow> us_Name U (us_SetNamespace U n o') = us_Name U o'"
    and Name_Labels: "metaOK o' \<Longrightarrow> us_Name U (us_SetLabels U l o') = us_Name U o'"
    and Namespace_Namespace: "metaOK o' \<Longrightarrow> us_Namespace U (us_SetNamespace U n o') = n"
    and Namespace_Labels: "metaOK o' \<Longrightarrow> us_Namespace U (us_SetLabels U l o') = us_Namespace U o'"
    and Labels_Labels: "metaOK o' \<Longrightarrow> us_Labels U (us_SetLabels U l o') = l"
    and frame_GVK: "k \<notin> headerKeys \<Longrightarrow> fmlookup (us_SetGVK U g o') k = fmlookup o' k"
    and frame_Name: "k \<notin> headerKeys \<Longrightarrow> fmlookup (us_SetName U n o') k = fmlookup o' k"
    and frame_Namespace: "k \<notin> headerKeys \<Longrightarrow> fmlookup (us_SetNamespace U n o') k = fmlookup o' k"
    and frame_Labels: "k \<notin> headerKeys \<Longrightarrow> fmlookup (us_SetLabels U l o') k = fmlookup o' k"
begin

lemmas frames = frame_GVK frame_Name frame_Namespace frame_Labels
lemmas header_laws = meta_GVK meta_Name meta_Namespace GVK_GVK GVK_Name GVK_Namespace GVK_Labels Name_Name
  Name_Namespace Name_Labels Namespace_Namespace Namespace_Labels Labels_Labels

lemma header:
  assumes "metaOK dest" and "plainGVK g"
    and "u = us_SetLabels U l (if ns \<noteq> '''' then us_SetNamespace U ns (us_SetName U n (us_SetGVK U g dest))
                                else us_SetName U n (us_SetGVK U g dest))"
  shows "us_GVK U u = g" "us_Name U u = n" "us_Labels U u = l"
    "ns \<noteq> '''' \<Longrightarrow> us_Namespace U u = ns"
    "k \<notin> headerKeys \<Longrightarrow> fmlookup u k = fmlookup dest k"
  using assms(1,2) by (simp_all add: assms(3) header_laws frames)

end

text \<open>The layout of unstructured objects: name, namespace and labels below metadata, group and version in apiVersion.\<close>

definition putMeta :: "string \<Rightarrow> jv \<Rightarrow> jobj \<Rightarrow> jobj" where
  "putMeta k v o' = (case setParts o' [''metadata'', k] v of Inr m \<Rightarrow> m | Inl _ \<Rightarrow> o')"

definition metaString :: "string \<Rightarrow> jobj \<Rightarrow> string" where
  "metaString k o' = (case getParts (JObj o') [''metadata'', k] of Some (JStr s) \<Rightarrow> s | _ \<Rightarrow> '''')"

definition strOf :: "jv \<Rightarrow> string" where
  "strOf v = (case v of JStr s \<Rightarrow> s | _ \<Rightarrow> '''')"

definition isStr :: "jv \<Rightarrow> bool" where
  "isStr v = (case v of JStr s \<Rightarrow> True | _ \<Rightarrow> False)"

definition metaLabels :: "jobj \<Rightarrow> strmap" where
  "metaLabels o' = (case getParts (JObj o') [''metadata'', ''labels''] of
     Some (JObj m) \<Rightarrow> if fmpred (\<lambda>_ v. isStr v) m then fmmap strOf m else fmempty | _ \<Rightarrow> fmempty)"

definition topString :: "string \<Rightarrow> jobj \<Rightarrow> string" where
  "topString k o' = (case fmlookup o' k of Some (JStr s) \<Rightarrow> s | _ \<Rightarrow> '''')"

definition parseGVK :: "string \<Rightarrow> string \<Rightarrow> GroupVersionKind" where
  "parseGVK apiVersion kind = (case Split apiVersion CHR ''/'' of
        [v] \<Rightarrow> GVK '''' v kind | [g, v] \<Rightarrow> GVK g v kind | _ \<Rightarrow> GVK '''' '''' '''')"

definition jsonU :: uops where
  "jsonU = \<lparr>
     us_GVK = (\<lambda>o'. parseGVK (topString ''apiVersion'' o') (topString ''kind'' o')),
     us_SetGVK = (\<lambda>g o'. fmupd ''kind'' (JStr (gvk_Kind g))
        (fmupd ''apiVersion'' (JStr (if gvk_Group g = '''' then gvk_Version g else gvk_Group g @ ''/'' @ gvk_Version g)) o')),
     us_Name = metaString ''name'',
     us_SetName = (\<lambda>n. putMeta ''name'' (JStr n)),
     us_Namespace = metaString ''namespace'',
     us_SetNamespace = (\<lambda>n. putMeta ''namespace'' (JStr n)),
     us_Labels = metaLabels,
     us_SetLabels = (\<lambda>l. putMeta ''labels'' (JObj (fmmap JStr l)))\<rparr>"

definition metaOf :: "jobj \<Rightarrow> jobj" where
  "metaOf o' = (case fmlookup o' ''metadata'' of Some (JObj m) \<Rightarrow> m | _ \<Rightarrow> fmempty)"

lemma putMeta_ok: "metaOK o' \<Longrightarrow> putMeta k v o' = fmupd ''metadata'' (JObj (fmupd k v (metaOf o'))) o'"
  by (auto simp: putMeta_def metaOK_def metaOf_def asMap_Some split: option.splits)

lemma putMeta_frame: "k' \<noteq> ''metadata'' \<Longrightarrow> fmlookup (putMeta k v o') k' = fmlookup o' k'"
  by (cases "metaOK o'") (auto simp: putMeta_ok, auto simp: putMeta_def metaOK_def split: option.splits)

lemma metaOK_putMeta: "metaOK o' \<Longrightarrow> metaOK (putMeta k v o')"
  by (simp add: putMeta_ok) (simp add: metaOK_def)

lemma getMeta_putMeta:
  "metaOK o' \<Longrightarrow> getParts (JObj (putMeta k v o')) [''metadata'', k'] =
     (if k' = k then Some v else getParts (JObj o') [''metadata'', k'])"
  by (auto simp: putMeta_ok metaOf_def metaOK_def asMap_Some split: option.splits jv.splits)

lemma metaString_putMeta:
  "metaOK o' \<Longrightarrow> metaString k' (putMeta k v o') = (if k' = k then strOf v else metaString k' o')"
  by (simp add: metaString_def getMeta_putMeta strOf_def del: getParts.simps split: jv.split)

lemma topString_putMeta: "k' \<noteq> ''metadata'' \<Longrightarrow> topString k' (putMeta k v o') = topString k' o'"
  by (simp add: topString_def putMeta_frame)

lemma metaLabels_putMeta: "metaOK o' \<Longrightarrow> metaLabels (putMeta ''labels'' (JObj (fmmap JStr l)) o') = l"
proof -
  assume "metaOK o'"
  moreover have "fmmap strOf (fmmap JStr l) = l"
    by (rule fmap_ext) (simp add: strOf_def option.map_comp comp_def option.map_ident)
  moreover have "fmpred (\<lambda>_. isStr) (fmmap JStr l)"
    by (auto simp: fmpred_iff isStr_def)
  ultimately show ?thesis by (simp add: metaLabels_def getMeta_putMeta del: getParts.simps)
qed

lemma parseGVK_print:
  assumes "plainGVK g"
  shows "parseGVK (if gvk_Group g = '''' then gvk_Version g else gvk_Group g @ ''/'' @ gvk_Version g) (gvk_Kind g) = g"
  using assms by (cases g) (simp add: parseGVK_def plainGVK_def GVK_def Split_append Split_sepfree)

interpretation json_u: unstructured_ops jsonU
proof
  show "us_GVK jsonU (us_SetGVK jsonU g o') = g" if "plainGVK g" for g o'
    using parseGVK_print [OF that] by (simp add: jsonU_def topString_def)
  show "metaOK (us_SetGVK jsonU g o') = metaOK o'" for g o'
    by (simp add: jsonU_def metaOK_def)
  show "fmlookup (us_SetGVK jsonU g o') k = fmlookup o' k" if "k \<notin> headerKeys" for k g o'
    using that by (auto simp: jsonU_def headerKeys_def)
qed (simp_all add: jsonU_def metaOK_putMeta topString_putMeta metaString_putMeta metaLabels_putMeta putMeta_frame
       headerKeys_def strOf_def)

subsection \<open>Filling the fields of an object\<close>

lemma Set_setParts: "Set d p v = Inr d' \<longleftrightarrow> normPath p \<noteq> '''' \<and> setParts d (pathKeys p) v = Inr d'"
  by (auto simp: Set_def Let_def pathKeys_def split: if_splits)

lemma setParts_metaOK:
  assumes "setParts d ps v = Inr d'" and "metaOK d" and "ps \<noteq> [''metadata'']"
  shows "metaOK d'"
proof (cases ps)
  case (Cons p qs)
  show ?thesis
  proof (cases qs)
    case Nil
    with assms Cons show ?thesis by (auto simp: metaOK_def)
  next
    case (Cons q rs)
    with assms \<open>ps = p # qs\<close> obtain c where "d' = fmupd p (JObj c) d"
      by (auto simp only: setParts_Cons_Inr)
    with assms(2) show ?thesis by (auto simp: metaOK_def)
  qed
qed (use assms in simp)

lemma fillFields_Cons_Inr:
  "fillFields lib source item children dest (f # fs) = Inr d \<longleftrightarrow>
     (\<exists>r dest'. fieldValue lib f source item children = Inr r \<and>
        (case r of None \<Rightarrow> dest' = dest | Some v \<Rightarrow> Set dest (fd_To f) v = Inr dest') \<and>
        fillFields lib source item children dest' fs = Inr d)"
  by (auto split: sum.splits option.splits)

declare fillFields.simps(2) [simp del]

lemma fillFields_metaOK:
  assumes "fillFields lib source item children dest fs = Inr d" and "metaOK dest"
    and "\<forall>f \<in> set fs. pathKeys (fd_To f) \<noteq> [''metadata'']"
  shows "metaOK d"
  using assms
proof (induction fs arbitrary: dest)
  case (Cons f fs)
  from Cons.prems(1) obtain r dest' where r: "case r of None \<Rightarrow> dest' = dest | Some v \<Rightarrow> Set dest (fd_To f) v = Inr dest'"
      and rest: "fillFields lib source item children dest' fs = Inr d"
    unfolding fillFields_Cons_Inr by blast
  have "metaOK dest'"
    using r Cons.prems(2,3) by (auto simp: Set_setParts intro: setParts_metaOK split: option.splits)
  with Cons.IH [OF rest] Cons.prems(3) show ?case by simp
qed simp



subsection \<open>The header of an emitted object\<close>

definition targetGVK :: "Emit \<Rightarrow> GroupVersionKind" where
  "targetGVK e = GVK (mr_Group (em_Target e)) (mr_Version (em_Target e)) (mr_Kind (em_Target e))"

text \<open>Documents whose targets are ordinary group/version names and that do not replace the whole metadata.\<close>

definition tidyEmit :: "Emit \<Rightarrow> bool" where
  "tidyEmit e \<longleftrightarrow> plainGVK (targetGVK e) \<and> (\<forall>f \<in> set (em_Fields e). pathKeys (fd_To f) \<noteq> [''metadata''])"

lemma nonEmptyName:
  "(case x of JStr v \<Rightarrow> if v = '''' then Err (NameNotString x) else Ok v | _ \<Rightarrow> Err (NameNotString x)) = Inr n \<Longrightarrow>
     n \<noteq> ''''"
  by (cases x) (auto split: if_splits)

lemma resolveName_nonempty: "resolveName lib e source item = Inr n \<Longrightarrow> n \<noteq> ''''"
  unfolding resolveName_def bind_res_Inr_iff Let_def using nonEmptyName by blast

lemma stampLabels_get:
  "sget (stampLabels spec source l) labelMapping = sp_Name spec"
  "sget (stampLabels spec source l) labelSourceKind = mr_Kind (sp_Source spec)"
  "Get source ''metadata.name'' = Some (JStr s) \<Longrightarrow> sget (stampLabels spec source l) labelSourceName = s"
  by (simp_all add: stampLabels_def const_defs Let_def split: option.split jv.split)

context unstructured_ops
begin

lemma buildObject_parts:
  assumes "buildObject lib U spec e source item = Inr u" and "tidyEmit e"
  shows "us_GVK U u = targetGVK e \<and> us_Name U u \<noteq> '''' \<and> resolveName lib e source item = Inr (us_Name U u) \<and>
    (\<exists>ns. resolveNamespace lib spec e source item = Inr ns \<and> (ns \<noteq> '''' \<longrightarrow> us_Namespace U u = ns)) \<and>
    (\<exists>l. us_Labels U u = stampLabels spec source l) \<and>
    (\<exists>dest. fillFields lib source item [] fmempty (em_Fields e) = Inr dest \<and>
       (\<forall>k. k \<notin> headerKeys \<longrightarrow> fmlookup u k = fmlookup dest k))"
proof -
  from assms(1) obtain n ns dest where n: "resolveName lib e source item = Inr n"
      and ns: "resolveNamespace lib spec e source item = Inr ns"
      and dest: "fillFields lib source item [] fmempty (em_Fields e) = Inr dest"
      and u: "u = us_SetLabels U (stampLabels spec source (us_Labels U
          (if ns \<noteq> '''' then us_SetNamespace U ns (us_SetName U n (us_SetGVK U (targetGVK e) dest))
           else us_SetName U n (us_SetGVK U (targetGVK e) dest))))
          (if ns \<noteq> '''' then us_SetNamespace U ns (us_SetName U n (us_SetGVK U (targetGVK e) dest))
           else us_SetName U n (us_SetGVK U (targetGVK e) dest))"
    by (auto simp: buildObject_def bind_res_Inr_iff Let_def targetGVK_def)
  have "metaOK dest"
    using fillFields_metaOK [OF dest] assms(2) by (simp add: tidyEmit_def metaOK_def)
  note h = header [OF this _ u]
  have "plainGVK (targetGVK e)" using assms(2) by (simp add: tidyEmit_def)
  note h = h [OF this]
  with n ns dest resolveName_nonempty [OF n] show ?thesis by auto
qed

end

subsection \<open>Emission\<close>

lemma list_all2_mem2: "list_all2 P xs ys \<Longrightarrow> y \<in> set ys \<Longrightarrow> \<exists>x \<in> set xs. P x y"
  by (metis in_set_conv_nth list_all2_conv_all_nth)

text \<open>
  The objects one rule must give: one per item of its list whose guard holds, in order, each
  built from that item. A guard that does not evaluate gives no objects at all.
\<close>

definition emitted :: "('a, 'p) celLib \<Rightarrow> uops \<Rightarrow> Spec \<Rightarrow> jobj \<Rightarrow> Emit \<Rightarrow> jobj list \<Rightarrow> bool" where
  "emitted lib U spec source e objs \<longleftrightarrow>
     (\<exists>items. emitList e source = Inr items \<and>
        (\<forall>item \<in> set items. is_ok (evalBool lib (em_When e) (celVars source item []))) \<and>
        list_all2 (\<lambda>item u. buildObject lib U spec e source item = Inr u)
          (filter (\<lambda>item. evalBool lib (em_When e) (celVars source item []) = Inr True) items) objs)"

lemma emitItems_Inr:
  "emitItems lib U spec e source items = Inr objs \<longleftrightarrow>
     (\<forall>item \<in> set items. is_ok (evalBool lib (em_When e) (celVars source item []))) \<and>
     list_all2 (\<lambda>item u. buildObject lib U spec e source item = Inr u)
       (filter (\<lambda>item. evalBool lib (em_When e) (celVars source item []) = Inr True) items) objs"
proof (induction items arbitrary: objs)
  case (Cons item items)
  show ?case
  proof (cases "evalBool lib (em_When e) (celVars source item [])")
    case (Inr b)
    then show ?thesis
      by (cases b) (auto simp: Cons.IH bind_res_Inr_iff list_all2_Cons1)
  qed simp
qed auto

lemma applyEmit_Inr: "applyEmit lib U spec e source = Inr objs \<longleftrightarrow> emitted lib U spec source e objs"
  by (auto simp: applyEmit_def bind_res_Inr_iff emitted_def emitItems_Inr)

lemma applyEmits_Inr:
  "applyEmits lib U spec source i es = Inr objs \<longleftrightarrow>
     (\<exists>chunks. objs = concat chunks \<and> list_all2 (emitted lib U spec source) es chunks)"
proof (induction es arbitrary: i objs)
  case (Cons e es)
  have "(\<exists>chunks. objs = concat chunks \<and> list_all2 (emitted lib U spec source) (e # es) chunks) \<longleftrightarrow>
      (\<exists>a chunks. objs = a @ concat chunks \<and> emitted lib U spec source e a \<and>
        list_all2 (emitted lib U spec source) es chunks)"
    by (metis concat.simps(2) list_all2_Cons1 list.rel_inject(2))
  moreover have "applyEmits lib U spec source i (e # es) = Inr objs \<longleftrightarrow>
      (\<exists>a chunks. objs = a @ concat chunks \<and> emitted lib U spec source e a \<and>
        list_all2 (emitted lib U spec source) es chunks)"
    by (simp add: bind_res_Inr_iff applyEmit_Inr Cons.IH) blast
  ultimately show ?case by simp
qed auto

lemma Apply_Inr:
  "Apply lib U spec source = Inr objs \<longleftrightarrow> wfSpec spec \<and>
     (\<exists>chunks. objs = concat chunks \<and> list_all2 (emitted lib U spec source) (sp_Emit spec) chunks)"
  by (auto simp: Apply_def bind_res_Inr_iff Validate_wfSpec [symmetric] applyEmits_Inr)

lemma Apply_built:
  assumes "Apply lib U spec source = Inr objs" and "u \<in> set objs"
  shows "\<exists>e \<in> set (sp_Emit spec). \<exists>item. buildObject lib U spec e source item = Inr u"
proof -
  from assms obtain chunks chunk where "list_all2 (emitted lib U spec source) (sp_Emit spec) chunks"
      "chunk \<in> set chunks" "u \<in> set chunk" by (auto simp: Apply_Inr)
  then obtain e where "e \<in> set (sp_Emit spec)" "emitted lib U spec source e chunk"
    using list_all2_mem2 by metis
  moreover from this(2) obtain items where
      "list_all2 (\<lambda>item u. buildObject lib U spec e source item = Inr u) items chunk"
    by (auto simp: emitted_def)
  ultimately show ?thesis using list_all2_mem2 \<open>u \<in> set chunk\<close> by fast
qed

subsection \<open>Properties\<close>

definition trivialCel :: "(string, string) celLib" where
  "trivialCel = \<lparr>cl_env = None, cl_Compile = Inr, cl_Program = Inr, cl_Eval = (\<lambda>_ _. Inr (JBool True))\<rparr>"

definition exSource :: jobj where
  "exSource = fmap_of_list [
     (''metadata'', JObj (fmap_of_list [(''name'', JStr ''dpu-1'')])),
     (''spec'', JObj (fmap_of_list [(''nodeName'', JStr ''worker-0'')])),
     (''status'', JObj (fmap_of_list [(''conditions'', JList [
        JObj (fmap_of_list [(''type'', JStr ''Ready''), (''status'', JStr ''False'')]),
        JObj (fmap_of_list [(''type'', JStr ''dpfready''), (''status'', JStr ''False'')])])]))]"


text \<open>C30: every emitted object can be found again. For any unstructured-object library that
  behaves as documented, an emitted object has the group, version and kind of its rule's
  target, a non-empty name, and the three labels that name the mapping, the kind and the name
  of the source.\<close>

theorem apply_identity:
  assumes "unstructured_ops U" and "Apply lib U spec source = Inr objs" and "u \<in> set objs"
    and "\<forall>e \<in> set (sp_Emit spec). tidyEmit e"
  shows "(\<exists>e \<in> set (sp_Emit spec). us_GVK U u = targetGVK e) \<and> us_Name U u \<noteq> '''' \<and>
    sget (us_Labels U u) labelMapping = sp_Name spec \<and>
    sget (us_Labels U u) labelSourceKind = mr_Kind (sp_Source spec) \<and>
    (\<forall>s. Get source ''metadata.name'' = Some (JStr s) \<longrightarrow> sget (us_Labels U u) labelSourceName = s)"
proof -
  obtain e item where e: "e \<in> set (sp_Emit spec)" and b: "buildObject lib U spec e source item = Inr u"
    using Apply_built [OF assms(2,3)] by blast
  then have "tidyEmit e" using assms(4) by blast
  note p = unstructured_ops.buildObject_parts [OF assms(1) b this]
  then obtain l where "us_Labels U u = stampLabels spec source l" by blast
  with p e stampLabels_get [where spec = spec and source = source and l = l] show ?thesis by auto
qed

theorem apply_identity_witness:
  "\<exists>u. Apply trivialCel jsonU exSpec exSource = Inr [u] \<and> us_Name jsonU u \<noteq> '''' \<and>
     sget (us_Labels jsonU u) labelSourceName = ''dpu-1''"
proof -
  have "length (projr (Apply trivialCel jsonU exSpec exSource)) = 1" "is_ok (Apply trivialCel jsonU exSpec exSource)"
    by code_simp+
  then obtain u where run: "Apply trivialCel jsonU exSpec exSource = Inr [u]"
    by (cases "Apply trivialCel jsonU exSpec exSource") (auto simp: length_Suc_conv)
  have "list_all tidyEmit (sp_Emit exSpec)" by code_simp
  then have "\<forall>e \<in> set (sp_Emit exSpec). tidyEmit e" by (simp add: list_all_iff)
  moreover have "Get exSource ''metadata.name'' = Some (JStr ''dpu-1'')" by code_simp
  ultimately show ?thesis
    using apply_identity [OF json_u.unstructured_ops_axioms run] run by auto
qed



subsection \<open>Status conditions\<close>

definition sourceConditions :: "jobj \<Rightarrow> jv list" where
  "sourceConditions source = (case Get source ''status.conditions'' of Some (JList l) \<Rightarrow> l | _ \<Rightarrow> [])"

text \<open>A condition of the source the mapping does not write: it has a type, and not one of the mapping's, up to case.\<close>

definition foreign :: "StatusCondition list \<Rightarrow> jv \<Rightarrow> bool" where
  "foreign owned o' \<longleftrightarrow> (\<exists>m. o' = JObj m \<and> condKey (condType m) \<noteq> '''' \<and>
     condKey (condType m) \<notin> (\<lambda>c. condKey (sc_Type c)) ` set owned)"

text \<open>What the mapping writes for one of its own conditions.\<close>

definition rolledUp :: "('a, 'p) celLib \<Rightarrow> activation \<Rightarrow> StatusCondition \<Rightarrow> jv \<Rightarrow> bool" where
  "rolledUp lib vars c o' \<longleftrightarrow> (\<exists>m ok. o' = JObj m \<and> condType m = sc_Type c \<and>
     evalBool lib (sc_Status c) vars = Inr ok \<and> fmlookup m ''status'' = Some (JStr (if ok then ''True'' else ''False'')))"

lemma preserved_foreign: "preservedStatusConditions source owned = filter (foreign owned) (sourceConditions source)"
proof -
  have "(\<lambda>item. case asMap item of None \<Rightarrow> False
      | Some m \<Rightarrow> condKey (condType m) \<noteq> '''' \<and> condKey (condType m) \<notin> set (map (\<lambda>c. condKey (sc_Type c)) owned)) =
      foreign owned"
    by (auto simp: foreign_def asMap_def fun_eq_iff split: jv.split)
  then have "preservedStatusConditions source owned =
      (case Get source ''status.conditions'' of Some (JList l) \<Rightarrow> filter (foreign owned) l | _ \<Rightarrow> [])"
    unfolding preservedStatusConditions_def by (rule arg_cong)
  then show ?thesis by (simp add: sourceConditions_def split: option.split jv.split)
qed

lemma optText_keeps:
  assumes "optText lib key expr vars cond = Inr cond'" and "k \<noteq> key"
  shows "fmlookup cond' k = fmlookup cond k"
  using assms by (auto simp: optText_def bind_res_Inr_iff split: if_splits)

lemma ownCondition_rolledUp:
  assumes "ownCondition lib vars c = Inr o'"
  shows "rolledUp lib vars c o'"
proof -
  from assms obtain ok c1 c2 where ok: "evalBool lib (sc_Status c) vars = Inr ok"
      and c1: "optText lib ''reason'' (sc_Reason c) vars
        (fmupd ''status'' (JStr (if ok then ''True'' else ''False'')) (fmupd ''type'' (JStr (sc_Type c)) fmempty)) = Inr c1"
      and c2: "optText lib ''message'' (sc_Message c) vars c1 = Inr c2" and o': "o' = JObj c2"
    by (auto simp: ownCondition_def bind_res_Inr_iff Let_def)
  have "fmlookup c2 ''type'' = Some (JStr (sc_Type c))"
      "fmlookup c2 ''status'' = Some (JStr (if ok then ''True'' else ''False''))"
    using optText_keeps [OF c1] optText_keeps [OF c2] by simp_all
  with ok o' show ?thesis by (simp add: rolledUp_def condType_def)
qed

lemma wfSpec_ready_foreign:
  assumes "wfSpec spec" and "sp_Status spec = Some sm" and "condKey (condType m) = ''ready''"
  shows "foreign (sm_Conditions sm) (JObj m)"
proof -
  have "list_all wfCondition (sm_Conditions sm)"
    using assms(1,2) by (simp add: wfSpec_def wfStatus_def)
  with assms(3) show ?thesis
    by (auto simp: foreign_def list_all_iff wfCondition_def condKey_def)
qed

text \<open>C27: status has a single writer per condition. In the status the mapping returns, the conditions
  it does not own are those of the source, unchanged, complete and in order; the others are one
  per condition of the mapping, in order, with the truth value of its expression. The daemon's
  Ready, in any spelling, is never among the mapping's own.\<close>

theorem status_single_writer:
  assumes "ApplyStatus lib spec source children = Inr (Some st)"
    and "sp_Status spec = Some sm" and "sm_Conditions sm \<noteq> []"
  shows "\<exists>conds. fmlookup st ''conditions'' = Some (JList conds) \<and>
    filter (foreign (sm_Conditions sm)) conds = filter (foreign (sm_Conditions sm)) (sourceConditions source) \<and>
    list_all2 (rolledUp lib (celVars source JNull children)) (sm_Conditions sm)
      (filter (\<lambda>o'. \<not> foreign (sm_Conditions sm) o') conds) \<and>
    (\<forall>m. condKey (condType m) = ''ready'' \<longrightarrow> foreign (sm_Conditions sm) (JObj m))"
proof -
  let ?kept = "filter (foreign (sm_Conditions sm)) (sourceConditions source)"
  from assms(1,2) obtain own where wf: "wfSpec spec"
      and own: "traverse (ownCondition lib (celVars source JNull children)) (sm_Conditions sm) = Inr own"
      and st: "own \<noteq> [] \<longrightarrow> fmlookup st ''conditions'' = Some (JList (?kept @ own))"
    by (auto simp: ApplyStatus_def bind_res_Inr_iff Validate_wfSpec [symmetric] preserved_foreign Let_def split: if_splits)
  have roll: "list_all2 (rolledUp lib (celVars source JNull children)) (sm_Conditions sm) own"
    using own unfolding traverse_Inr_iff by (rule list_all2_mono) (rule ownCondition_rolledUp)
  then have "own \<noteq> []" using assms(3) by auto
  with st have conds: "fmlookup st ''conditions'' = Some (JList (?kept @ own))" by simp
  have "\<not> foreign (sm_Conditions sm) o'" if "o' \<in> set own" for o'
    using list_all2_mem2 [OF roll that] by (auto simp: rolledUp_def foreign_def)
  then have "filter (foreign (sm_Conditions sm)) own = []" "filter (\<lambda>o'. \<not> foreign (sm_Conditions sm) o') own = own"
    by (simp_all add: filter_empty_conv)
  then have "filter (foreign (sm_Conditions sm)) (?kept @ own) = ?kept"
      "filter (\<lambda>o'. \<not> foreign (sm_Conditions sm) o') (?kept @ own) = own" by simp_all
  with conds roll wfSpec_ready_foreign [OF wf assms(2)] show ?thesis by auto
qed

theorem status_single_writer_witness:
  "\<exists>st conds. ApplyStatus trivialCel exSpec exSource [] = Inr (Some st) \<and> fmlookup st ''conditions'' = Some (JList conds) \<and>
     hd (sourceConditions exSource) \<in> set conds"
proof -
  obtain sm where sm: "sp_Status exSpec = Some sm" "sm_Conditions sm \<noteq> []" by (simp add: exSpec_def)
  have "is_ok (ApplyStatus trivialCel exSpec exSource [])" "projr (ApplyStatus trivialCel exSpec exSource []) \<noteq> None"
    by code_simp+
  then obtain st where run: "ApplyStatus trivialCel exSpec exSource [] = Inr (Some st)"
    by (cases "ApplyStatus trivialCel exSpec exSource []") auto
  from status_single_writer [OF run sm] obtain conds where c: "fmlookup st ''conditions'' = Some (JList conds)"
      "filter (foreign (sm_Conditions sm)) conds = filter (foreign (sm_Conditions sm)) (sourceConditions exSource)"
      "\<forall>m. condKey (condType m) = ''ready'' \<longrightarrow> foreign (sm_Conditions sm) (JObj m)" by (elim exE conjE)
  let ?r = "fmap_of_list [(''type'', JStr ''Ready''), (''status'', JStr ''False'')]"
  have "condKey (condType ?r) = ''ready''" by code_simp
  with c(3) have f: "foreign (sm_Conditions sm) (JObj ?r)" by blast
  have "Get exSource ''status.conditions'' = Some (JList [JObj ?r,
      JObj (fmap_of_list [(''type'', JStr ''dpfready''), (''status'', JStr ''False'')])])" by code_simp
  then have r: "hd (sourceConditions exSource) = JObj ?r" "JObj ?r \<in> set (sourceConditions exSource)"
    by (simp_all add: sourceConditions_def)
  with f have "JObj ?r \<in> set (filter (foreign (sm_Conditions sm)) conds)" unfolding c(2) set_filter by blast
  then have "hd (sourceConditions exSource) \<in> set conds" unfolding r(1) by (simp only: set_filter mem_Collect_eq)
  with run c(1) show ?thesis by blast
qed

end
