(* ===== verification/TranslationFacts.thy ===== *)
theory TranslationFacts
  imports Translation MappingFacts
begin

text \<open>
  Correctness of the translation controller: pruning by schema removes exactly the undeclared
  paths, the merge of mirrored conditions, the writes a reconcile run can make, and the gate
  that keeps a source queued while the vendor operator is not ready.
\<close>

subsection \<open>Pruning by schema\<close>

text \<open>The paths a schema keeps: below a node that preserves unknown fields or lists none, all of them.\<close>

fun declaredPath :: "jobj \<Rightarrow> string list \<Rightarrow> bool" where
  "declaredPath sch [] = True"
| "declaredPath sch (k # ks) \<longleftrightarrow> preserveUnknown sch \<or>
     (case objField sch ''properties'' of None \<Rightarrow> True
      | Some props \<Rightarrow> (case objField props k of None \<Rightarrow> False | Some child \<Rightarrow> declaredPath child ks))"

lemma pruneVal_leaf: "asMap v = None \<Longrightarrow> pruneVal v sch = v"
  by (cases v) (auto simp: asMap_def)

lemma pruneVal_keeps: "preserveUnknown sch \<or> objField sch ''properties'' = None \<Longrightarrow> pruneVal v sch = v"
  by (cases v) auto

lemma asMap_pruneVal: "asMap (pruneVal v sch) = None \<longleftrightarrow> asMap v = None"
  by (cases v) (auto simp: asMap_def split: option.splits)

lemma getParts_pruneVal_Cons:
  assumes "\<not> preserveUnknown sch" and "objField sch ''properties'' = Some props"
  shows "getParts (pruneVal v sch) (k # ks) =
    (case asMap v of None \<Rightarrow> None
     | Some m \<Rightarrow> (case objField props k of None \<Rightarrow> None
         | Some child \<Rightarrow> (case fmlookup m k of None \<Rightarrow> None | Some x \<Rightarrow> getParts (pruneVal x child) ks)))"
  using assms by (cases v) (auto simp: asMap_def split: option.split)

lemma getParts_pruneVal:
  "(getParts (pruneVal v sch) ks \<noteq> None \<longleftrightarrow> declaredPath sch ks \<and> getParts v ks \<noteq> None) \<and>
   (asMap x = None \<longrightarrow> (getParts (pruneVal v sch) ks = Some x \<longleftrightarrow> declaredPath sch ks \<and> getParts v ks = Some x))"
proof (induction ks arbitrary: v sch)
  case Nil
  then show ?case using asMap_pruneVal [of v sch] pruneVal_leaf [of v sch] by auto
next
  case (Cons k ks)
  show ?case
  proof (cases "preserveUnknown sch \<or> objField sch ''properties'' = None")
    case True
    then show ?thesis by (auto simp: pruneVal_keeps simp del: getParts.simps)
  next
    case False
    then obtain props where p: "\<not> preserveUnknown sch" "objField sch ''properties'' = Some props" by auto
    show ?thesis
      unfolding getParts_pruneVal_Cons [OF p]
      using Cons.IH p by (auto split: option.split)
  qed
qed

lemma JObj_pruneMap: "JObj (pruneMap spec s) = pruneVal (JObj spec) s"
  using asMap_pruneVal [of "JObj spec" s]
  by (cases "pruneVal (JObj spec) s") (simp_all add: pruneMap_def asMap_def del: pruneVal.simps)

lemma pruneUnknownSpec_cases:
  assumes "pruneUnknownSpec obj crdSchema = (obj', dropped)"
  obtains (same) "obj' = obj" "crdSchema = None \<or> objField obj ''spec'' = None \<or> (\<exists>root. crdSchema = Some root \<and> nestedSchema root ''spec'' = None)"
  | (pruned) root spec s where "crdSchema = Some root" "fmlookup obj ''spec'' = Some (JObj spec)" "nestedSchema root ''spec'' = Some s"
      "obj' = fmupd ''spec'' (pruneVal (JObj spec) s) obj"
proof (cases "crdSchema = None \<or> objField obj ''spec'' = None \<or> (\<exists>root. crdSchema = Some root \<and> nestedSchema root ''spec'' = None)")
  case True
  then have "obj' = obj" using assms by (auto simp: pruneUnknownSpec_def split: option.splits)
  with True same show ?thesis by blast
next
  case False
  then obtain root spec s where r: "crdSchema = Some root" "objField obj ''spec'' = Some spec" "nestedSchema root ''spec'' = Some s"
    by auto
  then have "fmlookup obj ''spec'' = Some (JObj spec)" by (auto simp: objField_def asMap_Some split: option.splits)
  moreover have "obj' = fmupd ''spec'' (pruneVal (JObj spec) s) obj"
    using assms by (simp add: pruneUnknownSpec_def r JObj_pruneMap del: pruneVal.simps)
  ultimately show ?thesis using pruned r by blast
qed

subsection \<open>Properties of pruning\<close>

text \<open>C25: pruning removes exactly what the live schema does not declare. When the schema of the kind
  has a spec and the object has one, then after pruning a path below spec exists if and only if
  it existed and the schema declares it, every value on a remaining path that is not itself an
  object is unchanged, and everything outside spec is as before.\<close>

theorem prune_spec_exact:
  assumes "pruneUnknownSpec obj (Some root) = (obj', dropped)" and "nestedSchema root ''spec'' = Some s"
  shows "(\<forall>k. k \<noteq> ''spec'' \<longrightarrow> fmlookup obj' k = fmlookup obj k) \<and>
    (objField obj ''spec'' \<noteq> None \<longrightarrow>
      (\<forall>ks. getParts (JObj obj') (''spec'' # ks) \<noteq> None \<longleftrightarrow> declaredPath s ks \<and> getParts (JObj obj) (''spec'' # ks) \<noteq> None) \<and>
      (\<forall>ks x. asMap x = None \<longrightarrow>
        (getParts (JObj obj') (''spec'' # ks) = Some x \<longleftrightarrow> declaredPath s ks \<and> getParts (JObj obj) (''spec'' # ks) = Some x)))"
  using assms(1)
proof (cases rule: pruneUnknownSpec_cases)
  case same
  then have "objField obj ''spec'' = None" using assms(2) by auto
  with same show ?thesis by simp
next
  case (pruned root' spec s')
  then have "getParts (JObj obj') (''spec'' # ks) = getParts (pruneVal (JObj spec) s) ks"
    "getParts (JObj obj) (''spec'' # ks) = getParts (JObj spec) ks" for ks
    using assms(2) by auto
  then show ?thesis using pruned getParts_pruneVal [of "JObj spec" s] by auto
qed

subsection \<open>Merging mirrored conditions\<close>

definition typeOf :: "jv \<Rightarrow> string" where
  "typeOf v = (case asMap v of None \<Rightarrow> '''' | Some m \<Rightarrow> condType m)"

text \<open>A condition list as the API keeps it: objects, one per type.\<close>

definition wfConds :: "jv list \<Rightarrow> bool" where
  "wfConds l \<longleftrightarrow> (\<forall>v\<in>set l. asMap v \<noteq> None) \<and> distinct (map typeOf l)"

definition condFor :: "jv list \<Rightarrow> string \<Rightarrow> jobj option" where
  "condFor l t = (case find (\<lambda>v. typeOf v = t) l of None \<Rightarrow> None | Some v \<Rightarrow> asMap v)"

text \<open>A merge state stands for a condition list.\<close>

definition stands :: "mergeState \<Rightarrow> jv list \<Rightarrow> bool" where
  "stands st l \<longleftrightarrow> wfConds l \<and> ms_order st = map typeOf l \<and> (\<forall>t. fmlookup (ms_byType st) t = condFor l t)"

lemma typeOf_JObj [simp]: "typeOf (JObj m) = condType m"
  by (simp add: typeOf_def)

lemma condFor_simps [simp]:
  "condFor [] t = None"
  "condFor (JObj m # l) t = (if condType m = t then Some m else condFor l t)"
  by (simp_all add: condFor_def)

lemma wfConds_simps [simp]:
  "wfConds []"
  "wfConds (v # l) \<longleftrightarrow> (\<exists>m. v = JObj m) \<and> typeOf v \<notin> typeOf ` set l \<and> wfConds l"
  by (auto simp: wfConds_def asMap_Some)

lemma wfConds_JObj: "wfConds l \<Longrightarrow> v \<in> set l \<Longrightarrow> \<exists>m. v = JObj m"
  by (induction l) auto

lemma condFor_Some_iff: "wfConds l \<Longrightarrow> condFor l t = Some m \<longleftrightarrow> JObj m \<in> set l \<and> condType m = t"
proof (induction l)
  case (Cons v l)
  then obtain n where v: "v = JObj n" by auto
  have "JObj m \<in> set l \<Longrightarrow> condType m \<in> typeOf ` set l" by (metis imageI typeOf_JObj)
  with Cons v show ?case by auto
qed simp

lemma condFor_None_iff: "wfConds l \<Longrightarrow> condFor l t = None \<longleftrightarrow> t \<notin> typeOf ` set l"
  by (induction l) (auto split: if_splits)

lemma wfConds_append1: "wfConds (l @ [JObj m]) \<longleftrightarrow> wfConds l \<and> condType m \<notin> typeOf ` set l"
  by (induction l) auto

lemma condFor_append1:
  "wfConds l \<Longrightarrow> condFor (l @ [JObj m]) t = (case condFor l t of None \<Rightarrow> if condType m = t then Some m else None | Some x \<Rightarrow> Some x)"
  by (induction l) auto

lemma stands_out:
  assumes "stands st l"
  shows "map (\<lambda>t. JObj (case fmlookup (ms_byType st) t of Some m \<Rightarrow> m | None \<Rightarrow> fmempty)) (ms_order st) = l"
proof -
  have "JObj (case condFor l (typeOf v) of Some m \<Rightarrow> m | None \<Rightarrow> fmempty) = v" if v: "v \<in> set l" for v
  proof -
    obtain m where m: "v = JObj m" using assms v wfConds_JObj unfolding stands_def by blast
    then have "condFor l (condType m) = Some m" using assms v by (auto simp: stands_def condFor_Some_iff)
    with m show ?thesis by simp
  qed
  with assms show ?thesis by (simp add: stands_def map_idI)
qed

lemma stands_index:
  assumes "wfConds (pre @ existing)" and "stands st pre"
  shows "stands (fold indexExisting existing st) (pre @ existing)" and "ms_changed (fold indexExisting existing st) = ms_changed st"
  using assms
proof (induction existing arbitrary: pre st)
  case Nil
  {
    case 1 then show ?case by simp
  next
    case 2 then show ?case by simp
  }
next
  case (Cons e existing)
  have step: "stands (indexExisting e st) (pre @ [e]) \<and> ms_changed (indexExisting e st) = ms_changed st"
    if pre: "wfConds (pre @ e # existing)" and st: "stands st pre" for pre st
  proof -
    obtain m where e: "e = JObj m" using wfConds_JObj [OF pre, of e] by auto
    have wf: "wfConds (pre @ [JObj m])" using pre e by (auto simp: wfConds_def)
    then have "condFor pre (condType m) = None" by (auto simp: wfConds_append1 condFor_None_iff)
    then show ?thesis using st wf
      by (auto simp: stands_def indexExisting_def e condFor_append1 wfConds_append1 split: option.split)
  qed
  {
    case 1
    with step Cons.IH(1) [of "pre @ [e]" "indexExisting e st"] show ?case by simp
  next
    case 2
    with step Cons.IH(2) [of "pre @ [e]" "indexExisting e st"] show ?case by simp
  }
qed

text \<open>One desired entry on the list: replaced where its type is, else appended.\<close>

definition mergeInto :: "string \<Rightarrow> jv \<Rightarrow> jv list \<Rightarrow> jv list" where
  "mergeInto now d l =
     (if \<not> addressable d then l
      else let next = JObj (nextCondition now (condFor l (typeOf d)) (the (asMap d))) in
           if typeOf d \<in> typeOf ` set l then map (\<lambda>v. if typeOf v = typeOf d then next else v) l else l @ [next])"

lemma condType_next [simp]: "condType (nextCondition now prev dm) = condType dm"
  by (auto simp: nextCondition_def condType_def copyKey_def typeKey_def statusKey_def Let_def split: option.splits)

lemma condFor_map:
  assumes "wfConds l" and "condType m = t" and "t \<in> typeOf ` set l"
  shows "condFor (map (\<lambda>v. if typeOf v = t then JObj m else v) l) t' = (if t' = t then Some m else condFor l t')"
  using assms(1,3)
proof (induction l)
  case (Cons v l)
  then obtain n where v: "v = JObj n" by auto
  show ?case
  proof (cases "condType n = t")
    case True
    then have "t \<notin> typeOf ` set l" using Cons.prems v by auto
    then have "map (\<lambda>v. if typeOf v = t then JObj m else v) l = l" by (intro map_idI) auto
    with v True assms(2) show ?thesis by simp
  next
    case False
    with Cons v show ?thesis by auto
  qed
qed simp

lemma types_map: "condType m = t \<Longrightarrow> map typeOf (map (\<lambda>v. if typeOf v = t then JObj m else v) l) = map typeOf l"
  by simp

lemma wfConds_map:
  assumes "wfConds l" and "condType m = t"
  shows "wfConds (map (\<lambda>v. if typeOf v = t then JObj m else v) l)"
  unfolding wfConds_def types_map [OF assms(2)] using assms(1) by (auto simp: wfConds_def)

lemma map_same:
  assumes "wfConds l" and "condFor l t = Some m"
  shows "map (\<lambda>v. if typeOf v = t then JObj m else v) l = l"
proof (rule map_idI)
  fix v assume "v \<in> set l"
  then obtain q where "v = JObj q" "condFor l (condType q) = Some q"
    using wfConds_JObj [OF assms(1)] condFor_Some_iff [OF assms(1)] by blast
  with assms(2) show "(if typeOf v = t then JObj m else v) = v" by auto
qed

lemma stands_merge:
  assumes "stands st l"
  shows "stands (mergeDesired now d st) (mergeInto now d l)"
    and "ms_changed (mergeDesired now d st) \<longleftrightarrow> ms_changed st \<or> mergeInto now d l \<noteq> l"
proof -
  have wf: "wfConds l" and order: "ms_order st = map typeOf l" and look: "\<And>t. fmlookup (ms_byType st) t = condFor l t"
    using assms by (auto simp: stands_def)
  have "stands (mergeDesired now d st) (mergeInto now d l) \<and>
    (ms_changed (mergeDesired now d st) \<longleftrightarrow> ms_changed st \<or> mergeInto now d l \<noteq> l)"
  proof (cases "addressable d")
    case False
    then show ?thesis using assms by (simp add: mergeDesired_def mergeInto_def)
  next
    case True
    then obtain dm where d: "d = JObj dm" by (auto simp: addressable_def asMap_Some split: option.splits)
    define t where "t = condType dm"
    define m where "m = nextCondition now (condFor l t) dm"
    have mt: "condType m = t" by (simp add: m_def t_def)
    show ?thesis
    proof (cases "t \<in> typeOf ` set l")
      case mem: True
      then obtain p where p: "condFor l t = Some p" using condFor_None_iff [OF wf, of t] by auto

      have diff: "map (\<lambda>v. if typeOf v = t then JObj m else v) l \<noteq> l \<longleftrightarrow> p \<noteq> m"
        using map_same [OF wf, of t m] condFor_map [OF wf mt mem, of t] p by auto
      have into: "mergeInto now d l = map (\<lambda>v. if typeOf v = t then JObj m else v) l"
        using True mem by (simp add: mergeInto_def d Let_def m_def t_def)
      have st: "mergeDesired now d st = st\<lparr>ms_byType := fmupd t m (ms_byType st), ms_order := ms_order st,
          ms_changed := (ms_changed st \<or> p \<noteq> m)\<rparr>"
        using True p by (simp add: mergeDesired_def d Let_def look m_def t_def)
      show ?thesis
        unfolding into st stands_def types_map [OF mt]
        using diff wfConds_map [OF wf mt] condFor_map [OF wf mt mem] order look by auto
    next
      case new: False
      then have p: "condFor l t = None" using condFor_None_iff [OF wf] by simp
      have into: "mergeInto now d l = l @ [JObj m]"
        using True new by (simp add: mergeInto_def d Let_def m_def t_def)
      have st: "mergeDesired now d st = st\<lparr>ms_byType := fmupd t m (ms_byType st), ms_order := ms_order st @ [t],
          ms_changed := True\<rparr>"
        using True p by (simp add: mergeDesired_def d Let_def look m_def t_def)
      show ?thesis
        unfolding into st stands_def using new wf order look p mt
        by (auto simp: wfConds_append1 condFor_append1 split: option.split)
    qed
  qed
  then show "stands (mergeDesired now d st) (mergeInto now d l)"
    "ms_changed (mergeDesired now d st) \<longleftrightarrow> ms_changed st \<or> mergeInto now d l \<noteq> l" by auto
qed

lemma stands_fold:
  "stands st l \<Longrightarrow> stands (fold (mergeDesired now) ds st) (fold (mergeInto now) ds l)"
  by (induction ds arbitrary: st l) (simp_all add: stands_merge(1))

text \<open>The reference: the merge is the fold of its steps over the condition list.\<close>

lemma mergeConditions_list:
  assumes "wfConds existing"
  shows "fst (mergeConditions now existing desired) = fold (mergeInto now) desired existing"
proof -
  let ?st = "fold indexExisting existing \<lparr>ms_byType = fmempty, ms_order = [], ms_changed = False\<rparr>"
  have "stands \<lparr>ms_byType = fmempty, ms_order = [], ms_changed = False\<rparr> []" by (simp add: stands_def)
  then have "stands ?st existing" using stands_index(1) [of "[]" existing] assms by simp
  from stands_out [OF stands_fold [OF this]] show ?thesis by (simp add: mergeConditions_def Let_def)
qed

lemma mergeInto_types:
  assumes "wfConds l"
  shows "wfConds (mergeInto now d l)" and "\<exists>new. map typeOf (mergeInto now d l) = map typeOf l @ new \<and> (new = [] \<or> new = [typeOf d])"
proof -
  obtain st where st: "stands st l"
    using stands_index(1) [of "[]" l "\<lparr>ms_byType = fmempty, ms_order = [], ms_changed = False\<rparr>"] assms by (auto simp: stands_def)
  from stands_merge(1) [OF st, of now d] show "wfConds (mergeInto now d l)" by (simp add: stands_def)
  show "\<exists>new. map typeOf (mergeInto now d l) = map typeOf l @ new \<and> (new = [] \<or> new = [typeOf d])"
  proof (cases "addressable d")
    case True
    then obtain dm where d: "d = JObj dm" by (auto simp: addressable_def asMap_Some split: option.splits)
    define m where "m = nextCondition now (condFor l (condType dm)) dm"
    have into: "mergeInto now d l = (if condType dm \<in> typeOf ` set l
        then map (\<lambda>v. if typeOf v = condType dm then JObj m else v) l else l @ [JObj m])"
      using True by (simp add: mergeInto_def Let_def d m_def)
    have "condType m = condType dm" by (simp add: m_def)
    from types_map [OF this, of l] this show ?thesis unfolding into by (simp add: d del: map_map)
  qed (simp add: mergeInto_def)
qed

lemma mergeInto_other:
  assumes "wfConds l" and "\<not> (addressable d \<and> typeOf d = t)"
  shows "condFor (mergeInto now d l) t = condFor l t"
proof (cases "addressable d")
  case True
  then obtain dm where d: "d = JObj dm" by (auto simp: addressable_def asMap_Some split: option.splits)
  with True assms show ?thesis
    by (auto simp: mergeInto_def Let_def condFor_map condFor_append1 split: option.split)
qed (simp add: mergeInto_def)

lemma mergeInto_own:
  assumes "wfConds l" and "addressable d"
  shows "condFor (mergeInto now d l) (typeOf d) = Some (nextCondition now (condFor l (typeOf d)) (the (asMap d)))"
proof -
  obtain dm where d: "d = JObj dm" using assms(2) by (auto simp: addressable_def asMap_Some split: option.splits)
  with assms show ?thesis
    using condFor_None_iff [OF assms(1), of "condType dm"]
    by (auto simp: mergeInto_def Let_def condFor_map condFor_append1 split: option.split)
qed

text \<open>Facts of the fold.\<close>

lemma mergeAll_wf: "wfConds l \<Longrightarrow> wfConds (fold (mergeInto now) ds l)"
  by (induction ds arbitrary: l) (simp_all add: mergeInto_types)

lemma mergeAll_types: "wfConds l \<Longrightarrow> \<exists>new. map typeOf (fold (mergeInto now) ds l) = map typeOf l @ new"
proof (induction ds arbitrary: l)
  case (Cons d ds)
  then obtain new new' where "map typeOf (mergeInto now d l) = map typeOf l @ new"
      "map typeOf (fold (mergeInto now) ds (mergeInto now d l)) = map typeOf (mergeInto now d l) @ new'"
    using mergeInto_types by metis
  then show ?case by simp
qed simp

lemma mergeAll_other:
  "wfConds l \<Longrightarrow> \<forall>d\<in>set ds. addressable d \<longrightarrow> typeOf d \<noteq> t \<Longrightarrow> condFor (fold (mergeInto now) ds l) t = condFor l t"
  by (induction ds arbitrary: l) (simp_all add: mergeInto_types mergeInto_other)

lemma mergeAll_own:
  "wfConds l \<Longrightarrow> distinct (map typeOf (filter addressable ds)) \<Longrightarrow> d \<in> set ds \<Longrightarrow> addressable d \<Longrightarrow>
     condFor (fold (mergeInto now) ds l) (typeOf d) = Some (nextCondition now (condFor l (typeOf d)) (the (asMap d)))"
proof (induction ds arbitrary: l)
  case (Cons e ds)
  show ?case
  proof (cases "d = e")
    case True
    then have "\<forall>d'\<in>set ds. addressable d' \<longrightarrow> typeOf d' \<noteq> typeOf e" using Cons.prems by (auto simp: image_iff)
    with True Cons.prems show ?thesis by (simp add: mergeInto_types mergeAll_other mergeInto_own)
  next
    case False
    with Cons.prems have "\<not> (addressable e \<and> typeOf e = typeOf d)" by (auto simp: rev_image_eqI)
    with False Cons show ?thesis by (simp add: mergeInto_types mergeInto_other split: if_splits)
  qed
qed simp

lemma mergeInto_same:
  assumes "wfConds l" and "condFor l (typeOf d) = Some (nextCondition now (condFor l (typeOf d)) (the (asMap d)))"
  shows "mergeInto now d l = l"
proof -
  have "typeOf d \<in> typeOf ` set l" using condFor_None_iff [OF assms(1)] assms(2) by (metis option.distinct(1))
  then show ?thesis using map_same [OF assms] by (simp add: mergeInto_def Let_def)
qed

lemma mergeAll_changed:
  assumes "stands st l" and "distinct (map typeOf (filter addressable ds))"
  shows "ms_changed (fold (mergeDesired now) ds st) \<longleftrightarrow> ms_changed st \<or> fold (mergeInto now) ds l \<noteq> l"
  using assms
proof (induction ds arbitrary: st l)
  case (Cons e ds)
  let ?l = "mergeInto now e l"
  have wf: "wfConds l" using Cons.prems(1) by (simp add: stands_def)
  have step: "ms_changed (fold (mergeDesired now) ds (mergeDesired now e st)) \<longleftrightarrow>
      (ms_changed st \<or> ?l \<noteq> l) \<or> fold (mergeInto now) ds ?l \<noteq> ?l"
    using Cons.IH [OF stands_merge(1) [OF Cons.prems(1)], of now e] Cons.prems(2) stands_merge(2) [OF Cons.prems(1)]
    by (simp split: if_splits)
  have "fold (mergeInto now) ds ?l \<noteq> l" if ne: "?l \<noteq> l"
  proof
    assume ret: "fold (mergeInto now) ds ?l = l"
    have e: "addressable e" by (rule ccontr) (use ne in \<open>simp add: mergeInto_def\<close>)
    then have "\<forall>d\<in>set ds. addressable d \<longrightarrow> typeOf d \<noteq> typeOf e" using Cons.prems(2) by (auto simp: image_iff)
    then have "condFor l (typeOf e) = condFor ?l (typeOf e)"
      using mergeAll_other [OF mergeInto_types(1) [OF wf], of ds "typeOf e" now now e] ret by simp
    from this mergeInto_own [OF wf e] have "condFor l (typeOf e) = Some (nextCondition now (condFor l (typeOf e)) (the (asMap e)))"
      by (rule trans)
    from mergeInto_same [OF wf this] ne show False by simp
  qed
  then show ?case using step by (cases "?l = l") simp_all
qed simp

lemma nextCondition_again: "nextCondition later (Some (nextCondition now p dm)) dm = nextCondition now p dm"
  by (auto simp: nextCondition_def copyKey_def valueAt_def statusKey_def typeKey_def Let_def split: option.splits)

lemma mergeAll_same: "\<forall>d\<in>set ds. mergeInto now d l = l \<Longrightarrow> fold (mergeInto now) ds l = l"
  by (induction ds) auto

text \<open>C26: the merge of mirrored conditions is exact and idempotent. Over a condition list with one
  entry per type, entries whose type the desired list does not address stay where they are,
  unchanged; Ready in any spelling is never addressed. Each addressed type gets one entry, with
  the desired status, reason and message, and with its old transition time exactly when the
  status is unchanged. The change flag tells whether the list differs, and merging the same
  desired conditions again, at any later time, changes nothing.\<close>

theorem merge_conditions_exact:
  assumes "mergeConditions now existing desired = (out, changed)" and "wfConds existing"
    and "distinct (map typeOf (filter addressable desired))"
  shows "wfConds out \<and> (\<exists>new. map typeOf out = map typeOf existing @ new) \<and>
    (\<forall>t. (\<forall>d\<in>set desired. addressable d \<longrightarrow> typeOf d \<noteq> t) \<longrightarrow> condFor out t = condFor existing t) \<and>
    (\<forall>d\<in>set desired. addressable d \<longrightarrow> \<not> EqualFold (typeOf d) ReservedConditionType \<and>
       condFor out (typeOf d) = Some (nextCondition now (condFor existing (typeOf d)) (the (asMap d)))) \<and>
    (changed \<longleftrightarrow> out \<noteq> existing) \<and> mergeConditions later out desired = (out, False)"
proof -
  let ?st = "\<lambda>l. fold indexExisting l \<lparr>ms_byType = fmempty, ms_order = [], ms_changed = False\<rparr>"
  have st: "stands (?st l) l" "\<not> ms_changed (?st l)" if "wfConds l" for l
    using stands_index [of "[]" l "\<lparr>ms_byType = fmempty, ms_order = [], ms_changed = False\<rparr>"] that by (simp_all add: stands_def)
  have out: "out = fold (mergeInto now) desired existing"
    using mergeConditions_list [OF assms(2), of now desired] assms(1) by simp
  have flag: "snd (mergeConditions n l desired) \<longleftrightarrow> fold (mergeInto n) desired l \<noteq> l" if "wfConds l" for n l
    using mergeAll_changed [OF st(1) [OF that] assms(3), of n] st(2) [OF that] by (simp add: mergeConditions_def Let_def)
  have wf: "wfConds out" unfolding out by (rule mergeAll_wf [OF assms(2)])
  have own: "condFor out (typeOf d) = Some (nextCondition now (condFor existing (typeOf d)) (the (asMap d)))"
    if "d \<in> set desired" "addressable d" for d
    unfolding out by (rule mergeAll_own [OF assms(2,3) that])
  have "mergeInto later d out = out" if "d \<in> set desired" for d
  proof (cases "addressable d")
    case True
    show ?thesis by (rule mergeInto_same [OF wf]) (simp add: own [OF that True] nextCondition_again)
  qed (simp add: mergeInto_def)
  then have again: "fold (mergeInto later) desired out = out" by (intro mergeAll_same) blast
  have "mergeConditions later out desired = (out, False)"
    using mergeConditions_list [OF wf, of later desired] flag [OF wf, of later] again
    by (cases "mergeConditions later out desired") simp
  moreover have "changed \<longleftrightarrow> out \<noteq> existing" using flag [OF assms(2), of now] assms(1) out by simp
  moreover have "\<not> EqualFold (typeOf d) ReservedConditionType" if "addressable d" for d
    using that by (auto simp: addressable_def asMap_Some split: option.splits)
  ultimately show ?thesis
    using wf own mergeAll_types [OF assms(2), of now desired] mergeAll_other [OF assms(2), of desired _ now]
    unfolding out by blast
qed

subsection \<open>The writes of a run\<close>

text \<open>\<open>p\<close> is \<open>o'\<close> with fields left out because the live schema does not have them.\<close>

inductive trimmed :: "objOps \<Rightarrow> jobj \<Rightarrow> jobj \<Rightarrow> bool" for B :: objOps and o' :: jobj where
  whole: "trimmed B o' o'"
| schema: "trimmed B o' p \<Longrightarrow> trimmed B o' (fst (pruneUnknownSpec p s))"
| omit: "trimmed B o' p \<Longrightarrow> dropField p path = Some q \<Longrightarrow> trimmed B o' q"
| managed: "trimmed B o' p \<Longrightarrow> trimmed B o' (ob_ClearManagedFields B p)"

text \<open>The condition lists of two versions of a source agree on Ready, in any spelling.\<close>

definition conditionList :: "jobj \<Rightarrow> jv list" where
  "conditionList src = (case objField src statusKey of None \<Rightarrow> []
     | Some m \<Rightarrow> (case fmlookup m conditionsKey of Some (JList l) \<Rightarrow> l | _ \<Rightarrow> []))"

definition readyKept :: "jobj \<Rightarrow> jobj \<Rightarrow> bool" where
  "readyKept src src' \<longleftrightarrow> (wfConds (conditionList src) \<longrightarrow>
     (\<forall>t. EqualFold t ReservedConditionType \<longrightarrow> condFor (conditionList src') t = condFor (conditionList src) t))"

inductive trWrite :: "('w, 'a, 'p) Reconciler \<Rightarrow> jobj \<Rightarrow> jobj list \<Rightarrow> 'w \<Rightarrow> 'w \<Rightarrow> bool"
  for r :: "('w, 'a, 'p) Reconciler" and src :: jobj and ems :: "jobj list" where
  send: "o' \<in> set ems \<Longrightarrow> trimmed (rr_Obj r) (stampOwner (rr_Obj r) src o') p \<Longrightarrow>
     trWrite r src ems w (fst (tc_Apply (rr_Client r) w p))"
| prune: "ShouldPrune (rr_Cel r) (rr_Spec r) src = Inr True \<Longrightarrow> applyAll r src ems st = (st', Inr applied) \<Longrightarrow>
     listChildObjects r src w0 = Inr objs \<Longrightarrow> child \<in> set objs \<Longrightarrow>
     ownedBySource (rr_Obj r) child src (annSourceValue (rr_Obj r) src) \<Longrightarrow>
     objKey (rr_Obj r) child \<notin> objKey (rr_Obj r) ` set applied \<Longrightarrow>
     trWrite r src ems w (fst (tc_Delete (rr_Client r) w child))"
| status: "(\<forall>k. k \<noteq> statusKey \<longrightarrow> fmlookup src' k = fmlookup src k) \<Longrightarrow> readyKept src src' \<Longrightarrow>
     trWrite r src ems w (fst (tc_StatusUpdate (rr_Client r) w src'))"

lemma applyTries_writes:
  assumes "o' \<in> set ems" and "trimmed (rr_Obj r) (stampOwner (rr_Obj r) src o') obj"
  shows "(trWrite r src ems)\<^sup>*\<^sup>* w (fst (applyTries r n obj w))"
  using assms(2)
proof (induction n arbitrary: obj w)
  case (Suc n)
  define p where "p = ob_ClearManagedFields (rr_Obj r) obj"
  obtain w' res where call: "tc_Apply (rr_Client r) w p = (w', res)" by fastforce
  have p: "trimmed (rr_Obj r) (stampOwner (rr_Obj r) src o') p" unfolding p_def by (rule trimmed.managed [OF Suc.prems])
  have first: "(trWrite r src ems)\<^sup>*\<^sup>* w w'"
    using trWrite.send [OF assms(1) p, of w] call by (simp add: r_into_rtranclp)
  have "(trWrite r src ems)\<^sup>*\<^sup>* w (fst (applyTries r n q w'))" if "omitLiveUnknownFields p e = Inr q" for e q
  proof -
    have "trimmed (rr_Obj r) (stampOwner (rr_Obj r) src o') q"
      using that by (auto simp: omitLiveUnknownFields_def Let_def split: if_splits option.splits intro: trimmed.omit [OF p])
    from rtranclp_trans [OF first Suc.IH [OF this]] show ?thesis .
  qed
  with first show ?case by (auto simp: Let_def p_def [symmetric] call split: sum.split)
qed simp

lemma applyOne_writes:
  assumes "o' \<in> set ems"
  shows "(trWrite r src ems)\<^sup>*\<^sup>* (fst st) (fst (fst (applyOne r src o' st)))"
proof -
  obtain w cache where st: "st = (w, cache)" by (cases st)
  let ?o = "stampOwner (rr_Obj r) src o'"
  obtain cache' sch where live: "liveCRDSchema (rr_Client r) (ob_GVK (rr_Obj r) ?o) w cache = (cache', sch)" by fastforce
  have "trimmed (rr_Obj r) ?o (case sch of Inl _ \<Rightarrow> ?o | Inr s \<Rightarrow> fst (pruneUnknownSpec ?o s))"
    by (auto split: sum.split intro: trimmed.whole trimmed.schema)
  from applyTries_writes [OF assms this, of w 8] show ?thesis
    by (simp add: st applyOne_def Let_def live case_prod_beta)
qed

lemma applyAll_writes:
  assumes "set objs \<subseteq> set ems"
  shows "(trWrite r src ems)\<^sup>*\<^sup>* (fst st) (fst (fst (applyAll r src objs st)))"
  using assms
proof (induction objs arbitrary: st)
  case (Cons o' objs)
  obtain st1 res where one: "applyOne r src o' st = (st1, res)" by fastforce
  have first: "(trWrite r src ems)\<^sup>*\<^sup>* (fst st) (fst st1)" using applyOne_writes [of o' ems r src st] Cons.prems one by simp
  have "(trWrite r src ems)\<^sup>*\<^sup>* (fst st) (fst (fst (applyAll r src objs st1)))"
    using rtranclp_trans [OF first Cons.IH] Cons.prems by simp
  with first one show ?case by (auto simp: Let_def split: sum.split prod.split)
qed simp

lemma pruneLoop_moves:
  assumes "\<And>w child. child \<in> set objs \<Longrightarrow> ownedBySource (rr_Obj r) child src wantAnn \<Longrightarrow> objKey (rr_Obj r) child \<notin> set desired \<Longrightarrow>
     R w (fst (tc_Delete (rr_Client r) w child))"
  shows "R\<^sup>*\<^sup>* w (fst (pruneLoop r src desired wantAnn w objs))"
  using assms
proof (induction objs arbitrary: w)
  case (Cons child objs)
  obtain w' err where del: "tc_Delete (rr_Client r) w child = (w', err)" by fastforce
  have rest: "R\<^sup>*\<^sup>* v (fst (pruneLoop r src desired wantAnn v objs))" for v using Cons by simp
  have "R w w'" if "ownedBySource (rr_Obj r) child src wantAnn" "objKey (rr_Obj r) child \<notin> set desired"
    using Cons.prems [of child w] that del by simp
  with rest [of w] rest [of w'] show ?case
    by (auto simp: Let_def del split: option.split intro: converse_rtranclp_into_rtranclp)
qed simp

lemma applyStatus_src:
  assumes "applyStatus now src desired = (src', changed)"
  shows "\<forall>k. k \<noteq> statusKey \<longrightarrow> fmlookup src' k = fmlookup src k" and "readyKept src src'"
proof -
  define cur where "cur = (case objField src statusKey of Some m \<Rightarrow> m | None \<Rightarrow> fmempty)"
  define news where "news = fmfilter (\<lambda>k. k \<noteq> conditionsKey \<and> valueAt cur k \<noteq> valueAt desired k) desired"
  define conds where "conds = (case fmlookup desired conditionsKey of Some v \<Rightarrow> (case asList v of Some l \<Rightarrow> l | None \<Rightarrow> []) | None \<Rightarrow> [])"
  have look: "fmlookup (cur ++\<^sub>f news) conditionsKey = fmlookup cur conditionsKey" by (simp add: news_def)
  have existing: "(case fmlookup cur conditionsKey of Some v \<Rightarrow> (case asList v of Some l \<Rightarrow> l | None \<Rightarrow> []) | None \<Rightarrow> []) = conditionList src"
    by (auto simp: conditionList_def cur_def asList_def split: option.split jv.split)
  define merged where "merged = (if conds \<noteq> [] then mergeConditions now (conditionList src) conds else ([], False))"
  define cur2 where "cur2 = (if snd merged then fmupd conditionsKey (JList (fst merged)) (cur ++\<^sub>f news) else cur ++\<^sub>f news)"
  have src': "src' = (if news \<noteq> fmempty \<or> snd merged then fmupd statusKey (JObj cur2) src else src)"
    using assms look existing
    by (simp add: applyStatus_def Let_def cur_def [symmetric] news_def [symmetric] conds_def [symmetric] cur2_def merged_def
        case_prod_beta split: if_splits)
  then show "\<forall>k. k \<noteq> statusKey \<longrightarrow> fmlookup src' k = fmlookup src k" by simp
  have list: "conditionList src' = (if snd merged then fst merged else conditionList src)"
    using look existing by (auto simp: src' cur2_def conditionList_def objField_def asList_def split: option.splits jv.splits)
  have "condFor (fst (mergeConditions now (conditionList src) conds)) t = condFor (conditionList src) t"
    if "wfConds (conditionList src)" "EqualFold t ReservedConditionType" for t
  proof -
    have "addressable d \<Longrightarrow> typeOf d \<noteq> t" for d
      using that(2) by (auto simp: addressable_def asMap_Some split: option.splits)
    then show ?thesis using mergeAll_other [OF that(1), of conds t now] mergeConditions_list [OF that(1)] by simp
  qed
  then show "readyKept src src'" by (auto simp: readyKept_def list merged_def)
qed

lemma mirrorStatus_writes: "(trWrite r src ems)\<^sup>*\<^sup>* w (fst (mirrorStatus r src w))"
proof -
  have "(trWrite r src ems)\<^sup>*\<^sup>* w (fst (tc_StatusUpdate (rr_Client r) w src'))"
    if "applyStatus (rr_Now r w) src desired = (src', ch)" for src' desired ch
    using trWrite.status [OF applyStatus_src [OF that]] by (rule r_into_rtranclp)
  then show ?thesis
    by (auto simp: mirrorStatus_def Let_def split: option.split sum.split prod.split) (metis fst_conv)+
qed

lemma applyAndMirror_writes:
  assumes "ShouldPrune (rr_Cel r) (rr_Spec r) src = Inr allowed"
  shows "(trWrite r src ems)\<^sup>*\<^sup>* (fst st) (fst (fst (applyAndMirror r src ems allowed st)))"
proof -
  obtain w1 cache1 res where all: "applyAll r src ems st = ((w1, cache1), res)" by (metis prod.exhaust)
  have first: "(trWrite r src ems)\<^sup>*\<^sup>* (fst st) w1" using applyAll_writes [of ems ems r src st] all by simp
  have second: "(trWrite r src ems)\<^sup>*\<^sup>* w1 (fst (if allowed then pruneStaleChildren r src applied w1 else (w1, None)))"
    if "res = Inr applied" for applied
  proof -
    have "(trWrite r src ems)\<^sup>*\<^sup>* w1 (fst (pruneLoop r src (map (objKey (rr_Obj r)) applied) (annSourceValue (rr_Obj r) src) w1 objs))"
      if "allowed" "listChildObjects r src w1 = Inr objs" for objs
      using trWrite.prune [OF _ all [unfolded \<open>res = Inr applied\<close>] that(2)] assms that(1) by (intro pruneLoop_moves) auto
    then show ?thesis by (simp add: pruneStaleChildren_def Let_def split: sum.split)
  qed
  have third: "(trWrite r src ems)\<^sup>*\<^sup>* v (fst (mirrorStatus r src v))" for v by (rule mirrorStatus_writes)
  show ?thesis
  proof (cases res)
    case (Inl e)
    with first show ?thesis by (simp add: applyAndMirror_def all)
  next
    case (Inr applied)
    define pr where "pr = (if allowed then pruneStaleChildren r src applied w1 else (w1, None))"
    have two: "(trWrite r src ems)\<^sup>*\<^sup>* (fst st) (fst pr)" unfolding pr_def by (rule rtranclp_trans [OF first second [OF Inr]])
    then have "(trWrite r src ems)\<^sup>*\<^sup>* (fst st) (fst (mirrorStatus r src (fst pr)))" using third by (rule rtranclp_trans)
    with two show ?thesis
      by (cases allowed) (auto simp: applyAndMirror_def all Inr Let_def pr_def case_prod_beta split: option.split)
  qed
qed

subsection \<open>Properties of a run\<close>

text \<open>C23: what a translation run writes. On a live source the run first makes sure the server holds
  the cleanup finalizer and stops if it does not. Objects are applied, and anything is deleted
  or mirrored, only if the mapping succeeds and the readiness gate is open; then every write is
  one of these: applying an emitted object, stamped with its owner and less the fields the live
  schema lacks; deleting a listed child that this source owns and that is not among the objects
  just applied, if the document allows pruning; updating the status of the source, nothing
  else of it, and never its Ready condition.\<close>

theorem translation_writes:
  assumes "Reconciler_Reconcile r ns name (w, cache) = ((w', cache'), res, err)"
    and "tc_Get (rr_Client r) w (mapRefGVK (sp_Source (rr_Spec r))) ns name = Inr src" and "\<not> ob_Deleting (rr_Obj r) src"
  shows "\<exists>w1 fin. ensureFinalizer r src w = (w1, fin) \<and>
    (case fin of Inl _ \<Rightarrow> w' = w1
     | Inr src1 \<Rightarrow> w' = w1 \<or> (\<exists>ems w2 gate. Apply (rr_Cel r) (ob_U (rr_Obj r)) (rr_Spec r) src1 = Inr ems \<and>
         readyToApply r ems w1 = (w2, gate) \<and> (if gate = Inr True then (trWrite r src1 ems)\<^sup>*\<^sup>* w2 w' else w' = w2)))"
proof -
  obtain w1 fin where fin: "ensureFinalizer r src w = (w1, fin)" by fastforce
  have run: "(case fin of Inl e \<Rightarrow> ((w1, cache), noRequeue, Some (TrAPI e))
    | Inr src \<Rightarrow>
      case Apply (rr_Cel r) (ob_U (rr_Obj r)) (rr_Spec r) src of Inl e \<Rightarrow> ((w1, cache), noRequeue, Some (TrMapping e))
      | Inr ems \<Rightarrow>
        case ShouldPrune (rr_Cel r) (rr_Spec r) src of Inl e \<Rightarrow> ((w1, cache), noRequeue, Some (TrMapping e))
        | Inr allowed \<Rightarrow>
          case readyToApply r ems w1 of (w2, Inl e) \<Rightarrow> ((w2, cache), noRequeue, Some (TrAPI e))
          | (w2, Inr False) \<Rightarrow> ((w2, cache), \<lparr>cr_RequeueAfter = DPFNotReadyRequeue\<rparr>, None)
          | (w2, Inr True) \<Rightarrow> (case applyAndMirror r src ems allowed (w2, cache) of (st3, err) \<Rightarrow> (st3, noRequeue, err))) =
      ((w', cache'), res, err)"
    using assms unfolding Reconciler_Reconcile_def Let_def by (simp add: fin)
  show ?thesis
  proof (cases fin)
    case (Inl e)
    with run fin show ?thesis by simp
  next
    case src1: (Inr src1)
    show ?thesis
    proof (cases "is_ok (Apply (rr_Cel r) (ob_U (rr_Obj r)) (rr_Spec r) src1) \<and> is_ok (ShouldPrune (rr_Cel r) (rr_Spec r) src1)")
      case False
      with run src1 have "w' = w1" by (auto split: sum.splits)
      with fin src1 show ?thesis by auto
    next
      case True
      then obtain ems allowed where ok: "Apply (rr_Cel r) (ob_U (rr_Obj r)) (rr_Spec r) src1 = Inr ems"
          "ShouldPrune (rr_Cel r) (rr_Spec r) src1 = Inr allowed"
        by (metis is_ok_def sum.case_eq_if sum.collapse(2))
      obtain w2 gate where gate: "readyToApply r ems w1 = (w2, gate)" by fastforce
      have "if gate = Inr True then (trWrite r src1 ems)\<^sup>*\<^sup>* w2 w' else w' = w2"
        using run src1 ok gate applyAndMirror_writes [OF ok(2), of ems "(w2, cache)"]
        by (auto split: sum.splits bool.splits prod.splits)
      with fin src1 ok gate show ?thesis by auto
    qed
  qed
qed

text \<open>The accessors on JSON objects, and a server that keeps the objects applied to it.\<close>

definition jsonB :: objOps where
  "jsonB = \<lparr>ob_U = jsonU, ob_Kind = topString ''kind'', ob_UID = metaString ''uid'',
     ob_Annotations = (\<lambda>o'. case getParts (JObj o') [''metadata'', ''annotations''] of
        Some (JObj m) \<Rightarrow> fmmap strOf m | _ \<Rightarrow> fmempty),
     ob_SetAnnotations = (\<lambda>l. putMeta ''annotations'' (JObj (fmmap JStr l))),
     ob_OwnerReferences = (\<lambda>o'. map (\<lambda>v. case asMap v of None \<Rightarrow> \<lparr>ow_Kind = '''', ow_Name = '''', ow_UID = ''''\<rparr>
        | Some m \<Rightarrow> \<lparr>ow_Kind = topString ''kind'' m, ow_Name = topString ''name'' m, ow_UID = topString ''uid'' m\<rparr>)
        (NestedSlice o' [''metadata'', ''ownerReferences''])),
     ob_Finalizers = (\<lambda>o'. map strOf (NestedSlice o' [''metadata'', ''finalizers''])),
     ob_SetFinalizers = (\<lambda>l. putMeta ''finalizers'' (JList (map JStr l))),
     ob_Deleting = (\<lambda>o'. metaString ''deletionTimestamp'' o' \<noteq> ''''),
     ob_ClearManagedFields = (\<lambda>o'. o'), ob_SetControllerReference = (\<lambda>_ _. Inl ''no scheme'')\<rparr>"

definition exTClient :: "jobj list TClient" where
  "exTClient = \<lparr>tc_Get = (\<lambda>_ g _ _. if g = mapRefGVK (sp_Source exSpec) then Inr exSource else Inl (NotFound '''')),
     tc_List = (\<lambda>_ _ _. Inr []), tc_Update = (\<lambda>w o'. (w, Inr o')), tc_StatusUpdate = (\<lambda>w _. (w, None)),
     tc_Apply = (\<lambda>w o'. (w @ [o'], Inr o')), tc_Delete = (\<lambda>w _. (w, None)),
     tc_RESTMapping = (\<lambda>_ _. Inl (NoMatch ''''))\<rparr>"

definition exReconciler :: "(jobj list, string, string) Reconciler" where
  "exReconciler = \<lparr>rr_Client = exTClient, rr_Obj = jsonB, rr_Cel = trivialCel, rr_Spec = exSpec, rr_Recognizes = True,
     rr_TargetsInstalled = None, rr_Now = (\<lambda>_. ''2026-01-01T00:00:00Z'')\<rparr>"

theorem translation_writes_witness:
  "\<exists>src1 ems w'. fst (fst (Reconciler_Reconcile exReconciler '''' ''dpu-1'' ([], fmempty))) = w' \<and> w' \<noteq> [] \<and>
     (trWrite exReconciler src1 ems)\<^sup>*\<^sup>* [] w'"
proof -
  obtain w' cache' res err where run: "Reconciler_Reconcile exReconciler '''' ''dpu-1'' ([], fmempty) = ((w', cache'), res, err)"
    by (metis prod.exhaust)
  have "fst (fst (Reconciler_Reconcile exReconciler '''' ''dpu-1'' ([], fmempty))) \<noteq> []" by code_simp
  with run have ne: "w' \<noteq> []" by simp
  have get: "tc_Get (rr_Client exReconciler) [] (mapRefGVK (sp_Source (rr_Spec exReconciler))) '''' ''dpu-1'' = Inr exSource"
    by (simp add: exReconciler_def exTClient_def)
  have live: "\<not> ob_Deleting (rr_Obj exReconciler) exSource" by code_simp
  have fin: "fst (ensureFinalizer exReconciler exSource []) = []" by code_simp
  have gate: "fst (readyToApply exReconciler ems []) = []" for ems
    by (simp add: readyToApply_def lcmBlocks_def exReconciler_def exTClient_def)
  obtain w1 f where f: "ensureFinalizer exReconciler exSource [] = (w1, f)" and rest: "case f of Inl _ \<Rightarrow> w' = w1
     | Inr src1 \<Rightarrow> w' = w1 \<or> (\<exists>ems w2 gate. Apply (rr_Cel exReconciler) (ob_U (rr_Obj exReconciler)) (rr_Spec exReconciler) src1 = Inr ems \<and>
         readyToApply exReconciler ems w1 = (w2, gate) \<and>
         (if gate = Inr True then (trWrite exReconciler src1 ems)\<^sup>*\<^sup>* w2 w' else w' = w2))"
    using translation_writes [OF run get live] by blast
  have "w1 = []" using fin f by simp
  with rest ne obtain src1 ems w2 g where g: "readyToApply exReconciler ems [] = (w2, g)"
      "if g = Inr True then (trWrite exReconciler src1 ems)\<^sup>*\<^sup>* w2 w' else w' = w2"
    by (cases f) auto
  have "w2 = []" using gate [of ems] g(1) by simp
  with g(2) ne have "(trWrite exReconciler src1 ems)\<^sup>*\<^sup>* [] w'" by (simp split: if_splits)
  with run ne show ?thesis by auto
qed

definition exSchema :: jobj where
  "exSchema = fmap_of_list [(''properties'', JObj (fmap_of_list [(''spec'', JObj (fmap_of_list [(''properties'',
     JObj (fmap_of_list [(''nodeName'', JObj fmempty)]))]))]))]"

theorem prune_spec_exact_witness:
  "getParts (JObj (fst (pruneUnknownSpec (fmap_of_list [(''spec'', JObj (fmap_of_list [(''nodeName'', JStr ''w''), (''bad'', JInt 1)]))])
     (Some exSchema)))) [''spec'', ''bad''] = None"
proof -
  let ?obj = "fmap_of_list [(''spec'', JObj (fmap_of_list [(''nodeName'', JStr ''w''), (''bad'', JInt 1)]))]"
  obtain obj' dropped where run: "pruneUnknownSpec ?obj (Some exSchema) = (obj', dropped)" by fastforce
  obtain s where s: "nestedSchema exSchema ''spec'' = Some s" and "\<not> declaredPath s [''bad'']"
    by (auto simp: nestedSchema_def exSchema_def objField_def preserveUnknown_def)
  moreover have "objField ?obj ''spec'' \<noteq> None" by (simp add: objField_def)
  ultimately have "getParts (JObj obj') [''spec'', ''bad''] = None" using prune_spec_exact [OF run s] by blast
  with run show ?thesis by (simp del: getParts.simps)
qed

theorem merge_conditions_exact_witness:
  "\<exists>out. mergeConditions ''t1'' (conditionList exSource)
       [JObj (fmap_of_list [(''type'', JStr ''DPFReady''), (''status'', JStr ''True'')])] = (out, True) \<and>
     mergeConditions ''t2'' out [JObj (fmap_of_list [(''type'', JStr ''DPFReady''), (''status'', JStr ''True'')])] = (out, False)"
proof -
  let ?d = "[JObj (fmap_of_list [(''type'', JStr ''DPFReady''), (''status'', JStr ''True'')])]"
  obtain out ch where run: "mergeConditions ''t1'' (conditionList exSource) ?d = (out, ch)" by fastforce
  have "snd (mergeConditions ''t1'' (conditionList exSource) ?d)" by code_simp
  with run have "ch" by simp
  moreover have "wfConds (conditionList exSource)"
    by (simp add: conditionList_def exSource_def objField_def statusKey_def conditionsKey_def condType_def)
  ultimately show ?thesis using merge_conditions_exact [OF run, of "''t2''"] run by simp
qed

end
