(* ===== verification/LifecycleFacts.thy ===== *)
theory LifecycleFacts
  imports LifecycleController
begin

text \<open>
  Correctness of the lifecycle controller: the merge of owned conditions against a
  specification on the condition list, the writes a reconcile run can make, and the order of
  finalizer and installation.
\<close>

subsection \<open>Merging conditions\<close>

definition settled :: "ownedCondition \<Rightarrow> jv \<Rightarrow> bool" where
  "settled c v \<longleftrightarrow> (\<exists>m. v = JObj m \<and> holdsStr m ''type'' (ow_Type c) \<and> holdsStr m statusKey (ow_Status c) \<and>
     holdsStr m ''reason'' (ow_Reason c) \<and> holdsStr m ''message'' (ow_Message c))"

definition entry :: "jv \<Rightarrow> string \<Rightarrow> jv" where
  "entry v k = (case asMap v of None \<Rightarrow> JNull | Some m \<Rightarrow> (case fmlookup m k of None \<Rightarrow> JNull | Some x \<Rightarrow> x))"

text \<open>What one wanted condition replaces an unsettled entry of its type with.\<close>

definition replacement :: "ownedCondition \<Rightarrow> string \<Rightarrow> jv \<Rightarrow> jv" where
  "replacement c now v = JObj (conditionItem c
     (if entry v statusKey = JStr (ow_Status c) then entry v ''lastTransitionTime'' else JStr now))"

lemma conditionItem_holds [simp]:
  "holdsStr (conditionItem c time) ''type'' t \<longleftrightarrow> t = ow_Type c"
  "holdsStr (conditionItem c time) statusKey s \<longleftrightarrow> s = ow_Status c"
  "holdsStr (conditionItem c time) ''reason'' s \<longleftrightarrow> s = ow_Reason c"
  "holdsStr (conditionItem c time) ''message'' s \<longleftrightarrow> s = ow_Message c"
  by (auto simp: holdsStr_def conditionItem_def statusKey_def)

lemma conditionItem_time [simp]: "fmlookup (conditionItem c time) ''lastTransitionTime'' = Some time"
  by (simp add: conditionItem_def statusKey_def)

lemma ofType_JObj [simp]: "ofType t (JObj m) \<longleftrightarrow> holdsStr m ''type'' t"
  by (simp add: ofType_def asMap_def)

lemma ofType_unique: "ofType t v \<Longrightarrow> ofType t' v \<Longrightarrow> t = t'"
  by (auto simp: ofType_def holdsStr_def split: option.splits)

lemma ofType_replacement [simp]: "ofType t (replacement c now v) \<longleftrightarrow> t = ow_Type c"
  by (simp add: replacement_def)

lemma settled_replacement [simp]: "settled c (replacement c now v)"
  by (simp add: settled_def replacement_def)

lemma settled_fresh [simp]: "settled c (JObj (conditionItem c time))"
  by (simp add: settled_def)

lemma entry_time [simp]: "entry (JObj (conditionItem c time)) ''lastTransitionTime'' = time"
  by (simp add: entry_def asMap_def)

lemma entry_replacement [simp]: "entry (replacement c now v) ''lastTransitionTime'' =
    (if entry v statusKey = JStr (ow_Status c) then entry v ''lastTransitionTime'' else JStr now)"
  by (simp add: replacement_def)

lemma settled_ofType: "settled c v \<Longrightarrow> ofType (ow_Type c) v"
  by (auto simp: settled_def)

lemma upsertFirst_absent: "\<forall>x\<in>set conds. \<not> ofType (ow_Type c) x \<Longrightarrow> upsertFirst c now conds = None"
  by (induction conds) (auto simp: ofType_def split: option.splits)

lemma upsertFirst_present:
  assumes "\<forall>x\<in>set xs. \<not> ofType (ow_Type c) x" and "ofType (ow_Type c) v"
  shows "upsertFirst c now (xs @ v # ys) =
    Some (if settled c v then (xs @ v # ys, False) else (xs @ replacement c now v # ys, True))"
  using assms
proof (induction xs)
  case Nil
  then obtain m where m: "v = JObj m" by (cases v) (auto simp: ofType_def asMap_def)
  with Nil show ?case
    by (auto simp: asMap_def settled_def replacement_def entry_def holdsStr_def split: option.splits)
next
  case (Cons x xs)
  then show ?case by (auto simp: ofType_def split: option.splits)
qed

lemma conds_split:
  obtains (absent) "\<forall>x\<in>set conds. \<not> ofType t x" "find (ofType t) conds = None"
  | (present) xs v ys where "conds = xs @ v # ys" "\<forall>x\<in>set xs. \<not> ofType t x" "ofType t v" "find (ofType t) conds = Some v"
proof (cases "find (ofType t) conds")
  case None
  then show ?thesis using absent by (auto simp: find_None_iff)
next
  case (Some v)
  then have "\<exists>x\<in>set conds. ofType t x" by (metis find_None_iff option.distinct(1))
  from split_list_first_prop [OF this] obtain xs y ys
    where s: "conds = xs @ y # ys" "ofType t y" "\<forall>x\<in>set xs. \<not> ofType t x" by auto
  then have "find (ofType t) conds = Some y" by (induction xs arbitrary: conds) auto
  with s show ?thesis using present by blast
qed

text \<open>The contract of one step, over the first entry of its type.\<close>

definition upserted :: "ownedCondition \<Rightarrow> string \<Rightarrow> jv option \<Rightarrow> jv \<Rightarrow> bool" where
  "upserted c now old v \<longleftrightarrow> settled c v \<and>
     (case old of None \<Rightarrow> entry v ''lastTransitionTime'' = JStr now
      | Some u \<Rightarrow> if settled c u then v = u
          else entry v ''lastTransitionTime'' =
            (if entry u statusKey = JStr (ow_Status c) then entry u ''lastTransitionTime'' else JStr now))"

lemma find_append_skip: "\<forall>x\<in>set xs. \<not> P x \<Longrightarrow> find P (xs @ ys) = find P ys"
  by (induction xs) auto

lemma find_app: "find P (xs @ ys) = (case find P xs of Some x \<Rightarrow> Some x | None \<Rightarrow> find P ys)"
  by (induction xs) auto

lemma upsertOne_spec:
  assumes "upsertOne c now conds = (conds', ch)"
  shows "\<exists>v. find (ofType (ow_Type c)) conds' = Some v \<and> upserted c now (find (ofType (ow_Type c)) conds) v"
    and "t \<noteq> ow_Type c \<Longrightarrow> find (ofType t) conds' = find (ofType t) conds"
    and "(\<And>v. P v \<Longrightarrow> \<not> ofType (ow_Type c) v) \<Longrightarrow> filter P conds' = filter P conds"
    and "ch \<longleftrightarrow> \<not> (\<exists>v. find (ofType (ow_Type c)) conds = Some v \<and> settled c v)"
    and "\<not> ch \<Longrightarrow> conds' = conds"
proof -
  have neq: "t \<noteq> ow_Type c \<Longrightarrow> ofType (ow_Type c) v \<Longrightarrow> \<not> ofType t v" for t v using ofType_unique by blast
  have all: "(\<exists>v. find (ofType (ow_Type c)) conds' = Some v \<and> upserted c now (find (ofType (ow_Type c)) conds) v) \<and>
    (t \<noteq> ow_Type c \<longrightarrow> find (ofType t) conds' = find (ofType t) conds) \<and>
    ((\<forall>v. P v \<longrightarrow> \<not> ofType (ow_Type c) v) \<longrightarrow> filter P conds' = filter P conds) \<and>
    (ch \<longleftrightarrow> \<not> (\<exists>v. find (ofType (ow_Type c)) conds = Some v \<and> settled c v)) \<and> (\<not> ch \<longrightarrow> conds' = conds)"
  proof (cases rule: conds_split [of conds "ow_Type c"])
    case absent
    with assms show ?thesis
      by (auto simp: upsertOne_def upsertFirst_absent find_app upserted_def split: option.split)
  next
    case (present xs v ys)
    have step: "upsertOne c now conds =
        (if settled c v then (conds, False) else (xs @ replacement c now v # ys, True))"
      using present by (simp add: upsertOne_def upsertFirst_present)
    show ?thesis
    proof (cases "settled c v")
      case True
      with step assms present show ?thesis by (auto simp: upserted_def)
    next
      case False
      have none: "find (ofType (ow_Type c)) xs = None" using present(2) by (simp add: find_None_iff)
      have eq: "conds' = xs @ replacement c now v # ys" "ch" using step assms False by auto
      show ?thesis
        using False present none neq eq(2) unfolding eq(1)
        by (auto simp: upserted_def find_app split: option.split)
    qed
  qed
  show "\<exists>v. find (ofType (ow_Type c)) conds' = Some v \<and> upserted c now (find (ofType (ow_Type c)) conds) v"
    "t \<noteq> ow_Type c \<Longrightarrow> find (ofType t) conds' = find (ofType t) conds"
    "(\<And>v. P v \<Longrightarrow> \<not> ofType (ow_Type c) v) \<Longrightarrow> filter P conds' = filter P conds"
    "ch \<longleftrightarrow> \<not> (\<exists>v. find (ofType (ow_Type c)) conds = Some v \<and> settled c v)"
    "\<not> ch \<Longrightarrow> conds' = conds" using all by auto
qed

lemma upsertAll_Cons:
  assumes "upsertAll now i (d # want) conds = (conds', ch)"
  obtains conds1 ch1 ch2 where "upsertOne d (now i) conds = (conds1, ch1)"
    "upsertAll now (Suc i) want conds1 = (conds', ch2)" "ch \<longleftrightarrow> ch1 \<or> ch2"
  using assms by (auto simp: Let_def split: prod.splits)

lemma upsertAll_other:
  "upsertAll now i want conds = (conds', ch) \<Longrightarrow> t \<notin> ow_Type ` set want \<Longrightarrow> find (ofType t) conds' = find (ofType t) conds"
proof (induction want arbitrary: i conds ch)
  case (Cons d want)
  from Cons.prems(1) obtain conds1 ch1 ch2 where s: "upsertOne d (now i) conds = (conds1, ch1)"
      "upsertAll now (Suc i) want conds1 = (conds', ch2)" by (rule upsertAll_Cons)
  with Cons upsertOne_spec(2) [OF s(1)] show ?case by simp
qed simp

lemma upsertAll_filter:
  "upsertAll now i want conds = (conds', ch) \<Longrightarrow> (\<And>v c. P v \<Longrightarrow> c \<in> set want \<Longrightarrow> \<not> ofType (ow_Type c) v) \<Longrightarrow>
     filter P conds' = filter P conds"
proof (induction want arbitrary: i conds ch)
  case (Cons d want)
  from Cons.prems(1) obtain conds1 ch1 ch2 where s: "upsertOne d (now i) conds = (conds1, ch1)"
      "upsertAll now (Suc i) want conds1 = (conds', ch2)" by (rule upsertAll_Cons)
  have "filter P conds' = filter P conds1" using Cons.IH [OF s(2)] Cons.prems(2) by simp
  also have "\<dots> = filter P conds" using upsertOne_spec(3) [OF s(1)] Cons.prems(2) by simp
  finally show ?case .
qed simp

lemma upsertAll_wanted:
  "upsertAll now i want conds = (conds', ch) \<Longrightarrow> distinct (map ow_Type want) \<Longrightarrow> c \<in> set want \<Longrightarrow>
     \<exists>j v. find (ofType (ow_Type c)) conds' = Some v \<and> upserted c (now j) (find (ofType (ow_Type c)) conds) v"
proof (induction want arbitrary: i conds ch)
  case (Cons d want)
  from Cons.prems(1) obtain conds1 ch1 ch2 where s: "upsertOne d (now i) conds = (conds1, ch1)"
      "upsertAll now (Suc i) want conds1 = (conds', ch2)" by (rule upsertAll_Cons)
  show ?case
  proof (cases "c = d")
    case True
    then have "find (ofType (ow_Type c)) conds' = find (ofType (ow_Type c)) conds1"
      using upsertAll_other [OF s(2)] Cons.prems(2) by simp
    with True upsertOne_spec(1) [OF s(1)] show ?thesis by auto
  next
    case False
    with Cons.prems have c: "c \<in> set want" "ow_Type c \<noteq> ow_Type d" by (auto simp: rev_image_eqI)
    with Cons.IH [OF s(2) _ c(1)] Cons.prems(2) upsertOne_spec(2) [OF s(1) c(2)] show ?thesis by auto
  qed
qed simp

lemma upsertAll_changed:
  "upsertAll now i want conds = (conds', ch) \<Longrightarrow> distinct (map ow_Type want) \<Longrightarrow>
     (ch \<longleftrightarrow> \<not> (\<forall>c\<in>set want. \<exists>v. find (ofType (ow_Type c)) conds = Some v \<and> settled c v)) \<and> (\<not> ch \<longrightarrow> conds' = conds)"
proof (induction want arbitrary: i conds ch)
  case (Cons d want)
  from Cons.prems(1) obtain conds1 ch1 ch2 where s: "upsertOne d (now i) conds = (conds1, ch1)"
      "upsertAll now (Suc i) want conds1 = (conds', ch2)" "ch \<longleftrightarrow> ch1 \<or> ch2" by (rule upsertAll_Cons)
  have "find (ofType (ow_Type c)) conds1 = find (ofType (ow_Type c)) conds" if "c \<in> set want" for c
    by (rule upsertOne_spec(2) [OF s(1)]) (use Cons.prems(2) that in \<open>auto simp: rev_image_eqI\<close>)
  then show ?case
    using Cons.IH [OF s(2)] upsertOne_spec(4,5) [OF s(1)] s(3) Cons.prems(2) by auto
qed simp

text \<open>The condition list of an object; a malformed list reads as empty.\<close>

definition conditionsOf :: "DpuOperatorConfig \<Rightarrow> jv list" where
  "conditionsOf cfg = (case existingConditions (statusMap cfg) of Inl _ \<Rightarrow> [] | Inr l \<Rightarrow> l)"

lemma cfgStatus_eta:
  assumes "cfg' = cfg\<lparr>cfgStatus := x\<rparr>"
  shows "cfg' = cfg\<lparr>cfgStatus := cfgStatus cfg'\<rparr>" and "cfg'\<lparr>cfgStatus := x\<rparr> = cfg'"
  by (simp_all add: assms)

lemma statusMap_update [simp]: "statusMap (cfg\<lparr>cfgStatus := Some (JObj m)\<rparr>) = m"
  by (simp add: statusMap_def asMap_def)

lemma existingConditions_update [simp]: "existingConditions (fmupd ''conditions'' (JList l) m) = Inr l"
  by (simp add: existingConditions_def asList_def)

lemma mergeOwnedConditions_run:
  assumes "mergeOwnedConditions now cfg want = Inr (cfg', changed)"
  shows "upsertAll now 0 want (conditionsOf cfg) = (if changed then conditionsOf cfg' else fst (upsertAll now 0 want (conditionsOf cfg)), changed)"
    and "cfg' = cfg\<lparr>cfgStatus := Some (JObj (statusMap cfg'))\<rparr>"
    and "\<forall>k. k \<noteq> ''conditions'' \<longrightarrow> fmlookup (statusMap cfg') k = fmlookup (statusMap cfg) k"
    and "\<not> changed \<Longrightarrow> statusMap cfg' = statusMap cfg"
    and "existingConditions (statusMap cfg') = Inr (conditionsOf cfg')"
proof -
  obtain conds where conds: "existingConditions (statusMap cfg) = Inr conds"
    using assms by (cases "existingConditions (statusMap cfg)") (auto simp: mergeOwnedConditions_def)
  obtain conds' ch where all: "upsertAll now 0 want conds = (conds', ch)" by fastforce
  have eq: "cfg' = cfg\<lparr>cfgStatus := Some (JObj (if ch then fmupd ''conditions'' (JList conds') (statusMap cfg) else statusMap cfg))\<rparr>"
      "changed = ch"
    using assms by (auto simp: mergeOwnedConditions_def Let_def conds all split: if_splits)
  show "upsertAll now 0 want (conditionsOf cfg) = (if changed then conditionsOf cfg' else fst (upsertAll now 0 want (conditionsOf cfg)), changed)"
    "cfg' = cfg\<lparr>cfgStatus := Some (JObj (statusMap cfg'))\<rparr>"
    "\<forall>k. k \<noteq> ''conditions'' \<longrightarrow> fmlookup (statusMap cfg') k = fmlookup (statusMap cfg) k"
    "\<not> changed \<Longrightarrow> statusMap cfg' = statusMap cfg"
    "existingConditions (statusMap cfg') = Inr (conditionsOf cfg')"
    unfolding eq by (simp_all add: conditionsOf_def conds all)
qed

subsection \<open>RetryOnConflict\<close>

abbreviation retryContract :: "'w retrier \<Rightarrow> bool" where
  "retryContract retry \<equiv> retryContractOn isConflictErr retry"

abbreviation retryLoop :: "nat \<Rightarrow> 'w retrier" where
  "retryLoop n \<equiv> retryLoopOn isConflictErr n"

subsection \<open>The writes of a run\<close>

definition lifecycleTypes :: "string list" where
  "lifecycleTypes = [SupportedConditionType, OperatorReadyConditionType, DPUReadyConditionType, CleanupConditionType]"

definition foreignCondition :: "jv \<Rightarrow> bool" where
  "foreignCondition v \<longleftrightarrow> (\<forall>t\<in>set lifecycleTypes. \<not> ofType t v)"

text \<open>\<open>cfg\<close> is \<open>fresh\<close> up to lifecycle conditions, or up to the cleanup finalizer.\<close>

definition ownedOnly :: "DpuOperatorConfig \<Rightarrow> DpuOperatorConfig \<Rightarrow> bool" where
  "ownedOnly fresh cfg \<longleftrightarrow> cfg = fresh\<lparr>cfgStatus := cfgStatus cfg\<rparr> \<and>
     (\<forall>k. k \<noteq> ''conditions'' \<longrightarrow> fmlookup (statusMap cfg) k = fmlookup (statusMap fresh) k) \<and>
     filter foreignCondition (conditionsOf cfg) = filter foreignCondition (conditionsOf fresh)"

definition finalizerOnly :: "DpuOperatorConfig \<Rightarrow> DpuOperatorConfig \<Rightarrow> bool" where
  "finalizerOnly fresh cfg \<longleftrightarrow> cfg = fresh\<lparr>cfgFinalizers := cfgFinalizers cfg\<rparr> \<and>
     filter (\<lambda>f. f \<noteq> CleanupFinalizer) (cfgFinalizers cfg) = filter (\<lambda>f. f \<noteq> CleanupFinalizer) (cfgFinalizers fresh)"

text \<open>
  The calls a run may make that change the cluster, each from what the server holds at that
  moment; the sweep of dataplane objects belongs to a deletion.
\<close>

inductive lcmWrite :: "('s, 'o, 'w) LifecycleManager \<Rightarrow> 'w LCMClient \<Rightarrow> bool \<Rightarrow> 'w \<Rightarrow> 'w \<Rightarrow> bool"
  for r :: "('s, 'o, 'w) LifecycleManager" and c :: "'w LCMClient" and deleting :: bool where
  status: "kc_GetConfig c w ns name = Inr fresh \<Longrightarrow> ownedOnly fresh cfg \<Longrightarrow>
     lcmWrite r c deleting w (fst (kc_StatusUpdate c w cfg))"
| claim: "\<not> deleting \<Longrightarrow> kc_GetConfig c w ns name = Inr fresh \<Longrightarrow> KnownVendor (ResolveVendor (Some fresh)) \<Longrightarrow>
     finalizerOnly fresh cfg \<Longrightarrow> ContainsFinalizer cfg CleanupFinalizer \<Longrightarrow>
     lcmWrite r c deleting w (fst (kc_Update c w cfg))"
| release: "deleting \<Longrightarrow> kc_GetConfig c w ns name = Inr fresh \<Longrightarrow> finalizerOnly fresh cfg \<Longrightarrow>
     \<not> ContainsFinalizer cfg CleanupFinalizer \<Longrightarrow> lcmWrite r c deleting w (fst (kc_Update c w cfg))"
| look: "deleting \<Longrightarrow> lcmWrite r c deleting w (fst (ri_Refs (resourceIndex r) w except ns))"
| sweep: "deleting \<Longrightarrow> lcmWrite r c deleting w (fst (ri_DeleteDataplane (resourceIndex r) w ref))"

lemma mergeOwnedConditions_ownedOnly:
  assumes "mergeOwnedConditions now fresh want = Inr (cfg, True)" and "ow_Type ` set want \<subseteq> set lifecycleTypes"
  shows "ownedOnly fresh cfg"
proof -
  note run = mergeOwnedConditions_run [OF assms(1)]
  have "upsertAll now 0 want (conditionsOf fresh) = (conditionsOf cfg, True)" using run(1) by simp
  from upsertAll_filter [OF this, of foreignCondition]
  have "filter foreignCondition (conditionsOf cfg) = filter foreignCondition (conditionsOf fresh)"
    using assms(2) by (auto simp: foreignCondition_def)
  moreover have "cfg = fresh\<lparr>cfgStatus := cfgStatus cfg\<rparr>" using run(2) by (rule cfgStatus_eta(1))
  ultimately show ?thesis using run(3) by (simp add: ownedOnly_def)
qed

lemma upsertAttempt_writes:
  assumes "ow_Type ` set want \<subseteq> set lifecycleTypes"
  shows "(lcmWrite r c d)\<^sup>*\<^sup>* (fst x) (fst (fst (upsertAttempt now c ns name want x)))"
proof -
  obtain w cfg where x: "x = (w, cfg)" by (cases x)
  have "(lcmWrite r c d)\<^sup>*\<^sup>* w (fst (kc_StatusUpdate c w merged))"
    if "kc_GetConfig c w ns name = Inr fresh" "mergeOwnedConditions (now w) fresh want = Inr (merged, True)" for fresh merged
    by (rule r_into_rtranclp, rule lcmWrite.status [OF that(1) mergeOwnedConditions_ownedOnly [OF that(2) assms]])
  then show ?thesis
    by (auto simp: x upsertAttempt_def Let_def split: sum.split prod.split) (metis fst_conv)+
qed

lemma finalizerAttempt_writes:
  "(lcmWrite r c False)\<^sup>*\<^sup>* (fst x) (fst (fst (finalizerAttempt c ns name x)))"
proof -
  obtain w cfg where x: "x = (w, cfg)" by (cases x)
  have "(lcmWrite r c False)\<^sup>*\<^sup>* w (fst (kc_Update c w (AddFinalizer fresh CleanupFinalizer)))"
    if "kc_GetConfig c w ns name = Inr fresh" "KnownVendor (ResolveVendor (Some fresh))" for fresh
    by (rule r_into_rtranclp, rule lcmWrite.claim [OF _ that])
       (auto simp: finalizerOnly_def AddFinalizer_def ContainsFinalizer_def)
  then show ?thesis
    by (auto simp: x finalizerAttempt_def Let_def split: sum.split prod.split)
qed

lemma unfinalizeAttempt_writes:
  "(lcmWrite r c True)\<^sup>*\<^sup>* (fst x) (fst (fst (unfinalizeAttempt c ns name x)))"
proof -
  obtain w cfg where x: "x = (w, cfg)" by (cases x)
  have "(lcmWrite r c True)\<^sup>*\<^sup>* w (fst (kc_Update c w (RemoveFinalizer fresh CleanupFinalizer)))"
    if "kc_GetConfig c w ns name = Inr fresh" for fresh
    by (rule r_into_rtranclp, rule lcmWrite.release [OF _ that])
       (auto simp: finalizerOnly_def RemoveFinalizer_def ContainsFinalizer_def)
  then show ?thesis
    by (auto simp: x unfinalizeAttempt_def Let_def split: sum.split prod.split)
qed

lemma retry_writes:
  assumes "retryContract retry" and "\<And>x. (lcmWrite r c d)\<^sup>*\<^sup>* (fst x) (fst (fst (f x)))"
  shows "(lcmWrite r c d)\<^sup>*\<^sup>* w (fst (fst (retry f (w, cfg))))"
  using retried_inv [of isConflictErr f "(w, cfg)" "retry f (w, cfg)" "\<lambda>x y. (lcmWrite r c d)\<^sup>*\<^sup>* (fst x) (fst y)"] assms
  by (simp add: retryContractOn_def)

lemma deletePlane_moves:
  assumes "\<And>x ref. R\<^sup>*\<^sup>* x (fst (ri_DeleteDataplane idx x ref))"
  shows "R\<^sup>*\<^sup>* x (fst (deletePlane idx live ds x deleted skp))"
proof (induction ds arbitrary: x deleted skp)
  case (Cons d ds)
  obtain x1 err where del: "ri_DeleteDataplane idx x d = (x1, err)" by (cases "ri_DeleteDataplane idx x d")
  have "R\<^sup>*\<^sup>* x x1" using assms [of x d] del by simp
  with Cons.IH del show ?case by (auto simp: Let_def split: option.split intro: rtranclp_trans)
qed simp

lemma CleanupInstallations_moves:
  assumes "\<And>x a b. R\<^sup>*\<^sup>* x (fst (ri_Refs idx x a b))" and "\<And>x ref. R\<^sup>*\<^sup>* x (fst (ri_DeleteDataplane idx x ref))"
  shows "R\<^sup>*\<^sup>* x (fst (snd (CleanupInstallations helm idx allow cfg s x)))"
proof -
  have exec: "R\<^sup>*\<^sup>* x (fst (snd (executePlan c idx install except plan out s x)))" for c install except plan out s x
  proof -
    obtain x1 live e where refs: "ri_Refs idx x except (ic_Namespace install) = (x1, live, e)" by (metis prod_cases3)
    obtain x2 dl sk where del: "deletePlane idx live (cp_DeleteDataplane plan) x1 [] (cu_Skipped out) = (x2, dl, sk)" by (metis prod_cases3)
    have "R\<^sup>*\<^sup>* x x2"
      using assms(1) [of x except "ic_Namespace install"] deletePlane_moves [OF assms(2), of x1 live "cp_DeleteDataplane plan" "[]" "cu_Skipped out"]
      by (simp add: refs del)
    then show ?thesis by (auto simp: executePlan_def Let_def refs del split: prod.split option.split)
  qed
  show ?thesis
  proof (cases helm)
    case None
    then show ?thesis by (simp add: CleanupInstallations_def Let_def split: prod.split)
  next
    case (Some c)
    define except where "except = (case cfg of None \<Rightarrow> [] | Some c \<Rightarrow> cfgName c)"
    obtain x1 refs refErr where refs: "ri_Refs idx x except DefaultNamespace = (x1, refs, refErr)" by (metis prod_cases3)
    have x1: "R\<^sup>*\<^sup>* x x1" using assms(1) [of x except DefaultNamespace] refs by simp
    have "R\<^sup>*\<^sup>* x (fst (snd (executePlan c idx nvidiaConfig except plan out s x1)))" for plan out s
      using x1 exec by (rule rtranclp_trans)
    with x1 show ?thesis
      by (auto simp: CleanupInstallations_def Let_def Some except_def [symmetric] refs split: prod.split option.split)
  qed
qed

lemma Detecting_Ensure_state: "fst (Detecting_Ensure ctx mapper i st) = st"
  by (simp add: Detecting_Ensure_def Let_def split: option.split)

lemma olmWithDetect_world: "snd (snd (fst (olmWithDetect_Ensure ctx olm mapper i (s, o', w)))) = w"
  using Detecting_Ensure_state [of ctx mapper i] by (simp add: olmWithDetect_Ensure_def Let_def split: prod.split)

lemma helmWithDetect_world:
  assumes "\<And>s. snd (snd (fst (n i (s, o', w)))) = w"
  shows "snd (snd (fst (helmWithDetect_Ensure ctx h (Some n) i (s, o', w)))) = w"
  using assms by (simp add: helmWithDetect_Ensure_def Let_def split: prod.split)

lemma installer_world:
  assumes "lm_Installer r = None"
  shows "snd (snd (fst (installer ctx r i (s, o', w)))) = w"
  by (cases "lm_Helm r"; cases "lm_OLM r")
     (simp_all add: installer_def assms Let_def helmWithDetect_world olmWithDetect_world Detecting_Ensure_state)

lemma EnsureInstalled_world:
  assumes "lm_Installer r = None" and "EnsureInstalled ctx r cfg (s, o', w) = ((s', o'', w'), res, err)"
  shows "w' = w"
proof -
  from EnsureInstalled_cases [of ctx r cfg "(s, o', w)"]
  consider "stopped (s, o', w) ((s', o'', w'), res, err)" | "installed ctx r cfg (s, o', w) ((s', o'', w'), res, err)"
    unfolding assms(2) by auto
  then show ?thesis
  proof cases
    case 1
    then show ?thesis by (simp add: stopped_def)
  next
    case 2
    then have "fst (installer ctx r (ParseIntent cfg) (s, o', w)) = (s', o'', w')" by (auto simp: installed_def)
    with installer_world [OF assms(1), of ctx "ParseIntent cfg" s o' w] show ?thesis by simp
  qed
qed

lemma ensureCleanupFinalizer_writes:
  assumes "retryContract retry"
  shows "(lcmWrite r c False)\<^sup>*\<^sup>* w (fst (fst (ensureCleanupFinalizer retry c ns name (w, cfg))))"
  using retry_writes [OF assms, of r c False "finalizerAttempt c ns name" w cfg, OF finalizerAttempt_writes]
  by (simp add: ensureCleanupFinalizer_def)

lemma upsertConditions_writes:
  assumes "retryContract retry" and "lm_Client r = Some c" and "ow_Type ` set want \<subseteq> set lifecycleTypes"
  shows "(lcmWrite r c d)\<^sup>*\<^sup>* w (fst (fst (upsertConditions retry r want (w, cfg))))"
  using retry_writes [OF assms(1) upsertAttempt_writes [OF assms(3)]] assms(2) by (simp add: upsertConditions_def)

lemma ownedConditions_types: "map ow_Type (ownedConditions out) = [SupportedConditionType, OperatorReadyConditionType, DPUReadyConditionType]"
  by (simp add: ownedConditions_def Let_def split: prod.split)

lemma ownedConditions_lifecycle: "ow_Type ` set (ownedConditions out) \<subseteq> set lifecycleTypes"
proof -
  have "ow_Type ` set (ownedConditions out) = set (map ow_Type (ownedConditions out))" by simp
  also have "\<dots> \<subseteq> set lifecycleTypes" unfolding ownedConditions_types by (simp add: lifecycleTypes_def)
  finally show ?thesis .
qed

lemma reconcileCleanup_writes:
  assumes "retryContract retry" and "lm_Client r = Some c"
  shows "(lcmWrite r c True)\<^sup>*\<^sup>* w (fst (snd (reconcileCleanup retry r c cfg s w)))"
proof -
  obtain s1 w1 got where clean: "CleanupInstallations (lm_Helm r) (resourceIndex r) (lm_AllowCRDDeletion r) (Some cfg) s w = (s1, w1, got)"
    by (metis prod_cases3)
  obtain w2 cfg2 err where ups: "upsertConditions retry r [cleanupCondition got] (w1, cfg) = ((w2, cfg2), err)" by (metis prod.exhaust)
  obtain w3 cfg3 err3 where rm: "removeCleanupFinalizer retry c (cfgNamespace cfg2) (cfgName cfg2) (w2, cfg2) = ((w3, cfg3), err3)"
    by (metis prod.exhaust)
  have "(lcmWrite r c True)\<^sup>*\<^sup>* w w1"
    using CleanupInstallations_moves [of "lcmWrite r c True" "resourceIndex r" w "lm_Helm r" "lm_AllowCRDDeletion r" "Some cfg" s]
    by (simp add: clean r_into_rtranclp lcmWrite.look lcmWrite.sweep)
  moreover have "(lcmWrite r c True)\<^sup>*\<^sup>* w1 w2"
    using upsertConditions_writes [OF assms, of "[cleanupCondition got]" True w1 cfg]
    unfolding ups by (simp add: cleanupCondition_def lifecycleTypes_def)
  moreover have "(lcmWrite r c True)\<^sup>*\<^sup>* w2 w3"
    using retry_writes [OF assms(1), of r c True "unfinalizeAttempt c (cfgNamespace cfg2) (cfgName cfg2)" w2 cfg2,
        OF unfinalizeAttempt_writes] rm by (simp add: removeCleanupFinalizer_def)
  ultimately show ?thesis
    by (auto simp: reconcileCleanup_def clean ups rm Let_def split: option.split intro: rtranclp_trans)
qed

text \<open>The object EnsureInstalled runs on: the server holds its finalizer, or has accepted it.\<close>

definition finalizerStored :: "'w LCMClient \<Rightarrow> string \<Rightarrow> string \<Rightarrow> DpuOperatorConfig \<Rightarrow> bool" where
  "finalizerStored c ns name cfg \<longleftrightarrow>
     (\<exists>w. kc_GetConfig c w ns name = Inr cfg \<and> ContainsFinalizer cfg CleanupFinalizer) \<or>
     (\<exists>w w' sent. kc_Update c w sent = (w', Inr cfg) \<and> ContainsFinalizer sent CleanupFinalizer)"

lemma finalizerAttempt_stored:
  assumes "finalizerAttempt c ns name x = ((w', cfg'), None)" and "KnownVendor (ResolveVendor (Some cfg'))"
  shows "finalizerStored c ns name cfg'"
proof -
  have "ContainsFinalizer (AddFinalizer fresh CleanupFinalizer) CleanupFinalizer" for fresh
    by (simp add: AddFinalizer_def ContainsFinalizer_def)
  with assms show ?thesis
    by (auto simp: finalizerAttempt_def finalizerStored_def Let_def split: prod.splits sum.splits if_splits) blast
qed

lemma ensureCleanupFinalizer_stored:
  assumes "retryContract retry" and "ensureCleanupFinalizer retry c ns name (w, cfg) = ((w', cfg'), None)"
    and "kc_GetConfig c w ns name = Inr cfg" and "KnownVendor (ResolveVendor (Some cfg'))"
  shows "finalizerStored c ns name cfg'"
proof (cases "KnownVendor (ResolveVendor (Some cfg)) \<and> \<not> ContainsFinalizer cfg CleanupFinalizer")
  case True
  with assms(2) have "retry (finalizerAttempt c ns name) (w, cfg) = ((w', cfg'), None)"
    by (simp add: ensureCleanupFinalizer_def)
  moreover have "retriedOn isConflictErr (finalizerAttempt c ns name) (w, cfg) (retry (finalizerAttempt c ns name) (w, cfg))"
    using assms(1) by (simp add: retryContractOn_def)
  ultimately obtain y where "finalizerAttempt c ns name y = ((w', cfg'), None)" by (metis retried_last)
  then show ?thesis using assms(4) by (rule finalizerAttempt_stored)
next
  case False
  with assms show ?thesis by (auto simp: ensureCleanupFinalizer_def finalizerStored_def split: if_splits)
qed

lemma Reconcile_steps:
  assumes "Reconcile retry ctx r ns name (s, o', w) = Some ((s', o'', w'), res, err)" and "lm_Client r = Some c"
  obtains (unread) e where "kc_GetConfig c w ns name = Inl e" "s' = s" "o'' = o'" "w' = w"
  | (cleanup) cfg where "kc_GetConfig c w ns name = Inr cfg" "cfgDeleting cfg" "o'' = o'"
      "reconcileCleanup retry r c cfg s w = (s', w', err)"
  | (unclaimed) cfg cfg1 e where "kc_GetConfig c w ns name = Inr cfg" "\<not> cfgDeleting cfg"
      "ensureCleanupFinalizer retry c ns name (w, cfg) = ((w', cfg1), Some e)" "s' = s" "o'' = o'"
  | (ensured) cfg w1 cfg1 w2 out ierr where "kc_GetConfig c w ns name = Inr cfg" "\<not> cfgDeleting cfg"
      "ensureCleanupFinalizer retry c ns name (w, cfg) = ((w1, cfg1), None)"
      "EnsureInstalled ctx r (Some cfg1) (s, o', w1) = ((s', o'', w2), out, ierr)"
      "w' = w2 \<or> w' = fst (fst (setOwnedConditions retry r out (w2, cfg1)))"
  using assms
  by (auto simp: Reconcile_def Let_def split: sum.splits if_splits prod.splits option.splits)

subsection \<open>Properties\<close>

text \<open>C19: a run writes only what the manager owns. With the installers of the package, whatever a
  reconcile run does to the cluster is a sequence of the following calls, each based on the
  object the server holds at that moment: a status update that leaves every condition of
  another writer (Ready in particular), every other status key and the rest of the object as
  they are; on a live object of a known vendor, an update that adds the cleanup finalizer and
  changes no other; on a deleted object, an update that removes it, and the lookups and
  deletions of the dependency index.\<close>

theorem reconcile_write_discipline:
  assumes "retryContract retry" and "lm_Client r = Some c" and "lm_Installer r = None"
    and "Reconcile retry ctx r ns name (s, o', w) = Some ((s', o'', w'), res, err)"
  shows "(lcmWrite r c (case kc_GetConfig c w ns name of Inl _ \<Rightarrow> False | Inr cfg \<Rightarrow> cfgDeleting cfg))\<^sup>*\<^sup>* w w'"
  using assms(4,2)
proof (cases rule: Reconcile_steps)
  case (ensured cfg w1 cfg1 w2 out ierr)
  have "(lcmWrite r c False)\<^sup>*\<^sup>* w w1" using ensureCleanupFinalizer_writes [OF assms(1), of r c w ns name cfg] ensured(3) by simp
  moreover have "w2 = w1" using EnsureInstalled_world [OF assms(3) ensured(4)] .
  moreover have "(lcmWrite r c False)\<^sup>*\<^sup>* w2 w'"
    using ensured(5) upsertConditions_writes [OF assms(1,2) ownedConditions_lifecycle] by (auto simp: setOwnedConditions_def)
  ultimately have "(lcmWrite r c False)\<^sup>*\<^sup>* w w'" by (metis rtranclp_trans)
  with ensured(1,2) show ?thesis by simp
next
  case (cleanup cfg)
  with reconcileCleanup_writes [OF assms(1,2), of w cfg s] show ?thesis by simp
next
  case (unclaimed cfg cfg1 e)
  with ensureCleanupFinalizer_writes [OF assms(1), of r c w ns name cfg] show ?thesis by simp
qed simp

text \<open>C20: nothing is installed before cleanup is arranged. When a run on a live object changes the
  Helm or the OLM store, it did so by EnsureInstalled on an object whose cleanup finalizer the
  server holds, or which the server returned for an update that carries the finalizer.\<close>

theorem finalizer_before_install:
  assumes "retryContract retry" and "lm_Client r = Some c" and "kc_GetConfig c w ns name = Inr cfg" and "\<not> cfgDeleting cfg"
    and "Reconcile retry ctx r ns name (s, o', w) = Some ((s', o'', w'), res, err)" and "(s', o'') \<noteq> (s, o')"
  shows "\<exists>cfg1 w1 w2 out ierr. finalizerStored c ns name cfg1 \<and>
    EnsureInstalled ctx r (Some cfg1) (s, o', w1) = ((s', o'', w2), out, ierr)"
  using assms(5,2)
proof (cases rule: Reconcile_steps)
  case (ensured cfg0 w1 cfg1 w2 out ierr)
  have "\<not> stopped (s, o', w1) (EnsureInstalled ctx r (Some cfg1) (s, o', w1))"
    using assms(6) by (auto simp: ensured(4) stopped_def)
  then have "in_Known (ParseIntent (Some cfg1))"
    using EnsureInstalled_cases [of ctx r "Some cfg1" "(s, o', w1)"] by (auto simp: cleared_def)
  then have "KnownVendor (ResolveVendor (Some cfg1))"
    by (auto simp: ResolveVendor_def ParseIntent_def emptyIntent_def Let_def split: if_splits option.splits)
  from ensureCleanupFinalizer_stored [OF assms(1) ensured(3,1) this] ensured(4) show ?thesis by blast
qed (use assms in auto)

text \<open>The merge of owned conditions is exact and idempotent. A merge that succeeds changes only
  the condition list; entries of other types keep their content and order; the first entry of
  each wanted type carries the wanted status, reason and message, an entry that already did is
  kept as it is, and a rewritten entry keeps its transition time exactly when the status is
  unchanged. The change flag tells whether the list differs, and a second merge changes nothing.\<close>

theorem merge_owned_exact:
  assumes "mergeOwnedConditions now cfg want = Inr (cfg', changed)" and "distinct (map ow_Type want)"
  shows "cfg' = cfg\<lparr>cfgStatus := cfgStatus cfg'\<rparr> \<and>
    (\<forall>k. k \<noteq> ''conditions'' \<longrightarrow> fmlookup (statusMap cfg') k = fmlookup (statusMap cfg) k) \<and>
    filter (\<lambda>v. \<forall>c\<in>set want. \<not> ofType (ow_Type c) v) (conditionsOf cfg') =
      filter (\<lambda>v. \<forall>c\<in>set want. \<not> ofType (ow_Type c) v) (conditionsOf cfg) \<and>
    (\<forall>c\<in>set want. \<exists>j v. find (ofType (ow_Type c)) (conditionsOf cfg') = Some v \<and>
       upserted c (now j) (find (ofType (ow_Type c)) (conditionsOf cfg)) v) \<and>
    (changed \<longleftrightarrow> conditionsOf cfg' \<noteq> conditionsOf cfg) \<and>
    mergeOwnedConditions later cfg' want = Inr (cfg', False)"
proof -
  note run = mergeOwnedConditions_run [OF assms(1)]
  have all: "upsertAll now 0 want (conditionsOf cfg) = (conditionsOf cfg', changed)"
  proof (cases changed)
    case True
    with run(1) show ?thesis by simp
  next
    case False
    with run(1,4) upsertAll_changed [OF run(1) assms(2)] show ?thesis by (simp add: conditionsOf_def)
  qed
  note wanted = upsertAll_wanted [OF all assms(2)]
  have settled: "\<exists>v. find (ofType (ow_Type c)) (conditionsOf cfg') = Some v \<and> settled c v" if "c \<in> set want" for c
    using wanted [OF that] by (auto simp: upserted_def)
  have diff: "changed \<longleftrightarrow> conditionsOf cfg' \<noteq> conditionsOf cfg"
    using upsertAll_changed [OF all assms(2)] settled by fastforce
  obtain conds2 ch2 where again: "upsertAll later 0 want (conditionsOf cfg') = (conds2, ch2)" by fastforce
  have "\<not> ch2" using upsertAll_changed [OF again assms(2)] settled by blast
  moreover have "cfg'\<lparr>cfgStatus := Some (JObj (statusMap cfg'))\<rparr> = cfg'"
    using run(2) by (rule cfgStatus_eta(2))
  ultimately have "mergeOwnedConditions later cfg' want = Inr (cfg', False)"
    by (simp add: mergeOwnedConditions_def Let_def run(5) again)
  moreover have "cfg' = cfg\<lparr>cfgStatus := cfgStatus cfg'\<rparr>"
    using run(2) by (rule cfgStatus_eta(1))
  ultimately show ?thesis
    using run(3) upsertAll_filter [OF all, of "\<lambda>v. \<forall>c\<in>set want. \<not> ofType (ow_Type c) v"] wanted diff by blast
qed

text \<open>A server that holds one object, and a manager on it.\<close>

definition exServer :: "DpuOperatorConfig LCMClient" where
  "exServer = \<lparr>kc_RESTMapping = (\<lambda>_ _ _ _. False), kc_ListDPUClusters = (\<lambda>_. Inr []),
     kc_GetDeployment = (\<lambda>_ _ _. Inl (NotFound '''')), kc_ListDPUs = (\<lambda>_. Inr []),
     kc_GetConfig = (\<lambda>w ns n. if cfgNamespace w = ns \<and> cfgName w = n then Inr w else Inl (NotFound '''')),
     kc_ListConfigs = (\<lambda>w. Inr [w]), kc_Update = (\<lambda>w c. (c, Inr c)),
     kc_StatusUpdate = (\<lambda>w c. (w\<lparr>cfgStatus := cfgStatus c\<rparr>, Inr (w\<lparr>cfgStatus := cfgStatus c\<rparr>))),
     kc_List = (\<lambda>_ _ _. Inr []), kc_Get = (\<lambda>_ _ _ _. Inl (NotFound '''')), kc_Delete = (\<lambda>w _ _. (w, None))\<rparr>"

definition exController :: "(MemoryHelmClient, MemoryOLMClient, DpuOperatorConfig) LifecycleManager" where
  "exController = \<lparr>lm_Client = Some exServer, lm_Now = (\<lambda>_ _. ''2026-01-01T00:00:00Z''), lm_Installer = None,
     lm_Helm = Some (memoryClient (\<lambda>_. None)), lm_OLM = Some memoryOLM, lm_Probe = Some (staticProbe ReadyClusterProbe),
     lm_Discovery = None, lm_Index = None, lm_AllowCRDDeletion = False\<rparr>"

text \<open>The object of the examples, with a Ready condition written by the daemon.\<close>

definition exObject :: DpuOperatorConfig where
  "exObject = exampleConfig\<lparr>cfgStatus := Some (JObj (fmap_of_list [(''conditions'',
     JList [JObj (fmap_of_list [(''type'', JStr ''Ready''), (''status'', JStr ''True'')])])]))\<rparr>"

abbreviation exRun :: "(MemoryHelmClient \<times> MemoryOLMClient \<times> DpuOperatorConfig) \<times> ctrlResult \<times> rec_err option" where
  "exRun \<equiv> the (Reconcile (retryLoop 4) (\<lambda>_. None) exController (cfgNamespace exObject) (cfgName exObject)
     (newMemoryHelmClient, exOLM, exObject))"

lemma exRun_facts:
  "case exRun of ((s, _, w), _) \<Rightarrow> cfgFinalizers w = [CleanupFinalizer] \<and> \<not> Option.is_none (fmlookup (m_rels s) (pinKey nvidiaConfig))"
  by code_simp

lemma exRun_run:
  obtains s' o'' w' res err where "Reconcile (retryLoop 4) (\<lambda>_. None) exController (cfgNamespace exObject) (cfgName exObject)
     (newMemoryHelmClient, exOLM, exObject) = Some ((s', o'', w'), res, err)"
    and "w' \<noteq> exObject" and "s' \<noteq> newMemoryHelmClient"
proof -
  obtain s' o'' w' res err where run: "Reconcile (retryLoop 4) (\<lambda>_. None) exController (cfgNamespace exObject) (cfgName exObject)
     (newMemoryHelmClient, exOLM, exObject) = Some ((s', o'', w'), res, err)" (is "?run = _")
    by (cases ?run) (auto simp: Reconcile_def exController_def)
  with exRun_facts have "cfgFinalizers w' = [CleanupFinalizer]" "\<not> Option.is_none (fmlookup (m_rels s') (pinKey nvidiaConfig))"
    by simp_all
  then have "w' \<noteq> exObject" "s' \<noteq> newMemoryHelmClient"
    by (auto simp: exObject_def exampleConfig_def newMemoryHelmClient_def)
  with run show ?thesis using that by blast
qed

theorem reconcile_write_discipline_witness:
  "\<exists>w'. snd (snd (fst exRun)) = w' \<and> w' \<noteq> exObject \<and> (lcmWrite exController exServer False)\<^sup>*\<^sup>* exObject w'"
proof (rule exRun_run)
  fix s' o'' w' res err
  assume run: "Reconcile (retryLoop 4) (\<lambda>_. None) exController (cfgNamespace exObject) (cfgName exObject)
     (newMemoryHelmClient, exOLM, exObject) = Some ((s', o'', w'), res, err)" and neq: "w' \<noteq> exObject"
  have "(lcmWrite exController exServer False)\<^sup>*\<^sup>* exObject w'"
    using reconcile_write_discipline [OF retryLoopOn_contract _ _ run, of exServer]
    by (simp add: exController_def exServer_def exObject_def exampleConfig_def)
  with neq run show ?thesis by simp
qed

theorem finalizer_before_install_witness:
  "fst (fst exRun) \<noteq> newMemoryHelmClient \<and> (\<exists>cfg1. finalizerStored exServer (cfgNamespace exObject) (cfgName exObject) cfg1)"
proof (rule exRun_run)
  fix s' o'' w' res err
  assume run: "Reconcile (retryLoop 4) (\<lambda>_. None) exController (cfgNamespace exObject) (cfgName exObject)
     (newMemoryHelmClient, exOLM, exObject) = Some ((s', o'', w'), res, err)" and "s' \<noteq> newMemoryHelmClient"
  then show ?thesis
    using finalizer_before_install [OF retryLoopOn_contract _ _ _ run, of exServer exObject]
    by (auto simp: exController_def exServer_def exObject_def exampleConfig_def)
qed

theorem merge_owned_exact_witness:
  "\<exists>cfg'. mergeOwnedConditions (\<lambda>_. ''t1'') exObject [cleanupCondition startResult] = Inr (cfg', True) \<and>
     mergeOwnedConditions (\<lambda>_. ''t2'') cfg' [cleanupCondition startResult] = Inr (cfg', False)"
proof -
  obtain cfg' ch where run: "mergeOwnedConditions (\<lambda>_. ''t1'') exObject [cleanupCondition startResult] = Inr (cfg', ch)" (is "?run = _")
    by (cases ?run) (auto simp: mergeOwnedConditions_def existingConditions_def exObject_def statusMap_def asMap_def asList_def Let_def
        split: prod.splits if_splits)
  have "snd (projr ?run)" by code_simp
  with run have "ch" by simp
  with merge_owned_exact [OF run, of "\<lambda>_. ''t2''"] run show ?thesis by simp
qed

end
