(* ===== verification/GoEncoding.thy ===== *)
theory GoEncoding
  imports GoStrings
begin

text \<open>
  What the sources use of encoding/base64 (the standard encoding with padding) and of
  \<^verbatim>\<open>strings.NewReplacer\<close>, on byte strings.
\<close>

subsection \<open>encoding/base64\<close>

definition b64Alphabet :: string where
  "b64Alphabet = ''ABCDEFGHIJKLMNOPQRSTUVWXYZabcdefghijklmnopqrstuvwxyz0123456789+/''"

definition enc6 :: "nat \<Rightarrow> char" where
  "enc6 n = b64Alphabet ! n"

definition dec6 :: "char \<Rightarrow> nat option" where
  "dec6 c = (let i = length (takeWhile (\<lambda>x. x \<noteq> c) b64Alphabet) in if i < 64 then Some i else None)"

abbreviation byteOf :: "char \<Rightarrow> nat" where
  "byteOf c \<equiv> of_char c"

fun b64Encode :: "string \<Rightarrow> string" where
  "b64Encode [] = []"
| "b64Encode [a] = [enc6 (byteOf a div 4), enc6 (byteOf a mod 4 * 16), CHR ''='', CHR ''='']"
| "b64Encode [a, b] =
     [enc6 (byteOf a div 4), enc6 (byteOf a mod 4 * 16 + byteOf b div 16), enc6 (byteOf b mod 16 * 4), CHR ''='']"
| "b64Encode (a # b # c # rest) =
     enc6 (byteOf a div 4) # enc6 (byteOf a mod 4 * 16 + byteOf b div 16) #
     enc6 (byteOf b mod 16 * 4 + byteOf c div 64) # enc6 (byteOf c mod 64) # b64Encode rest"

text \<open>One quantum of four characters at a time; padding may end the last one only.\<close>

fun decodeQuanta :: "string \<Rightarrow> string option" where
  "decodeQuanta [] = Some []"
| "decodeQuanta (a # b # c # d # rest) =
     (case (dec6 a, dec6 b) of
        (Some i, Some j) \<Rightarrow>
          if c = CHR ''='' then (if d = CHR ''='' \<and> rest = [] then Some [char_of (i * 4 + j div 16)] else None)
          else (case dec6 c of None \<Rightarrow> None
                | Some k \<Rightarrow>
                    if d = CHR ''='' then
                      (if rest = [] then Some [char_of (i * 4 + j div 16), char_of (j mod 16 * 16 + k div 4)] else None)
                    else (case dec6 d of None \<Rightarrow> None
                          | Some l \<Rightarrow> map_option (\<lambda>r. char_of (i * 4 + j div 16) # char_of (j mod 16 * 16 + k div 4) #
                                        char_of (k mod 4 * 64 + l) # r) (decodeQuanta rest)))
      | _ \<Rightarrow> None)"
| "decodeQuanta _ = None"

text \<open>Line ends are skipped wherever they stand.\<close>

definition b64Decode :: "string \<Rightarrow> string option" where
  "b64Decode s = decodeQuanta (filter (\<lambda>c. c \<noteq> CHR 0x0A \<and> c \<noteq> CHR 0x0D) s)"

lemma enc6_table: "\<forall>n\<in>set [0..<64]. dec6 (enc6 n) = Some n \<and> enc6 n \<noteq> CHR ''='' \<and> enc6 n \<noteq> CHR 0x0A \<and> enc6 n \<noteq> CHR 0x0D"
  by code_simp

lemma enc6_inverse [simp]:
  assumes "n < 64"
  shows "dec6 (enc6 n) = Some n" "enc6 n \<noteq> CHR ''=''" "enc6 n \<noteq> CHR 0x0A" "enc6 n \<noteq> CHR 0x0D"
  using enc6_table assms by auto

lemma byteOf_less: "byteOf c < (256::nat)"
  by (cases c) (simp add: of_char_def horner_sum_simps)

lemma enc_bounds [simp]:
  "byteOf a div 4 < (64::nat)" "byteOf a mod 4 * 16 < (64::nat)" "byteOf b mod 16 * 4 < (64::nat)"
  "byteOf a mod 4 * 16 + byteOf b div 16 < (64::nat)" "byteOf b mod 16 * 4 + byteOf c div 64 < (64::nat)"
  using byteOf_less [of a] byteOf_less [of b] byteOf_less [of c] by linarith+

lemma bytes_join [simp]:
  "byteOf b div 16 div 16 = (0::nat)" "byteOf b div 16 mod 16 = (byteOf b div 16 :: nat)"
  "byteOf c div 64 div 4 = (0::nat)" "byteOf c div 64 mod 4 = (byteOf c div 64 :: nat)"
proof -
  have "byteOf b div 16 < (16::nat)" "byteOf c div 64 < (4::nat)"
    using byteOf_less [of b] byteOf_less [of c] by linarith+
  then show "byteOf b div 16 div 16 = (0::nat)" "byteOf b div 16 mod 16 = (byteOf b div 16 :: nat)"
    "byteOf c div 64 div 4 = (0::nat)" "byteOf c div 64 mod 4 = (byteOf c div 64 :: nat)"
    by simp_all
qed

lemma decode_encode_quanta: "decodeQuanta (b64Encode s) = Some s"
  by (induction s rule: b64Encode.induct) (simp_all)

lemma encode_no_newline: "filter (\<lambda>c. c \<noteq> CHR 0x0A \<and> c \<noteq> CHR 0x0D) (b64Encode s) = b64Encode s"
  by (induction s rule: b64Encode.induct) simp_all

lemma b64Decode_b64Encode [simp]: "b64Decode (b64Encode s) = Some s"
  by (simp only: b64Decode_def encode_no_newline decode_encode_quanta)

lemma b64Encode_Nil [simp]: "b64Encode s = [] \<longleftrightarrow> s = []"
  by (cases s rule: b64Encode.cases) simp_all

subsection \<open>strings.Replacer\<close>

text \<open>
  At each position the first pair of the argument list whose old text stands there is replaced;
  replaced text is not read again. The old texts are not empty.
\<close>

function Replacer :: "(string \<times> string) list \<Rightarrow> string \<Rightarrow> string" where
  "Replacer ps [] = []"
| "Replacer ps (c # s) =
     (case find (\<lambda>p. HasPrefix (c # s) (fst p)) ps of
        Some p \<Rightarrow> snd p @ Replacer ps (drop (length (fst p) - 1) s)
      | None \<Rightarrow> c # Replacer ps s)"
  by pat_completeness auto
termination by (relation "measure (length \<circ> snd)") auto

end
