(* ===== verification/HelmStorage.thy ===== *)
theory HelmStorage
  imports Helm GoEncoding Kube
begin

text \<open>
  pkg/lifecycle/secret_helm_client.go and cluster_helm_client.go: the Helm client of the running
  process. Releases live in Secrets, one per revision, whose payload is the base64 of the gzip of
  a JSON document. Parameters: the Kubernetes client (\<open>SecretAPI\<close> over the cluster
  \<open>'w\<close>), the compressed bytes and the texts of the documents (\<open>HelmCodec\<close>), the
  chart directory (\<open>ChartFiles\<close>, addressed by the elements the code joins to a path) and
  \<^verbatim>\<open>retry.RetryOnConflict\<close>. Mutexes are in theory ReleaseLocks. Revisions are unbounded
  integers: one more than a stored revision never comes near 64 bits.
\<close>

subsection \<open>Objects and parameters\<close>

record Secret =
  sec_Namespace :: string
  sec_Name :: string
  sec_ResourceVersion :: string
  sec_Type :: string
  sec_Labels :: strmap
  sec_Data :: "(string, string) fmap"

text \<open>A rendered template: what the code reads of it, and its whole content.\<close>

record Manifest =
  mf_GVK :: GroupVersionKind
  mf_Namespace :: string
  mf_Name :: string
  mf_ResourceVersion :: string
  mf_Content :: jobj

record ConfigMap =
  cm_Namespace :: string
  cm_Name :: string

text \<open>Lists take a namespace and one label with its value.\<close>

record 'w SecretAPI =
  sa_ListSecrets :: "'w \<Rightarrow> string \<Rightarrow> string \<Rightarrow> string \<Rightarrow> (apiErr, Secret list) result"
  sa_GetSecret :: "'w \<Rightarrow> string \<Rightarrow> string \<Rightarrow> (apiErr, Secret) result"
  sa_CreateSecret :: "'w \<Rightarrow> Secret \<Rightarrow> 'w \<times> apiErr option"
  sa_UpdateSecret :: "'w \<Rightarrow> Secret \<Rightarrow> 'w \<times> apiErr option"
  sa_DeleteSecret :: "'w \<Rightarrow> Secret \<Rightarrow> 'w \<times> apiErr option"
  sa_ListConfigMaps :: "'w \<Rightarrow> string \<Rightarrow> string \<Rightarrow> string \<Rightarrow> (apiErr, ConfigMap list) result"
  sa_DeleteConfigMap :: "'w \<Rightarrow> ConfigMap \<Rightarrow> 'w \<times> apiErr option"
  sa_GetObject :: "'w \<Rightarrow> Manifest \<Rightarrow> (apiErr, Manifest) result"
  sa_CreateObject :: "'w \<Rightarrow> Manifest \<Rightarrow> 'w \<times> apiErr option"
  sa_UpdateObject :: "'w \<Rightarrow> Manifest \<Rightarrow> 'w \<times> apiErr option"

text \<open>The nested structs of a storage document, flattened in the order of their fields.\<close>

record helmStorageRelease =
  sr_Name :: string
  sr_Namespace :: string
  sr_Version :: int
  sr_InfoStatus :: string
  sr_ChartName :: string
  sr_ChartVersion :: string
  sr_Labels :: strmap

record HelmCodec =
  cx_Marshal :: "helmStorageRelease \<Rightarrow> (string, string) result"
  cx_Unmarshal :: "string \<Rightarrow> (string, helmStorageRelease) result"
  cx_Gzip :: "string \<Rightarrow> (string, string) result"
  cx_Gunzip :: "string \<Rightarrow> (string, string) result"

record ChartFiles =
  cf_ReadFile :: "string list \<Rightarrow> (string, string) result"
  cf_ReadDir :: "string list \<Rightarrow> (string, (string \<times> bool) list) result"
  cf_ChartMeta :: "string \<Rightarrow> (string, string \<times> string) result"
  cf_Decode :: "string \<Rightarrow> (string, Manifest) result"

text \<open>The errors that pass through the retry helper, which looks for API conflicts.\<close>

datatype store_err = SLcm lcm_err | SApi apiErr

fun storeErr :: "store_err \<Rightarrow> lcm_err" where
  "storeErr (SLcm e) = e"
| "storeErr (SApi e) = ErrText (apiText e)"

fun storeConflict :: "store_err \<Rightarrow> bool" where
  "storeConflict (SLcm _) = False"
| "storeConflict (SApi e) = IsConflict e"

type_synonym 'x storeRetry = "('x, store_err) retryClosure \<Rightarrow> ('x, store_err) retryClosure"

definition helmStorageSecretType :: string where [const_defs]: "helmStorageSecretType = ''helm.sh/release.v1''"
definition helmStatusSuperseded :: string where [const_defs]: "helmStatusSuperseded = ''superseded''"
definition helmInstanceLabel :: string where [const_defs]: "helmInstanceLabel = ''app.kubernetes.io/instance''"
definition HelmProbeReleaseName :: string where [const_defs]: "HelmProbeReleaseName = ''opi-lcm-probe''"
definition HelmProbeNamespace :: string where [const_defs]: "HelmProbeNamespace = ''opi-lcm-probe''"
definition HelmProbeChartName :: string where [const_defs]: "HelmProbeChartName = ''opi-lcm-probe''"

subsection \<open>Storage documents\<close>

definition emptyStorageRelease :: helmStorageRelease where
  "emptyStorageRelease = \<lparr>sr_Name = '''', sr_Namespace = '''', sr_Version = 0, sr_InfoStatus = '''',
     sr_ChartName = '''', sr_ChartVersion = '''', sr_Labels = fmempty\<rparr>"

definition encodeHelmStorageRelease :: "HelmCodec \<Rightarrow> helmStorageRelease \<Rightarrow> (string, string) result" where
  "encodeHelmStorageRelease cx doc =
     (case cx_Marshal cx doc of Inl e \<Rightarrow> Inl e
      | Inr body \<Rightarrow> (case cx_Gzip cx body of Inl e \<Rightarrow> Inl e | Inr buf \<Rightarrow> Inr (b64Encode buf)))"

definition gunzipBytes :: "HelmCodec \<Rightarrow> string \<Rightarrow> (string, string) result" where
  "gunzipBytes cx raw =
     (if length raw < 2 \<or> raw ! 0 \<noteq> CHR 0x1F \<or> raw ! 1 \<noteq> CHR 0x8B then Inl ''not gzip'' else cx_Gunzip cx raw)"

definition decodeHelmStorageRelease :: "HelmCodec \<Rightarrow> string \<Rightarrow> (string, helmStorageRelease) result" where
  "decodeHelmStorageRelease cx data =
     (if data = '''' then Inl ''helm release payload is empty''
      else
        let raw = (case b64Decode data of None \<Rightarrow> data | Some b \<Rightarrow> b);
            raw' = (case gunzipBytes cx raw of
                      Inr unzipped \<Rightarrow> unzipped
                    | Inl _ \<Rightarrow> (case b64Decode raw of None \<Rightarrow> raw
                        | Some decoded \<Rightarrow> (case gunzipBytes cx decoded of Inr unzipped \<Rightarrow> unzipped | Inl _ \<Rightarrow> raw)))
        in cx_Unmarshal cx raw')"

text \<open>\<^verbatim>\<open>maps.Copy(dst, src)\<close> is \<open>dst ++\<^sub>f src\<close>; an absent payload reads as empty.\<close>

definition releaseFromHelmSecret :: "HelmCodec \<Rightarrow> Secret \<Rightarrow> (string, HelmRelease) result" where
  "releaseFromHelmSecret cx sec =
     (case decodeHelmStorageRelease cx (sget (sec_Data sec) ''release'') of Inl e \<Rightarrow> Inl e
      | Inr doc \<Rightarrow>
          Inr \<lparr>hr_Name = (if sr_Name doc = '''' then sget (sec_Labels sec) helmReleaseNameLabel else sr_Name doc),
               hr_Namespace = (if sr_Namespace doc = '''' then sec_Namespace sec else sr_Namespace doc),
               hr_ChartName = sr_ChartName doc, hr_ChartVersion = sr_ChartVersion doc,
               hr_Status = (if sr_InfoStatus doc = '''' then sget (sec_Labels sec) statusKey else sr_InfoStatus doc),
               hr_Revision = sr_Version doc, hr_LastKnownGood = '''',
               hr_Labels = sec_Labels sec ++\<^sub>f sr_Labels doc\<rparr>)"

text \<open>
  The number \<^verbatim>\<open>strconv.Atoi\<close> returns beside its error: 0 for a text that is no number, the
  nearest bound for one out of range.
\<close>

definition AtoiValue :: "string \<Rightarrow> int" where
  "AtoiValue s =
     (let neg = HasPrefix s ''-'';
          ds = (if neg \<or> HasPrefix s ''+'' then tl s else s);
          n = (if neg then - decimalVal ds else decimalVal ds)
      in if ds = [] \<or> \<not> list_all isDigit ds then 0 else max (- (2 ^ 63)) (min (2 ^ 63 - 1) n))"

text \<open>The loop of latestHelmSecret; the accumulator is the best secret so far with its revision.\<close>

definition storageCandidate :: "Secret \<Rightarrow> bool" where
  "storageCandidate item \<longleftrightarrow> \<not> (sec_Type item \<noteq> helmStorageSecretType \<and> sec_Type item \<noteq> '''') \<and>
     (let status = sget (sec_Labels item) statusKey in
      \<not> (status \<noteq> '''' \<and> status \<noteq> HelmStatusDeployed \<and> status \<noteq> helmStatusSuperseded))"

definition secretVersion :: "Secret \<Rightarrow> int" where
  "secretVersion item = AtoiValue (sget (sec_Labels item) helmReleaseVersionLabel)"

fun latestLoop :: "(Secret \<times> int) option \<Rightarrow> Secret list \<Rightarrow> (Secret \<times> int) option" where
  "latestLoop best [] = best"
| "latestLoop best (item # items) =
     (if \<not> storageCandidate item then latestLoop best items
      else
        let ver = secretVersion item;
            better = (case best of None \<Rightarrow> True
              | Some (_, bestVer) \<Rightarrow> ver > bestVer \<or> (ver = bestVer \<and> sget (sec_Labels item) statusKey = HelmStatusDeployed))
        in latestLoop (if better then Some (item, ver) else best) items)"

definition latestHelmSecret :: "Secret list \<Rightarrow> Secret option" where
  "latestHelmSecret items = map_option fst (latestLoop None items)"

subsection \<open>SecretHelmClient\<close>

definition listReleaseSecrets :: "'w SecretAPI \<Rightarrow> 'w \<Rightarrow> string \<Rightarrow> string \<Rightarrow> (apiErr, Secret list) result" where
  "listReleaseSecrets api w namespace name = sa_ListSecrets api w namespace helmReleaseNameLabel name"

text \<open>\<open>None\<close> is a client with no cluster behind it.\<close>

definition storage_GetRelease :: "HelmCodec \<Rightarrow> 'w SecretAPI option \<Rightarrow> 'w \<Rightarrow> string \<Rightarrow> string \<Rightarrow> HelmRelease \<times> store_err option" where
  "storage_GetRelease cx client w namespace name =
     (case client of None \<Rightarrow> (emptyRelease, Some (SLcm ErrReleaseNotFound))
      | Some api \<Rightarrow>
          (case listReleaseSecrets api w namespace name of
             Inl e \<Rightarrow> if IsForbidden e \<or> IsNotFound e then (emptyRelease, Some (SLcm ErrReleaseNotFound))
                      else (emptyRelease, Some (SApi e))
           | Inr items \<Rightarrow>
               (case latestHelmSecret items of None \<Rightarrow> (emptyRelease, Some (SLcm ErrReleaseNotFound))
                | Some sec \<Rightarrow>
                    (case releaseFromHelmSecret cx sec of Inl e \<Rightarrow> (emptyRelease, Some (SLcm (ErrText e)))
                     | Inr rel \<Rightarrow> (rel, None)))))"

definition sh_GetRelease :: "HelmCodec \<Rightarrow> 'w SecretAPI option \<Rightarrow> 'w \<Rightarrow> string \<Rightarrow> string \<Rightarrow> 'w \<times> relres" where
  "sh_GetRelease cx client w namespace name =
     (let (rel, err) = storage_GetRelease cx client w namespace name in (w, rel, map_option storeErr err))"

definition sh_Install :: "'w \<Rightarrow> InstallConfig \<Rightarrow> jobj \<Rightarrow> 'w \<times> relres" where
  "sh_Install w cfg vals = (w, emptyRelease, Some ErrHelmMutationNotConfigured)"

definition refuseUnlessOwned :: "HelmCodec \<Rightarrow> 'w SecretAPI option \<Rightarrow> 'w \<Rightarrow> InstallConfig \<Rightarrow> 'w \<times> relres" where
  "refuseUnlessOwned cx client w cfg =
     (case storage_GetRelease cx client w (ic_Namespace cfg) (ic_ReleaseName cfg) of
        (_, Some e) \<Rightarrow> (w, emptyRelease, Some (storeErr e))
      | (rel, None) \<Rightarrow>
          if \<not> ManagedByAdapter rel then (w, emptyRelease, Some ErrReleaseUnmanaged)
          else (w, emptyRelease, Some ErrHelmMutationNotConfigured))"

definition sh_Upgrade :: "HelmCodec \<Rightarrow> 'w SecretAPI option \<Rightarrow> 'w \<Rightarrow> InstallConfig \<Rightarrow> jobj \<Rightarrow> 'w \<times> relres" where
  "sh_Upgrade cx client w cfg vals = refuseUnlessOwned cx client w cfg"

definition sh_Rollback :: "HelmCodec \<Rightarrow> 'w SecretAPI option \<Rightarrow> 'w \<Rightarrow> InstallConfig \<Rightarrow> string \<Rightarrow> 'w \<times> relres" where
  "sh_Rollback cx client w cfg toVersion = refuseUnlessOwned cx client w cfg"

definition sh_Uninstall :: "HelmCodec \<Rightarrow> 'w SecretAPI option \<Rightarrow> 'w \<Rightarrow> InstallConfig \<Rightarrow> 'w \<times> relres" where
  "sh_Uninstall cx client w cfg =
     (case storage_GetRelease cx client w (ic_Namespace cfg) (ic_ReleaseName cfg) of
        (_, Some e) \<Rightarrow> (w, emptyRelease, Some (storeErr e))
      | (rel, None) \<Rightarrow>
          if \<not> AllowsDelete (ClassifyReleaseOwnership rel) then (w, emptyRelease, Some ErrReleaseUnmanaged)
          else (w, emptyRelease, Some ErrHelmMutationNotConfigured))"

definition alreadyAdoptedLabels :: "strmap \<Rightarrow> bool" where
  "alreadyAdoptedLabels labels \<longleftrightarrow>
     sget labels ReleaseOwnerLabel = ReleaseOwner \<and> sget labels ReleaseModeLabel = ReleaseModeAdopted"

definition latestStorageSecret :: "'w SecretAPI \<Rightarrow> 'w \<Rightarrow> string \<Rightarrow> string \<Rightarrow> (store_err, Secret) result" where
  "latestStorageSecret api w namespace name =
     (case listReleaseSecrets api w namespace name of Inl e \<Rightarrow> Inl (SApi e)
      | Inr items \<Rightarrow> (case latestHelmSecret items of None \<Rightarrow> Inl (SLcm ErrReleaseNotFound) | Some sec \<Rightarrow> Inr sec))"

text \<open>The closure of ClaimRelease: it works on the cluster and on the variable \<open>claimed\<close>.\<close>

definition claimAttempt ::
    "HelmCodec \<Rightarrow> 'w SecretAPI \<Rightarrow> InstallConfig \<Rightarrow> ('w \<times> HelmRelease, store_err) retryClosure" where
  "claimAttempt cx api cfg = (\<lambda>(w, claimed).
     case storage_GetRelease cx (Some api) w (ic_Namespace cfg) (ic_ReleaseName cfg) of
       (_, Some e) \<Rightarrow> ((w, claimed), Some e)
     | (rel, None) \<Rightarrow>
         if \<not> matchesPinnedRelease rel cfg then ((w, rel), Some (SLcm ErrReleaseUnmanaged))
         else (case latestStorageSecret api w (ic_Namespace cfg) (ic_ReleaseName cfg) of
           Inl e \<Rightarrow> ((w, claimed), Some e)
         | Inr sec \<Rightarrow>
             if alreadyAdoptedLabels (sec_Labels sec) then ((w, rel), None)
             else (case sa_GetSecret api w (sec_Namespace sec) (sec_Name sec) of
               Inl e \<Rightarrow> ((w, claimed), Some (SApi e))
             | Inr fresh \<Rightarrow>
                 if alreadyAdoptedLabels (sec_Labels fresh) then
                   let (r, err) = storage_GetRelease cx (Some api) w (ic_Namespace cfg) (ic_ReleaseName cfg)
                   in ((w, r), err)
                 else (case sa_UpdateSecret api w (fresh\<lparr>sec_Labels := stampAdoptedLabels (sec_Labels fresh)\<rparr>) of
                   (w', Some e) \<Rightarrow> ((w', claimed), Some (SApi e))
                 | (w', None) \<Rightarrow>
                     let (r, err) = storage_GetRelease cx (Some api) w' (ic_Namespace cfg) (ic_ReleaseName cfg)
                     in ((w', r), err)))))"

definition sh_ClaimRelease ::
    "('w \<times> HelmRelease) storeRetry \<Rightarrow> HelmCodec \<Rightarrow> 'w SecretAPI option \<Rightarrow> 'w \<Rightarrow> InstallConfig \<Rightarrow> 'w \<times> relres" where
  "sh_ClaimRelease retry cx client w cfg =
     (case ValidateInstallConfig cfg of Inl e \<Rightarrow> (w, emptyRelease, Some e)
      | Inr _ \<Rightarrow>
          (case client of None \<Rightarrow> (w, emptyRelease, Some ErrReleaseNotFound)
           | Some api \<Rightarrow>
               let ((w', claimed), err) = retry (claimAttempt cx api cfg) (w, emptyRelease)
               in (w', claimed, map_option storeErr err)))"

subsection \<open>ClusterHelmClient\<close>

text \<open>
  The client with the values it was built from: the embedded SecretHelmClient's cluster client,
  which the manager supplies, and the chart directory. Its two retry parameters are one library
  function at the two types of closures the code passes.
\<close>

record 'w ClusterHelmClient =
  ch_Client :: "'w SecretAPI"
  ch_Codec :: HelmCodec
  ch_ChartRoot :: string
  ch_Files :: ChartFiles
  ch_Retry :: "'w storeRetry"
  ch_RetryClaim :: "('w \<times> HelmRelease) storeRetry"

definition NewClusterHelmClient ::
    "'w SecretAPI \<Rightarrow> HelmCodec \<Rightarrow> ChartFiles \<Rightarrow> 'w storeRetry \<Rightarrow> ('w \<times> HelmRelease) storeRetry \<Rightarrow> 'w ClusterHelmClient" where
  "NewClusterHelmClient api cx files retry retryClaim =
     \<lparr>ch_Client = api, ch_Codec = cx, ch_ChartRoot = '''', ch_Files = files, ch_Retry = retry, ch_RetryClaim = retryClaim\<rparr>"

definition ch_GetRelease :: "'w ClusterHelmClient \<Rightarrow> 'w \<Rightarrow> InstallConfig \<Rightarrow> HelmRelease \<times> store_err option" where
  "ch_GetRelease c w cfg = storage_GetRelease (ch_Codec c) (Some (ch_Client c)) w (ic_Namespace cfg) (ic_ReleaseName cfg)"

definition guardMutation :: "'w ClusterHelmClient \<Rightarrow> InstallConfig \<Rightarrow> (lcm_err, unit) result" where
  "guardMutation c cfg =
     (if length (ic_HelmArgs cfg) \<noteq> 0 then Err (ErrText ''helm execution arguments are not allowed'')
      else if ic_ReleaseOwner cfg \<noteq> ReleaseOwner then Err (ErrText ''release owner is not this adapter'')
      else if ic_ReleaseName cfg = '''' \<or> ic_Namespace cfg = '''' \<or> ic_ChartName cfg = '''' \<or> ic_ChartVersion cfg = ''''
        then Err (ErrText ''helm release identity is incomplete'')
      else if ic_ReleaseName cfg = NVIDIAReleaseName then Err ErrHelmMutationNotConfigured
      else if TrimSpace (ch_ChartRoot c) = '''' then Err ErrHelmMutationNotConfigured
      else Ok ())"

definition ownedRelease :: "'w ClusterHelmClient \<Rightarrow> 'w \<Rightarrow> InstallConfig \<Rightarrow> (lcm_err, HelmRelease) result" where
  "ownedRelease c w cfg =
     (case ch_GetRelease c w cfg of (_, Some e) \<Rightarrow> Inl (storeErr e)
      | (rel, None) \<Rightarrow> if \<not> ManagedByAdapter rel then Inl ErrReleaseUnmanaged else Inr rel)"

text \<open>The loop over the template directory.\<close>

definition chartPairs :: "InstallConfig \<Rightarrow> (string \<times> string) list" where
  "chartPairs cfg = [(''{{ .Release.Name }}'', ic_ReleaseName cfg), (''{{ .Release.Namespace }}'', ic_Namespace cfg),
     (''{{ .Chart.Version }}'', ic_ChartVersion cfg)]"

fun renderLoop :: "ChartFiles \<Rightarrow> InstallConfig \<Rightarrow> string list \<Rightarrow> (string \<times> bool) list \<Rightarrow> (string, Manifest list) result" where
  "renderLoop files cfg dir [] = Inr []"
| "renderLoop files cfg dir ((name, isDir) # entries) =
     (if isDir \<or> \<not> HasSuffix name ''.yaml'' then renderLoop files cfg dir entries
      else (case cf_ReadFile files (dir @ [''templates'', name]) of Inl e \<Rightarrow> Inl e
        | Inr raw \<Rightarrow> (case cf_Decode files (Replacer (chartPairs cfg) raw) of Inl e \<Rightarrow> Inl e
        | Inr obj \<Rightarrow>
            let obj' = (if mf_Namespace obj = '''' then obj\<lparr>mf_Namespace := ic_Namespace cfg\<rparr> else obj)
            in map_sum id ((#) obj') (renderLoop files cfg dir entries))))"

definition renderChart :: "'w ClusterHelmClient \<Rightarrow> InstallConfig \<Rightarrow> (string, Manifest list) result" where
  "renderChart c cfg =
     (let files = ch_Files c; dir = [ch_ChartRoot c, ic_ChartVersion cfg] in
      case cf_ReadFile files (dir @ [''Chart.yaml'']) of Inl e \<Rightarrow> Inl e
      | Inr meta \<Rightarrow> (case cf_ChartMeta files meta of Inl e \<Rightarrow> Inl e
      | Inr (name, version) \<Rightarrow>
          if name \<noteq> ic_ChartName cfg \<or> version \<noteq> ic_ChartVersion cfg
          then Inl (''chart '' @ name @ ''@'' @ version @ '' does not match config'')
          else (case cf_ReadDir files (dir @ [''templates'']) of Inl e \<Rightarrow> Inl e
            | Inr entries \<Rightarrow> (case renderLoop files cfg dir entries of Inl e \<Rightarrow> Inl e
              | Inr out \<Rightarrow> if length out = 0 then Inl (''chart '' @ ic_ChartName cfg @ '' has no templates'') else Inr out))))"

text \<open>The text of \<^verbatim>\<open>apierrors.NewConflict\<close> for a resource named after the kind.\<close>

definition alreadyExistsAsConflict :: "GroupVersionKind \<Rightarrow> string \<Rightarrow> apiErr \<Rightarrow> apiErr" where
  "alreadyExistsAsConflict g name err =
     (if \<not> IsAlreadyExists err then err
      else Conflict (''Operation cannot be fulfilled on '' @
             (if gvk_Group g = '''' then gvk_Kind g else gvk_Kind g @ ''.'' @ gvk_Group g) @
             '' '' @ Quote name @ '': '' @ apiText err))"

definition applyOneAttempt :: "'w SecretAPI \<Rightarrow> Manifest \<Rightarrow> ('w, store_err) retryClosure" where
  "applyOneAttempt api obj w =
     (case sa_GetObject api w obj of
        Inl e \<Rightarrow>
          if IsNotFound e then
            let (w', cerr) = sa_CreateObject api w obj
            in (w', map_option (SApi \<circ> alreadyExistsAsConflict (mf_GVK obj) (mf_Name obj)) cerr)
          else (w, Some (SApi e))
      | Inr existing \<Rightarrow>
          let (w', err) = sa_UpdateObject api w (obj\<lparr>mf_ResourceVersion := mf_ResourceVersion existing\<rparr>)
          in (w', map_option SApi err))"

definition ch_applyOne :: "'w ClusterHelmClient \<Rightarrow> Manifest \<Rightarrow> ('w, store_err) retryClosure" where
  "ch_applyOne c obj = ch_Retry c (applyOneAttempt (ch_Client c) obj)"

fun applyManifests :: "'w ClusterHelmClient \<Rightarrow> Manifest list \<Rightarrow> ('w, store_err) retryClosure" where
  "applyManifests c [] w = (w, None)"
| "applyManifests c (obj # objs) w =
     (case ch_applyOne c obj w of (w', Some e) \<Rightarrow> (w', Some e) | (w', None) \<Rightarrow> applyManifests c objs w')"

definition helmReleaseSecretName :: "string \<Rightarrow> int \<Rightarrow> string" where
  "helmReleaseSecretName release revision = ''sh.helm.release.v1.'' @ release @ ''.v'' @ Itoa revision"

text \<open>The labels, the document and the Secret that storeSecret builds.\<close>

definition storeLabels :: "InstallConfig \<Rightarrow> int \<Rightarrow> string \<Rightarrow> strmap" where
  "storeLabels cfg revision status = fmap_of_list
     [(helmReleaseNameLabel, ic_ReleaseName cfg), (helmStorageOwnerLabel, helmStorageOwner), (statusKey, status),
      (helmReleaseVersionLabel, Itoa revision), (ReleaseOwnerLabel, ic_ReleaseOwner cfg), (ReleaseModeLabel, ReleaseModeInstalled)]"

definition storeDoc :: "InstallConfig \<Rightarrow> int \<Rightarrow> string \<Rightarrow> helmStorageRelease" where
  "storeDoc cfg revision status = \<lparr>sr_Name = ic_ReleaseName cfg, sr_Namespace = ic_Namespace cfg, sr_Version = revision,
     sr_InfoStatus = status, sr_ChartName = ic_ChartName cfg, sr_ChartVersion = ic_ChartVersion cfg,
     sr_Labels = storeLabels cfg revision status\<rparr>"

definition releaseSecret :: "InstallConfig \<Rightarrow> int \<Rightarrow> string \<Rightarrow> string \<Rightarrow> Secret" where
  "releaseSecret cfg revision status payload = \<lparr>sec_Namespace = ic_Namespace cfg, sec_Name = helmReleaseSecretName (ic_ReleaseName cfg) revision,
     sec_ResourceVersion = '''', sec_Type = helmStorageSecretType, sec_Labels = storeLabels cfg revision status,
     sec_Data = fmap_of_list [(''release'', payload)]\<rparr>"

definition storeAttempt :: "'w SecretAPI \<Rightarrow> Secret \<Rightarrow> ('w, store_err) retryClosure" where
  "storeAttempt api sec w =
     (case sa_GetSecret api w (sec_Namespace sec) (sec_Name sec) of
        Inl e \<Rightarrow>
          if IsNotFound e then
            let (w', cerr) = sa_CreateSecret api w sec
            in (w', map_option (SApi \<circ> alreadyExistsAsConflict (GVK '''' '''' '''') (sec_Name sec)) cerr)
          else (w, Some (SApi e))
      | Inr existing \<Rightarrow>
          let (w', err) = sa_UpdateSecret api w (sec\<lparr>sec_ResourceVersion := sec_ResourceVersion existing\<rparr>)
          in (w', map_option SApi err))"

definition storeSecret :: "'w ClusterHelmClient \<Rightarrow> InstallConfig \<Rightarrow> HelmRelease \<Rightarrow> string \<Rightarrow> ('w, store_err) retryClosure" where
  "storeSecret c cfg rel status w =
     (case encodeHelmStorageRelease (ch_Codec c) (storeDoc cfg (hr_Revision rel) status) of
        Inl e \<Rightarrow> (w, Some (SLcm (ErrText e)))
      | Inr payload \<Rightarrow> ch_Retry c (storeAttempt (ch_Client c) (releaseSecret cfg (hr_Revision rel) status payload)) w)"

definition supersedeAttempt :: "'w SecretAPI \<Rightarrow> string \<Rightarrow> string \<Rightarrow> ('w, store_err) retryClosure" where
  "supersedeAttempt api namespace name w =
     (case sa_GetSecret api w namespace name of Inl e \<Rightarrow> (w, Some (SApi e))
      | Inr fresh \<Rightarrow>
          let (w', err) = sa_UpdateSecret api w (fresh\<lparr>sec_Labels := fmupd statusKey helmStatusSuperseded (sec_Labels fresh)\<rparr>)
          in (w', map_option SApi err))"

definition markSuperseded :: "'w ClusterHelmClient \<Rightarrow> InstallConfig \<Rightarrow> int \<Rightarrow> ('w, store_err) retryClosure" where
  "markSuperseded c cfg revision =
     ch_Retry c (supersedeAttempt (ch_Client c) (ic_Namespace cfg) (helmReleaseSecretName (ic_ReleaseName cfg) revision))"

definition writeRevision :: "'w ClusterHelmClient \<Rightarrow> InstallConfig \<Rightarrow> int \<Rightarrow> string \<Rightarrow> 'w \<Rightarrow> 'w \<times> relres" where
  "writeRevision c cfg revision lastGood w =
     (case renderChart c cfg of Inl e \<Rightarrow> (w, emptyRelease, Some (ErrText e))
      | Inr manifests \<Rightarrow> (case applyManifests c manifests w of
          (w1, Some e) \<Rightarrow> (w1, emptyRelease, Some (storeErr e))
        | (w1, None) \<Rightarrow>
            let rel = (OwnedRelease cfg)\<lparr>hr_Revision := revision, hr_LastKnownGood := lastGood\<rparr>
            in case storeSecret c cfg rel HelmStatusDeployed w1 of
                 (w2, Some e) \<Rightarrow> (w2, emptyRelease, Some (storeErr e))
               | (w2, None) \<Rightarrow> (let (r, err) = ch_GetRelease c w2 cfg in (w2, r, map_option storeErr err))))"

fun findLoop :: "HelmCodec \<Rightarrow> string \<Rightarrow> Secret list \<Rightarrow> HelmRelease option" where
  "findLoop cx chartVersion [] = None"
| "findLoop cx chartVersion (sec # items) =
     (case releaseFromHelmSecret cx sec of Inl _ \<Rightarrow> findLoop cx chartVersion items
      | Inr rel \<Rightarrow> if versionsEqual (hr_ChartVersion rel) chartVersion then Some rel else findLoop cx chartVersion items)"

definition findRevision :: "'w ClusterHelmClient \<Rightarrow> 'w \<Rightarrow> InstallConfig \<Rightarrow> string \<Rightarrow> (lcm_err, HelmRelease \<times> int) result" where
  "findRevision c w cfg chartVersion =
     (case listReleaseSecrets (ch_Client c) w (ic_Namespace cfg) (ic_ReleaseName cfg) of Inl e \<Rightarrow> Inl (ErrText (apiText e))
      | Inr items \<Rightarrow> (case findLoop (ch_Codec c) chartVersion items of None \<Rightarrow> Inl ErrRollbackFailed
          | Some rel \<Rightarrow> Inr (rel, hr_Revision rel)))"

definition deleted :: "'w \<times> apiErr option \<Rightarrow> 'w \<times> apiErr option" where
  "deleted r = (case r of (w, Some e) \<Rightarrow> if \<not> IsNotFound e then (w, Some e) else (w, None) | (w, None) \<Rightarrow> (w, None))"

fun deleteConfigMaps :: "'w SecretAPI \<Rightarrow> ConfigMap list \<Rightarrow> 'w \<Rightarrow> 'w \<times> apiErr option" where
  "deleteConfigMaps api [] w = (w, None)"
| "deleteConfigMaps api (cm # cms) w =
     (case deleted (sa_DeleteConfigMap api w cm) of (w', Some e) \<Rightarrow> (w', Some e) | (w', None) \<Rightarrow> deleteConfigMaps api cms w')"

definition deleteReleaseObjects :: "'w ClusterHelmClient \<Rightarrow> InstallConfig \<Rightarrow> 'w \<Rightarrow> 'w \<times> apiErr option" where
  "deleteReleaseObjects c cfg w =
     (case sa_ListConfigMaps (ch_Client c) w (ic_Namespace cfg) helmInstanceLabel (ic_ReleaseName cfg) of Inl e \<Rightarrow> (w, Some e)
      | Inr cms \<Rightarrow> deleteConfigMaps (ch_Client c) cms w)"

fun deleteSecrets :: "'w SecretAPI \<Rightarrow> Secret list \<Rightarrow> 'w \<Rightarrow> 'w \<times> apiErr option" where
  "deleteSecrets api [] w = (w, None)"
| "deleteSecrets api (sec # items) w =
     (if sec_Type sec \<noteq> helmStorageSecretType then deleteSecrets api items w
      else (case deleted (sa_DeleteSecret api w sec) of (w', Some e) \<Rightarrow> (w', Some e) | (w', None) \<Rightarrow> deleteSecrets api items w'))"

definition deleteReleaseSecrets :: "'w ClusterHelmClient \<Rightarrow> InstallConfig \<Rightarrow> 'w \<Rightarrow> 'w \<times> apiErr option" where
  "deleteReleaseSecrets c cfg w =
     (case listReleaseSecrets (ch_Client c) w (ic_Namespace cfg) (ic_ReleaseName cfg) of Inl e \<Rightarrow> (w, Some e)
      | Inr items \<Rightarrow> deleteSecrets (ch_Client c) items w)"

definition errorsIsNotFound :: "store_err \<Rightarrow> bool" where
  "errorsIsNotFound err \<longleftrightarrow> err = SLcm ErrReleaseNotFound \<or> Contains (errText (storeErr err)) (errText ErrReleaseNotFound)"

definition ch_Install :: "'w ClusterHelmClient \<Rightarrow> 'w \<Rightarrow> InstallConfig \<Rightarrow> jobj \<Rightarrow> 'w \<times> relres" where
  "ch_Install c w cfg vals =
     (case guardMutation c cfg of Inl e \<Rightarrow> (w, emptyRelease, Some e)
      | Inr _ \<Rightarrow> (case ch_GetRelease c w cfg of
          (_, None) \<Rightarrow> (w, emptyRelease, Some ErrReleaseExists)
        | (_, Some e) \<Rightarrow> if \<not> errorsIsNotFound e then (w, emptyRelease, Some (storeErr e)) else writeRevision c cfg 1 '''' w))"

definition ch_Upgrade :: "'w ClusterHelmClient \<Rightarrow> 'w \<Rightarrow> InstallConfig \<Rightarrow> jobj \<Rightarrow> 'w \<times> relres" where
  "ch_Upgrade c w cfg vals =
     (case guardMutation c cfg of Inl e \<Rightarrow> (w, emptyRelease, Some e)
      | Inr _ \<Rightarrow> (case ownedRelease c w cfg of Inl e \<Rightarrow> (w, emptyRelease, Some e)
      | Inr cur \<Rightarrow> (case markSuperseded c cfg (hr_Revision cur) w of
          (w', Some e) \<Rightarrow> (w', emptyRelease, Some (storeErr e))
        | (w', None) \<Rightarrow> writeRevision c cfg (hr_Revision cur + 1) (hr_ChartVersion cur) w')))"

definition ch_Rollback :: "'w ClusterHelmClient \<Rightarrow> 'w \<Rightarrow> InstallConfig \<Rightarrow> string \<Rightarrow> 'w \<times> relres" where
  "ch_Rollback c w cfg toVersion =
     (case guardMutation c cfg of Inl e \<Rightarrow> (w, emptyRelease, Some e)
      | Inr _ \<Rightarrow> (case ValidateReleaseVersion toVersion of Inl e \<Rightarrow> (w, emptyRelease, Some e)
      | Inr _ \<Rightarrow> (case ownedRelease c w cfg of Inl e \<Rightarrow> (w, emptyRelease, Some e)
      | Inr cur \<Rightarrow> (case findRevision c w cfg toVersion of Inl e \<Rightarrow> (w, emptyRelease, Some e)
      | Inr (prev, _) \<Rightarrow> (case markSuperseded c cfg (hr_Revision cur) w of
          (w', Some e) \<Rightarrow> (w', emptyRelease, Some (storeErr e))
        | (w', None) \<Rightarrow>
            writeRevision c (cfg\<lparr>ic_ChartName := hr_ChartName prev, ic_ChartVersion := hr_ChartVersion prev\<rparr>)
              (hr_Revision cur + 1) (hr_ChartVersion prev) w')))))"

definition ch_Uninstall :: "'w ClusterHelmClient \<Rightarrow> 'w \<Rightarrow> InstallConfig \<Rightarrow> 'w \<times> relres" where
  "ch_Uninstall c w cfg =
     (case guardMutation c cfg of Inl e \<Rightarrow> (w, emptyRelease, Some e)
      | Inr _ \<Rightarrow> (case ownedRelease c w cfg of Inl e \<Rightarrow> (w, emptyRelease, Some e)
      | Inr rel \<Rightarrow>
          if \<not> AllowsDelete (ClassifyReleaseOwnership rel) then (w, emptyRelease, Some ErrReleaseUnmanaged)
          else (case deleteReleaseObjects c cfg w of (w1, Some e) \<Rightarrow> (w1, emptyRelease, Some (ErrText (apiText e)))
            | (w1, None) \<Rightarrow> (case deleteReleaseSecrets c cfg w1 of
                (w2, Some e) \<Rightarrow> (w2, emptyRelease, Some (ErrText (apiText e)))
              | (w2, None) \<Rightarrow> (w2, rel, None)))))"

definition ProbeHelmConfig :: "string \<Rightarrow> InstallConfig" where
  "ProbeHelmConfig version = emptyInstallConfig\<lparr>ic_Vendor := VendorNVIDIA, ic_Namespace := HelmProbeNamespace,
     ic_ChartName := HelmProbeChartName, ic_ChartRepo := ''https://example.invalid/opi-lcm-probe'',
     ic_ChartVersion := version, ic_ReleaseName := HelmProbeReleaseName, ic_ReleaseOwner := ReleaseOwner\<rparr>"

text \<open>
  The method sets: GetRelease and ClaimRelease of the cluster client are those of the embedded
  SecretHelmClient, and neither client is a lastGoodStore.
\<close>

definition secretClient ::
    "('w \<times> HelmRelease) storeRetry \<Rightarrow> HelmCodec \<Rightarrow> 'w SecretAPI option \<Rightarrow> 'w HelmClient" where
  "secretClient retryClaim cx client =
     \<lparr>hc_GetRelease = sh_GetRelease cx client, hc_Install = sh_Install, hc_Upgrade = sh_Upgrade cx client,
      hc_Rollback = sh_Rollback cx client, hc_Uninstall = sh_Uninstall cx client, hc_lastGoodStore = None,
      hc_ClaimRelease = Some (sh_ClaimRelease retryClaim cx client)\<rparr>"

definition clusterClient :: "'w ClusterHelmClient \<Rightarrow> 'w HelmClient" where
  "clusterClient c =
     \<lparr>hc_GetRelease = sh_GetRelease (ch_Codec c) (Some (ch_Client c)), hc_Install = ch_Install c, hc_Upgrade = ch_Upgrade c,
      hc_Rollback = ch_Rollback c, hc_Uninstall = ch_Uninstall c, hc_lastGoodStore = None,
      hc_ClaimRelease = Some (sh_ClaimRelease (ch_RetryClaim c) (ch_Codec c) (Some (ch_Client c)))\<rparr>"

end
