(* ===== verification/HelmStorageFacts.thy ===== *)
theory HelmStorageFacts
  imports HelmStorage HelmFacts
begin

text \<open>
  The running process's Helm client against the Secrets of a cluster. What the code relies on of
  the API server is the locale \<open>secret_store\<close> (\<open>store\<close> gives the Secrets of a
  cluster state); in it the client is shown to keep the contract of theory HelmFacts, so the
  installer's guarantees hold for it, and stored revisions are shown to be read back.
\<close>

subsection \<open>The revision a release is read from\<close>

definition deployedSecret :: "Secret \<Rightarrow> bool" where
  "deployedSecret s \<longleftrightarrow> sget (sec_Labels s) statusKey = HelmStatusDeployed"

text \<open>\<open>s\<close> is at least as good a choice as \<open>x\<close>: a higher revision, or the same and not less deployed.\<close>

definition secretBeats :: "Secret \<Rightarrow> Secret \<Rightarrow> bool" where
  "secretBeats s x \<longleftrightarrow> secretVersion x < secretVersion s \<or>
     secretVersion x = secretVersion s \<and> (deployedSecret x \<longrightarrow> deployedSecret s)"

lemma secretBeats_order: "secretBeats s s" "secretBeats s x \<Longrightarrow> secretBeats x y \<Longrightarrow> secretBeats s y"
  by (auto simp: secretBeats_def)

definition bestOf :: "Secret set \<Rightarrow> (Secret \<times> int) option \<Rightarrow> bool" where
  "bestOf X best \<longleftrightarrow> (case best of None \<Rightarrow> \<forall>x\<in>X. \<not> storageCandidate x
     | Some (s, v) \<Rightarrow> s \<in> X \<and> storageCandidate s \<and> v = secretVersion s \<and> (\<forall>x\<in>X. storageCandidate x \<longrightarrow> secretBeats s x))"

lemma latestLoop_best: "bestOf X best \<Longrightarrow> bestOf (X \<union> set items) (latestLoop best items)"
proof (induction items arbitrary: X best)
  case (Cons item items)
  define better where "better = (case best of None \<Rightarrow> True
    | Some (_, bestVer) \<Rightarrow> secretVersion item > bestVer \<or> (secretVersion item = bestVer \<and> deployedSecret item))"
  have step: "latestLoop best (item # items) = latestLoop
      (if storageCandidate item \<and> better then Some (item, secretVersion item) else best) items"
    by (cases best) (auto simp: better_def deployedSecret_def Let_def)
  have "bestOf (X \<union> {item}) (if storageCandidate item \<and> better then Some (item, secretVersion item) else best)"
    using Cons.prems secretBeats_order
    by (auto simp: bestOf_def better_def secretBeats_def split: option.splits)
  from Cons.IH [OF this] step show ?case by simp
qed simp

lemma latestHelmSecret_best: "bestOf (set items) (map_option (\<lambda>s. (s, secretVersion s)) (latestHelmSecret items))"
proof -
  have "bestOf (set items) (latestLoop None items)"
    using latestLoop_best [of "{}" None items] by (simp add: bestOf_def)
  then show ?thesis by (auto simp: latestHelmSecret_def bestOf_def split: option.splits prod.splits)
qed

subsection \<open>Secrets of the cluster\<close>

abbreviation secretKey :: "Secret \<Rightarrow> string \<times> string" where
  "secretKey s \<equiv> (sec_Namespace s, sec_Name s)"

definition labelled :: "string \<Rightarrow> string \<Rightarrow> string \<Rightarrow> Secret \<Rightarrow> bool" where
  "labelled ns l v s \<longleftrightarrow> sec_Namespace s = ns \<and> fmlookup (sec_Labels s) l = Some v"

abbreviation releaseSecrets :: "string \<Rightarrow> string \<Rightarrow> Secret list \<Rightarrow> Secret list" where
  "releaseSecrets ns n \<equiv> filter (labelled ns helmReleaseNameLabel n)"

definition replaceSecret :: "Secret \<Rightarrow> Secret list \<Rightarrow> Secret list" where
  "replaceSecret s = map (\<lambda>x. if secretKey x = secretKey s then s else x)"

text \<open>The release that the Secrets of a cluster hold under a namespace and a name, and by release key.\<close>

definition releaseAt :: "HelmCodec \<Rightarrow> Secret list \<Rightarrow> string \<Rightarrow> string \<Rightarrow> HelmRelease option" where
  "releaseAt cx xs ns n =
     (case latestHelmSecret (releaseSecrets ns n xs) of None \<Rightarrow> None
      | Some sec \<Rightarrow> (case releaseFromHelmSecret cx sec of Inl _ \<Rightarrow> None | Inr r \<Rightarrow> Some r))"

definition keyNamespace :: "string \<Rightarrow> string" where
  "keyNamespace k = takeWhile (\<lambda>c. c \<noteq> CHR ''/'') k"

definition keyName :: "string \<Rightarrow> string" where
  "keyName k = tl (dropWhile (\<lambda>c. c \<noteq> CHR ''/'') k)"

definition storeView :: "HelmCodec \<Rightarrow> ('w \<Rightarrow> Secret list) \<Rightarrow> 'w \<Rightarrow> string \<Rightarrow> HelmRelease option" where
  "storeView cx store w k = releaseAt cx (store w) (keyNamespace k) (keyName k)"

text \<open>
  \<open>y\<close> is \<open>x\<close> after an adoption of release \<open>ns/n\<close> may have reached it: the same
  but for its resource version or, on a Secret of that release, the two ownership labels too.
\<close>

definition adoptionOf :: "string \<Rightarrow> string \<Rightarrow> Secret \<Rightarrow> Secret \<Rightarrow> bool" where
  "adoptionOf ns n x y \<longleftrightarrow> y = x\<lparr>sec_ResourceVersion := sec_ResourceVersion y\<rparr> \<or>
     labelled ns helmReleaseNameLabel n x \<and>
     y = x\<lparr>sec_ResourceVersion := sec_ResourceVersion y, sec_Labels := stampAdoptedLabels (sec_Labels x)\<rparr>"

abbreviation adoptions :: "string \<Rightarrow> string \<Rightarrow> Secret list \<Rightarrow> Secret list \<Rightarrow> bool" where
  "adoptions ns n \<equiv> list_all2 (adoptionOf ns n)"

lemma label_keys [simp]:
  "helmReleaseNameLabel \<noteq> ReleaseOwnerLabel" "helmReleaseNameLabel \<noteq> ReleaseModeLabel"
  "helmReleaseVersionLabel \<noteq> ReleaseOwnerLabel" "helmReleaseVersionLabel \<noteq> ReleaseModeLabel"
  "statusKey \<noteq> ReleaseOwnerLabel" "statusKey \<noteq> ReleaseModeLabel"
  by (simp_all add: const_defs)

lemma stamped_labels [simp]:
  "fmlookup (stampAdoptedLabels m) helmReleaseNameLabel = fmlookup m helmReleaseNameLabel"
  "fmlookup (stampAdoptedLabels m) helmReleaseVersionLabel = fmlookup m helmReleaseVersionLabel"
  "fmlookup (stampAdoptedLabels m) statusKey = fmlookup m statusKey"
  by (simp_all add: stampAdoptedLabels_other)

lemma stamp_idem [simp]: "stampAdoptedLabels (stampAdoptedLabels m) = stampAdoptedLabels m"
  by (rule fmap_ext) (simp add: stampAdoptedLabels_def)

lemma adoptionOf_refl [simp]: "adoptionOf ns n x x"
  by (simp add: adoptionOf_def)

lemma adoptionOf_trans: "adoptionOf ns n x y \<Longrightarrow> adoptionOf ns n y z \<Longrightarrow> adoptionOf ns n x z"
  by (cases x; cases y; cases z) (auto simp: adoptionOf_def labelled_def)

lemma adoptions_refl [simp]: "adoptions ns n xs xs"
  by (simp add: list_all2_refl)

lemma adoptions_trans: "adoptions ns n xs ys \<Longrightarrow> adoptions ns n ys zs \<Longrightarrow> adoptions ns n xs zs"
  by (rule list_all2_trans [OF adoptionOf_trans])

lemma adoptionOf_reads:
  assumes "adoptionOf ns n x y"
  shows "storageCandidate y = storageCandidate x" "secretVersion y = secretVersion x"
    "deployedSecret y = deployedSecret x" "labelled ns' helmReleaseNameLabel n' y = labelled ns' helmReleaseNameLabel n' x"
  using assms by (cases x; cases y; auto simp: adoptionOf_def storageCandidate_def secretVersion_def deployedSecret_def labelled_def sget_def Let_def)+

lemma latestLoop_rel:
  assumes "list_all2 (adoptionOf ns n) xs ys"
  shows "rel_option (rel_prod (adoptionOf ns n) (=)) b c \<Longrightarrow>
    rel_option (rel_prod (adoptionOf ns n) (=)) (latestLoop b xs) (latestLoop c ys)"
  using assms
proof (induction arbitrary: b c)
  case (Cons x xs y ys)
  note eq = adoptionOf_reads [OF Cons.hyps(1)]
  note dep = eq(3) [unfolded deployedSecret_def]
  show ?case using Cons by (auto simp: eq dep Let_def intro!: Cons.IH split: option.splits elim: option.rel_cases)
qed simp

lemma adoptions_filter: "adoptions ns n xs ys \<Longrightarrow> adoptions ns n (releaseSecrets ns' n' xs) (releaseSecrets ns' n' ys)"
  by (induction rule: list_all2_induct) (auto simp: adoptionOf_reads(4))

lemma adoptions_latest:
  assumes "adoptions ns n xs ys"
  shows "rel_option (adoptionOf ns n) (latestHelmSecret xs) (latestHelmSecret ys)"
  using latestLoop_rel [OF assms, of None None] by (auto simp: latestHelmSecret_def option.rel_map elim: option.rel_cases)

lemma adoptionOf_release:
  assumes "adoptionOf ns n x y" and "releaseFromHelmSecret cx x = Inr r"
  shows "\<exists>r'. releaseFromHelmSecret cx y = Inr r' \<and> relabelled r r'"
    and "\<not> labelled ns helmReleaseNameLabel n x \<Longrightarrow> releaseFromHelmSecret cx y = Inr r"
  using assms
  by (cases x; cases y; auto simp: adoptionOf_def releaseFromHelmSecret_def relabelled_def sget_def stampAdoptedLabels_other split: sum.splits)+

lemma adoptionOf_unreadable:
  "adoptionOf ns n x y \<Longrightarrow> releaseFromHelmSecret cx x = Inl e \<Longrightarrow> releaseFromHelmSecret cx y = Inl e"
  by (cases x; cases y) (auto simp: adoptionOf_def releaseFromHelmSecret_def split: sum.splits)

lemma latest_listed:
  "latestHelmSecret items = Some s \<Longrightarrow> s \<in> set items"
  using latestHelmSecret_best [of items] by (simp add: bestOf_def)

lemma adoptions_releaseAt:
  assumes "adoptions ns n xs ys"
  shows "releaseAt cx xs ns' n' = Some r \<Longrightarrow> \<exists>r'. releaseAt cx ys ns' n' = Some r' \<and> relabelled r r'"
    and "(ns', n') \<noteq> (ns, n) \<Longrightarrow> releaseAt cx ys ns' n' = releaseAt cx xs ns' n'"
proof -
  note rel = adoptions_latest [OF adoptions_filter [OF assms, of ns' n']]
  show "releaseAt cx xs ns' n' = Some r \<Longrightarrow> \<exists>r'. releaseAt cx ys ns' n' = Some r' \<and> relabelled r r'"
    using rel adoptionOf_release(1) by (fastforce simp: releaseAt_def split: option.splits sum.splits elim: option.rel_cases)
  assume other: "(ns', n') \<noteq> (ns, n)"
  show "releaseAt cx ys ns' n' = releaseAt cx xs ns' n'"
  proof (cases "latestHelmSecret (releaseSecrets ns' n' xs)")
    case None
    with rel show ?thesis by (auto simp: releaseAt_def elim: option.rel_cases)
  next
    case (Some x)
    then obtain y where y: "latestHelmSecret (releaseSecrets ns' n' ys) = Some y" "adoptionOf ns n x y"
      using rel by (auto elim: option.rel_cases)
    have "labelled ns' helmReleaseNameLabel n' x" using latest_listed [OF Some] by simp
    with other have "\<not> labelled ns helmReleaseNameLabel n x" by (auto simp: labelled_def)
    with Some y adoptionOf_release(2) [OF y(2)] adoptionOf_unreadable [OF y(2)] show ?thesis
      by (cases "releaseFromHelmSecret cx x") (auto simp: releaseAt_def)
  qed
qed

lemma keys_of_release:
  assumes "CHR ''/'' \<notin> set ns"
  shows "keyNamespace (releaseKey ns n) = ns" "keyName (releaseKey ns n) = n"
proof -
  have "takeWhile (\<lambda>c. c \<noteq> CHR ''/'') (ns @ CHR ''/'' # n) = ns" "dropWhile (\<lambda>c. c \<noteq> CHR ''/'') (ns @ CHR ''/'' # n) = CHR ''/'' # n"
    using assms by (induction ns) auto
  then show "keyNamespace (releaseKey ns n) = ns" "keyName (releaseKey ns n) = n"
    by (simp_all add: keyNamespace_def keyName_def releaseKey_def)
qed

subsection \<open>What the client relies on\<close>

text \<open>
  Lists select by namespace and label, a get returns a Secret that is there, an accepted write
  stores the object under a resource version of the server's choice, a write refused as a
  conflict or a duplicate changes nothing, and any other failed write either happened or did not.
\<close>

locale secret_store =
  fixes api :: "'w SecretAPI" and store :: "'w \<Rightarrow> Secret list"
  assumes list_ok: "sa_ListSecrets api w ns l v = Inr items \<Longrightarrow> items = filter (labelled ns l v) (store w)"
    and get_ok: "sa_GetSecret api w ns n = Inr s \<Longrightarrow> s \<in> set (store w) \<and> secretKey s = (ns, n)"
    and get_none: "sa_GetSecret api w ns n = Inl e \<Longrightarrow> IsNotFound e \<Longrightarrow> (ns, n) \<notin> secretKey ` set (store w)"
    and keys: "distinct (map secretKey (store w))"
    and update_ok: "sa_UpdateSecret api w s = (w', None) \<Longrightarrow>
      \<exists>rv. store w' = replaceSecret (s\<lparr>sec_ResourceVersion := rv\<rparr>) (store w)"
    and update_refused: "sa_UpdateSecret api w s = (w', Some e) \<Longrightarrow> IsConflict e \<Longrightarrow> store w' = store w"
    and update_failed: "sa_UpdateSecret api w s = (w', Some e) \<Longrightarrow> store w' = store w \<or>
      (\<exists>rv. store w' = replaceSecret (s\<lparr>sec_ResourceVersion := rv\<rparr>) (store w))"
    and create_ok: "sa_CreateSecret api w s = (w', None) \<Longrightarrow>
      \<exists>rv before after. store w = before @ after \<and> store w' = before @ s\<lparr>sec_ResourceVersion := rv\<rparr> # after"
    and create_refused: "sa_CreateSecret api w s = (w', Some e) \<Longrightarrow> IsConflict e \<or> IsAlreadyExists e \<Longrightarrow> store w' = store w"
begin

lemma GetRelease_view:
  assumes "storage_GetRelease cx (Some api) w ns n = (rel, None)"
  shows "releaseAt cx (store w) ns n = Some rel"
  using assms list_ok
  by (auto simp: storage_GetRelease_def listReleaseSecrets_def releaseAt_def split: sum.splits option.splits if_splits)

lemma latestStorageSecret_listed:
  "latestStorageSecret api w ns n = Inr sec \<Longrightarrow> sec \<in> set (store w) \<and> labelled ns helmReleaseNameLabel n sec"
  using list_ok latest_listed
  by (fastforce simp: latestStorageSecret_def listReleaseSecrets_def split: sum.splits option.splits)

lemma key_unique: "x \<in> set (store w) \<Longrightarrow> y \<in> set (store w) \<Longrightarrow> secretKey x = secretKey y \<Longrightarrow> x = y"
  using keys [of w] by (meson distinct_map inj_onD)

lemma stamp_adoptions:
  assumes "s \<in> set (store w)" and "labelled ns helmReleaseNameLabel n s"
  shows "adoptions ns n (store w) (replaceSecret (s\<lparr>sec_Labels := stampAdoptedLabels (sec_Labels s), sec_ResourceVersion := rv\<rparr>) (store w))"
proof -
  have "x = s" if "x \<in> set (store w)" "secretKey x = secretKey s" for x
    using key_unique that assms(1) by blast
  then have "adoptionOf ns n x (if secretKey x = secretKey s
      then s\<lparr>sec_Labels := stampAdoptedLabels (sec_Labels s), sec_ResourceVersion := rv\<rparr> else x)" if "x \<in> set (store w)" for x
  proof (cases "secretKey x = secretKey s")
    case True
    with \<open>\<And>x. x \<in> set (store w) \<Longrightarrow> secretKey x = secretKey s \<Longrightarrow> x = s\<close> that have "x = s" by blast
    with assms(2) show ?thesis by (cases s) (simp add: adoptionOf_def)
  next
    case False
    then show ?thesis by (simp only: if_False adoptionOf_refl)
  qed
  then show ?thesis
    by (simp add: replaceSecret_def list_all2_map2 list_all2_same)
qed

lemma claimAttempt_adoptions:
  "adoptions (ic_Namespace cfg) (ic_ReleaseName cfg) (store (fst x)) (store (fst (fst (claimAttempt cx api cfg x))))"
proof -
  obtain w claimed where x: "x = (w, claimed)" by (cases x)
  have upd: "adoptions ns n (store w) (store w')"
    if "latestStorageSecret api w ns n = Inr sec" "sa_GetSecret api w (sec_Namespace sec) (sec_Name sec) = Inr fresh"
      "sa_UpdateSecret api w (fresh\<lparr>sec_Labels := stampAdoptedLabels (sec_Labels fresh)\<rparr>) = (w', err)"
    for ns n sec fresh w' err
  proof -
    have f: "fresh \<in> set (store w)" "secretKey fresh = secretKey sec" using get_ok [OF that(2)] by auto
    have s: "sec \<in> set (store w)" "labelled ns helmReleaseNameLabel n sec"
      using latestStorageSecret_listed [OF that(1)] by auto
    have "fresh = sec" by (rule key_unique [OF f(1) s(1) f(2)])
    with s have st: "adoptions ns n (store w)
        (replaceSecret (fresh\<lparr>sec_Labels := stampAdoptedLabels (sec_Labels fresh), sec_ResourceVersion := rv\<rparr>) (store w))" for rv
      using stamp_adoptions by simp
    show ?thesis
    proof (cases err)
      case None
      with update_ok that(3) st show ?thesis by metis
    next
      case (Some e)
      with update_failed that(3) st adoptions_refl show ?thesis by metis
    qed
  qed
  show ?thesis unfolding x
    using upd [of "ic_Namespace cfg" "ic_ReleaseName cfg"]
    by (auto simp: claimAttempt_def split: prod.split option.split sum.split)
qed

lemma claim_adoptions:
  assumes "retryContractOn storeConflict retry"
  shows "adoptions (ic_Namespace cfg) (ic_ReleaseName cfg) (store w) (store (fst (sh_ClaimRelease retry cx (Some api) w cfg)))"
proof -
  have "retriedOn storeConflict (claimAttempt cx api cfg) (w, emptyRelease) (retry (claimAttempt cx api cfg) (w, emptyRelease))"
    using assms by (simp add: retryContractOn_def)
  then have "adoptions (ic_Namespace cfg) (ic_ReleaseName cfg) (store (fst (w, emptyRelease)))
      (store (fst (fst (retry (claimAttempt cx api cfg) (w, emptyRelease)))))"
    by (rule retried_inv [where I = "\<lambda>x y. adoptions (ic_Namespace cfg) (ic_ReleaseName cfg) (store (fst x)) (store (fst y))"])
      (use claimAttempt_adoptions adoptions_trans in \<open>auto\<close>)
  then show ?thesis by (auto simp: sh_ClaimRelease_def split: sum.split prod.split)
qed

lemma claim_reported:
  assumes "retryContractOn storeConflict retry" and "sh_ClaimRelease retry cx (Some api) w cfg = (w', rel, None)"
  shows "releaseAt cx (store w') (ic_Namespace cfg) (ic_ReleaseName cfg) = Some rel"
proof -
  have run: "retry (claimAttempt cx api cfg) (w, emptyRelease) = ((w', rel), None)"
    using assms(2) by (auto simp: sh_ClaimRelease_def split: sum.splits prod.splits)
  have "retriedOn storeConflict (claimAttempt cx api cfg) (w, emptyRelease) ((w', rel), None)"
    using assms(1) run by (metis retryContractOn_def)
  then obtain y where "claimAttempt cx api cfg y = ((w', rel), None)" by (metis retried_last)
  then show ?thesis
    by (cases y) (auto simp: claimAttempt_def intro: GetRelease_view split: prod.splits option.splits sum.splits if_splits)
qed

end

subsection \<open>Clients that refuse to mutate a release\<close>

text \<open>A client whose reads and refused mutations leave the state alone.\<close>

locale inert_client =
  fixes c :: "'s HelmClient" and cfg :: InstallConfig and refusal :: "'s \<Rightarrow> lcm_err"
  assumes get_same: "fst (hc_GetRelease c s ns n) = s"
    and install_refused: "hc_Install c s cfg vals = (s, emptyRelease, Some (refusal s))"
    and upgrade_refused: "\<exists>e. hc_Upgrade c s cfg vals = (s, emptyRelease, Some e)"
    and rollback_refused: "\<exists>e. hc_Rollback c s cfg to = (s, emptyRelease, Some e)"
    and no_memory: "hc_lastGoodStore c = None"
begin

lemma getPinned_same: "getPinned c s cfg = (s', rel, err) \<Longrightarrow> s' = s"
  using get_same [of s "ic_Namespace cfg" "ic_ReleaseName cfg"] by (simp add: getPinned_def)

lemma rollback_same: "fst (rollbackAfterFailure c s cfg actual before lg le) = s"
proof -
  obtain e where "hc_Rollback c s cfg to = (s, emptyRelease, Some e)" if "to = (if lg = '''' then hr_ChartVersion before else lg)" for to
    using rollback_refused by blast
  moreover obtain got gerr where "getPinned c s cfg = (s, got, gerr)" using getPinned_same by (metis prod_cases3)
  ultimately show ?thesis by (simp add: rollbackAfterFailure_def Let_def)
qed

lemma upgradeLoop_same: "fst (upgradeLoop ctx c cfg vals before lg n le s) = s"
proof (induction n arbitrary: le)
  case 0
  obtain got gerr where "getPinned c s cfg = (s, got, gerr)" using getPinned_same by (metis prod_cases3)
  then show ?case by (simp add: rollback_same)
next
  case (Suc n)
  obtain got gerr where "getPinned c s cfg = (s, got, gerr)" using getPinned_same by (metis prod_cases3)
  moreover obtain e where "hc_Upgrade c s cfg vals = (s, emptyRelease, Some e)" using upgrade_refused by blast
  ultimately show ?case by (simp add: Let_def Suc.IH split: option.split)
qed

lemma rollback_action: "ir_Action (fst (snd (rollbackAfterFailure c s cfg actual before lg le))) = InstallFailed"
proof -
  obtain e where "hc_Rollback c s cfg to = (s, emptyRelease, Some e)" if "to = (if lg = '''' then hr_ChartVersion before else lg)" for to
    using rollback_refused by blast
  then show ?thesis by (simp add: rollbackAfterFailure_def observedResult_def Let_def split: prod.split)
qed

lemma upgradeLoop_action: "ir_Action (fst (snd (upgradeLoop ctx c cfg vals before lg n le s))) \<noteq> InstallInstalled"
proof (induction n arbitrary: le)
  case 0
  show ?case by (simp add: rollback_action split: prod.split)
next
  case (Suc n)
  obtain got gerr where "getPinned c s cfg = (s, got, gerr)" using getPinned_same by (metis prod_cases3)
  moreover obtain e where "hc_Upgrade c s cfg vals = (s, emptyRelease, Some e)" using upgrade_refused by blast
  ultimately show ?case
    by (simp add: Let_def Suc.IH reconcileAfterFailure_def observedResult_def split: option.split)
qed

lemma ensureLocked_action: "ir_Action (fst (snd (ensureLocked ctx h c i cfg s))) \<noteq> InstallInstalled"
proof -
  obtain rel err where g: "getPinned c s cfg = (s, rel, err)" using getPinned_same by (metis prod_cases3)
  have "ir_Action (fst (snd (claimOrLeaveUnmanaged c s i cfg rel))) \<noteq> InstallInstalled"
    by (simp add: claimOrLeaveUnmanaged_def observedResult_def split: option.split prod.split)
  with g show ?thesis
    by (simp add: ensureLocked_def Let_def install_refused installFailure_def upgradeOrRollback_def upgradeLoop_action
        observedResult_def split: option.split)
qed

text \<open>The only state change of an installer over it is one claim, with consent, of the pinned release.\<close>

lemma ensureLocked_state:
  "fst (ensureLocked ctx h c i cfg s) = s \<or>
   (in_AdoptExisting i \<and> (\<exists>claim. hc_ClaimRelease c = Some claim \<and> fst (ensureLocked ctx h c i cfg s) = fst (claim s cfg)))"
proof -
  obtain rel err where g: "getPinned c s cfg = (s, rel, err)" using getPinned_same by (metis prod_cases3)
  have claim: "fst (claimOrLeaveUnmanaged c s i cfg rel) = s \<or>
      (in_AdoptExisting i \<and> (\<exists>claim. hc_ClaimRelease c = Some claim \<and> fst (claimOrLeaveUnmanaged c s i cfg rel) = fst (claim s cfg)))"
    by (auto simp: claimOrLeaveUnmanaged_def split: option.split prod.split)
  show ?thesis
  proof (cases "err = None \<and> \<not> ManagedByAdapter rel")
    case True
    with g claim show ?thesis by (simp add: ensureLocked_def Let_def)
  next
    case False
    with g have "fst (ensureLocked ctx h c i cfg s) = s"
      by (auto simp: ensureLocked_def Let_def install_refused upgradeOrRollback_def upgradeLoop_same remember_def no_memory split: option.split)
    then show ?thesis by simp
  qed
qed

end

lemma Ensure_reaches_pinned:
  assumes "hi_Client h = Some c"
  shows "fst (HelmInstaller_Ensure ctx h i s) = s \<and> ir_Action (fst (snd (HelmInstaller_Ensure ctx h i s))) \<in> {InstallFailed, InstallSkipped} \<or>
    HelmInstaller_Ensure ctx h i s = ensureLocked ctx h c i nvidiaConfig s"
proof -
  have pinned: "cfg = nvidiaConfig" if "DefaultInstallConfig v = Inr cfg" "ValidateArtifactRef cfg = Inr u" for v cfg u
    using that ValidateArtifactRef_ok [OF that(2)]
    by (auto simp: DefaultInstallConfig_def nvidiaConfig_def Let_def split: if_splits)
  show ?thesis
  proof (cases "DefaultInstallConfig (in_Vendor i)")
    case (Inr cfg)
    obtain cfg' pol where p: "ApplyVersionPolicy i cfg = (cfg', pol)" by (cases "ApplyVersionPolicy i cfg")
    then have "cfg' = cfg" using ApplyVersionPolicy_settings [of i cfg] by simp
    with Inr pinned p assms show ?thesis
      by (auto simp: HelmInstaller_Ensure_def installFailure_def split: option.split sum.split)
  qed (auto simp: HelmInstaller_Ensure_def installFailure_def assms split: option.split)
qed

subsection \<open>The clients of the process keep the contract\<close>

locale cluster_store = secret_store "ch_Client c" store
  for c :: "'w ClusterHelmClient" and store :: "'w \<Rightarrow> Secret list" +
  assumes claim_retry: "retryContractOn storeConflict (ch_RetryClaim c)"
    and write_retry: "retryContractOn storeConflict (ch_Retry c)"
begin

abbreviation view :: "'w \<Rightarrow> string \<Rightarrow> HelmRelease option" where
  "view \<equiv> storeView (ch_Codec c) store"

lemma guard_refuses: "guardMutation c nvidiaConfig = Inl ErrHelmMutationNotConfigured"
  by (simp add: guardMutation_def const_defs)

lemma pinned_keys [simp]:
  "keyNamespace (releaseKey DefaultNamespace NVIDIAReleaseName) = DefaultNamespace"
  "keyName (releaseKey DefaultNamespace NVIDIAReleaseName) = NVIDIAReleaseName"
  by (rule keys_of_release; simp add: const_defs)+

end

sublocale cluster_store \<subseteq> inert: inert_client "clusterClient c" nvidiaConfig "\<lambda>_. ErrHelmMutationNotConfigured"
  by unfold_locales (auto simp: clusterClient_def sh_GetRelease_def ch_Install_def ch_Upgrade_def ch_Rollback_def
      guard_refuses split: prod.split)

lemma key_split:
  assumes "keyName k \<noteq> ''''"
  shows "k = releaseKey (keyNamespace k) (keyName k)"
proof -
  define rest where "rest = dropWhile (\<lambda>c. c \<noteq> CHR ''/'') k"
  have "rest \<noteq> []" using assms by (metis keyName_def rest_def list.sel(2))
  then obtain r where r: "rest = CHR ''/'' # r" using hd_dropWhile [of "\<lambda>c. c \<noteq> CHR ''/''" k]
    by (cases rest) (auto simp: rest_def)
  have "k = keyNamespace k @ rest" by (simp add: keyNamespace_def rest_def)
  with r show ?thesis by (simp add: releaseKey_def keyName_def rest_def [symmetric])
qed

context cluster_store
begin

abbreviation claimRelease :: "'w \<Rightarrow> InstallConfig \<Rightarrow> 'w \<times> relres" where
  "claimRelease \<equiv> sh_ClaimRelease (ch_RetryClaim c) (ch_Codec c) (Some (ch_Client c))"

lemma claim_view_other:
  assumes "k \<noteq> pinKey nvidiaConfig"
  shows "view (fst (claimRelease w nvidiaConfig)) k = view w k"
proof -
  have "(keyNamespace k, keyName k) \<noteq> (ic_Namespace nvidiaConfig, ic_ReleaseName nvidiaConfig)"
    using assms key_split [of k] by (auto simp: const_defs)
  then show ?thesis
    using adoptions_releaseAt(2) [OF claim_adoptions [OF claim_retry]] by (simp add: storeView_def)
qed

lemma claim_view_label:
  "view w (pinKey nvidiaConfig) = Some r \<Longrightarrow>
     \<exists>r'. view (fst (claimRelease w nvidiaConfig)) (pinKey nvidiaConfig) = Some r' \<and> relabelled r r'"
  using adoptions_releaseAt(1) [OF claim_adoptions [OF claim_retry]] by (simp add: storeView_def)

lemma refused_ok: "mutationOk view cfg w (w, rel, Some e)"
  by (simp add: mutationOk_def)

lemma refusals [simp]:
  "ch_Install c w nvidiaConfig vals = (w, emptyRelease, Some ErrHelmMutationNotConfigured)"
  "ch_Upgrade c w nvidiaConfig vals = (w, emptyRelease, Some ErrHelmMutationNotConfigured)"
  "ch_Rollback c w nvidiaConfig to = (w, emptyRelease, Some ErrHelmMutationNotConfigured)"
  "ch_Uninstall c w nvidiaConfig = (w, emptyRelease, Some ErrHelmMutationNotConfigured)"
  by (simp_all add: ch_Install_def ch_Upgrade_def ch_Rollback_def ch_Uninstall_def guard_refuses)

lemma get_release_view: "sh_GetRelease (ch_Codec c) (Some (ch_Client c)) w (ic_Namespace nvidiaConfig) (ic_ReleaseName nvidiaConfig) =
    (w', rel, None) \<Longrightarrow> view w (pinKey nvidiaConfig) = Some rel"
  using GetRelease_view [of "ch_Codec c" w "ic_Namespace nvidiaConfig" "ic_ReleaseName nvidiaConfig" rel]
  by (auto simp: sh_GetRelease_def storeView_def split: prod.splits)

lemma get_release_error: "sh_GetRelease cx client w ns n = (w', rel, Some e) \<Longrightarrow> rel = emptyRelease"
  by (auto simp: sh_GetRelease_def storage_GetRelease_def split: prod.splits option.splits sum.splits if_splits)

lemma claim_view_ok: "claimRelease w nvidiaConfig = (w', rel, None) \<Longrightarrow> view w' (pinKey nvidiaConfig) = Some rel"
  using claim_reported [OF claim_retry, of "ch_Codec c" w nvidiaConfig w' rel] by (simp add: storeView_def)

end

sublocale cluster_store \<subseteq> cl: helm_client "clusterClient c" "storeView (ch_Codec c) store" nvidiaConfig
proof unfold_locales
  show "hc_GetRelease (clusterClient c) w ns n = (w', rel, err) \<Longrightarrow> view w' = view w" for w ns n w' rel err
    by (auto simp: clusterClient_def sh_GetRelease_def split: prod.splits)
  show "hc_GetRelease (clusterClient c) w (ic_Namespace nvidiaConfig) (ic_ReleaseName nvidiaConfig) = (w', rel, None) \<Longrightarrow>
      view w (pinKey nvidiaConfig) = Some rel" for w w' rel
    using get_release_view by (simp add: clusterClient_def)
  show "hc_GetRelease (clusterClient c) w ns n = (w', rel, Some e) \<Longrightarrow> rel = emptyRelease" for w ns n w' rel e
    using get_release_error by (simp add: clusterClient_def)
  fix claim assume "hc_ClaimRelease (clusterClient c) = Some claim"
  then have cl: "claim = claimRelease" by (simp add: clusterClient_def)
  show "view w (pinKey nvidiaConfig) = Some r \<Longrightarrow>
      \<exists>r'. view (fst (claim w nvidiaConfig)) (pinKey nvidiaConfig) = Some r' \<and> relabelled r r'" for w r
    unfolding cl by (rule claim_view_label)
  show "claim w nvidiaConfig = (w', rel, None) \<Longrightarrow> view w' (pinKey nvidiaConfig) = Some rel" for w w' rel
    unfolding cl by (rule claim_view_ok)
  show "k \<noteq> pinKey nvidiaConfig \<Longrightarrow> view (fst (claim w nvidiaConfig)) k = view w k" for k w
    unfolding cl by (rule claim_view_other)
qed (auto simp: clusterClient_def refused_ok)

context cluster_store
begin

lemma installer_observes:
  assumes "hi_Client h = Some (clusterClient c)" and "HelmInstaller_Ensure ctx h i w = (w', res, err)"
  shows "adoptions DefaultNamespace NVIDIAReleaseName (store w) (store w')" "w' = w \<or> in_AdoptExisting i"
    "ir_Action res \<noteq> InstallInstalled" "cl.truthful w' (res, err)"
proof -
  have claim: "hc_ClaimRelease (clusterClient c) = Some claimRelease" by (simp add: clusterClient_def)
  consider "w' = w" "ir_Action res \<in> {InstallFailed, InstallSkipped}"
    | "ensureLocked ctx h (clusterClient c) i nvidiaConfig w = (w', res, err)"
    using Ensure_reaches_pinned [OF assms(1), of ctx i w] assms(2) by auto
  then have end': "w' = w \<or> in_AdoptExisting i \<and> w' = fst (claimRelease w nvidiaConfig)" and act: "ir_Action res \<noteq> InstallInstalled"
  proof (atomize (full), cases)
    case 2
    then show "(w' = w \<or> in_AdoptExisting i \<and> w' = fst (claimRelease w nvidiaConfig)) \<and> ir_Action res \<noteq> InstallInstalled"
      using inert.ensureLocked_state [of ctx h i w] inert.ensureLocked_action [of ctx h i w] claim by simp
  qed auto
  from end' show "adoptions DefaultNamespace NVIDIAReleaseName (store w) (store w')" "w' = w \<or> in_AdoptExisting i"
    using claim_adoptions [OF claim_retry, of nvidiaConfig w "ch_Codec c"] by (elim disjE conjE; simp)+
  show "ir_Action res \<noteq> InstallInstalled" by (rule act)
  show "cl.truthful w' (res, err)"
    using cl.HelmInstaller_Ensure_sound [OF assms(1) refl, of i w ctx] assms(2) by (simp add: cl.ensured_def)
qed

lemma adopted_release:
  "cl.truthful w (res, err) \<Longrightarrow> ir_Action res = InstallAdopted \<Longrightarrow> err = None \<and>
     (\<exists>r. releaseAt (ch_Codec c) (store w) DefaultNamespace NVIDIAReleaseName = Some r \<and>
        ManagedByAdapter r \<and> matchesPinnedRelease r nvidiaConfig)"
  by (auto simp: cl.truthful_def storeView_def)

lemma failed_errs: "cl.truthful w (res, err) \<Longrightarrow> ir_Action res \<in> {InstallFailed, InstallSkipped} \<Longrightarrow> err \<noteq> None"
  by (auto simp: cl.truthful_def)

end

subsection \<open>A stored revision is the one read back\<close>

text \<open>
  What the code relies on of the documents' bytes, at one document: JSON text that parses back,
  and a gzip member (with its two magic bytes) that unpacks to it.
\<close>

definition codecAt :: "HelmCodec \<Rightarrow> helmStorageRelease \<Rightarrow> bool" where
  "codecAt cx doc \<longleftrightarrow> (\<exists>body buf. cx_Marshal cx doc = Inr body \<and> cx_Gzip cx body = Inr buf \<and>
     take 2 buf = [CHR 0x1F, CHR 0x8B] \<and> cx_Gunzip cx buf = Inr body \<and> cx_Unmarshal cx body = Inr doc)"

lemma decode_encode:
  assumes "codecAt cx doc" and "encodeHelmStorageRelease cx doc = Inr payload"
  shows "decodeHelmStorageRelease cx payload = Inr doc"
proof -
  obtain body buf where b: "cx_Marshal cx doc = Inr body" "cx_Gzip cx body = Inr buf" "take 2 buf = [CHR 0x1F, CHR 0x8B]"
      "cx_Gunzip cx buf = Inr body" "cx_Unmarshal cx body = Inr doc"
    using assms(1) by (auto simp: codecAt_def)
  obtain rest where "buf = CHR 0x1F # CHR 0x8B # rest"
    using b(3) by (cases buf; cases "tl buf") auto
  with b assms(2) show ?thesis
    by (auto simp: encodeHelmStorageRelease_def decodeHelmStorageRelease_def gunzipBytes_def simp del: b64Encode.simps)
qed

lemma AtoiValue_Itoa:
  assumes "0 \<le> n" "n < 2 ^ 63"
  shows "AtoiValue (Itoa n) = n"
proof -
  have "Atoi (Itoa n) = Some n" using Atoi_natString [of "nat n"] assms by (simp add: Itoa_def)
  then show ?thesis by (auto simp: Atoi_def AtoiValue_def Let_def split: if_splits)
qed

lemma latest_unique:
  assumes "s \<in> set items" "storageCandidate s"
    and "\<And>x. x \<in> set items \<Longrightarrow> storageCandidate x \<Longrightarrow> x \<noteq> s \<Longrightarrow> secretVersion x < secretVersion s"
  shows "latestHelmSecret items = Some s"
  using latestHelmSecret_best [of items] assms
  by (fastforce simp: bestOf_def secretBeats_def split: option.splits)

definition storedRelease :: "InstallConfig \<Rightarrow> int \<Rightarrow> HelmRelease" where
  "storedRelease cfg n = (OwnedRelease cfg)\<lparr>hr_Revision := n, hr_Labels := storeLabels cfg n HelmStatusDeployed\<rparr>"

lemma storeLabels_lookup:
  "fmlookup (storeLabels cfg n st) helmReleaseNameLabel = Some (ic_ReleaseName cfg)"
  "fmlookup (storeLabels cfg n st) statusKey = Some st"
  "fmlookup (storeLabels cfg n st) helmReleaseVersionLabel = Some (Itoa n)"
  by (simp_all add: storeLabels_def const_defs)

lemma releaseSecret_reads:
  assumes "codecAt cx (storeDoc cfg n HelmStatusDeployed)" "0 \<le> n" "n < 2 ^ 63" "ic_ReleaseName cfg \<noteq> ''''" "ic_Namespace cfg \<noteq> ''''"
    and "encodeHelmStorageRelease cx (storeDoc cfg n HelmStatusDeployed) = Inr payload"
    and "s = releaseSecret cfg n HelmStatusDeployed payload\<lparr>sec_ResourceVersion := rv\<rparr>"
  shows "storageCandidate s" "secretVersion s = n" "labelled (ic_Namespace cfg) helmReleaseNameLabel (ic_ReleaseName cfg) s"
    "releaseFromHelmSecret cx s = Inr (storedRelease cfg n)"
proof -
  have "HelmStatusDeployed \<noteq> ''''" by (simp add: const_defs)
  then show "storageCandidate s" "secretVersion s = n" "labelled (ic_Namespace cfg) helmReleaseNameLabel (ic_ReleaseName cfg) s"
    "releaseFromHelmSecret cx s = Inr (storedRelease cfg n)"
    using assms(4,5) AtoiValue_Itoa [OF assms(2,3)] decode_encode [OF assms(1,6)]
    by (simp_all add: assms(7) storageCandidate_def secretVersion_def labelled_def releaseSecret_def storeLabels_lookup sget_def
        releaseFromHelmSecret_def storeDoc_def storedRelease_def OwnedRelease_def)
qed

context cluster_store
begin

lemma storeAttempt_conflict:
  "storeAttempt (ch_Client c) sec w = (w', Some e) \<Longrightarrow> storeConflict e \<Longrightarrow> store w' = store w"
  using update_refused create_refused
  by (force simp: storeAttempt_def alreadyExistsAsConflict_def split: sum.splits prod.splits if_splits apiErr.splits)

lemma storeAttempt_stored:
  assumes "storeAttempt (ch_Client c) sec w = (w', None)"
  shows "\<exists>rv. sec\<lparr>sec_ResourceVersion := rv\<rparr> \<in> set (store w') \<and>
    (\<forall>x\<in>set (store w'). x \<noteq> sec\<lparr>sec_ResourceVersion := rv\<rparr> \<longrightarrow> x \<in> set (store w) \<and> secretKey x \<noteq> secretKey sec)"
proof (cases "sa_GetSecret (ch_Client c) w (sec_Namespace sec) (sec_Name sec)")
  case (Inl e)
  with assms have nf: "IsNotFound e" and cr: "sa_CreateSecret (ch_Client c) w sec = (w', None)"
    by (auto simp: storeAttempt_def split: if_splits prod.splits)
  from create_ok [OF cr] obtain rv b a where "store w = b @ a" "store w' = b @ sec\<lparr>sec_ResourceVersion := rv\<rparr> # a" by blast
  moreover have "secretKey x \<noteq> secretKey sec" if "x \<in> set (store w)" for x
    using get_none [OF Inl nf] imageI [OF that, of secretKey] by auto
  ultimately show ?thesis by (intro exI [of _ rv]) auto
next
  case (Inr ex)
  with assms have up: "sa_UpdateSecret (ch_Client c) w (sec\<lparr>sec_ResourceVersion := sec_ResourceVersion ex\<rparr>) = (w', None)"
    by (auto simp: storeAttempt_def split: prod.splits)
  from update_ok [OF up] obtain rv where "store w' = replaceSecret (sec\<lparr>sec_ResourceVersion := rv\<rparr>) (store w)" by auto
  with get_ok [OF Inr] show ?thesis
    by (intro exI [of _ rv]) (force simp: replaceSecret_def image_iff)
qed

lemma stored_revision:
  assumes "storeSecret c cfg rel HelmStatusDeployed w = (w', None)"
    and "codecAt (ch_Codec c) (storeDoc cfg (hr_Revision rel) HelmStatusDeployed)"
    and "0 \<le> hr_Revision rel" "hr_Revision rel < 2 ^ 63" "ic_ReleaseName cfg \<noteq> ''''" "ic_Namespace cfg \<noteq> ''''"
    and older: "\<And>x. x \<in> set (releaseSecrets (ic_Namespace cfg) (ic_ReleaseName cfg) (store w)) \<Longrightarrow> storageCandidate x \<Longrightarrow>
      sec_Name x \<noteq> helmReleaseSecretName (ic_ReleaseName cfg) (hr_Revision rel) \<Longrightarrow> secretVersion x < hr_Revision rel"
  shows "releaseAt (ch_Codec c) (store w') (ic_Namespace cfg) (ic_ReleaseName cfg) = Some (storedRelease cfg (hr_Revision rel))"
proof -
  obtain payload where enc: "encodeHelmStorageRelease (ch_Codec c) (storeDoc cfg (hr_Revision rel) HelmStatusDeployed) = Inr payload"
    using assms(1) by (auto simp: storeSecret_def split: sum.splits)
  define sec where "sec = releaseSecret cfg (hr_Revision rel) HelmStatusDeployed payload"
  have "retriedOn storeConflict (storeAttempt (ch_Client c) sec) w (w', None)"
    using assms(1) write_retry enc unfolding retryContractOn_def by (metis sec_def storeSecret_def sum.case(2))
  then obtain y where y: "store y = store w" "storeAttempt (ch_Client c) sec y = (w', None)"
    using retried_stable [of storeConflict "storeAttempt (ch_Client c) sec" w "(w', None)" "\<lambda>y. store y = store w"]
      storeAttempt_conflict by metis
  from storeAttempt_stored [OF y(2)] y(1) obtain rv where
      inn: "sec\<lparr>sec_ResourceVersion := rv\<rparr> \<in> set (store w')" and
      out: "\<And>x. x \<in> set (store w') \<Longrightarrow> x \<noteq> sec\<lparr>sec_ResourceVersion := rv\<rparr> \<Longrightarrow> x \<in> set (store w) \<and> secretKey x \<noteq> secretKey sec"
    by metis
  note reads = releaseSecret_reads [OF assms(2-6) enc, of "sec\<lparr>sec_ResourceVersion := rv\<rparr>" rv, folded sec_def, OF refl]
  have "latestHelmSecret (releaseSecrets (ic_Namespace cfg) (ic_ReleaseName cfg) (store w')) = Some (sec\<lparr>sec_ResourceVersion := rv\<rparr>)"
  proof (rule latest_unique)
    fix x assume x: "x \<in> set (releaseSecrets (ic_Namespace cfg) (ic_ReleaseName cfg) (store w'))" "storageCandidate x"
      "x \<noteq> sec\<lparr>sec_ResourceVersion := rv\<rparr>"
    with out have "x \<in> set (store w)" "secretKey x \<noteq> secretKey sec" by auto
    with x have "sec_Name x \<noteq> helmReleaseSecretName (ic_ReleaseName cfg) (hr_Revision rel)"
      by (auto simp: sec_def releaseSecret_def labelled_def)
    with x \<open>x \<in> set (store w)\<close> show "secretVersion x < secretVersion (sec\<lparr>sec_ResourceVersion := rv\<rparr>)"
      unfolding reads(2) by (intro older) auto
  qed (use inn reads in auto)
  then show ?thesis by (simp add: releaseAt_def reads(4))
qed

end

subsection \<open>A server\<close>

text \<open>
  A server that keeps the laws: it holds a list of Secrets, read with the first Secret of each
  key, and accepts every write that names an existing (update) or a new (create) key.
\<close>

fun uniqueSecrets :: "Secret list \<Rightarrow> Secret list" where
  "uniqueSecrets [] = []"
| "uniqueSecrets (s # xs) = s # filter (\<lambda>x. secretKey x \<noteq> secretKey s) (uniqueSecrets xs)"

definition hasKey :: "string \<Rightarrow> string \<Rightarrow> Secret list \<Rightarrow> bool" where
  "hasKey ns n xs \<longleftrightarrow> list_ex (\<lambda>x. secretKey x = (ns, n)) xs"

definition secretServer :: "Secret list SecretAPI" where
  "secretServer =
     \<lparr>sa_ListSecrets = (\<lambda>w ns l v. Inr (filter (labelled ns l v) (uniqueSecrets w))),
      sa_GetSecret = (\<lambda>w ns n. case find (\<lambda>x. secretKey x = (ns, n)) (uniqueSecrets w) of
        None \<Rightarrow> Inl (NotFound ''secret not found'') | Some s \<Rightarrow> Inr s),
      sa_CreateSecret = (\<lambda>w s. if hasKey (sec_Namespace s) (sec_Name s) (uniqueSecrets w)
        then (w, Some (AlreadyExists ''secret exists'')) else (uniqueSecrets w @ [s], None)),
      sa_UpdateSecret = (\<lambda>w s. if hasKey (sec_Namespace s) (sec_Name s) (uniqueSecrets w)
        then (replaceSecret s (uniqueSecrets w), None) else (w, Some (NotFound ''secret not found''))),
      sa_DeleteSecret = (\<lambda>w s. (filter (\<lambda>x. secretKey x \<noteq> secretKey s) (uniqueSecrets w), None)),
      sa_ListConfigMaps = (\<lambda>w ns l v. Inr []), sa_DeleteConfigMap = (\<lambda>w cm. (w, None)),
      sa_GetObject = (\<lambda>w obj. Inl (NotFound ''object not found'')), sa_CreateObject = (\<lambda>w obj. (w, None)),
      sa_UpdateObject = (\<lambda>w obj. (w, None))\<rparr>"

lemma unique_keys: "distinct (map secretKey (uniqueSecrets w))"
  by (induction w) (auto simp: distinct_map_filter)

lemma unique_id: "distinct (map secretKey w) \<Longrightarrow> uniqueSecrets w = w"
  by (induction w) (auto simp: filter_id_conv image_iff)

lemma replace_keys: "map secretKey (replaceSecret s w) = map secretKey w"
  by (simp add: replaceSecret_def)

definition serverClient :: "HelmCodec \<Rightarrow> ChartFiles \<Rightarrow> string \<Rightarrow> Secret list ClusterHelmClient" where
  "serverClient cx files root = (NewClusterHelmClient secretServer cx files (retryLoopOn storeConflict 4) (retryLoopOn storeConflict 4))
     \<lparr>ch_ChartRoot := root\<rparr>"

lemma server_store: "secret_store secretServer uniqueSecrets"
proof
  fix w w' :: "Secret list" and s ns n l v items e
  show "sa_ListSecrets secretServer w ns l v = Inr items \<Longrightarrow> items = filter (labelled ns l v) (uniqueSecrets w)"
    by (simp add: secretServer_def)
  show "sa_GetSecret secretServer w ns n = Inr s \<Longrightarrow> s \<in> set (uniqueSecrets w) \<and> secretKey s = (ns, n)"
    by (auto simp: secretServer_def find_Some_iff split: option.splits)
  show "sa_GetSecret secretServer w ns n = Inl e \<Longrightarrow> IsNotFound e \<Longrightarrow> (ns, n) \<notin> secretKey ` set (uniqueSecrets w)"
    by (auto simp: secretServer_def find_None_iff split: option.splits)
  show "distinct (map secretKey (uniqueSecrets w))" by (rule unique_keys)
  have upd: "uniqueSecrets (replaceSecret s (uniqueSecrets w)) = replaceSecret s (uniqueSecrets w)"
    using unique_id [of "replaceSecret s (uniqueSecrets w)"] unique_keys [of w] by (simp only: replace_keys)
  then have up: "\<exists>rv. uniqueSecrets (replaceSecret s (uniqueSecrets w)) = replaceSecret (s\<lparr>sec_ResourceVersion := rv\<rparr>) (uniqueSecrets w)"
    by (intro exI [of _ "sec_ResourceVersion s"]) simp
  show "sa_UpdateSecret secretServer w s = (w', None) \<Longrightarrow>
      \<exists>rv. uniqueSecrets w' = replaceSecret (s\<lparr>sec_ResourceVersion := rv\<rparr>) (uniqueSecrets w)"
    using up by (auto simp: secretServer_def split: if_splits)
  show "sa_UpdateSecret secretServer w s = (w', Some e) \<Longrightarrow> IsConflict e \<Longrightarrow> uniqueSecrets w' = uniqueSecrets w"
    "sa_UpdateSecret secretServer w s = (w', Some e) \<Longrightarrow> uniqueSecrets w' = uniqueSecrets w \<or>
      (\<exists>rv. uniqueSecrets w' = replaceSecret (s\<lparr>sec_ResourceVersion := rv\<rparr>) (uniqueSecrets w))"
    "sa_CreateSecret secretServer w s = (w', Some e) \<Longrightarrow> IsConflict e \<or> IsAlreadyExists e \<Longrightarrow> uniqueSecrets w' = uniqueSecrets w"
    by (auto simp: secretServer_def split: if_splits)
  show "\<exists>rv before after. uniqueSecrets w = before @ after \<and> uniqueSecrets w' = before @ s\<lparr>sec_ResourceVersion := rv\<rparr> # after"
    if "sa_CreateSecret secretServer w s = (w', None)"
  proof -
    have "w' = uniqueSecrets w @ [s]" "secretKey s \<notin> set (map secretKey (uniqueSecrets w))"
      using that by (auto simp: secretServer_def hasKey_def list_ex_iff split: if_splits)
    then have "uniqueSecrets w' = uniqueSecrets w @ [s]" using unique_keys [of w] by (simp add: unique_id)
    then show ?thesis by (intro exI [of _ "sec_ResourceVersion s"] exI [of _ "uniqueSecrets w"] exI [of _ "[]"]) simp
  qed
qed

interpretation srv: cluster_store "serverClient cx files root" uniqueSecrets
  by (simp add: cluster_store_def cluster_store_axioms_def serverClient_def NewClusterHelmClient_def
      server_store retryLoopOn_contract)

subsection \<open>Properties\<close>

text \<open>C6: with the Helm client of the running process the installer never installs, upgrades or
  removes the operator's release. Whatever a run does, every Secret of the cluster is the one it
  was but for its resource version, or a storage Secret of the pinned release on which only the
  two ownership labels are new; without a requested adoption nothing is written at all. It never
  reports an installation, it reports an adoption only when the cluster then holds exactly the
  pinned release with the owner label, and a failed run carries an error.\<close>

theorem process_helm_observes:
  assumes "cluster_store c store" and "hi_Client h = Some (clusterClient c)"
    and "HelmInstaller_Ensure ctx h i w = (w', res, err)"
  shows "adoptions DefaultNamespace NVIDIAReleaseName (store w) (store w') \<and> (w' = w \<or> in_AdoptExisting i) \<and>
    ir_Action res \<noteq> InstallInstalled \<and>
    (ir_Action res = InstallAdopted \<longrightarrow> err = None \<and>
       (\<exists>r. releaseAt (ch_Codec c) (store w') DefaultNamespace NVIDIAReleaseName = Some r \<and>
          ManagedByAdapter r \<and> matchesPinnedRelease r nvidiaConfig)) \<and>
    (ir_Action res \<in> {InstallFailed, InstallSkipped} \<longrightarrow> err \<noteq> None)"
proof -
  note run = cluster_store.installer_observes [OF assms]
  show ?thesis
    using run(1-3) cluster_store.adopted_release [OF assms(1) run(4)] cluster_store.failed_errs [OF assms(1) run(4)] by blast
qed

definition exDoc :: helmStorageRelease where
  "exDoc = emptyStorageRelease\<lparr>sr_Name := NVIDIAReleaseName, sr_Namespace := DefaultNamespace, sr_Version := 1,
     sr_InfoStatus := HelmStatusDeployed, sr_ChartName := NVIDIAChartName, sr_ChartVersion := NVIDIAChartVersion\<rparr>"

text \<open>A codec that knows one document, and a cluster with one storage Secret as Helm writes it.\<close>

definition exCodec :: "helmStorageRelease \<Rightarrow> HelmCodec" where
  "exCodec doc = \<lparr>cx_Marshal = (\<lambda>d. if d = doc then Inr ''{}'' else Inl ''unknown document''),
     cx_Unmarshal = (\<lambda>t. if t = ''{}'' then Inr doc else Inl ''unexpected text''),
     cx_Gzip = (\<lambda>t. Inr (CHR 0x1F # CHR 0x8B # t)), cx_Gunzip = (\<lambda>t. Inr (drop 2 t))\<rparr>"

definition noFiles :: ChartFiles where
  "noFiles = \<lparr>cf_ReadFile = (\<lambda>_. Inl ''no such file''), cf_ReadDir = (\<lambda>_. Inl ''no such directory''),
     cf_ChartMeta = (\<lambda>_. Inl ''no metadata''), cf_Decode = (\<lambda>_. Inl ''no manifest'')\<rparr>"

definition exSecret :: Secret where
  "exSecret = \<lparr>sec_Namespace = DefaultNamespace, sec_Name = helmReleaseSecretName NVIDIAReleaseName 1, sec_ResourceVersion = ''7'',
     sec_Type = helmStorageSecretType,
     sec_Labels = fmap_of_list [(helmReleaseNameLabel, NVIDIAReleaseName), (statusKey, HelmStatusDeployed), (helmReleaseVersionLabel, ''1'')],
     sec_Data = fmap_of_list [(''release'', b64Encode (CHR 0x1F # CHR 0x8B # ''{}''))]\<rparr>"

definition exProcess :: "Secret list ClusterHelmClient" where
  "exProcess = serverClient (exCodec exDoc) noFiles ''''"

definition exProcessInstaller :: "Secret list HelmInstaller" where
  "exProcessInstaller = \<lparr>hi_Client = Some (clusterClient exProcess), hi_AllowDowngrade = False, hi_MaxAttempts = 0\<rparr>"

theorem process_helm_observes_witness:
  "\<exists>w' res err r. HelmInstaller_Ensure (\<lambda>_. None) exProcessInstaller (exIntent\<lparr>in_AdoptExisting := True\<rparr>) [exSecret] = (w', res, err) \<and>
     ir_Action res = InstallAdopted \<and> adoptions DefaultNamespace NVIDIAReleaseName [exSecret] (uniqueSecrets w') \<and>
     releaseAt (exCodec exDoc) (uniqueSecrets w') DefaultNamespace NVIDIAReleaseName = Some r \<and> ManagedByAdapter r"
proof -
  let ?i = "exIntent\<lparr>in_AdoptExisting := True\<rparr>"
  obtain w' res err where run: "HelmInstaller_Ensure (\<lambda>_. None) exProcessInstaller ?i [exSecret] = (w', res, err)"
    by (metis prod_cases3)
  have "ir_Action (fst (snd (HelmInstaller_Ensure (\<lambda>_. None) exProcessInstaller ?i [exSecret]))) = InstallAdopted"
    by code_simp
  with run have act: "ir_Action res = InstallAdopted" by simp
  have "cluster_store exProcess uniqueSecrets" "hi_Client exProcessInstaller = Some (clusterClient exProcess)"
    "ch_Codec exProcess = exCodec exDoc" "uniqueSecrets [exSecret] = [exSecret]"
    using srv.cluster_store_axioms
    by (simp_all add: exProcess_def exProcessInstaller_def serverClient_def NewClusterHelmClient_def)
  with process_helm_observes [OF this(1,2) run] act run show ?thesis by auto
qed

text \<open>The storage Secret a release is read from is the newest admissible one: it is listed,
  is Helm storage that is deployed, superseded or unmarked, has the highest revision among such
  Secrets, and is a deployed one when a deployed one has that revision. None is found exactly
  when no listed Secret is admissible.\<close>

theorem latest_secret_exact:
  "(latestHelmSecret items = None \<longleftrightarrow> (\<forall>x\<in>set items. \<not> storageCandidate x)) \<and>
   (\<forall>s. latestHelmSecret items = Some s \<longrightarrow> s \<in> set items \<and> storageCandidate s \<and>
      (\<forall>x\<in>set items. storageCandidate x \<longrightarrow> secretVersion x \<le> secretVersion s \<and>
         (secretVersion x = secretVersion s \<and> deployedSecret x \<longrightarrow> deployedSecret s)))"
  using latestHelmSecret_best [of items] by (fastforce simp: bestOf_def secretBeats_def split: option.splits)

theorem latest_secret_exact_witness:
  "latestHelmSecret [exSecret, exSecret\<lparr>sec_Type := ''Opaque''\<rparr>] = Some exSecret"
proof -
  have "latestHelmSecret [exSecret, exSecret\<lparr>sec_Type := ''Opaque''\<rparr>] \<noteq> None" "\<not> storageCandidate (exSecret\<lparr>sec_Type := ''Opaque''\<rparr>)"
    by code_simp+
  with latest_secret_exact [of "[exSecret, exSecret\<lparr>sec_Type := ''Opaque''\<rparr>]"] show ?thesis by auto
qed

text \<open>C8: a revision that the client stores is the release it reads afterwards. When storing a
  revision above the older admissible ones succeeds, the current release of that name is the
  adapter's own release of the configured chart with that revision, the status deployed and the
  ownership labels - and no last-known-good version, which the storage document has no field
  for. The bytes are only assumed to unpack to what was packed.\<close>

theorem stored_revision_current:
  assumes "cluster_store c store" and "storeSecret c cfg rel HelmStatusDeployed w = (w', None)"
    and "codecAt (ch_Codec c) (storeDoc cfg (hr_Revision rel) HelmStatusDeployed)"
    and "0 \<le> hr_Revision rel" and "hr_Revision rel < 2 ^ 63" and "ic_ReleaseName cfg \<noteq> ''''" and "ic_Namespace cfg \<noteq> ''''"
    and "\<And>x. x \<in> set (releaseSecrets (ic_Namespace cfg) (ic_ReleaseName cfg) (store w)) \<Longrightarrow> storageCandidate x \<Longrightarrow>
      sec_Name x \<noteq> helmReleaseSecretName (ic_ReleaseName cfg) (hr_Revision rel) \<Longrightarrow> secretVersion x < hr_Revision rel"
  shows "releaseAt (ch_Codec c) (store w') (ic_Namespace cfg) (ic_ReleaseName cfg) =
    Some ((OwnedRelease cfg)\<lparr>hr_Revision := hr_Revision rel, hr_LastKnownGood := '''',
      hr_Labels := storeLabels cfg (hr_Revision rel) HelmStatusDeployed\<rparr>)"
proof -
  have "storedRelease cfg n = (OwnedRelease cfg)\<lparr>hr_Revision := n, hr_LastKnownGood := '''',
      hr_Labels := storeLabels cfg n HelmStatusDeployed\<rparr>" for n
    by (simp add: storedRelease_def OwnedRelease_def)
  with cluster_store.stored_revision [OF assms] show ?thesis by simp
qed

definition exProbe :: "Secret list ClusterHelmClient" where
  "exProbe = serverClient (exCodec (storeDoc (ProbeHelmConfig ''v1.0.0'') 2 HelmStatusDeployed)) noFiles ''/charts''"

theorem stored_revision_current_witness:
  "\<exists>w'. storeSecret exProbe (ProbeHelmConfig ''v1.0.0'') (emptyRelease\<lparr>hr_Revision := 2\<rparr>) HelmStatusDeployed [exSecret] = (w', None) \<and>
     map_option hr_Revision (releaseAt (ch_Codec exProbe) (uniqueSecrets w') HelmProbeNamespace HelmProbeReleaseName) = Some 2"
proof -
  let ?cfg = "ProbeHelmConfig ''v1.0.0''" and ?rel = "emptyRelease\<lparr>hr_Revision := 2\<rparr>"
  obtain w' err where run: "storeSecret exProbe ?cfg ?rel HelmStatusDeployed [exSecret] = (w', err)" by (metis prod.exhaust)
  have "snd (storeSecret exProbe ?cfg ?rel HelmStatusDeployed [exSecret]) = None" by code_simp
  with run have ok: "storeSecret exProbe ?cfg ?rel HelmStatusDeployed [exSecret] = (w', None)" by simp
  have cs: "cluster_store exProbe uniqueSecrets" using srv.cluster_store_axioms by (simp add: exProbe_def)
  have cfg: "ic_Namespace ?cfg = HelmProbeNamespace" "ic_ReleaseName ?cfg = HelmProbeReleaseName"
    "HelmProbeNamespace \<noteq> ''''" "HelmProbeReleaseName \<noteq> ''''"
    by (simp_all add: ProbeHelmConfig_def emptyInstallConfig_def const_defs)
  have codec: "codecAt (ch_Codec exProbe) (storeDoc ?cfg (hr_Revision ?rel) HelmStatusDeployed)"
    by (simp add: exProbe_def serverClient_def NewClusterHelmClient_def exCodec_def codecAt_def)
  have none: "releaseSecrets HelmProbeNamespace HelmProbeReleaseName (uniqueSecrets [exSecret]) = []" by code_simp
  show ?thesis
    using stored_revision_current [OF cs ok codec] ok none by (simp add: cfg)
qed

lemma guard_passed:
  assumes "guardMutation c cfg = Inr u"
  shows "ic_ReleaseName cfg \<noteq> NVIDIAReleaseName \<and> ic_ReleaseOwner cfg = ReleaseOwner \<and> TrimSpace (ch_ChartRoot c) \<noteq> ''''"
  using assms by (auto simp: guardMutation_def split: if_splits)

lemma ownedRelease_ok: "ownedRelease c w cfg = Inr rel \<Longrightarrow> ch_GetRelease c w cfg = (rel, None) \<and> ManagedByAdapter rel"
  by (auto simp: ownedRelease_def split: prod.splits option.splits if_splits)

text \<open>C7: the mutating operations of the process's client change the cluster only behind their
  guards, whatever the API server answers. A run that changes anything is for a release other
  than the vendor operator's, with the adapter as its owner and a chart directory configured;
  an install then found no release of that name, an upgrade or a rollback found one that carries
  the owner label, and an uninstall found one whose ownership allows deletion.\<close>

theorem cluster_mutations_guarded:
  "((fst (ch_Install c w cfg vals) \<noteq> w \<or> fst (ch_Upgrade c w cfg vals) \<noteq> w \<or> fst (ch_Rollback c w cfg to) \<noteq> w \<or>
       fst (ch_Uninstall c w cfg) \<noteq> w) \<longrightarrow>
     ic_ReleaseName cfg \<noteq> NVIDIAReleaseName \<and> ic_ReleaseOwner cfg = ReleaseOwner \<and> TrimSpace (ch_ChartRoot c) \<noteq> '''') \<and>
   (fst (ch_Install c w cfg vals) \<noteq> w \<longrightarrow> (\<exists>rel e. ch_GetRelease c w cfg = (rel, Some e) \<and> errorsIsNotFound e)) \<and>
   (fst (ch_Upgrade c w cfg vals) \<noteq> w \<or> fst (ch_Rollback c w cfg to) \<noteq> w \<longrightarrow>
      (\<exists>rel. ch_GetRelease c w cfg = (rel, None) \<and> ManagedByAdapter rel)) \<and>
   (fst (ch_Uninstall c w cfg) \<noteq> w \<longrightarrow>
      (\<exists>rel. ch_GetRelease c w cfg = (rel, None) \<and> ManagedByAdapter rel \<and> AllowsDelete (ClassifyReleaseOwnership rel)))"
proof (cases "guardMutation c cfg")
  case (Inl e)
  then show ?thesis by (simp add: ch_Install_def ch_Upgrade_def ch_Rollback_def ch_Uninstall_def)
next
  case (Inr u)
  have "fst (ch_Install c w cfg vals) \<noteq> w \<longrightarrow> (\<exists>rel e. ch_GetRelease c w cfg = (rel, Some e) \<and> errorsIsNotFound e)"
    by (auto simp: ch_Install_def split: sum.split prod.split option.split)
  moreover have "fst (ch_Upgrade c w cfg vals) \<noteq> w \<longrightarrow> (\<exists>rel. ownedRelease c w cfg = Inr rel)"
    "fst (ch_Rollback c w cfg to) \<noteq> w \<longrightarrow> (\<exists>rel. ownedRelease c w cfg = Inr rel)"
    "fst (ch_Uninstall c w cfg) \<noteq> w \<longrightarrow> (\<exists>rel. ownedRelease c w cfg = Inr rel \<and> AllowsDelete (ClassifyReleaseOwnership rel))"
    by (auto simp: ch_Upgrade_def ch_Rollback_def ch_Uninstall_def split: sum.split)
  ultimately show ?thesis using guard_passed [OF Inr] ownedRelease_ok by metis
qed

definition exOwned :: Secret where
  "exOwned = releaseSecret (ProbeHelmConfig ''v1.0.0'') 2 HelmStatusDeployed (b64Encode (CHR 0x1F # CHR 0x8B # ''{}''))"

theorem cluster_mutations_guarded_witness:
  "fst (ch_Uninstall exProbe [exOwned] (ProbeHelmConfig ''v1.0.0'')) = [] \<and>
     (\<exists>rel. ch_GetRelease exProbe [exOwned] (ProbeHelmConfig ''v1.0.0'') = (rel, None) \<and> ManagedByAdapter rel)"
proof -
  have gone: "fst (ch_Uninstall exProbe [exOwned] (ProbeHelmConfig ''v1.0.0'')) = []" by code_simp
  then have "fst (ch_Uninstall exProbe [exOwned] (ProbeHelmConfig ''v1.0.0'')) \<noteq> [exOwned]" by simp
  with gone cluster_mutations_guarded [of exProbe "[exOwned]" "ProbeHelmConfig ''v1.0.0''"] show ?thesis by blast
qed

end
