(* ===== verification/GenRbac.thy ===== *)
theory GenRbac
  imports MappingSpec "HOL-Library.Product_Lexorder" "HOL-Library.Multiset"
begin

text \<open>
  hack/gen-rbac/main.go: the generator that derives the translation controller's permission
  markers from the mapping documents, and its check mode. The order in which Go ranges over a
  map is the parameter \<open>perm\<close>; \<^verbatim>\<open>slices.SortFunc\<close> may order elements that
  compare equal as it likes, which a stable sort after an arbitrary permutation covers. The
  files the generator reads and writes are parameters.
\<close>

subsection \<open>Rules\<close>

definition sourceVerbs :: string where [const_defs]: "sourceVerbs = ''get;list;watch;update;patch''"
definition statusVerbs :: string where [const_defs]: "statusVerbs = ''get;update;patch''"
definition finalizerVerbs :: string where [const_defs]: "finalizerVerbs = ''update''"
definition targetVerbs :: string where [const_defs]: "targetVerbs = ''get;list;watch;create;update;patch;delete''"

definition isVowel :: "char \<Rightarrow> bool" where
  "isVowel b \<longleftrightarrow> b \<in> set ''aeiou''"

definition pluralize :: "string \<Rightarrow> string" where
  "pluralize kind =
     (let s = ToLower kind in
      if s = '''' then s
      else if HasSuffix s ''s'' \<or> HasSuffix s ''x'' \<or> HasSuffix s ''z'' \<or> HasSuffix s ''ch'' \<or> HasSuffix s ''sh'' then s @ ''es''
      else if HasSuffix s ''y'' \<and> length s > 1 \<and> \<not> isVowel (s ! (length s - 2)) then take (length s - 1) s @ ''ies''
      else s @ ''s'')"

record rbacRule =
  ru_group :: string
  ru_resources :: "string list"
  ru_verbs :: string

text \<open>
  The accumulator of render: per group and verbs the set of resources, in the order of first
  insertion, which nothing reads.
\<close>

type_synonym rbacAcc = "((string \<times> string) \<times> string list) list"

fun addGrant :: "string \<times> string \<Rightarrow> string \<Rightarrow> rbacAcc \<Rightarrow> rbacAcc" where
  "addGrant k res [] = [(k, [res])]"
| "addGrant k res ((k', rs) # acc) =
     (if k' = k then (k', if res \<in> set rs then rs else rs @ [res]) # acc else (k', rs) # addGrant k res acc)"

definition addSpec :: "Spec \<Rightarrow> rbacAcc \<Rightarrow> rbacAcc" where
  "addSpec s acc =
     (let g = mr_Group (sp_Source s); src = pluralize (mr_Kind (sp_Source s));
          acc = addGrant (g, sourceVerbs) src acc;
          acc = addGrant (g, statusVerbs) (src @ ''/status'') acc;
          acc = addGrant (g, finalizerVerbs) (src @ ''/finalizers'') acc
      in fold (\<lambda>e. addGrant (mr_Group (em_Target e), targetVerbs) (pluralize (mr_Kind (em_Target e)))) (sp_Emit s) acc)"

definition ruleKey :: "rbacRule \<Rightarrow> string \<times> string" where
  "ruleKey r = (ru_group r, Join (ru_resources r) '';'')"

definition rbacRules :: "(rbacAcc \<Rightarrow> rbacAcc) \<Rightarrow> Spec list \<Rightarrow> rbacRule list" where
  "rbacRules perm specs =
     sort_key ruleKey (map (\<lambda>((g, v), rs). \<lparr>ru_group = g, ru_resources = sort rs, ru_verbs = v\<rparr>)
       (perm (fold addSpec specs [])))"

subsection \<open>The generated file\<close>

definition newline :: string where "newline = [CHR 0x0A]"

definition headerLines :: "string \<Rightarrow> string \<Rightarrow> string list" where
  "headerLines pkg mappingDir =
     [''// Code generated by hack/gen-rbac from '' @ mappingDir @ ''. DO NOT EDIT.'',
      ''//'',
      ''// Regenerate with: make generate-rbac'',
      ''//'',
      ''// These markers are what controller-gen turns into the manager ClusterRole.'',
      ''// They are derived from the FieldMapping documents, so onboarding a vendor'',
      ''// needs no Go edit: drop in a mapping and regenerate. The previous hand-written'',
      ''// markers were the one place a vendor port was not pure data, and a forgotten'',
      ''// group surfaced only at runtime as an apiserver Forbidden error.'',
      '''',
      ''package '' @ pkg,
      '''']"

definition ruleLine :: "rbacRule \<Rightarrow> string" where
  "ruleLine r = ''// +kubebuilder:rbac:groups='' @ ru_group r @ '',resources='' @ Join (ru_resources r) '';'' @ '',verbs='' @ ru_verbs r"

definition render :: "(rbacAcc \<Rightarrow> rbacAcc) \<Rightarrow> Spec list \<Rightarrow> string \<Rightarrow> string \<Rightarrow> string" where
  "render perm specs pkg mappingDir =
     concat (map (\<lambda>l. l @ newline) (headerLines pkg mappingDir @ map ruleLine (rbacRules perm specs)))"

text \<open>The outcomes of main: every fatalf is an outcome of its own.\<close>

datatype genOutcome = LoadFailed map_err | OutUnreadable string | Stale | UpToDate | MkdirFailed string | WriteFailed string
  | Wrote string

definition genMain ::
    "(rbacAcc \<Rightarrow> rbacAcc) \<Rightarrow> (map_err, Spec list) result \<Rightarrow> (string, string) result \<Rightarrow> (string, unit) result \<Rightarrow> (string, unit) result \<Rightarrow>
     bool \<Rightarrow> string \<Rightarrow> string \<Rightarrow> genOutcome" where
  "genMain perm loaded readOut mkdir writeOut check pkg mappingDir =
     (case loaded of Inl e \<Rightarrow> LoadFailed e
      | Inr specs \<Rightarrow>
          let want = render perm specs pkg mappingDir in
          if check then
            (case readOut of Inl e \<Rightarrow> OutUnreadable e | Inr got \<Rightarrow> if got \<noteq> want then Stale else UpToDate)
          else (case mkdir of Inl e \<Rightarrow> MkdirFailed e
                | Inr _ \<Rightarrow> (case writeOut of Inl e \<Rightarrow> WriteFailed e | Inr _ \<Rightarrow> Wrote want)))"

subsection \<open>What is granted\<close>

definition accGrants :: "rbacAcc \<Rightarrow> (string \<times> string \<times> string) set" where
  "accGrants acc = {(g, res, v). \<exists>rs. ((g, v), rs) \<in> set acc \<and> res \<in> set rs}"

lemma accGrants_simps [simp]:
  "accGrants [] = {}" "accGrants (((g, v), rs) # acc) = (\<lambda>r. (g, r, v)) ` set rs \<union> accGrants acc"
  by (auto simp: accGrants_def)

lemma addGrant_grants: "accGrants (addGrant (g, v) res acc) = insert (g, res, v) (accGrants acc)"
proof (induction acc)
  case (Cons e acc)
  obtain g' v' rs where e: "e = ((g', v'), rs)" by (metis prod.exhaust)
  show ?case
  proof (cases "(g', v') = (g, v)")
    case False
    with Cons e show ?thesis by (simp only: addGrant.simps if_False accGrants_simps) blast
  qed (auto simp: e)
qed simp

text \<open>What one document implies: its source kind with status and finalizers, and its target kinds.\<close>

definition specGrants :: "Spec \<Rightarrow> (string \<times> string \<times> string) set" where
  "specGrants s =
     (let g = mr_Group (sp_Source s); src = pluralize (mr_Kind (sp_Source s)) in
      {(g, src, sourceVerbs), (g, src @ ''/status'', statusVerbs), (g, src @ ''/finalizers'', finalizerVerbs)} \<union>
      {(mr_Group (em_Target e), pluralize (mr_Kind (em_Target e)), targetVerbs) | e. e \<in> set (sp_Emit s)})"

lemma fold_emit_grants:
  "accGrants (fold (\<lambda>e. addGrant (mr_Group (em_Target e), targetVerbs) (pluralize (mr_Kind (em_Target e)))) es acc) =
     accGrants acc \<union> {(mr_Group (em_Target e), pluralize (mr_Kind (em_Target e)), targetVerbs) | e. e \<in> set es}"
  by (induction es arbitrary: acc) (auto simp: addGrant_grants)

lemma addSpec_grants: "accGrants (addSpec s acc) = accGrants acc \<union> specGrants s"
  by (auto simp: addSpec_def specGrants_def Let_def fold_emit_grants addGrant_grants)

lemma fold_grants: "accGrants (fold addSpec specs acc) = accGrants acc \<union> (\<Union>s\<in>set specs. specGrants s)"
  by (induction specs arbitrary: acc) (auto simp: addSpec_grants)

text \<open>The accumulator's invariant: keys and the resources of a key are listed once, no set is empty.\<close>

definition accInv :: "rbacAcc \<Rightarrow> bool" where
  "accInv acc \<longleftrightarrow> distinct (map fst acc) \<and> (\<forall>(k, rs)\<in>set acc. distinct rs \<and> rs \<noteq> [])"

lemma addGrant_keys: "set (map fst (addGrant k res acc)) = insert k (set (map fst acc))"
  by (induction k res acc rule: addGrant.induct) auto

lemma addGrant_inv: "accInv acc \<Longrightarrow> accInv (addGrant k res acc)"
  by (induction k res acc rule: addGrant.induct) (use addGrant_keys in \<open>auto simp: accInv_def\<close>)

lemma fold_emit_inv: "accInv acc \<Longrightarrow>
    accInv (fold (\<lambda>e. addGrant (mr_Group (em_Target e), targetVerbs) (pluralize (mr_Kind (em_Target e)))) es acc)"
  by (induction es arbitrary: acc) (auto simp: addGrant_inv)

lemma addSpecs_inv: "accInv acc \<Longrightarrow> accInv (fold addSpec specs acc)"
  by (induction specs arbitrary: acc) (auto simp: addSpec_def Let_def fold_emit_inv addGrant_inv)

lemma acc_inv: "accInv (fold addSpec specs [])"
  by (rule addSpecs_inv) (simp add: accInv_def)

abbreviation accRule :: "(string \<times> string) \<times> string list \<Rightarrow> rbacRule" where
  "accRule \<equiv> \<lambda>((g, v), rs). \<lparr>ru_group = g, ru_resources = sort rs, ru_verbs = v\<rparr>"

text \<open>A rule list is the accumulator's, sorted, whatever order the map is ranged over.\<close>

lemma mset_rbacRules:
  assumes "\<And>xs. mset (perm xs) = mset xs"
  shows "mset (rbacRules perm specs) = mset (map accRule (fold addSpec specs []))"
  by (simp add: rbacRules_def assms)

lemma distinct_rules:
  assumes "\<And>xs. mset (perm xs) = mset xs"
  shows "distinct (map (\<lambda>r. (ru_group r, ru_verbs r)) (rbacRules perm specs))"
proof -
  define f where "f = (\<lambda>r :: rbacRule. (ru_group r, ru_verbs r))"
  define acc where "acc = fold addSpec specs []"
  have "f \<circ> accRule = fst" by (auto simp: f_def fun_eq_iff split: prod.split)
  then have "map f (map accRule acc) = map fst acc" by simp
  moreover have "mset (map f (rbacRules perm specs)) = mset (map f (map accRule acc))"
    using mset_rbacRules [OF assms, of specs] by (simp only: mset_map acc_def)
  ultimately have "mset (map f (rbacRules perm specs)) = mset (map fst acc)" by (simp only:)
  moreover have "distinct (map fst acc)" using acc_inv [of specs] by (simp add: accInv_def acc_def)
  ultimately show ?thesis unfolding f_def by (blast dest: mset_eq_imp_distinct_iff)
qed

lemma set_rbacRules:
  assumes "\<And>xs. mset (perm xs) = mset xs"
  shows "set (rbacRules perm specs) = accRule ` set (fold addSpec specs [])"
  using arg_cong [OF mset_rbacRules [OF assms, of specs], of set_mset] by simp

lemma rules_grants:
  assumes "\<And>xs. mset (perm xs) = mset xs"
  shows "{(ru_group r, res, ru_verbs r) | r res. r \<in> set (rbacRules perm specs) \<and> res \<in> set (ru_resources r)} =
    accGrants (fold addSpec specs [])"
  unfolding set_rbacRules [OF assms] by (force simp: accGrants_def image_iff)

lemma filter_single: "distinct zs \<Longrightarrow> k \<in> set zs \<Longrightarrow> filter (\<lambda>x. x = k) zs = [k]"
  by (induction zs) (auto simp: filter_empty_conv)

lemma sort_key_unique:
  assumes "mset xs = mset ys" and "inj_on f (set xs)" and "distinct xs"
  shows "sort_key f xs = sort_key f ys"
proof (rule properties_for_sort_key)
  show "mset (sort_key f ys) = mset xs" using assms(1) by simp
  have ys: "distinct ys" "set ys = set xs" using assms mset_eq_imp_distinct_iff mset_eq_setD by metis+
  have one: "filter (\<lambda>x. f k = f x) zs = [k]" if "k \<in> set zs" "distinct zs" "set zs = set xs" for k zs
  proof -
    have "filter (\<lambda>x. f k = f x) zs = filter (\<lambda>x. x = k) zs"
      using that assms(2) by (intro filter_cong) (auto dest: inj_onD)
    then show ?thesis using that(1,2) by (simp add: filter_single)
  qed
  show "filter (\<lambda>x. f k = f x) (sort_key f ys) = filter (\<lambda>x. f k = f x) xs" if "k \<in> set (sort_key f ys)" for k
    using one [of k "sort_key f ys"] one [of k xs] that ys assms(3) by simp
qed simp

subsection \<open>Properties\<close>

text \<open>C38: the generated markers grant exactly what the mapping documents imply. Whatever order the
  map is ranged over, a group, a resource and a verb list stand in some rule precisely when they
  are those of a document's source kind, of its status or finalizers subresource, or of a target
  kind it emits; no two rules share group and verbs, and each rule lists its resources in
  strictly ascending order.\<close>

theorem rbac_exact:
  assumes "\<And>xs. mset (perm xs) = mset xs"
  shows "{(ru_group r, res, ru_verbs r) | r res. r \<in> set (rbacRules perm specs) \<and> res \<in> set (ru_resources r)} =
      (\<Union>s\<in>set specs. specGrants s) \<and>
    distinct (map (\<lambda>r. (ru_group r, ru_verbs r)) (rbacRules perm specs)) \<and>
    (\<forall>r\<in>set (rbacRules perm specs). sorted_wrt (<) (ru_resources r))"
proof (intro conjI ballI)
  show "{(ru_group r, res, ru_verbs r) | r res. r \<in> set (rbacRules perm specs) \<and> res \<in> set (ru_resources r)} =
      (\<Union>s\<in>set specs. specGrants s)"
    by (simp add: rules_grants [OF assms] fold_grants)
  show "distinct (map (\<lambda>r. (ru_group r, ru_verbs r)) (rbacRules perm specs))" by (rule distinct_rules [OF assms])
  fix r assume "r \<in> set (rbacRules perm specs)"
  then obtain k rs where "(k, rs) \<in> set (fold addSpec specs [])" "ru_resources r = sort rs"
    unfolding set_rbacRules [OF assms] by (auto split: prod.splits)
  with acc_inv [of specs] show "sorted_wrt (<) (ru_resources r)"
    by (fastforce simp: accInv_def strict_sorted_iff)
qed

definition noValue :: Value where
  "noValue = \<lparr>va_From = '''', va_CEL = '''', va_Value = '''', va_Default = None, va_Required = False\<rparr>"

definition specOf :: "MapRef \<Rightarrow> MapRef list \<Rightarrow> Spec" where
  "specOf src targets = \<lparr>sp_APIVersion = '''', sp_Kind = '''', sp_Name = ''example'', sp_Source = src, sp_Defaults = None,
     sp_Emit = map (\<lambda>t. \<lparr>em_Target = t, em_Name = noValue, em_Namespace = noValue, em_When = '''', em_ForEach = None,
       em_Fields = []\<rparr>) targets, sp_Status = None, sp_PruneWhen = ''''\<rparr>"

definition exMapping :: Spec where
  "exMapping = specOf \<lparr>mr_Group = ''config.openshift.io'', mr_Version = ''v1'', mr_Kind = ''DataProcessingUnit''\<rparr>
     [\<lparr>mr_Group = ''dpu.amd.com'', mr_Version = ''v1'', mr_Kind = ''DSCNodePolicy''\<rparr>]"

theorem rbac_exact_witness:
  "(''dpu.amd.com'', ''dscnodepolicies'', targetVerbs) \<in>
     {(ru_group r, res, ru_verbs r) | r res. r \<in> set (rbacRules rev [exMapping]) \<and> res \<in> set (ru_resources r)}"
proof -
  have "(''dpu.amd.com'', pluralize ''DSCNodePolicy'', targetVerbs) \<in> specGrants exMapping"
    by (auto simp: specGrants_def exMapping_def specOf_def Let_def)
  moreover have "pluralize ''DSCNodePolicy'' = ''dscnodepolicies''" by code_simp
  ultimately show ?thesis using rbac_exact [of rev "[exMapping]"] by simp
qed

text \<open>No two rules of a group list the same resources under different verbs.\<close>

definition tieFree :: "Spec list \<Rightarrow> bool" where
  "tieFree specs \<longleftrightarrow> distinct (map ruleKey (rbacRules (\<lambda>xs. xs) specs))"

lemma tieFree_inj:
  assumes "tieFree specs"
  shows "inj_on ruleKey (accRule ` set (fold addSpec specs []))" "distinct (map accRule (fold addSpec specs []))"
proof -
  note m = mset_rbacRules [of "\<lambda>xs. xs" specs, OF refl]
  have d: "distinct (rbacRules (\<lambda>xs. xs) specs)" "inj_on ruleKey (set (rbacRules (\<lambda>xs. xs) specs))"
    using assms by (auto simp: tieFree_def distinct_map)
  show "inj_on ruleKey (accRule ` set (fold addSpec specs []))" using d(2) set_rbacRules [of "\<lambda>xs. xs" specs] by simp
  show "distinct (map accRule (fold addSpec specs []))" using mset_eq_imp_distinct_iff [OF m] d(1) by simp
qed

lemma rules_deterministic:
  assumes "\<And>xs. mset (perm xs) = mset xs" and "tieFree specs"
  shows "rbacRules perm specs = rbacRules (\<lambda>xs. xs) specs"
proof -
  let ?acc = "fold addSpec specs []"
  have "sort_key ruleKey (map accRule ?acc) = sort_key ruleKey (map accRule (perm ?acc))"
    by (rule sort_key_unique) (use tieFree_inj [OF assms(2)] assms(1) in simp_all)
  then show ?thesis by (simp add: rbacRules_def)
qed

text \<open>Generating and checking agree. As long as no two rules of a group list the same resources,
  a file written by one run is up to date for the check of any later run on the same documents,
  in whatever order the two runs range over their maps; and the check accepts no other content.\<close>

theorem rbac_check_agrees:
  assumes "\<And>xs. mset (perm xs) = mset xs" and "\<And>xs. mset (perm' xs) = mset xs" and "tieFree specs"
    and "genMain perm (Inr specs) out0 (Inr ()) (Inr ()) False pkg dir = Wrote content"
  shows "genMain perm' (Inr specs) (Inr got) mk wr True pkg dir = (if got = content then UpToDate else Stale)"
  using assms(4) rules_deterministic [OF assms(1,3)] rules_deterministic [OF assms(2,3)]
  by (auto simp: genMain_def Let_def render_def)

theorem rbac_check_agrees_witness:
  "\<exists>content. genMain rev (Inr [exMapping]) (Inl '''') (Inr ()) (Inr ()) False ''translation'' ''config/mappings'' = Wrote content \<and>
     genMain (\<lambda>xs. xs) (Inr [exMapping]) (Inr content) (Inr ()) (Inr ()) True ''translation'' ''config/mappings'' = UpToDate"
proof -
  obtain content where w: "genMain rev (Inr [exMapping]) (Inl '''') (Inr ()) (Inr ()) False ''translation'' ''config/mappings'' = Wrote content"
    by (simp add: genMain_def Let_def)
  have "tieFree [exMapping]" by code_simp
  with rbac_check_agrees [OF _ _ this w, of "\<lambda>xs. xs"] w show ?thesis by auto
qed

text \<open>
  With a tie the order is the map's: a document that emits its own source kind gives two rules
  for the same resource, which come out in either order.
\<close>

definition tiedMapping :: Spec where
  "tiedMapping = specOf \<lparr>mr_Group = ''g'', mr_Version = ''v1'', mr_Kind = ''Widget''\<rparr> [\<lparr>mr_Group = ''g'', mr_Version = ''v1'', mr_Kind = ''Widget''\<rparr>]"

lemma rbac_tie: "map ru_verbs (rbacRules (\<lambda>xs. xs) [tiedMapping]) \<noteq> map ru_verbs (rbacRules rev [tiedMapping])"
  by code_simp

end
