(* ===== verification/Vsp.thy ===== *)
theory Vsp
  imports Translation Inventory
begin

text \<open>
  pkg/vsp: the vendor plugin's RPC handlers (grpc_server.go, opi_handshake.go), the gate for
  network functions (handoff.go), the daemon's side of the handshake (daemon_client.go) and its
  report of the Ready condition (ready.go). The gRPC transport, the Kubernetes client and
  \<^verbatim>\<open>retry.RetryOnConflict\<close> are parameters; the generated message types are records of the
  fields the code reads. \<open>Start\<close>, which opens the socket and serves, is in theory Wiring.
\<close>

subsection \<open>Handoff\<close>

record NFRequest =
  nf_Input :: string
  nf_Output :: string

record 'w NetworkFunctionHandoff =
  hf_CreateIntentAccepted :: "'w \<Rightarrow> NFRequest option \<Rightarrow> string option"
  hf_DeleteIntentAccepted :: "'w \<Rightarrow> NFRequest option \<Rightarrow> string option"

definition createRefused :: string where
  "createRefused = ''network-function create refused: DPF has not accepted a DPUService intent''"
definition deleteRefused :: string where
  "deleteRefused = ''network-function delete refused: DPF intent cannot be observed''"

definition RejectHandoff :: "'w NetworkFunctionHandoff" where
  "RejectHandoff = \<lparr>hf_CreateIntentAccepted = (\<lambda>_ _. Some createRefused), hf_DeleteIntentAccepted = (\<lambda>_ _. Some deleteRefused)\<rparr>"

definition StaticHandoff :: "string option \<Rightarrow> string option \<Rightarrow> 'w NetworkFunctionHandoff" where
  "StaticHandoff createErr deleteErr =
     \<lparr>hf_CreateIntentAccepted = (\<lambda>_ _. createErr), hf_DeleteIntentAccepted = (\<lambda>_ _. deleteErr)\<rparr>"

definition DPUServiceGVK :: GroupVersionKind where
  "DPUServiceGVK = GVK ''svc.dpu.nvidia.com'' ''v1alpha1'' ''DPUService''"

definition validateNFRequest :: "NFRequest option \<Rightarrow> string option" where
  "validateNFRequest req =
     (let bad = Some ''network-function request missing input/output identity'' in
      case req of None \<Rightarrow> bad
      | Some q \<Rightarrow> if TrimSpace (nf_Input q) = '''' \<or> TrimSpace (nf_Output q) = '''' then bad else None)"

definition acceptedService :: "objOps \<Rightarrow> jobj \<Rightarrow> bool" where
  "acceptedService B item \<longleftrightarrow> \<not> ob_Deleting B item \<and>
     TrimSpace (NestedString item [''spec'', ''helmChart'', ''source'', ''chart'']) \<noteq> ''''"

definition acceptedDPUServices :: "objOps \<Rightarrow> 'w TClient option \<Rightarrow> 'w \<Rightarrow> (string, jobj list) result" where
  "acceptedDPUServices B client w =
     (case client of None \<Rightarrow> Err ''observe DPF DPUService intent: no cluster client''
      | Some c \<Rightarrow>
        case tc_List c w DPUServiceGVK fmempty of
          Inl e \<Rightarrow> Err (''observe DPF DPUService intent: '' @ apiText e)
        | Inr items \<Rightarrow> Ok (filter (acceptedService B) items))"

definition ch_CreateIntentAccepted :: "objOps \<Rightarrow> 'w TClient option \<Rightarrow> 'w \<Rightarrow> NFRequest option \<Rightarrow> string option" where
  "ch_CreateIntentAccepted B client w req =
     (case validateNFRequest req of Some e \<Rightarrow> Some e
      | None \<Rightarrow>
        case acceptedDPUServices B client w of Inl e \<Rightarrow> Some e
        | Inr found \<Rightarrow> if found = [] then Some createRefused else None)"

definition ch_DeleteIntentAccepted :: "objOps \<Rightarrow> 'w TClient option \<Rightarrow> 'w \<Rightarrow> NFRequest option \<Rightarrow> string option" where
  "ch_DeleteIntentAccepted B client w req =
     (case validateNFRequest req of Some e \<Rightarrow> Some e
      | None \<Rightarrow>
        if client = None then Some deleteRefused
        else case acceptedDPUServices B client w of Inl e \<Rightarrow> Some (deleteRefused @ '': '' @ e) | Inr _ \<Rightarrow> None)"

definition ClusterHandoff :: "objOps \<Rightarrow> 'w TClient option \<Rightarrow> 'w NetworkFunctionHandoff" where
  "ClusterHandoff B client = \<lparr>hf_CreateIntentAccepted = ch_CreateIntentAccepted B client,
     hf_DeleteIntentAccepted = ch_DeleteIntentAccepted B client\<rparr>"

definition handoffOrReject :: "'w NetworkFunctionHandoff option \<Rightarrow> 'w NetworkFunctionHandoff" where
  "handoffOrReject h = (case h of None \<Rightarrow> RejectHandoff | Some h \<Rightarrow> h)"

subsection \<open>The server\<close>

record InitRequest =
  iq_DpuMode :: bool
  iq_DpuIdentifier :: string

record IpPort =
  ip_Ip :: string
  ip_Port :: int

record PbDevice =
  pd_ID :: string
  pd_Health :: string

record PingResponse =
  pg_Timestamp :: int
  pg_ResponderId :: string
  pg_Healthy :: bool

definition DefaultSocket :: string where
  "DefaultSocket = ''/var/run/dpu-daemon/vendor-plugin/vendor-plugin.sock''"
definition defaultIP :: string where "defaultIP = ''127.0.0.1''"
definition defaultPort :: int where "defaultPort = 50051"
definition healthOK :: string where "healthOK = ''Healthy''"

record 'w Server =
  sv_Enumerator :: "('w \<Rightarrow> (string, Device list) result) option"
  sv_SocketPath :: string
  sv_Handoff :: "'w NetworkFunctionHandoff option"

definition NewServer :: "('w \<Rightarrow> (string, Device list) result) option \<Rightarrow> string \<Rightarrow> 'w Server" where
  "NewServer enum socket =
     \<lparr>sv_Enumerator = enum, sv_SocketPath = (if socket = '''' then DefaultSocket else socket), sv_Handoff = None\<rparr>"

definition srv_Init :: "'w Server \<Rightarrow> InitRequest \<Rightarrow> (string, IpPort) result" where
  "srv_Init s req = Ok \<lparr>ip_Ip = defaultIP, ip_Port = defaultPort\<rparr>"

text \<open>The loop that fills the response, a later device replacing an earlier one of the same address.\<close>

definition addDevice :: "Device \<Rightarrow> (string, PbDevice) fmap \<Rightarrow> (string, PbDevice) fmap" where
  "addDevice d devices = fmupd (dv_PCIAddress d) \<lparr>pd_ID = dv_SerialNumber d, pd_Health = healthOK\<rparr> devices"

definition srv_GetDevices :: "'w Server \<Rightarrow> 'w \<Rightarrow> (string, (string, PbDevice) fmap) result" where
  "srv_GetDevices s w =
     (case sv_Enumerator s of None \<Rightarrow> Err ''no hardware enumerator configured''
      | Some enum \<Rightarrow>
        case LiveDevices (Some (enum w)) of Inl e \<Rightarrow> Err (''enumerate nvidia dpu: '' @ e)
        | Inr found \<Rightarrow> Ok (fold addDevice found fmempty))"

definition srv_SetNumVfs :: "'w Server \<Rightarrow> int \<Rightarrow> (string, int) result" where
  "srv_SetNumVfs s vfCnt = Ok vfCnt"

definition srv_CreateNetworkFunction :: "'w Server \<Rightarrow> 'w \<Rightarrow> NFRequest option \<Rightarrow> (string, unit) result" where
  "srv_CreateNetworkFunction s w req =
     (case hf_CreateIntentAccepted (handoffOrReject (sv_Handoff s)) w req of Some e \<Rightarrow> Err e | None \<Rightarrow> Ok ())"

definition srv_DeleteNetworkFunction :: "'w Server \<Rightarrow> 'w \<Rightarrow> NFRequest option \<Rightarrow> (string, unit) result" where
  "srv_DeleteNetworkFunction s w req =
     (case hf_DeleteIntentAccepted (handoffOrReject (sv_Handoff s)) w req of Some e \<Rightarrow> Err e | None \<Rightarrow> Ok ())"

definition srv_Ping :: "int \<Rightarrow> PingResponse" where
  "srv_Ping now = \<lparr>pg_Timestamp = now, pg_ResponderId = ''opi-nvidia-vsp'', pg_Healthy = True\<rparr>"

definition srv_NeedLeaderElection :: bool where "srv_NeedLeaderElection = False"

text \<open>opiHandshake: the same answers under the opi-api types.\<close>

definition opi_Init :: "'w Server \<Rightarrow> InitRequest \<Rightarrow> (string, IpPort) result" where
  "opi_Init s req = bind_res (srv_Init s \<lparr>iq_DpuMode = iq_DpuMode req, iq_DpuIdentifier = iq_DpuIdentifier req\<rparr>)
     (\<lambda>ip. Ok \<lparr>ip_Ip = ip_Ip ip, ip_Port = ip_Port ip\<rparr>)"

definition opi_GetDevices :: "'w Server \<Rightarrow> 'w \<Rightarrow> (string, (string, PbDevice) fmap) result" where
  "opi_GetDevices s w = bind_res (srv_GetDevices s w)
     (\<lambda>got. Ok (fmmap (\<lambda>d. \<lparr>pd_ID = pd_ID d, pd_Health = pd_Health d\<rparr>) got))"

definition opi_SetNumVfs :: "'w Server \<Rightarrow> int \<Rightarrow> (string, int) result" where
  "opi_SetNumVfs s vfCnt = srv_SetNumVfs s vfCnt"

subsection \<open>The daemon's handshake\<close>

record HandshakeDevice =
  hd_ID :: string
  hd_Health :: string

record HandshakeResult =
  hs_IP :: string
  hs_Port :: int
  hs_Devices :: "(string, HandshakeDevice option) fmap"

text \<open>A connection: the two calls the daemon makes, at the state in which they are made.\<close>

record 'w VspConn =
  vc_Init :: "'w \<Rightarrow> InitRequest \<Rightarrow> (string, IpPort) result"
  vc_GetDevices :: "'w \<Rightarrow> (string, (string, PbDevice) fmap) result"

definition Handshake ::
    "(string \<Rightarrow> (string, 'w VspConn) result) \<Rightarrow> string \<Rightarrow> bool \<Rightarrow> string \<Rightarrow> 'w \<Rightarrow> (string, HandshakeResult) result" where
  "Handshake dial socket0 dpuMode identifier w =
     (let socket = (if socket0 = '''' then DefaultSocket else socket0) in
      case dial socket of Inl e \<Rightarrow> Err (''dial '' @ socket @ '': '' @ e)
      | Inr conn \<Rightarrow>
        case vc_Init conn w \<lparr>iq_DpuMode = dpuMode, iq_DpuIdentifier = identifier\<rparr> of Inl e \<Rightarrow> Err (''Init: '' @ e)
        | Inr ip \<Rightarrow>
          case vc_GetDevices conn w of Inl e \<Rightarrow> Err (''GetDevices: '' @ e)
          | Inr got \<Rightarrow> Ok \<lparr>hs_IP = ip_Ip ip, hs_Port = ip_Port ip,
              hs_Devices = fmmap (\<lambda>d. Some \<lparr>hd_ID = pd_ID d, hd_Health = pd_Health d\<rparr>) got\<rparr>)"

text \<open>
  HandshakeUntil: \<open>attempt n\<close> is the outcome of the n-th handshake and \<open>done n\<close> whether
  the select after it finds the context done. The loop has no bound of its own; not returning
  is \<open>None\<close>.
\<close>

partial_function (option) handshakeLoop ::
    "(nat \<Rightarrow> (string, HandshakeResult) result) \<Rightarrow> (nat \<Rightarrow> bool) \<Rightarrow> nat \<Rightarrow> (string, HandshakeResult) result option" where
  "handshakeLoop attempt ctxDone n =
     (case attempt n of Inr got \<Rightarrow> Some (Ok got)
      | Inl e \<Rightarrow> if ctxDone n then Some (Err (''handshake: '' @ e)) else handshakeLoop attempt ctxDone (Suc n))"

definition HandshakeUntil ::
    "(nat \<Rightarrow> 'w) \<Rightarrow> (nat \<Rightarrow> bool) \<Rightarrow> (string \<Rightarrow> (string, 'w VspConn) result) \<Rightarrow> string \<Rightarrow> bool \<Rightarrow> string \<Rightarrow>
     (string, HandshakeResult) result option" where
  "HandshakeUntil world ctxDone dial socket dpuMode identifier =
     handshakeLoop (\<lambda>n. Handshake dial socket dpuMode identifier (world n)) ctxDone 0"

subsection \<open>Reporting Ready\<close>

definition DataProcessingUnitGVK :: GroupVersionKind where
  "DataProcessingUnitGVK = GVK ''config.openshift.io'' ''v1'' ''DataProcessingUnit''"

text \<open>Status, reason and message for a healthy and an unhealthy handshake.\<close>

definition readyText :: "bool \<Rightarrow> string \<times> string \<times> string" where
  "readyText healthy =
     (if healthy then (''True'', ''DeviceHealthy'', ''VSP handshake enumerated a healthy device'')
      else (''False'', ''DeviceUnhealthy'', ''VSP handshake reported no healthy device''))"

definition readyUpdate :: "string \<Rightarrow> bool \<Rightarrow> jobj \<Rightarrow> jobj \<times> bool" where
  "readyUpdate now healthy m =
     (let (wantStatus, reason, message) = readyText healthy in
      if \<not> holdsStr m ''status'' wantStatus \<or> \<not> holdsStr m ''reason'' reason \<or> \<not> holdsStr m ''message'' message then
        let next = fmupd ''message'' (JStr message) (fmupd ''reason'' (JStr reason) (fmupd ''status'' (JStr wantStatus) m));
            stamp = (\<not> holdsStr m ''status'' wantStatus \<or> valueAt next ''lastTransitionTime'' = JNull \<or>
                     valueAt next ''lastTransitionTime'' = JStr '''')
        in (if stamp then fmupd ''lastTransitionTime'' (JStr now) next else next, True)
      else (m, False))"

text \<open>The loop over the conditions: the rewritten list, whether a Ready was found and whether one changed.\<close>

fun readyLoop :: "string \<Rightarrow> bool \<Rightarrow> jv list \<Rightarrow> jv list \<times> bool \<times> bool" where
  "readyLoop now healthy [] = ([], False, False)"
| "readyLoop now healthy (item # rest) =
     (let (out, found, changed) = readyLoop now healthy rest in
      if \<not> ofType ReservedConditionType item then (item # out, found, changed)
      else case asMap item of None \<Rightarrow> (item # out, found, changed)
        | Some m \<Rightarrow> let (next, ch) = readyUpdate now healthy m in (JObj next # out, True, ch \<or> changed))"

definition newReady :: "string \<Rightarrow> bool \<Rightarrow> jobj" where
  "newReady now healthy =
     (let (wantStatus, reason, message) = readyText healthy in
      fmap_of_list [(''type'', JStr ReservedConditionType), (''status'', JStr wantStatus), (''reason'', JStr reason),
        (''message'', JStr message), (''lastTransitionTime'', JStr now)])"

text \<open>Writing the list fails silently when the status is neither absent nor an object.\<close>

definition setConditions :: "jv list \<Rightarrow> jobj \<Rightarrow> jobj" where
  "setConditions out obj =
     (if valueAt obj ''status'' = JNull then fmupd ''status'' (JObj (fmap_of_list [(''conditions'', JList out)])) obj
      else case objField obj ''status'' of None \<Rightarrow> obj
        | Some st \<Rightarrow> fmupd ''status'' (JObj (fmupd ''conditions'' (JList out) st)) obj)"

definition upsertReadyCondition :: "string \<Rightarrow> bool \<Rightarrow> jobj \<Rightarrow> jobj \<times> bool" where
  "upsertReadyCondition now healthy obj =
     (let raw = NestedSlice obj [''status'', ''conditions''];
          (out, found, changed) = readyLoop now healthy raw;
          out = (if \<not> found then out @ [JObj (newReady now healthy)] else out);
          changed = (changed \<or> \<not> found)
      in if \<not> changed then (obj, False) else (setConditions out obj, True))"

text \<open>The closure of patchReady, retried by the library on conflicts.\<close>

type_synonym 'w wretrier = "('w \<Rightarrow> 'w \<times> apiErr option) \<Rightarrow> 'w \<Rightarrow> 'w \<times> apiErr option"

definition patchReadyAttempt ::
    "'w TClient \<Rightarrow> ('w \<Rightarrow> string) \<Rightarrow> GroupVersionKind \<Rightarrow> string \<Rightarrow> string \<Rightarrow> bool \<Rightarrow> 'w \<Rightarrow> 'w \<times> apiErr option" where
  "patchReadyAttempt c now g ns name healthy w =
     (case tc_Get c w g ns name of Inl e \<Rightarrow> (w, Some e)
      | Inr fresh \<Rightarrow>
        let (fresh', changed) = upsertReadyCondition (now w) healthy fresh in
        if \<not> changed then (w, None) else tc_StatusUpdate c w fresh')"

definition patchReady ::
    "'w wretrier \<Rightarrow> objOps \<Rightarrow> 'w TClient \<Rightarrow> ('w \<Rightarrow> string) \<Rightarrow> GroupVersionKind \<Rightarrow> jobj \<Rightarrow> bool \<Rightarrow> 'w \<Rightarrow> 'w \<times> apiErr option" where
  "patchReady retry B c now g obj healthy = retry (patchReadyAttempt c now g (ob_Namespace B obj) (ob_Name B obj) healthy)"

fun patchEach ::
    "('w \<Rightarrow> jobj \<Rightarrow> 'w \<times> apiErr option) \<Rightarrow> 'w \<Rightarrow> jobj list \<Rightarrow> 'w \<times> apiErr option" where
  "patchEach write w [] = (w, None)"
| "patchEach write w (obj # objs) =
     (let (w', err) = write w obj in case err of Some e \<Rightarrow> (w', Some e) | None \<Rightarrow> patchEach write w' objs)"

definition reportReadyOnGVKs ::
    "'w wretrier \<Rightarrow> objOps \<Rightarrow> 'w TClient \<Rightarrow> ('w \<Rightarrow> string) \<Rightarrow> GroupVersionKind \<Rightarrow> (jobj \<Rightarrow> bool) \<Rightarrow> bool \<Rightarrow> 'w \<Rightarrow> 'w \<times> apiErr option" where
  "reportReadyOnGVKs retry B c now g match healthy w =
     (case tc_List c w g fmempty of Inl e \<Rightarrow> (w, Some e)
      | Inr items \<Rightarrow> patchEach (\<lambda>w obj. patchReady retry B c now g obj healthy w) w (filter match items))"

definition matchDPUSerial :: "objOps \<Rightarrow> string list \<Rightarrow> jobj \<Rightarrow> bool" where
  "matchDPUSerial B serials obj \<longleftrightarrow> sget (ob_Annotations B obj) SerialNumberAnnotation \<in> set serials"

definition matchAll :: "jobj \<Rightarrow> bool" where "matchAll obj = True"

definition reportedDevices :: "HandshakeResult \<Rightarrow> HandshakeDevice list" where
  "reportedDevices hs = concat (map (\<lambda>k. case fmlookup (hs_Devices hs) k of
       Some (Some d) \<Rightarrow> if TrimSpace (hd_ID d) = '''' then [] else [d] | _ \<Rightarrow> [])
     (sorted_list_of_fset (fmdom (hs_Devices hs))))"

definition deviceHealthy :: "HandshakeDevice \<Rightarrow> bool" where
  "deviceHealthy d \<longleftrightarrow> hd_Health d = '''' \<or> EqualFold (hd_Health d) ''HEALTHY''"

definition ReportReady ::
    "'w wretrier \<Rightarrow> objOps \<Rightarrow> 'w TClient option \<Rightarrow> ('w \<Rightarrow> string) \<Rightarrow> HandshakeResult option \<Rightarrow> 'w \<Rightarrow> 'w \<times> apiErr option" where
  "ReportReady retry B client now hs w =
     (case (client, hs) of
        (Some c, Some h) \<Rightarrow>
          let devices = reportedDevices h; serials = map hd_ID devices; healthy = list_ex deviceHealthy devices in
          if serials = [] then (w, None)
          else
            let (w1, err) = reportReadyOnGVKs retry B c now DataProcessingUnitGVK (matchDPUSerial B serials) healthy w in
            (case err of Some e \<Rightarrow> (w1, Some e)
             | None \<Rightarrow> reportReadyOnGVKs retry B c now lcmConfigGVK matchAll healthy w1)
      | _ \<Rightarrow> (w, None))"

end
