(* ===== verification/VspFacts.thy ===== *)
theory VspFacts
  imports Vsp
begin

text \<open>
  Correctness of the vendor plugin and of the daemon: the Ready condition has one writer that
  changes nothing else, the handshake loop returns exactly when it can, the handshake carries
  the live devices from the enumerator to the report, and network functions are accepted only
  against a live intent.
\<close>

subsection \<open>The Ready condition\<close>

definition readySettled :: "bool \<Rightarrow> jobj \<Rightarrow> bool" where
  "readySettled healthy m \<longleftrightarrow> (case readyText healthy of (s, r, t) \<Rightarrow>
     holdsStr m ''status'' s \<and> holdsStr m ''reason'' r \<and> holdsStr m ''message'' t)"

lemma readyUpdate_settled:
  assumes "readyUpdate now healthy m = (m', ch)"
  shows "readySettled healthy m'" and "fmlookup m' ''type'' = fmlookup m ''type''" and "ch \<longleftrightarrow> \<not> readySettled healthy m"
    and "ch \<longleftrightarrow> m' \<noteq> m"
proof -
  obtain s r t where rt: "readyText healthy = (s, r, t)" by (metis prod_cases3)
  show "readySettled healthy m'" "fmlookup m' ''type'' = fmlookup m ''type''" "ch \<longleftrightarrow> \<not> readySettled healthy m"
    using assms by (auto simp: readyUpdate_def readySettled_def rt holdsStr_def Let_def split: if_splits)
  moreover have "m' = m" if "\<not> ch" using assms that by (auto simp: readyUpdate_def rt Let_def split: if_splits)
  ultimately show "ch \<longleftrightarrow> m' \<noteq> m" by auto
qed

lemma readyLoop_Cons:
  assumes "readyLoop now healthy (v # l) = (out, found, changed)"
  obtains (other) o' where "\<not> ofType ReservedConditionType v" "readyLoop now healthy l = (o', found, changed)" "out = v # o'"
  | (ready) m m' ch o' f c where "v = JObj m" "ofType ReservedConditionType v" "ofType ReservedConditionType (JObj m')"
      "readyUpdate now healthy m = (m', ch)" "readyLoop now healthy l = (o', f, c)" "out = JObj m' # o'" "found" "changed \<longleftrightarrow> ch \<or> c"
proof (cases "ofType ReservedConditionType v")
  case True
  then obtain m where m: "v = JObj m" by (auto simp: ofType_def asMap_Some split: option.splits)
  obtain m' ch o' f c where u: "readyUpdate now healthy m = (m', ch)" and l: "readyLoop now healthy l = (o', f, c)" by (metis prod_cases3 surj_pair)
  have "ofType ReservedConditionType (JObj m')"
    using readyUpdate_settled(2) [OF u] True m by (simp add: ofType_def holdsStr_def)
  with ready [OF m True this u l] assms True m u l show ?thesis by simp
next
  case False
  obtain o' f c where l: "readyLoop now healthy l = (o', f, c)" by (metis prod_cases3)
  with other [OF False, of o'] assms False show ?thesis by simp
qed

lemma readyLoop_foreign:
  "readyLoop now healthy l = (out, found, changed) \<Longrightarrow>
     filter (\<lambda>v. \<not> ofType ReservedConditionType v) out = filter (\<lambda>v. \<not> ofType ReservedConditionType v) l"
proof (induction l arbitrary: out found changed)
  case (Cons v l)
  from Cons.prems show ?case by (cases rule: readyLoop_Cons) (use Cons.IH in auto)
qed simp

lemma readyLoop_settled:
  "readyLoop now healthy l = (out, found, changed) \<Longrightarrow> v \<in> set out \<Longrightarrow> ofType ReservedConditionType v \<Longrightarrow>
     \<exists>m. v = JObj m \<and> readySettled healthy m"
proof (induction l arbitrary: out found changed)
  case (Cons u l)
  from Cons.prems(1) show ?case
  proof (cases rule: readyLoop_Cons)
    case (other o')
    with Cons.IH [OF other(2)] Cons.prems(2,3) show ?thesis by auto
  next
    case (ready m m' ch o' f c)
    with Cons.IH [OF ready(5)] Cons.prems(2,3) readyUpdate_settled(1) [OF ready(4)] show ?thesis by auto
  qed
qed simp

lemma readyLoop_flags:
  "readyLoop now healthy l = (out, found, changed) \<Longrightarrow>
     (found \<longleftrightarrow> (\<exists>v\<in>set out. ofType ReservedConditionType v)) \<and> (changed \<longleftrightarrow> out \<noteq> l)"
proof (induction l arbitrary: out found changed)
  case (Cons u l)
  from Cons.prems(1) show ?case
  proof (cases rule: readyLoop_Cons)
    case (other o')
    with Cons.IH [OF other(2)] show ?thesis by auto
  next
    case (ready m m' ch o' f c)
    with Cons.IH [OF ready(5)] readyUpdate_settled(4) [OF ready(4)] show ?thesis by auto
  qed
qed simp

lemma readyLoop_length: "readyLoop now healthy l = (out, found, changed) \<Longrightarrow> length out = length l"
proof (induction l arbitrary: out found changed)
  case (Cons v l)
  from Cons.prems show ?case by (cases rule: readyLoop_Cons) (use Cons.IH in auto)
qed simp

lemma readyLoop_again:
  "(\<And>v. v \<in> set l \<Longrightarrow> ofType ReservedConditionType v \<Longrightarrow> \<exists>m. v = JObj m \<and> readySettled healthy m) \<Longrightarrow>
     readyLoop now healthy l = (l, \<exists>v\<in>set l. ofType ReservedConditionType v, False)"
proof (induction l)
  case (Cons v l)
  show ?case
  proof (cases "ofType ReservedConditionType v")
    case True
    then obtain m where m: "v = JObj m" "readySettled healthy m" using Cons.prems [of v] by auto
    obtain m' ch where "readyUpdate now healthy m = (m', ch)" by fastforce
    with readyUpdate_settled(3,4) [OF this] m(2) have "readyUpdate now healthy m = (m, False)" by auto
    with True m Cons show ?thesis by simp
  next
    case False
    with Cons show ?thesis by simp
  qed
qed simp

lemma newReady_settled: "readySettled healthy (newReady now healthy)" "ofType ReservedConditionType (JObj (newReady now healthy))"
  by (auto simp: readySettled_def newReady_def readyText_def holdsStr_def ofType_def Let_def split: prod.splits)

definition readyConditions :: "jobj \<Rightarrow> jv list" where
  "readyConditions obj = NestedSlice obj [''status'', ''conditions'']"

text \<open>A status the list can be written below: absent, null or an object.\<close>

definition statusOpen :: "jobj \<Rightarrow> bool" where
  "statusOpen obj \<longleftrightarrow> valueAt obj ''status'' = JNull \<or> objField obj ''status'' \<noteq> None"

lemma setConditions_facts:
  assumes "statusOpen obj"
  shows "readyConditions (setConditions out obj) = out" and "k \<noteq> ''status'' \<Longrightarrow> fmlookup (setConditions out obj) k = fmlookup obj k"
    and "k \<noteq> ''conditions'' \<Longrightarrow> getParts (JObj (setConditions out obj)) [''status'', k] = getParts (JObj obj) [''status'', k]"
    and "statusOpen (setConditions out obj)"
  using assms
  by (auto simp: setConditions_def readyConditions_def NestedSlice_def statusOpen_def objField_def valueAt_def asMap_def
      split: option.splits jv.splits)

lemma upsertReadyCondition_run:
  assumes "upsertReadyCondition now healthy obj = (obj', changed)" and "statusOpen obj"
  obtains out where "readyConditions obj' = out" "changed \<longleftrightarrow> out \<noteq> readyConditions obj" "\<not> changed \<Longrightarrow> obj' = obj"
    "obj' = setConditions out obj \<or> obj' = obj"
    "filter (\<lambda>v. \<not> ofType ReservedConditionType v) out = filter (\<lambda>v. \<not> ofType ReservedConditionType v) (readyConditions obj)"
    "\<exists>v\<in>set out. ofType ReservedConditionType v"
    "\<And>v. v \<in> set out \<Longrightarrow> ofType ReservedConditionType v \<Longrightarrow> \<exists>m. v = JObj m \<and> readySettled healthy m"
proof -
  obtain l found ch where loop: "readyLoop now healthy (readyConditions obj) = (l, found, ch)" by (metis prod_cases3)
  define out where "out = (if found then l else l @ [JObj (newReady now healthy)])"
  note flags = readyLoop_flags [OF loop]
  have diff: "(ch \<or> \<not> found) \<longleftrightarrow> out \<noteq> readyConditions obj"
  proof (cases found)
    case True
    then show ?thesis using flags by (simp add: out_def)
  next
    case False
    then have "length out \<noteq> length (readyConditions obj)" using readyLoop_length [OF loop] by (simp add: out_def)
    with False show ?thesis by auto
  qed
  show ?thesis
  proof (rule that [of out])
    show "readyConditions obj' = out" "\<not> changed \<Longrightarrow> obj' = obj" "obj' = setConditions out obj \<or> obj' = obj" "changed \<longleftrightarrow> out \<noteq> readyConditions obj"
      using assms diff loop setConditions_facts(1) [OF assms(2), of out]
      by (auto simp: upsertReadyCondition_def Let_def out_def readyConditions_def [symmetric] split: if_splits)
    show "filter (\<lambda>v. \<not> ofType ReservedConditionType v) out = filter (\<lambda>v. \<not> ofType ReservedConditionType v) (readyConditions obj)"
      using readyLoop_foreign [OF loop] newReady_settled(2) by (simp add: out_def)
    show "\<exists>v\<in>set out. ofType ReservedConditionType v" using flags newReady_settled(2) by (auto simp: out_def)
    show "\<exists>m. v = JObj m \<and> readySettled healthy m" if "v \<in> set out" "ofType ReservedConditionType v" for v
      using readyLoop_settled [OF loop _ that(2)] that(1) newReady_settled(1) by (auto simp: out_def split: if_splits)
  qed
qed

text \<open>C35: the daemon is the writer of Ready and of nothing else. On an object whose status can hold
  conditions, an update leaves every entry of another type, every other status key and the rest
  of the object unchanged; afterwards there is a Ready entry and every Ready entry says what
  the handshake found. The change flag tells whether the list differs, and a second update with
  the same health, at any later time, changes nothing.\<close>

theorem ready_single_writer:
  assumes "upsertReadyCondition now healthy obj = (obj', changed)" and "statusOpen obj"
  shows "(\<forall>k. k \<noteq> ''status'' \<longrightarrow> fmlookup obj' k = fmlookup obj k) \<and>
    (\<forall>k. k \<noteq> ''conditions'' \<longrightarrow> getParts (JObj obj') [''status'', k] = getParts (JObj obj) [''status'', k]) \<and>
    filter (\<lambda>v. \<not> ofType ReservedConditionType v) (readyConditions obj') =
      filter (\<lambda>v. \<not> ofType ReservedConditionType v) (readyConditions obj) \<and>
    (\<exists>v\<in>set (readyConditions obj'). ofType ReservedConditionType v) \<and>
    (\<forall>v\<in>set (readyConditions obj'). ofType ReservedConditionType v \<longrightarrow> (\<exists>m. v = JObj m \<and> readySettled healthy m)) \<and>
    (changed \<longleftrightarrow> readyConditions obj' \<noteq> readyConditions obj) \<and> upsertReadyCondition later healthy obj' = (obj', False)"
proof -
  from assms obtain out where out: "readyConditions obj' = out" "changed \<longleftrightarrow> out \<noteq> readyConditions obj"
    "obj' = setConditions out obj \<or> obj' = obj"
    "filter (\<lambda>v. \<not> ofType ReservedConditionType v) out = filter (\<lambda>v. \<not> ofType ReservedConditionType v) (readyConditions obj)"
    "\<exists>v\<in>set out. ofType ReservedConditionType v"
    "\<And>v. v \<in> set out \<Longrightarrow> ofType ReservedConditionType v \<Longrightarrow> \<exists>m. v = JObj m \<and> readySettled healthy m"
    by (rule upsertReadyCondition_run) blast
  have "readyLoop later healthy out = (out, True, False)" using readyLoop_again [of out healthy later] out(5,6) by auto
  then have "upsertReadyCondition later healthy obj' = (obj', False)"
    using out(1) by (simp add: upsertReadyCondition_def Let_def readyConditions_def [symmetric])
  moreover have "fmlookup obj' k = fmlookup obj k" if "k \<noteq> ''status''" for k
    using out(3) setConditions_facts(2) [OF assms(2) that] by auto
  moreover have "getParts (JObj obj') [''status'', k] = getParts (JObj obj) [''status'', k]" if "k \<noteq> ''conditions''" for k
    using out(3) setConditions_facts(3) [OF assms(2) that, of out] by metis
  ultimately show ?thesis using out(1,2,4,5,6) by blast
qed

definition exUnit :: jobj where
  "exUnit = fmap_of_list [(''status'', JObj (fmap_of_list [(''conditions'',
     JList [JObj (fmap_of_list [(''type'', JStr ''DPFReady''), (''status'', JStr ''False'')])])]))]"

theorem ready_single_writer_witness:
  "\<exists>obj'. upsertReadyCondition ''t1'' True exUnit = (obj', True) \<and> upsertReadyCondition ''t2'' True obj' = (obj', False)"
proof -
  obtain obj' ch where run: "upsertReadyCondition ''t1'' True exUnit = (obj', ch)" by fastforce
  have "snd (upsertReadyCondition ''t1'' True exUnit)" by code_simp
  with run have "ch" by simp
  moreover have "statusOpen exUnit" by (simp add: statusOpen_def objField_def exUnit_def)
  ultimately show ?thesis using ready_single_writer [OF run, of "''t2''"] run by simp
qed

subsection \<open>The handshake loop\<close>

definition loopEnds :: "(nat \<Rightarrow> (string, HandshakeResult) result) \<Rightarrow> (nat \<Rightarrow> bool) \<Rightarrow> nat \<Rightarrow> bool" where
  "loopEnds attempt ctxDone n \<longleftrightarrow> is_ok (attempt n) \<or> ctxDone n"

definition loopResult :: "(string, HandshakeResult) result \<Rightarrow> (string, HandshakeResult) result" where
  "loopResult r = (case r of Inr got \<Rightarrow> Ok got | Inl e \<Rightarrow> Err (''handshake: '' @ e))"

lemma handshakeLoop_stop: "loopEnds attempt ctxDone n \<Longrightarrow> handshakeLoop attempt ctxDone n = Some (loopResult (attempt n))"
  by (subst handshakeLoop.simps) (auto simp: loopEnds_def loopResult_def split: sum.split)

lemma handshakeLoop_go: "\<not> loopEnds attempt ctxDone n \<Longrightarrow> handshakeLoop attempt ctxDone n = handshakeLoop attempt ctxDone (Suc n)"
  by (subst handshakeLoop.simps) (auto simp: loopEnds_def split: sum.split)

lemma handshakeLoop_first:
  assumes "loopEnds attempt ctxDone (m + k)" and "\<forall>i<k. \<not> loopEnds attempt ctxDone (m + i)"
  shows "handshakeLoop attempt ctxDone m = Some (loopResult (attempt (m + k)))"
  using assms
proof (induction k arbitrary: m)
  case 0
  then show ?case by (simp add: handshakeLoop_stop)
next
  case (Suc k)
  have "handshakeLoop attempt ctxDone m = handshakeLoop attempt ctxDone (Suc m)"
    using Suc.prems(2) by (intro handshakeLoop_go) (metis add_0_right zero_less_Suc)
  also have "\<dots> = Some (loopResult (attempt (Suc m + k)))"
  proof (rule Suc.IH)
    show "loopEnds attempt ctxDone (Suc m + k)" using Suc.prems(1) by simp
    show "\<forall>i<k. \<not> loopEnds attempt ctxDone (Suc m + i)"
    proof (intro allI impI)
      fix i assume "i < k"
      with Suc.prems(2) [rule_format, of "Suc i"] show "\<not> loopEnds attempt ctxDone (Suc m + i)" by simp
    qed
  qed
  finally show ?case by simp
qed

lemma handshakeLoop_ends:
  assumes "handshakeLoop attempt ctxDone n = Some r"
  shows "\<exists>m. loopEnds attempt ctxDone m"
proof (rule handshakeLoop.raw_induct [where P = "\<lambda>attempt ctxDone n r. \<exists>m. loopEnds attempt ctxDone m", OF _ assms])
  fix loop :: "(nat \<Rightarrow> (string, HandshakeResult) result) \<Rightarrow> (nat \<Rightarrow> bool) \<Rightarrow> nat \<Rightarrow> (string, HandshakeResult) result option"
    and attempt ctxDone n r
  assume rec: "\<And>attempt ctxDone n y. loop attempt ctxDone n = Some y \<Longrightarrow> \<exists>m. loopEnds attempt ctxDone m"
    and run: "(case attempt n of Inl e \<Rightarrow> if ctxDone n then Some (Err (''handshake: '' @ e)) else loop attempt ctxDone (Suc n)
       | Inr got \<Rightarrow> Some (Ok got)) = Some r"
  show "\<exists>m. loopEnds attempt ctxDone m"
  proof (cases "loopEnds attempt ctxDone n")
    case False
    with run have "loop attempt ctxDone (Suc n) = Some r" by (auto simp: loopEnds_def split: sum.splits if_splits)
    then show ?thesis by (rule rec)
  qed blast
qed

text \<open>The handshake loop returns exactly when it can. It returns if and only if some attempt
  succeeds or the context is done after some attempt, and then with the outcome of the first
  such attempt: its result, or its error marked as a handshake error.\<close>

theorem handshake_until_exact:
  "HandshakeUntil world ctxDone dial socket dpuMode identifier =
     (let attempt = (\<lambda>n. Handshake dial socket dpuMode identifier (world n)) in
      if \<exists>n. loopEnds attempt ctxDone n then Some (loopResult (attempt (LEAST n. loopEnds attempt ctxDone n))) else None)"
proof -
  define attempt where "attempt = (\<lambda>n. Handshake dial socket dpuMode identifier (world n))"
  show ?thesis
  proof (cases "\<exists>n. loopEnds attempt ctxDone n")
    case True
    define N where "N = (LEAST n. loopEnds attempt ctxDone n)"
    have "loopEnds attempt ctxDone (0 + N)" using LeastI_ex [OF True] by (simp add: N_def)
    moreover have "\<forall>i<N. \<not> loopEnds attempt ctxDone (0 + i)" by (auto simp: N_def dest: not_less_Least)
    ultimately have "handshakeLoop attempt ctxDone 0 = Some (loopResult (attempt (0 + N)))" by (rule handshakeLoop_first)
    with True show ?thesis by (simp only: HandshakeUntil_def Let_def attempt_def N_def add_0 if_True)
  next
    case False
    then have "handshakeLoop attempt ctxDone 0 = None" using handshakeLoop_ends [of attempt ctxDone 0] by (metis not_Some_eq)
    with False show ?thesis by (simp only: HandshakeUntil_def Let_def attempt_def if_False)
  qed
qed

subsection \<open>From the enumerator to the report\<close>

text \<open>The connection to a server in the same model: its opi-api handlers.\<close>

definition loopback :: "'w Server \<Rightarrow> 'w VspConn" where
  "loopback s = \<lparr>vc_Init = (\<lambda>_. opi_Init s), vc_GetDevices = opi_GetDevices s\<rparr>"

definition liveOf :: "Device list \<Rightarrow> Device list" where
  "liveOf found = filter (\<lambda>d. ValidateIdentity d = Ok ()) found"

lemma find_by_key: "distinct (map f l) \<Longrightarrow> v \<in> set l \<Longrightarrow> find (\<lambda>e. f e = f v) l = Some v"
  by (induction l) (auto simp: image_iff)

lemma addDevice_lookup:
  assumes "distinct (map dv_PCIAddress ds)"
  shows "fmlookup (fold addDevice ds m) k = (case find (\<lambda>d. dv_PCIAddress d = k) ds of
      Some d \<Rightarrow> Some \<lparr>pd_ID = dv_SerialNumber d, pd_Health = healthOK\<rparr> | None \<Rightarrow> fmlookup m k)"
  using assms
proof (induction ds arbitrary: m)
  case (Cons d ds)
  have "find (\<lambda>e. dv_PCIAddress e = dv_PCIAddress d) ds = None" using Cons.prems by (auto simp: find_None_iff image_iff)
  with Cons show ?case by (auto simp: addDevice_def split: option.split)
qed simp

lemma reportedDevices_mem:
  "d \<in> set (reportedDevices hs) \<longleftrightarrow> (\<exists>k. fmlookup (hs_Devices hs) k = Some (Some d)) \<and> TrimSpace (hd_ID d) \<noteq> ''''"
  by (force simp: reportedDevices_def fmlookup_dom_iff split: option.splits if_splits)

lemma handshake_live:
  assumes "sv_Enumerator s = Some enum" and "enum w = Inr found" and "distinct (map dv_PCIAddress (liveOf found))"
  shows "\<exists>hs. Handshake (\<lambda>_. Inr (loopback s)) socket dpuMode ident w = Inr hs \<and>
    hd_ID ` set (reportedDevices hs) = dv_SerialNumber ` set (liveOf found) \<and> list_all deviceHealthy (reportedDevices hs)"
proof -
  define devs where "devs = fold addDevice (liveOf found) fmempty"
  define hs where "hs = \<lparr>hs_IP = defaultIP, hs_Port = defaultPort,
    hs_Devices = fmmap (\<lambda>d. Some \<lparr>hd_ID = pd_ID d, hd_Health = pd_Health d\<rparr>) (fmmap (\<lambda>d. \<lparr>pd_ID = pd_ID d, pd_Health = pd_Health d\<rparr>) devs)\<rparr>"
  have run: "Handshake (\<lambda>_. Inr (loopback s)) socket dpuMode ident w = Inr hs"
    by (simp add: Handshake_def loopback_def opi_Init_def srv_Init_def opi_GetDevices_def srv_GetDevices_def LiveDevices_def
        assms(1,2) liveOf_def [symmetric] devs_def hs_def bind_res_def Let_def)
  have entry: "(\<exists>k. fmlookup (hs_Devices hs) k = Some (Some d)) \<longleftrightarrow>
      (\<exists>v\<in>set (liveOf found). d = \<lparr>hd_ID = dv_SerialNumber v, hd_Health = healthOK\<rparr>)" for d
  proof -
    have "\<exists>k. fmlookup devs k = Some \<lparr>pd_ID = dv_SerialNumber v, pd_Health = healthOK\<rparr>" if "v \<in> set (liveOf found)" for v
      using find_by_key [OF assms(3) that] by (auto simp: devs_def addDevice_lookup [OF assms(3)] intro!: exI [of _ "dv_PCIAddress v"])
    moreover have "\<exists>v\<in>set (liveOf found). p = \<lparr>pd_ID = dv_SerialNumber v, pd_Health = healthOK\<rparr>" if "fmlookup devs k = Some p" for k p
      using that by (auto simp: devs_def addDevice_lookup [OF assms(3)] find_Some_iff split: option.splits)
    ultimately show ?thesis by (fastforce simp: hs_def)
  qed
  have named: "TrimSpace (dv_SerialNumber v) \<noteq> ''''" if "v \<in> set (liveOf found)" for v
    using that by (auto simp: liveOf_def ValidateIdentity_def split: if_splits)
  have all: "set (reportedDevices hs) = (\<lambda>v. \<lparr>hd_ID = dv_SerialNumber v, hd_Health = healthOK\<rparr>) ` set (liveOf found)"
    using named by (auto simp: reportedDevices_mem entry)
  have "EqualFold healthOK ''HEALTHY''" by code_simp
  then have "list_all deviceHealthy (reportedDevices hs)" by (auto simp: list_all_iff all deviceHealthy_def)
  moreover have "hd_ID ` set (reportedDevices hs) = dv_SerialNumber ` set (liveOf found)" by (simp add: all image_image)
  ultimately show ?thesis using run by blast
qed

text \<open>The handshake carries exactly the live boards. When the enumerator of a server answers,
  its live devices having different PCI addresses, a handshake with that server succeeds, the
  serials it reports are the serials of the live devices, and every reported device counts as
  healthy, so Ready is stamped True on the units with those serials.\<close>

theorem handshake_reports_live:
  assumes "sv_Enumerator s = Some enum" and "enum w = Inr found" and "distinct (map dv_PCIAddress (liveOf found))"
  shows "\<exists>hs. Handshake (\<lambda>_. Inr (loopback s)) socket dpuMode ident w = Inr hs \<and>
    hd_ID ` set (reportedDevices hs) = dv_SerialNumber ` set (liveOf found) \<and> list_all deviceHealthy (reportedDevices hs)"
  by (rule handshake_live [OF assms])

theorem handshake_reports_live_witness:
  "\<exists>hs. Handshake (\<lambda>_. Inr (loopback (NewServer (Some (\<lambda>_. Mock_Enumerate [StaticDevice NVIDIAVendorID ''MT1'' ''0000:03:00.0'' ''''])) ''''))) '''' True '''' () = Inr hs \<and>
     hd_ID ` set (reportedDevices hs) = {''MT1''}"
proof -
  let ?d = "StaticDevice NVIDIAVendorID ''MT1'' ''0000:03:00.0'' ''''"
  let ?s = "NewServer (Some (\<lambda>_ :: unit. Mock_Enumerate [?d])) ''''"
  have live: "liveOf [?d] = [?d]" by code_simp
  have "sv_Enumerator ?s = Some (\<lambda>_. Mock_Enumerate [?d])" by (simp add: NewServer_def)
  from handshake_reports_live [where w = "()" and found = "[?d]" and socket = "[]" and dpuMode = True and ident = "[]", OF this] live
  show ?thesis by (auto simp: Mock_Enumerate_def StaticDevice_def)
qed

subsection \<open>Network functions\<close>

text \<open>
  Without a gate every call is refused; with the cluster gate a create is accepted exactly for
  an identified request against a live DPUService that has a chart.
\<close>

lemma create_gate:
  "sv_Handoff s = None \<Longrightarrow> srv_CreateNetworkFunction s w req = Inl createRefused"
  "sv_Handoff s = Some (ClusterHandoff B client) \<Longrightarrow>
     srv_CreateNetworkFunction s w req = Inr () \<longleftrightarrow> validateNFRequest req = None \<and>
       (\<exists>c items. client = Some c \<and> tc_List c w DPUServiceGVK fmempty = Inr items \<and> (\<exists>item\<in>set items. acceptedService B item))"
  by (auto simp: srv_CreateNetworkFunction_def handoffOrReject_def RejectHandoff_def ClusterHandoff_def ch_CreateIntentAccepted_def
      acceptedDPUServices_def filter_empty_conv split: option.splits sum.splits if_splits)

end
