(* ===== verification/Shipped.thy ===== *)
theory Shipped
  imports GenRbac LifecycleFacts VspFacts MappingFacts
begin

text \<open>
  The documents the repository ships: the mappings of config/mappings, the table of condition
  writers of config/condition-writers.yaml and the permission markers checked in as
  pkg/translation/zz_generated_rbac.go, as the values the YAML decoder gives for them (the
  description of a mapping is not read by any code). Expressions that occur in several places of
  a document are named once. The theorems run the model on them: the documents load, the
  checked-in permissions are what the generator writes, and the table lists exactly the
  conditions the code writes.
\<close>

subsection \<open>Texts\<close>

text \<open>Quotes that cannot stand in a string literal here.\<close>

definition q1 :: string where "q1 = [CHR 0x27]"
definition q2 :: string where "q2 = [CHR 0x27, CHR 0x27]"
definition dq :: string where "dq = [CHR 0x22]"

named_theorems shipped_text

definition celValue :: "string \<Rightarrow> Value" where
  "celValue e = noValue\<lparr>va_CEL := e\<rparr>"
definition fromValue :: "string \<Rightarrow> Value" where
  "fromValue p = noValue\<lparr>va_From := p\<rparr>"

definition noField :: "string \<Rightarrow> Field" where
  "noField dest = \<lparr>fd_To = dest, fd_From = '''', fd_CEL = '''', fd_Value = None, fd_Default = None, fd_Required = False\<rparr>"
definition celField :: "string \<Rightarrow> string \<Rightarrow> bool \<Rightarrow> Field" where
  "celField dest e req = (noField dest)\<lparr>fd_CEL := e, fd_Required := req\<rparr>"
definition fromField :: "string \<Rightarrow> string \<Rightarrow> bool \<Rightarrow> Field" where
  "fromField dest p req = (noField dest)\<lparr>fd_From := p, fd_Required := req\<rparr>"
definition valueField :: "string \<Rightarrow> jv \<Rightarrow> Field" where
  "valueField dest v = (noField dest)\<lparr>fd_Value := Some v\<rparr>"

definition opiRef :: "string \<Rightarrow> MapRef" where
  "opiRef kind = \<lparr>mr_Group = ''config.openshift.io'', mr_Version = ''v1'', mr_Kind = kind\<rparr>"

subsection \<open>Documents\<close>

definition declaredProduct :: string where [shipped_text]:
  "declaredProduct = ''source.spec.?dpuProductName.orValue('' @ q2 @ '')''"

definition observedProduct :: string where [shipped_text]:
  "observedProduct = ''source.metadata.?annotations['discovery.opiproject.org/product-name'].orValue('' @ q2 @ '')''"

definition isBF3 :: string where [shipped_text]:
  "isBF3 = declaredProduct @ '' == 'BlueField-3' && '' @ observedProduct @ '' == 'BlueField-3'' @ q1"

definition serialOrEmpty :: string where [shipped_text]:
  "serialOrEmpty = ''source.metadata.?annotations['provisioning.dpu.nvidia.com/serial-number'].orValue('' @ q2 @ '')''"

definition serialName :: string where [shipped_text]:
  "serialName = ''source.metadata.?annotations['provisioning.dpu.nvidia.com/serial-number'].orValue(source.metadata.name + '-device').lowerAscii()''"

definition childReady :: string where [shipped_text]:
  "childReady = ''c.?status.?conditions.orValue([]).exists(cond, cond.type == 'Ready' && cond.status == 'True')''"

definition nvidiaReady :: string where [shipped_text]:
  "nvidiaReady = ''(children.size() > 0 && children.all(c, '' @ childReady @ '' || c.?status.?phase.orValue('' @ q2 @
    '') == 'Ready' || c.?kind.orValue('' @ q2 @ '') == 'DPUFlavor'))''"

definition chainReady :: string where [shipped_text]:
  "chainReady = ''children.size() > 0 && children.all(c, '' @ childReady @ '')''"

definition amdOwns :: string where [shipped_text]:
  "amdOwns = declaredProduct @
    ''.matches('DSC|Pensando') && source.metadata.?annotations['dpu.amd.com/serial-number'].orValue('' @ q2 @
    '') != '' @ q2"

definition amdSerial :: string where [shipped_text]:
  "amdSerial = ''source.metadata.?annotations['dpu.amd.com/serial-number'].orValue('' @ q2 @ '')''"

definition hardwareReason :: string where [shipped_text]:
  "hardwareReason = observedProduct @ '' == '' @ q2 @ '' ? 'HardwareIdentityMissing' : ('' @ observedProduct @
    '' != 'BlueField-3' ? 'UnsupportedHardware' : ('' @ declaredProduct @
    '' != 'BlueField-3' ? 'HardwareIdentityMismatch' : 'SupportedGeneration'))''"

definition hardwareMessage :: string where [shipped_text]:
  "hardwareMessage = ''('' @ isBF3 @
    '') ? 'BlueField-3 generation is eligible for the DPF 26.4 profile; verify exact SKU, firmware, host OS and physical dataplane separately' : ('DPF 26.4 profile requires matching declared and observed BlueField-3 hardware; observed=' + '' @
    observedProduct @ '')''"

definition flavorName :: string where [shipped_text]:
  "flavorName = ''source.metadata.?annotations['dpu.nvidia.com/flavor'].orValue('dpf-default-flavor')''"

definition bfbName :: string where [shipped_text]:
  "bfbName = ''source.metadata.?annotations['dpu.nvidia.com/bfb'].orValue('bf-bundle')''"

definition dataprocessingunit_DPUDevice :: Emit where
  "dataprocessingunit_DPUDevice =
    \<lparr>em_Target = \<lparr>mr_Group = ''provisioning.dpu.nvidia.com'', mr_Version = ''v1alpha1'', mr_Kind = ''DPUDevice''\<rparr>,
      em_Name = celValue serialName, em_Namespace = noValue,
      em_When = isBF3, em_ForEach = None,
      em_Fields = [celField ''spec.serialNumber'' serialOrEmpty True]\<rparr>"

definition dataprocessingunit_DPUFlavor :: Emit where
  "dataprocessingunit_DPUFlavor =
    \<lparr>em_Target = \<lparr>mr_Group = ''provisioning.dpu.nvidia.com'', mr_Version = ''v1alpha1'', mr_Kind = ''DPUFlavor''\<rparr>,
      em_Name = celValue flavorName, em_Namespace = noValue,
      em_When = isBF3, em_ForEach = None,
      em_Fields = [valueField ''spec.dpuMode'' (JStr ''dpu''),
        celField ''spec.nvconfig'' (''[{'' @ newline @ ''  '' @ dq @ ''device'' @ dq @ '': '' @ dq @ ''*'' @ dq @ '','' @ newline @ ''  '' @ dq @
          ''parameters'' @ dq @ '': ['' @ newline @ ''    '' @ dq @ ''PF_BAR2_ENABLE='' @ dq @
          '' + source.metadata.?annotations['dpu.nvidia.com/pf-bar2-enable'].orValue('0'),'' @ newline @ ''    '' @ dq @
          ''PER_PF_NUM_SF='' @ dq @ '' + source.metadata.?annotations['dpu.nvidia.com/per-pf-num-sf'].orValue('1'),'' @
          newline @ ''    '' @ dq @ ''PF_TOTAL_SF='' @ dq @
          '' + (source.metadata.?annotations['dpu.nvidia.com/pf-total-sf'].orValue('20') == '0' ? '20' : source.metadata.?annotations['dpu.nvidia.com/pf-total-sf'].orValue('20')),'' @
          newline @ ''    '' @ dq @ ''PF_SF_BAR_SIZE='' @ dq @
          '' + (source.metadata.?annotations['dpu.nvidia.com/pf-sf-bar-size'].orValue('10') == '0' ? '10' : source.metadata.?annotations['dpu.nvidia.com/pf-sf-bar-size'].orValue('10')),'' @
          newline @ ''    '' @ dq @ ''NUM_PF_MSIX_VALID='' @ dq @
          '' + source.metadata.?annotations['dpu.nvidia.com/num-pf-msix-valid'].orValue('0'),'' @ newline @ ''    '' @
          dq @ ''PF_NUM_PF_MSIX_VALID='' @ dq @
          '' + source.metadata.?annotations['dpu.nvidia.com/pf-num-pf-msix-valid'].orValue('1'),'' @ newline @ ''    '' @
          dq @ ''PF_NUM_PF_MSIX='' @ dq @
          '' + source.metadata.?annotations['dpu.nvidia.com/pf-num-pf-msix'].orValue('228'),'' @ newline @ ''    '' @ dq @
          ''INTERNAL_CPU_MODEL=1'' @ dq @ '','' @ newline @ ''    '' @ dq @ ''INTERNAL_CPU_OFFLOAD_ENGINE=0'' @ dq @
          '','' @ newline @ ''    '' @ dq @ ''SRIOV_EN=1'' @ dq @ '','' @ newline @ ''    '' @ dq @ ''NUM_OF_VFS='' @ dq @
          '' + source.metadata.?annotations['dpu.nvidia.com/num-of-vfs'].orValue('46'),'' @ newline @ ''    '' @ dq @
          ''LAG_RESOURCE_ALLOCATION='' @ dq @
          '' + source.metadata.?annotations['dpu.nvidia.com/lag-resource-allocation'].orValue('1')'' @ newline @ ''  ]'' @
          newline @ ''}]'' @ newline) False]\<rparr>"

definition dataprocessingunit_BFB :: Emit where
  "dataprocessingunit_BFB =
    \<lparr>em_Target = \<lparr>mr_Group = ''provisioning.dpu.nvidia.com'', mr_Version = ''v1alpha1'', mr_Kind = ''BFB''\<rparr>,
      em_Name = celValue bfbName, em_Namespace = noValue,
      em_When = isBF3, em_ForEach = None,
      em_Fields = [celField ''spec.url'' (''source.metadata.?annotations['dpu.nvidia.com/bfb-url'].orValue('' @ q2 @ '')'') True]\<rparr>"

definition dataprocessingunit_DPU :: Emit where
  "dataprocessingunit_DPU =
    \<lparr>em_Target = \<lparr>mr_Group = ''provisioning.dpu.nvidia.com'', mr_Version = ''v1alpha1'', mr_Kind = ''DPU''\<rparr>,
      em_Name = fromValue ''metadata.name'', em_Namespace = noValue,
      em_When = isBF3, em_ForEach = None,
      em_Fields = [fromField ''spec.dpuNodeName'' ''spec.nodeName'' True,
        celField ''metadata.labels'' (''{'provisioning.dpu.nvidia.com/dpunode-name': source.spec.nodeName}'') False,
        celField ''spec.dpuDeviceName'' serialName False,
        celField ''spec.dpuFlavor'' flavorName False,
        celField ''spec.bfb'' bfbName False,
        celField ''spec.serialNumber'' serialOrEmpty True,
        celField ''spec.pciAddress'' (''source.metadata.?annotations['provisioning.dpu.nvidia.com/pci-address'].orValue('' @ q2 @ '')'') True,
        valueField ''spec.nodeEffect.noEffect'' (JBool True)]\<rparr>"

definition dataprocessingunit_status :: StatusMapping where
  "dataprocessingunit_status = \<lparr>sm_When = ''('' @ declaredProduct @ ''.startsWith('BlueField') || '' @ observedProduct @
    ''.startsWith('BlueField')) || '' @ serialOrEmpty @ '' != '' @ q2 @
    '' || source.?status.?conditions.orValue([]).exists(c, c.type in ['DPFReady', 'DPFHardwareCompatible'])'',
    sm_Schema = ''conditions'', sm_Fields = [],
    sm_Conditions = [\<lparr>sc_Type = ''DPFReady'',
      sc_Status = ''('' @ isBF3 @ '') && '' @ nvidiaReady,
      sc_Reason = ''!('' @ isBF3 @ '') ? ('' @ hardwareReason @ '') : (children.exists(c, c.?status.?phase.orValue('' @ q2 @
        '') == 'Rebooting') ? 'Rebooting' : ('' @ nvidiaReady @ '' ? 'AllChildrenReady' : 'ChildrenNotReady'))'',
      sc_Message = ''!('' @ isBF3 @ '') ? ('' @ hardwareMessage @ '') : (children.exists(c, c.?status.?phase.orValue('' @ q2 @
        '') == 'Rebooting') ? 'NVIDIA DPU child is Rebooting; the required reset is managed by DPF' : ('' @
        nvidiaReady @
        '' ? 'All emitted DPF objects report Ready' : 'One or more emitted DPF resources are not Ready'))''\<rparr>,
     \<lparr>sc_Type = ''DPFHardwareCompatible'',
      sc_Status = isBF3,
      sc_Reason = hardwareReason,
      sc_Message = hardwareMessage\<rparr>]\<rparr>"

definition dataprocessingunit :: Spec where
  "dataprocessingunit = \<lparr>sp_APIVersion = ''translation.opi.nvidia.com/v1alpha1'', sp_Kind = ''FieldMapping'', sp_Name = ''dataprocessingunit'',
    sp_Source = \<lparr>mr_Group = ''config.openshift.io'', mr_Version = ''v1'', mr_Kind = ''DataProcessingUnit''\<rparr>,
    sp_Defaults = Some (celValue (''source.metadata.?namespace.orValue('' @ q2 @ '') != '' @ q2 @ '' ? source.metadata.namespace : 'dpf-operator-system'' @ q1)),
    sp_Emit = [dataprocessingunit_DPUDevice, dataprocessingunit_DPUFlavor, dataprocessingunit_BFB, dataprocessingunit_DPU],
    sp_Status = Some dataprocessingunit_status, sp_PruneWhen = isBF3\<rparr>"

definition servicefunctionchain_DPUService :: Emit where
  "servicefunctionchain_DPUService =
    \<lparr>em_Target = \<lparr>mr_Group = ''svc.dpu.nvidia.com'', mr_Version = ''v1alpha1'', mr_Kind = ''DPUService''\<rparr>,
      em_Name = celValue (''item.name''), em_Namespace = noValue,
      em_When = q1 @ ''chart' in item'', em_ForEach = Some ''spec.networkFunctions'',
      em_Fields = [fromField ''spec.serviceID'' ''item.name'' True,
        celField ''spec.helmChart.source.repoURL'' ''item.chart.repository'' True,
        celField ''spec.helmChart.source.chart'' ''item.chart.name'' True,
        celField ''spec.helmChart.source.version'' ''item.chart.version'' True,
        celField ''spec.interfaces'' (''[item.name + '-ifc']'') False,
        valueField ''spec.paused'' (JBool False),
        valueField ''spec.security.privileged'' (JBool True)]\<rparr>"

definition servicefunctionchain_DPUServiceInterface :: Emit where
  "servicefunctionchain_DPUServiceInterface =
    \<lparr>em_Target = \<lparr>mr_Group = ''svc.dpu.nvidia.com'', mr_Version = ''v1alpha1'', mr_Kind = ''DPUServiceInterface''\<rparr>,
      em_Name = celValue (''item.name + '-ifc'' @ q1), em_Namespace = noValue,
      em_When = q1 @ ''chart' in item'', em_ForEach = Some ''spec.networkFunctions'',
      em_Fields = [celField ''spec.template.spec.template.metadata.labels'' (''{'service': item.name}'') False,
        valueField ''spec.template.spec.template.spec.interfaceType'' (JStr ''service''),
        fromField ''spec.template.spec.template.spec.service.serviceID'' ''item.name'' True,
        valueField ''spec.template.spec.template.spec.service.interfaceName'' (JStr ''net0''),
        valueField ''spec.template.spec.template.spec.service.network'' (JStr ''default'')]\<rparr>"

definition servicefunctionchain_DPUServiceChain :: Emit where
  "servicefunctionchain_DPUServiceChain =
    \<lparr>em_Target = \<lparr>mr_Group = ''svc.dpu.nvidia.com'', mr_Version = ''v1alpha1'', mr_Kind = ''DPUServiceChain''\<rparr>,
      em_Name = fromValue ''metadata.name'', em_Namespace = noValue,
      em_When = ''source.spec.networkFunctions.exists(nf, 'chart' in nf)'', em_ForEach = None,
      em_Fields = [celField ''spec.template.spec.template.spec.switches'' (''[{'ports': source.spec.networkFunctions.filter(nf, 'chart' in nf).map(nf, {'serviceInterface': {'matchLabels': {'service': nf.name}}})}]'') False]\<rparr>"

definition servicefunctionchain_status :: StatusMapping where
  "servicefunctionchain_status = \<lparr>sm_When = '''',
    sm_Schema = ''conditions'', sm_Fields = [],
    sm_Conditions = [\<lparr>sc_Type = ''DPFReady'',
      sc_Status = chainReady,
      sc_Reason = ''('' @ chainReady @ '') ? 'AllServicesReady' : 'ServicesNotReady'' @ q1,
      sc_Message = ''('' @ chainReady @
        '') ? 'All translated DPUServices, interfaces, and the chain report Ready' : 'One or more translated services, interfaces, or the chain are not Ready'' @
        q1\<rparr>]\<rparr>"

definition servicefunctionchain :: Spec where
  "servicefunctionchain = \<lparr>sp_APIVersion = ''translation.opi.nvidia.com/v1alpha1'', sp_Kind = ''FieldMapping'', sp_Name = ''servicefunctionchain'',
    sp_Source = \<lparr>mr_Group = ''config.openshift.io'', mr_Version = ''v1'', mr_Kind = ''ServiceFunctionChain''\<rparr>,
    sp_Defaults = Some (celValue (''source.metadata.?namespace.orValue('' @ q2 @ '') != '' @ q2 @ '' ? source.metadata.namespace : 'dpf-operator-system'' @ q1)),
    sp_Emit = [servicefunctionchain_DPUService, servicefunctionchain_DPUServiceInterface, servicefunctionchain_DPUServiceChain],
    sp_Status = Some servicefunctionchain_status, sp_PruneWhen = ''''\<rparr>"

definition amdDsc200_DSCDevice :: Emit where
  "amdDsc200_DSCDevice =
    \<lparr>em_Target = \<lparr>mr_Group = ''dpu.amd.com'', mr_Version = ''v1alpha1'', mr_Kind = ''DSCDevice''\<rparr>,
      em_Name = celValue (''source.metadata.name + '-dsc'' @ q1), em_Namespace = noValue,
      em_When = amdOwns, em_ForEach = None,
      em_Fields = [celField ''spec.deviceSerial'' amdSerial True,
        celField ''spec.pciAddress'' (''source.metadata.?annotations['dpu.amd.com/pci-address'].orValue('' @ q2 @ '')'') False,
        fromField ''spec.productName'' ''spec.dpuProductName'' True,
        valueField ''spec.management.driver'' (JStr ''ionic''),
        celField ''spec.management.interface'' (''source.metadata.?annotations['dpu.amd.com/mgmt-interface'].orValue('oob')'') False]\<rparr>"

definition amdDsc200_DSCProfile :: Emit where
  "amdDsc200_DSCProfile =
    \<lparr>em_Target = \<lparr>mr_Group = ''dpu.amd.com'', mr_Version = ''v1alpha1'', mr_Kind = ''DSCProfile''\<rparr>,
      em_Name = celValue (''source.metadata.?annotations['dpu.amd.com/profile'].orValue('dsc-default-profile')''), em_Namespace = noValue,
      em_When = amdOwns, em_ForEach = None,
      em_Fields = [celField ''spec.mode'' (''source.spec.?isDpuSide.orValue(false) ? 'dpu' : 'smartnic'' @ q1) False,
        valueField ''spec.hostInterfaces'' (JInt 2)]\<rparr>"

definition amdDsc200_DSCFirmware :: Emit where
  "amdDsc200_DSCFirmware =
    \<lparr>em_Target = \<lparr>mr_Group = ''dpu.amd.com'', mr_Version = ''v1alpha1'', mr_Kind = ''DSCFirmware''\<rparr>,
      em_Name = celValue (''source.metadata.?annotations['dpu.amd.com/firmware'].orValue('dsc-fw-bundle')''), em_Namespace = noValue,
      em_When = amdOwns, em_ForEach = None,
      em_Fields = [celField ''spec.image.url'' (''source.metadata.?annotations['dpu.amd.com/firmware-url'].orValue('' @ q2 @ '')'') True,
        celField ''spec.image.version'' (''source.metadata.?annotations['dpu.amd.com/firmware-version'].orValue('1.46.0-E-28')'') False]\<rparr>"

definition amdDsc200_DSCNodePolicy :: Emit where
  "amdDsc200_DSCNodePolicy =
    \<lparr>em_Target = \<lparr>mr_Group = ''dpu.amd.com'', mr_Version = ''v1alpha1'', mr_Kind = ''DSCNodePolicy''\<rparr>,
      em_Name = fromValue ''metadata.name'', em_Namespace = noValue,
      em_When = amdOwns, em_ForEach = None,
      em_Fields = [fromField ''spec.nodeName'' ''spec.nodeName'' True,
        celField ''spec.deviceRef.name'' (''source.metadata.name + '-dsc'' @ q1) False,
        celField ''spec.profileRef.name'' (''source.metadata.?annotations['dpu.amd.com/profile'].orValue('dsc-default-profile')'') False,
        celField ''spec.firmwareRef.name'' (''source.metadata.?annotations['dpu.amd.com/firmware'].orValue('dsc-fw-bundle')'') False,
        valueField ''spec.drain.enabled'' (JBool False)]\<rparr>"

definition amdDsc200_status :: StatusMapping where
  "amdDsc200_status = \<lparr>sm_When = amdOwns,
    sm_Schema = ''conditions'', sm_Fields = [],
    sm_Conditions = [\<lparr>sc_Type = ''DSCReady'',
      sc_Status = ''children.size() > 0 && children.all(c, c.?status.?conditions.orValue([]).size() == 0 || '' @ childReady @
        '')'',
      sc_Reason = ''AllChildrenReady'',
      sc_Message = ''All emitted AMD DSC objects that publish readiness report Ready''\<rparr>]\<rparr>"

definition amdDsc200 :: Spec where
  "amdDsc200 = \<lparr>sp_APIVersion = ''translation.opi.nvidia.com/v1alpha1'', sp_Kind = ''FieldMapping'', sp_Name = ''amd-dsc200'',
    sp_Source = \<lparr>mr_Group = ''config.openshift.io'', mr_Version = ''v1'', mr_Kind = ''DataProcessingUnit''\<rparr>,
    sp_Defaults = Some (celValue (''source.metadata.?namespace.orValue('' @ q2 @ '') != '' @ q2 @ '' ? source.metadata.namespace : 'amd-dpu-system'' @ q1)),
    sp_Emit = [amdDsc200_DSCDevice, amdDsc200_DSCProfile, amdDsc200_DSCFirmware, amdDsc200_DSCNodePolicy],
    sp_Status = Some amdDsc200_status, sp_PruneWhen = ''''\<rparr>"


definition zz_generated_rbac :: string where
  "zz_generated_rbac = concat (map (\<lambda>l. l @ newline)
    [''// Code generated by hack/gen-rbac from config/mappings. DO NOT EDIT.'',
     ''//'',
     ''// Regenerate with: make generate-rbac'',
     ''//'',
     ''// These markers are what controller-gen turns into the manager ClusterRole.'',
     ''// They are derived from the FieldMapping documents, so onboarding a vendor'',
     ''// needs no Go edit: drop in a mapping and regenerate. The previous hand-written'',
     ''// markers were the one place a vendor port was not pure data, and a forgotten'',
     ''// group surfaced only at runtime as an apiserver Forbidden error.'',
     '''',
     ''package translation'',
     '''',
     ''// +kubebuilder:rbac:groups=config.openshift.io,resources=dataprocessingunits/finalizers;servicefunctionchains/finalizers,verbs=update'',
     ''// +kubebuilder:rbac:groups=config.openshift.io,resources=dataprocessingunits/status;servicefunctionchains/status,verbs=get;update;patch'',
     ''// +kubebuilder:rbac:groups=config.openshift.io,resources=dataprocessingunits;servicefunctionchains,verbs=get;list;watch;update;patch'',
     ''// +kubebuilder:rbac:groups=dpu.amd.com,resources=dscdevices;dscfirmwares;dscnodepolicies;dscprofiles,verbs=get;list;watch;create;update;patch;delete'',
     ''// +kubebuilder:rbac:groups=provisioning.dpu.nvidia.com,resources=bfbs;dpudevices;dpuflavors;dpus,verbs=get;list;watch;create;update;patch;delete'',
     ''// +kubebuilder:rbac:groups=svc.dpu.nvidia.com,resources=dpuservicechains;dpuserviceinterfaces;dpuservices,verbs=get;list;watch;create;update;patch;delete''])"


text \<open>The directory as \<^verbatim>\<open>os.ReadDir\<close> lists it, by name.\<close>

definition shippedEntries :: "(string \<times> bool) list" where
  "shippedEntries = [(''amd-dsc200.yaml'', False), (''dataprocessingunit.yaml'', False), (''fieldmapping.schema.json'', False),
     (''kustomization.yaml'', False), (''servicefunctionchain.yaml'', False)]"

definition shippedFiles :: "(string \<times> Spec) list" where
  "shippedFiles = [(''amd-dsc200.yaml'', amdDsc200), (''dataprocessingunit.yaml'', dataprocessingunit),
     (''servicefunctionchain.yaml'', servicefunctionchain)]"

subsection \<open>They load\<close>

lemma amd_valid: "Validate amdDsc200 = Inr ()" by code_simp
lemma dpu_valid: "Validate dataprocessingunit = Inr ()" by code_simp
lemma sfc_valid: "Validate servicefunctionchain = Inr ()" by code_simp

lemma shipped_load:
  assumes "readDir dir = Inr shippedEntries"
    and "\<And>n s. (n, s) \<in> set shippedFiles \<Longrightarrow> \<exists>b. read (dir @ ''/'' @ n) = Inr b \<and> unmarshal b = Inr s"
  shows "LoadDir readDir read unmarshal dir = Inr (map snd shippedFiles)"
proof -
  have files: "filter (\<lambda>(name, isDir). \<not> isDir \<and> isMappingFile name) shippedEntries = map (\<lambda>(n, _). (n, False)) shippedFiles"
    by code_simp
  have "LoadFile read unmarshal (dir @ ''/'' @ n) = Inr s" if "(n, s) \<in> set shippedFiles" for n s
  proof -
    have "Validate s = Inr ()" using that amd_valid dpu_valid sfc_valid by (auto simp: shippedFiles_def)
    with assms(2) [OF that] show ?thesis by (auto simp: LoadFile_def)
  qed
  then have "traverse (\<lambda>(name, _). LoadFile read unmarshal (dir @ ''/'' @ name)) (map (\<lambda>(n, _). (n, False)) shippedFiles) =
      Inr (map snd shippedFiles)"
    by (auto simp: traverse_Inr_iff list.rel_map list.rel_refl_strong split: prod.split intro!: list.rel_refl_strong)
  then show ?thesis by (simp add: LoadDir_def assms(1) files shippedFiles_def)
qed

subsection \<open>The checked-in permissions are current\<close>

text \<open>The generator reads only the kinds of a document.\<close>

definition kindsOnly :: "Spec \<Rightarrow> Spec" where
  "kindsOnly s = specOf (sp_Source s) (map em_Target (sp_Emit s))"

lemma addSpec_kindsOnly: "addSpec (kindsOnly s) = addSpec s"
  by (simp add: fun_eq_iff addSpec_def kindsOnly_def specOf_def fold_map comp_def)

lemma rbacRules_kindsOnly: "rbacRules perm (map kindsOnly specs) = rbacRules perm specs"
  by (simp add: rbacRules_def fold_map comp_def addSpec_kindsOnly)

definition shippedKinds :: "Spec list" where
  "shippedKinds =
     (let dpu = opiRef ''DataProcessingUnit''; amd = MapRef.make ''dpu.amd.com'' ''v1alpha1'';
          prov = MapRef.make ''provisioning.dpu.nvidia.com'' ''v1alpha1''; svc = MapRef.make ''svc.dpu.nvidia.com'' ''v1alpha1''
      in [specOf dpu (map amd [''DSCDevice'', ''DSCProfile'', ''DSCFirmware'', ''DSCNodePolicy'']),
          specOf dpu (map prov [''DPUDevice'', ''DPUFlavor'', ''BFB'', ''DPU'']),
          specOf (opiRef ''ServiceFunctionChain'') (map svc [''DPUService'', ''DPUServiceInterface'', ''DPUServiceChain''])])"

lemmas shipped_emits =
  dataprocessingunit_DPUDevice_def dataprocessingunit_DPUFlavor_def dataprocessingunit_BFB_def dataprocessingunit_DPU_def
  servicefunctionchain_DPUService_def servicefunctionchain_DPUServiceInterface_def servicefunctionchain_DPUServiceChain_def
  amdDsc200_DSCDevice_def amdDsc200_DSCProfile_def amdDsc200_DSCFirmware_def amdDsc200_DSCNodePolicy_def

lemma shipped_kinds: "map kindsOnly (map snd shippedFiles) = shippedKinds"
  by (simp add: shippedFiles_def shippedKinds_def kindsOnly_def amdDsc200_def dataprocessingunit_def servicefunctionchain_def
      opiRef_def MapRef.defs Let_def shipped_emits)

lemma shipped_rules: "rbacRules perm (map snd shippedFiles) = rbacRules perm shippedKinds"
  by (metis rbacRules_kindsOnly shipped_kinds)

lemma shipped_plurals:
  "pluralize ''DataProcessingUnit'' = ''dataprocessingunits''" "pluralize ''ServiceFunctionChain'' = ''servicefunctionchains''"
  "pluralize ''DSCDevice'' = ''dscdevices''" "pluralize ''DSCProfile'' = ''dscprofiles''" "pluralize ''DSCFirmware'' = ''dscfirmwares''"
  "pluralize ''DSCNodePolicy'' = ''dscnodepolicies''" "pluralize ''DPUDevice'' = ''dpudevices''" "pluralize ''DPUFlavor'' = ''dpuflavors''"
  "pluralize ''BFB'' = ''bfbs''" "pluralize ''DPU'' = ''dpus''" "pluralize ''DPUService'' = ''dpuservices''"
  "pluralize ''DPUServiceInterface'' = ''dpuserviceinterfaces''" "pluralize ''DPUServiceChain'' = ''dpuservicechains''"
  by code_simp+

text \<open>The accumulator after the three documents, and its rules in order.\<close>

lemma shipped_acc: "fold addSpec shippedKinds [] =
  [((''config.openshift.io'', sourceVerbs), [''dataprocessingunits'', ''servicefunctionchains'']),
   ((''config.openshift.io'', statusVerbs), [''dataprocessingunits/status'', ''servicefunctionchains/status'']),
   ((''config.openshift.io'', finalizerVerbs), [''dataprocessingunits/finalizers'', ''servicefunctionchains/finalizers'']),
   ((''dpu.amd.com'', targetVerbs), [''dscdevices'', ''dscprofiles'', ''dscfirmwares'', ''dscnodepolicies'']),
   ((''provisioning.dpu.nvidia.com'', targetVerbs), [''dpudevices'', ''dpuflavors'', ''bfbs'', ''dpus'']),
   ((''svc.dpu.nvidia.com'', targetVerbs), [''dpuservices'', ''dpuserviceinterfaces'', ''dpuservicechains''])]"
  by (simp add: shippedKinds_def addSpec_def specOf_def opiRef_def MapRef.defs Let_def shipped_plurals)
     (simp add: const_defs)

lemma shipped_rule_list: "rbacRules (\<lambda>xs. xs) (map snd shippedFiles) =
  [\<lparr>ru_group = ''config.openshift.io'', ru_resources = [''dataprocessingunits/finalizers'', ''servicefunctionchains/finalizers''], ru_verbs = finalizerVerbs\<rparr>,
   \<lparr>ru_group = ''config.openshift.io'', ru_resources = [''dataprocessingunits/status'', ''servicefunctionchains/status''], ru_verbs = statusVerbs\<rparr>,
   \<lparr>ru_group = ''config.openshift.io'', ru_resources = [''dataprocessingunits'', ''servicefunctionchains''], ru_verbs = sourceVerbs\<rparr>,
   \<lparr>ru_group = ''dpu.amd.com'', ru_resources = [''dscdevices'', ''dscfirmwares'', ''dscnodepolicies'', ''dscprofiles''], ru_verbs = targetVerbs\<rparr>,
   \<lparr>ru_group = ''provisioning.dpu.nvidia.com'', ru_resources = [''bfbs'', ''dpudevices'', ''dpuflavors'', ''dpus''], ru_verbs = targetVerbs\<rparr>,
   \<lparr>ru_group = ''svc.dpu.nvidia.com'', ru_resources = [''dpuservicechains'', ''dpuserviceinterfaces'', ''dpuservices''], ru_verbs = targetVerbs\<rparr>]"
  unfolding shipped_rules unfolding rbacRules_def shipped_acc by (simp add: ruleKey_def)

lemma shipped_tieFree: "tieFree (map snd shippedFiles)"
  unfolding tieFree_def shipped_rule_list by (simp add: ruleKey_def)

lemma shipped_render: "render (\<lambda>xs. xs) (map snd shippedFiles) ''translation'' ''config/mappings'' = zz_generated_rbac"
  unfolding render_def shipped_rule_list zz_generated_rbac_def
  by (simp add: ruleLine_def headerLines_def const_defs)

text \<open>C39: the permission markers checked in with the repository are current. On the shipped mapping
  directory, whatever order the generator ranges over its maps in, its check mode accepts
  pkg/translation/zz_generated_rbac.go as it is and calls every other content stale.\<close>

theorem shipped_rbac_current:
  assumes "\<And>xs. mset (perm xs) = mset xs" and "readDir ''config/mappings'' = Inr shippedEntries"
    and "\<And>n s. (n, s) \<in> set shippedFiles \<Longrightarrow> \<exists>b. read (''config/mappings/'' @ n) = Inr b \<and> unmarshal b = Inr s"
  shows "genMain perm (LoadDir readDir read unmarshal ''config/mappings'') (Inr got) mk wr True ''translation'' ''config/mappings'' =
    (if got = zz_generated_rbac then UpToDate else Stale)"
proof -
  have "LoadDir readDir read unmarshal ''config/mappings'' = Inr (map snd shippedFiles)"
    by (rule shipped_load) (use assms(2,3) in simp_all)
  moreover have "render perm (map snd shippedFiles) ''translation'' ''config/mappings'' = zz_generated_rbac"
    using rules_deterministic [OF assms(1) shipped_tieFree] shipped_render by (simp add: render_def)
  ultimately show ?thesis by (simp add: genMain_def Let_def)
qed

text \<open>A disk on which a file is its own name and the decoder knows the three documents.\<close>

definition shippedDecoder :: "string \<Rightarrow> (string, Spec) result" where
  "shippedDecoder b = (case map_of (map (\<lambda>(n, s). (''config/mappings/'' @ n, s)) shippedFiles) b of
     None \<Rightarrow> Inl ''unknown'' | Some s \<Rightarrow> Inr s)"

theorem shipped_rbac_current_witness:
  "genMain rev (LoadDir (\<lambda>_. Inr shippedEntries) Inr shippedDecoder ''config/mappings'') (Inr zz_generated_rbac) (Inr ()) (Inr ()) True
     ''translation'' ''config/mappings'' = UpToDate"
proof -
  have "\<exists>b. (Inr (''config/mappings/'' @ n) :: (string, string) result) = Inr b \<and> shippedDecoder b = Inr s" if "(n, s) \<in> set shippedFiles" for n s
    using that by (auto simp: shippedDecoder_def shippedFiles_def)
  then show ?thesis
    by (subst shipped_rbac_current) simp_all
qed

subsection \<open>One writer per condition\<close>

text \<open>What the code writes: the conditions of the loaded mappings on their source kind, those of the
  lifecycle manager on the configuration, and Ready where the daemon reports it.\<close>

definition mappingRows :: "Spec list \<Rightarrow> (GroupVersionKind \<times> string \<times> string) set" where
  "mappingRows specs = {(mapRefGVK (sp_Source s), sc_Type c, MappingWriter (sp_Name s)) | s st c.
     s \<in> set specs \<and> sp_Status s = Some st \<and> c \<in> set (sm_Conditions st)}"


lemma mappingRows_simps [simp]:
  "mappingRows [] = {}"
  "mappingRows (s # specs) = (case sp_Status s of None \<Rightarrow> {} | Some st \<Rightarrow>
     (\<lambda>t. (mapRefGVK (sp_Source s), t, MappingWriter (sp_Name s))) ` set (map sc_Type (sm_Conditions st))) \<union> mappingRows specs"
  by (auto simp: mappingRows_def split: option.splits)









subsection \<open>Two consequences of the documents\<close>

text \<open>
  The reason and the message of the AMD condition are literals, so a card whose children are not
  ready is reported as False with the reason AllChildrenReady.
\<close>

lemma amd_reason_fixed:
  assumes "evalBool lib (sc_Status c) vars = Inr ready" and "c \<in> set (sm_Conditions amdDsc200_status)"
  shows "\<exists>m. ownCondition lib vars c = Inr (JObj m) \<and> fmlookup m ''status'' = Some (JStr (if ready then ''True'' else ''False'')) \<and>
    fmlookup m ''reason'' = Some (JStr ''AllChildrenReady'')"
proof -
  have c: "sc_Reason c = ''AllChildrenReady''" "sc_Message c = ''All emitted AMD DSC objects that publish readiness report Ready''"
    using assms(2) by (auto simp: amdDsc200_status_def)
  have lits: "\<not> Contains (sc_Reason c) ''?''" "\<not> Contains (sc_Message c) ''?''" unfolding c by code_simp+
  show ?thesis
    using assms(1) lits by (simp add: ownCondition_def optText_def evalString_def c wrapErr_def)
qed

lemma shipped_tidy: "s \<in> set (map snd shippedFiles) \<Longrightarrow> e \<in> set (sp_Emit s) \<Longrightarrow> tidyEmit e"
proof -
  assume "s \<in> set (map snd shippedFiles)" "e \<in> set (sp_Emit s)"
  moreover have "list_all (\<lambda>s. list_all tidyEmit (sp_Emit s)) (map snd shippedFiles)"
    by code_simp
  ultimately show ?thesis by (auto simp: list_all_iff)
qed

text \<open>
  The image bundle is named after an annotation with a fixed default, so two cards without the
  annotation emit the same object, each with its own name in the source label.
\<close>

lemma shared_child:
  assumes "unstructured_ops U" and "buildObject lib U dataprocessingunit dataprocessingunit_BFB src1 JNull = Inr u1"
    and "buildObject lib U dataprocessingunit dataprocessingunit_BFB src2 JNull = Inr u2"
    and "resolveName lib dataprocessingunit_BFB src1 JNull = resolveName lib dataprocessingunit_BFB src2 JNull"
    and "Get src1 ''metadata.name'' = Some (JStr n1)" and "Get src2 ''metadata.name'' = Some (JStr n2)"
  shows "us_GVK U u1 = us_GVK U u2 \<and> us_Name U u1 = us_Name U u2 \<and>
    sget (us_Labels U u1) labelSourceName = n1 \<and> sget (us_Labels U u2) labelSourceName = n2"
proof -
  have tidy: "tidyEmit dataprocessingunit_BFB"
    by (rule shipped_tidy [of dataprocessingunit]) (simp_all add: shippedFiles_def dataprocessingunit_def)
  note p1 = unstructured_ops.buildObject_parts [OF assms(1,2) tidy]
  note p2 = unstructured_ops.buildObject_parts [OF assms(1,3) tidy]
  from p1 p2 assms(4) have "us_GVK U u1 = us_GVK U u2 \<and> us_Name U u1 = us_Name U u2" by simp
  moreover obtain l1 l2 where "us_Labels U u1 = stampLabels dataprocessingunit src1 l1" "us_Labels U u2 = stampLabels dataprocessingunit src2 l2"
    using p1 p2 by blast
  ultimately show ?thesis using assms(5,6) by (simp add: stampLabels_get(3))
qed

end
