(* ===== verification/EntryPoints.thy ===== *)
theory EntryPoints
  imports VspFacts
begin

text \<open>
  The three commands: cmd/main.go (the manager), cmd/vsp/main.go (the vendor plugin) and
  cmd/opi-daemon/main.go (the handshake daemon). What main does with its parsed flags is a
  function of the flags, of what the machine answers and of which setup calls fail; serving and
  waiting for signals are left to the libraries. Logging is not modelled.
\<close>

subsection \<open>cmd/main.go\<close>

record ManagerFlags =
  mf_metricsAddr :: string
  mf_probeAddr :: string
  mf_mappingDir :: string
  mf_leaderElect :: bool
  mf_secureMetrics :: bool
  mf_webhookCert :: "string \<times> string \<times> string"
  mf_metricsCert :: "string \<times> string \<times> string"
  mf_enableHTTP2 :: bool

text \<open>Certificate directory, certificate name and key name where the flag names a directory.\<close>

record ServerOptions =
  so_BindAddress :: string
  so_NextProtos :: "string list option"
  so_Certs :: "(string \<times> string \<times> string) option"
  so_SecureServing :: bool
  so_Authenticated :: bool

definition certsGiven :: "string \<times> string \<times> string \<Rightarrow> (string \<times> string \<times> string) option" where
  "certsGiven c = (if length (fst c) > 0 then Some c else None)"

definition tlsProtos :: "ManagerFlags \<Rightarrow> string list option" where
  "tlsProtos f = (if \<not> mf_enableHTTP2 f then Some [''http/1.1''] else None)"

definition webhookOptions :: "ManagerFlags \<Rightarrow> ServerOptions" where
  "webhookOptions f = \<lparr>so_BindAddress = '''', so_NextProtos = tlsProtos f, so_Certs = certsGiven (mf_webhookCert f),
     so_SecureServing = True, so_Authenticated = False\<rparr>"

definition metricsOptions :: "ManagerFlags \<Rightarrow> ServerOptions" where
  "metricsOptions f = \<lparr>so_BindAddress = mf_metricsAddr f, so_NextProtos = tlsProtos f, so_Certs = certsGiven (mf_metricsCert f),
     so_SecureServing = mf_secureMetrics f, so_Authenticated = mf_secureMetrics f\<rparr>"

text \<open>The files are addressed by the elements the code joins.\<close>

definition webhookCertificatesPresent :: "(string list \<Rightarrow> bool) \<Rightarrow> string \<Rightarrow> string \<times> string \<times> string \<Rightarrow> bool" where
  "webhookCertificatesPresent stat tempDir c =
     (case c of (certDir, certName, certKey) \<Rightarrow>
        let dir = (if certDir = '''' then [tempDir, ''k8s-webhook-server'', ''serving-certs''] else [certDir]);
            crt = (if certName = '''' then ''tls.crt'' else certName);
            key = (if certKey = '''' then ''tls.key'' else certKey)
        in stat (dir @ [crt]) \<and> stat (dir @ [key]))"

definition registerUnstructured :: "GroupVersionKind \<Rightarrow> GroupVersionKind list" where
  "registerUnstructured g = [g, g\<lparr>gvk_Kind := gvk_Kind g @ ''List''\<rparr>]"

text \<open>The calls of main in order; all but a registration can fail.\<close>

datatype setupStep = NewManager | LoadMappings | RegisterKind GroupVersionKind | SetupTranslation Spec | NewDiscovery
  | SetupLifecycle | SetupWebhook | AddHealthz | AddReadyz | StartManager

definition specSteps :: "Spec \<Rightarrow> setupStep list" where
  "specSteps s = RegisterKind (mapRefGVK (sp_Source s)) # map (\<lambda>e. RegisterKind (mapRefGVK (em_Target e))) (sp_Emit s) @ [SetupTranslation s]"

definition setupSteps :: "Spec list \<Rightarrow> bool \<Rightarrow> setupStep list" where
  "setupSteps specs certs =
     [RegisterKind lcmConfigGVK, RegisterKind crdGVK] @ concat (map specSteps specs) @
     [RegisterKind lcmConfigGVK, NewDiscovery, SetupLifecycle] @
     (if certs then [SetupWebhook] else []) @ [AddHealthz, AddReadyz, StartManager]"

fun fallible :: "setupStep \<Rightarrow> bool" where
  "fallible (RegisterKind _) = False"
| "fallible _ = True"

text \<open>The calls made, and whether main returns (True) or exits with code 1.\<close>

fun runSetup :: "(setupStep \<Rightarrow> bool) \<Rightarrow> setupStep list \<Rightarrow> setupStep list \<times> bool" where
  "runSetup fails [] = ([], True)"
| "runSetup fails (s # ss) = (if fallible s \<and> fails s then ([s], False) else map_prod ((#) s) id (runSetup fails ss))"

definition managerMain :: "(setupStep \<Rightarrow> bool) \<Rightarrow> (map_err, Spec list) result \<Rightarrow> bool \<Rightarrow> setupStep list \<times> bool" where
  "managerMain fails loaded certs =
     (if fails NewManager then ([NewManager], False)
      else (case loaded of Inl _ \<Rightarrow> ([NewManager, LoadMappings], False)
            | Inr specs \<Rightarrow> map_prod (\<lambda>xs. NewManager # LoadMappings # xs) id (runSetup fails (setupSteps specs certs))))"

subsection \<open>cmd/vsp/main.go\<close>

record VspFlags =
  vf_nodeName :: string
  vf_serialNumber :: string
  vf_pciAddress :: string
  vf_productName :: string
  vf_vendorName :: string
  vf_pciVendor :: string
  vf_firmwareURL :: string
  vf_bfbURL :: string
  vf_flavor :: string
  vf_firmwareName :: string
  vf_bfbName :: string
  vf_usePCI :: bool
  vf_grpcSocket :: string
  vf_grpcOnly :: bool

definition firstNonEmpty :: "string \<Rightarrow> string \<Rightarrow> string" where
  "firstNonEmpty preferred fallback = (if preferred \<noteq> '''' then preferred else fallback)"

datatype vspEnumerator = ScanPCI PCIEnumerator | MockDevices "Device list"

text \<open>The settings main gives the annotator, and what it starts: only the socket, or a manager with both.\<close>

record AnnotatorSettings =
  as_NodeName :: string
  as_VendorID :: "16 word"
  as_FirmwareURL :: string
  as_Flavor :: string
  as_FirmwareName :: string

datatype vspStart = VspExit string | VspSocket vspEnumerator string | VspManaged vspEnumerator AnnotatorSettings string

definition vspEnumeratorFor :: "VspFlags \<Rightarrow> 16 word \<Rightarrow> (string, vspEnumerator \<times> 16 word) result" where
  "vspEnumeratorFor f vendorID =
     (if vf_usePCI f then
        (if vf_pciVendor f \<noteq> '''' then
           (case ParseVendor (vf_pciVendor f) of Inl e \<Rightarrow> Inl ''invalid --pci-vendor''
            | Inr v \<Rightarrow> Inr (ScanPCI \<lparr>pe_VendorID = v\<rparr>, v))
         else Inr (ScanPCI \<lparr>pe_VendorID = 0\<rparr>, 0))
      else if vf_pciVendor f \<noteq> '''' then Inl ''--pci-vendor requires --pci''
      else if vf_serialNumber f = '''' then Inl ''either --serial-number or --pci is required''
      else Inr (MockDevices [StaticDevice vendorID (vf_serialNumber f) (vf_pciAddress f) (vf_productName f)], 0))"

definition vspMain :: "VspFlags \<Rightarrow> vspStart" where
  "vspMain f =
     (let vendor = (if vf_vendorName f \<noteq> '''' then ParseVendor (vf_vendorName f) else Inr NVIDIAVendorID) in
      case vendor of Inl e \<Rightarrow> VspExit ''invalid --vendor''
      | Inr vendorID \<Rightarrow>
          (case vspEnumeratorFor f vendorID of Inl e \<Rightarrow> VspExit e
           | Inr (enum, flt) \<Rightarrow>
               if vf_grpcOnly f then VspSocket enum (vf_grpcSocket f)
               else VspManaged enum
                 \<lparr>as_NodeName = vf_nodeName f, as_VendorID = flt, as_FirmwareURL = firstNonEmpty (vf_firmwareURL f) (vf_bfbURL f),
                  as_Flavor = vf_flavor f, as_FirmwareName = firstNonEmpty (vf_firmwareName f) (vf_bfbName f)\<rparr>
                 (vf_grpcSocket f)))"

text \<open>The enumerator as the server calls it; a scan reads the sysfs tree of the state.\<close>

definition enumerateWith :: "('w \<Rightarrow> Sysfs) \<Rightarrow> vspEnumerator \<Rightarrow> 'w \<Rightarrow> (string, Device list) result outcome" where
  "enumerateWith sysfs enum w = (case enum of ScanPCI p \<Rightarrow> PCI_Enumerate (sysfs w) p | MockDevices ds \<Rightarrow> Returns (Mock_Enumerate ds))"

subsection \<open>cmd/opi-daemon/main.go\<close>

datatype daemonEnd = NoHandshake string | NotReported apiErr | DaemonDone HandshakeResult | DaemonWaits HandshakeResult

text \<open>
  \<open>host\<close> is KUBERNETES_SERVICE_HOST, \<open>kubeconfig\<close> whether a client configuration is found,
  \<open>newClient\<close> what client.New returns.
\<close>

definition reportReadyIfCluster ::
    "'w wretrier \<Rightarrow> objOps \<Rightarrow> string \<Rightarrow> bool \<Rightarrow> (apiErr, 'w TClient) result \<Rightarrow> ('w \<Rightarrow> string) \<Rightarrow> HandshakeResult \<Rightarrow> 'w \<Rightarrow>
     'w \<times> apiErr option" where
  "reportReadyIfCluster retry B host kubeconfig newClient now hs w =
     (if host = '''' then (w, None)
      else if \<not> kubeconfig then (w, None)
      else (case newClient of Inl e \<Rightarrow> (w, Some e)
            | Inr cl \<Rightarrow> ReportReady retry B (Some cl) now (Some hs) w))"

definition daemonMain ::
    "(HandshakeResult \<Rightarrow> 'w \<Rightarrow> 'w \<times> apiErr option) \<Rightarrow> (nat \<Rightarrow> 'w) \<Rightarrow> (nat \<Rightarrow> bool) \<Rightarrow> (string \<Rightarrow> (string, 'w VspConn) result) \<Rightarrow>
     string \<Rightarrow> bool \<Rightarrow> string \<Rightarrow> bool \<Rightarrow> 'w \<Rightarrow> ('w \<times> daemonEnd) option" where
  "daemonMain report world ctxDone dial socket dpuMode identifier once w =
     (case (if once then Some (Handshake dial socket dpuMode identifier w)
            else HandshakeUntil world ctxDone dial socket dpuMode identifier) of
        None \<Rightarrow> None
      | Some (Inl e) \<Rightarrow> Some (w, NoHandshake e)
      | Some (Inr got) \<Rightarrow>
          Some (case report got w of (w', Some e) \<Rightarrow> (w', NotReported e)
                | (w', None) \<Rightarrow> (w', if once then DaemonDone got else DaemonWaits got)))"

subsection \<open>What is set up\<close>

lemma runSetup_run:
  "runSetup fails ss = (made, ok) \<Longrightarrow> (\<exists>rest. ss = made @ rest \<and> (ok \<longrightarrow> rest = [])) \<and>
     (\<not> ok \<longrightarrow> (\<exists>pre s. made = pre @ [s] \<and> fallible s \<and> fails s))"
proof (induction ss arbitrary: made)
  case (Cons s ss)
  show ?case
  proof (cases "fallible s \<and> fails s")
    case True
    with Cons.prems show ?thesis by auto
  next
    case False
    obtain made' where made': "runSetup fails ss = (made', ok)" "made = s # made'"
      using Cons.prems False by (cases "runSetup fails ss") auto
    from Cons.IH [OF this(1)] this(2) show ?thesis by (metis append_Cons)
  qed
qed simp

text \<open>A translation controller is set up after every kind it watches is registered.\<close>

definition kindsOf :: "Spec \<Rightarrow> GroupVersionKind set" where
  "kindsOf s = {lcmConfigGVK, crdGVK, mapRefGVK (sp_Source s)} \<union> (mapRefGVK \<circ> em_Target) ` set (sp_Emit s)"

definition orderedSetup :: "setupStep list \<Rightarrow> bool" where
  "orderedSetup ss \<longleftrightarrow> (\<forall>pre s post. ss = pre @ SetupTranslation s # post \<longrightarrow> RegisterKind ` kindsOf s \<subseteq> set pre)"

lemma orderedSetup_prefix: "orderedSetup (xs @ ys) \<Longrightarrow> orderedSetup xs"
  by (fastforce simp: orderedSetup_def)

lemma specs_ordered:
  assumes "{RegisterKind lcmConfigGVK, RegisterKind crdGVK} \<subseteq> set before"
    and "concat (map specSteps specs) = pre @ SetupTranslation s # post"
  shows "RegisterKind ` kindsOf s \<subseteq> set (before @ pre)"
  using assms
proof (induction specs arbitrary: before pre)
  case (Cons t specs)
  define regs where "regs = RegisterKind (mapRefGVK (sp_Source t)) # map (\<lambda>e. RegisterKind (mapRefGVK (em_Target e))) (sp_Emit t)"
  have split: "regs @ SetupTranslation t # concat (map specSteps specs) = pre @ SetupTranslation s # post"
    using Cons.prems(2) by (simp add: specSteps_def [of t] regs_def)
  have none: "SetupTranslation s \<notin> set regs" by (auto simp: regs_def)
  from split none consider "pre = regs" "t = s" | pre' where "pre = regs @ SetupTranslation t # pre'"
      "concat (map specSteps specs) = pre' @ SetupTranslation s # post"
    by (auto simp: append_eq_append_conv2 Cons_eq_append_conv append_eq_Cons_conv)
  then show ?case
  proof cases
    case 1
    with Cons.prems(1) show ?thesis by (auto simp: kindsOf_def regs_def)
  next
    case 2
    with Cons.IH [of "before @ regs @ [SetupTranslation t]" pre'] Cons.prems(1) show ?thesis by auto
  qed
qed simp

lemma setupSteps_ordered: "orderedSetup ([NewManager, LoadMappings] @ setupSteps specs certs)"
  unfolding orderedSetup_def
proof (intro allI impI)
  fix pre s post
  define hd' where "hd' = [NewManager, LoadMappings, RegisterKind lcmConfigGVK, RegisterKind crdGVK]"
  define tl' where "tl' = [RegisterKind lcmConfigGVK, NewDiscovery, SetupLifecycle] @
     (if certs then [SetupWebhook] else []) @ [AddHealthz, AddReadyz, StartManager]"
  assume "[NewManager, LoadMappings] @ setupSteps specs certs = pre @ SetupTranslation s # post"
  then have eq: "hd' @ concat (map specSteps specs) @ tl' = pre @ SetupTranslation s # post"
    by (simp add: setupSteps_def hd'_def tl'_def)
  have "SetupTranslation s \<notin> set hd'" "SetupTranslation s \<notin> set tl'" by (auto simp: hd'_def tl'_def)
  with eq obtain pre' post' where "pre = hd' @ pre'" "concat (map specSteps specs) = pre' @ SetupTranslation s # post'"
    by (auto simp: append_eq_append_conv2 Cons_eq_append_conv append_eq_Cons_conv)
  with specs_ordered [of hd' specs pre' s post'] show "RegisterKind ` kindsOf s \<subseteq> set pre" by (auto simp: hd'_def)
qed

text \<open>The scheme after a sequence of calls.\<close>

definition schemeAfter :: "setupStep list \<Rightarrow> GroupVersionKind set" where
  "schemeAfter ss = \<Union> {set (registerUnstructured k) | k. RegisterKind k \<in> set ss}"

lemma schemeAfter_kinds: "RegisterKind ` K \<subseteq> set ss \<Longrightarrow> k \<in> K \<Longrightarrow> set (registerUnstructured k) \<subseteq> schemeAfter ss"
  by (auto simp: schemeAfter_def)

lemma setup_complete:
  assumes "setupSteps specs certs = made @ rest" and "StartManager \<in> set made"
  shows "made = setupSteps specs certs"
proof -
  have "StartManager \<notin> set (concat (map specSteps specs))" by (auto simp: specSteps_def)
  then have "StartManager \<notin> set (butlast (setupSteps specs certs))"
    by (auto simp: setupSteps_def butlast_append)
  moreover have "set made \<subseteq> set (butlast (made @ rest))" if "rest \<noteq> []" using that by (auto simp: butlast_append)
  ultimately have "rest = []" using assms by (metis subsetD)
  with assms(1) show ?thesis by simp
qed

subsection \<open>Properties\<close>

text \<open>The manager starts only with everything in place. In every run of main a translation
  controller is set up after its source kind, its target kinds, the operator configuration and
  the resource definitions (each with its list kind) are in the scheme; the manager is started
  only when the mapping documents loaded, every one of them has its controller, the lifecycle
  manager is set up, and the admission webhook is registered exactly when its certificates are
  there; and a run that exits with an error stops at the call that failed.\<close>

theorem setup_in_order:
  assumes "managerMain fails loaded certs = (made, ok)"
  shows "(\<forall>pre s post. made = pre @ SetupTranslation s # post \<longrightarrow>
       (\<forall>k\<in>kindsOf s. set (registerUnstructured k) \<subseteq> schemeAfter pre)) \<and>
    (StartManager \<in> set made \<longrightarrow> (\<exists>specs. loaded = Inr specs \<and> SetupTranslation ` set specs \<subseteq> set made) \<and>
       SetupLifecycle \<in> set made \<and> (SetupWebhook \<in> set made \<longleftrightarrow> certs)) \<and>
    (\<not> ok \<longrightarrow> made \<noteq> [] \<and> (last made = LoadMappings \<and> \<not> is_ok loaded \<or> fails (last made)))"
proof (cases "fails NewManager \<or> \<not> is_ok loaded")
  case True
  then show ?thesis using assms
    by (cases loaded) (auto simp: managerMain_def Cons_eq_append_conv split: if_splits)
next
  case False
  then obtain specs where specs: "loaded = Inr specs" by (cases loaded) auto
  obtain made' where run: "runSetup fails (setupSteps specs certs) = (made', ok)" and made: "made = [NewManager, LoadMappings] @ made'"
    using assms False specs by (cases "runSetup fails (setupSteps specs certs)") (auto simp: managerMain_def)
  obtain rest where rest: "setupSteps specs certs = made' @ rest" using runSetup_run [OF run] by blast
  have "orderedSetup made" using setupSteps_ordered [of specs certs] orderedSetup_prefix [of made rest] by (simp add: rest made)
  then have "\<forall>pre s post. made = pre @ SetupTranslation s # post \<longrightarrow> (\<forall>k\<in>kindsOf s. set (registerUnstructured k) \<subseteq> schemeAfter pre)"
    using schemeAfter_kinds unfolding orderedSetup_def by metis
  moreover have "SetupTranslation ` set specs \<subseteq> set made \<and> SetupLifecycle \<in> set made \<and> (SetupWebhook \<in> set made \<longleftrightarrow> certs)"
    if "StartManager \<in> set made"
  proof -
    have "made' = setupSteps specs certs" using setup_complete [OF rest] that made by simp
    then show ?thesis by (auto simp: made setupSteps_def specSteps_def)
  qed
  moreover have "\<not> ok \<longrightarrow> made \<noteq> [] \<and> fails (last made)" using runSetup_run [OF run] made by auto
  ultimately show ?thesis using specs by blast
qed

theorem setup_in_order_witness:
  "\<exists>made ok. managerMain (\<lambda>_. False) (Inr [exSpec]) False = (made, ok) \<and> StartManager \<in> set made \<and> SetupWebhook \<notin> set made \<and>
     SetupTranslation exSpec \<in> set made"
proof -
  obtain made ok where run: "managerMain (\<lambda>_. False) (Inr [exSpec]) False = (made, ok)" by (metis prod.exhaust)
  have "list_ex (\<lambda>s. s = StartManager) (fst (managerMain (\<lambda>_. False) (Inr [exSpec]) False))" by code_simp
  with run have "StartManager \<in> set made" by (simp add: list_ex_iff)
  with setup_in_order [OF run] run show ?thesis by auto
qed

text \<open>From the flags of the vendor plugin to the report of the daemon. A plugin started with a
  mock board (any serial and address that are not blank) serves a socket on which the first
  handshake of the daemon, in either mode, finds exactly that serial, healthy; the daemon then
  reports with it, and ends by the outcome of the report alone.\<close>

theorem mock_board_reported:
  assumes "vspMain f = VspSocket (MockDevices ds) socket \<or> vspMain f = VspManaged (MockDevices ds) settings socket"
    and "TrimSpace (vf_serialNumber f) \<noteq> ''''" and "TrimSpace (vf_pciAddress f) \<noteq> ''''" and "world 0 = w"
    and "dial (if socket = '''' then DefaultSocket else socket) = Inr (loopback (NewServer (Some (\<lambda>_. Mock_Enumerate ds)) socket))"
  shows "\<exists>hs. daemonMain report world ctxDone dial socket dpuMode ident once w =
      Some (case report hs w of (w', Some e) \<Rightarrow> (w', NotReported e) | (w', None) \<Rightarrow> (w', if once then DaemonDone hs else DaemonWaits hs)) \<and>
    hd_ID ` set (reportedDevices hs) = {vf_serialNumber f} \<and> list_all deviceHealthy (reportedDevices hs)"
proof -
  obtain v where ds: "ds = [StaticDevice v (vf_serialNumber f) (vf_pciAddress f) (vf_productName f)]"
    using assms(1) by (auto simp: vspMain_def vspEnumeratorFor_def Let_def split: if_splits sum.splits)
  have live: "liveOf ds = ds" using assms(2,3) by (simp add: ds liveOf_def ValidateIdentity_def StaticDevice_def)
  define s where "s = NewServer (Some (\<lambda>_ :: 'a. Mock_Enumerate ds)) socket"
  have "sv_Enumerator s = Some (\<lambda>_. Mock_Enumerate ds)" "Mock_Enumerate ds = Inr ds" by (simp_all add: s_def NewServer_def Mock_Enumerate_def)
  moreover have "distinct (map dv_PCIAddress (liveOf ds))" "dv_SerialNumber ` set (liveOf ds) = {vf_serialNumber f}"
    unfolding live by (simp_all add: ds StaticDevice_def)
  ultimately obtain hs where "Handshake (\<lambda>_. Inr (loopback s)) socket dpuMode ident w = Inr hs" and rep:
      "hd_ID ` set (reportedDevices hs) = {vf_serialNumber f}" "list_all deviceHealthy (reportedDevices hs)"
    using handshake_live [of s "\<lambda>_. Mock_Enumerate ds" w ds socket dpuMode ident] by metis
  then have hs: "Handshake dial socket dpuMode ident w = Inr hs"
    using assms(5) unfolding s_def [symmetric] by (simp add: Handshake_def Let_def)
  have "HandshakeUntil world ctxDone dial socket dpuMode ident = Some (Inr hs)"
    unfolding HandshakeUntil_def by (subst handshakeLoop.simps) (simp add: assms(4) hs)
  with hs rep show ?thesis by (intro exI [of _ hs]) (simp add: daemonMain_def)
qed

definition exVspFlags :: VspFlags where
  "exVspFlags = \<lparr>vf_nodeName = ''node-1'', vf_serialNumber = ''MT1'', vf_pciAddress = ''0000:03:00.0'', vf_productName = '''',
     vf_vendorName = '''', vf_pciVendor = '''', vf_firmwareURL = '''', vf_bfbURL = '''', vf_flavor = '''', vf_firmwareName = '''',
     vf_bfbName = '''', vf_usePCI = False, vf_grpcSocket = '''', vf_grpcOnly = True\<rparr>"

theorem mock_board_reported_witness:
  "\<exists>ds hs. vspMain exVspFlags = VspSocket (MockDevices ds) '''' \<and>
     daemonMain (\<lambda>_ w. (w, None)) (\<lambda>_. ()) (\<lambda>_. False) (\<lambda>_. Inr (loopback (NewServer (Some (\<lambda>_. Mock_Enumerate ds)) ''''))) '''' True ''''
       True () = Some ((), DaemonDone hs) \<and> hd_ID ` set (reportedDevices hs) = {''MT1''}"
proof -
  define ds where "ds = [StaticDevice NVIDIAVendorID ''MT1'' ''0000:03:00.0'' '''']"
  have run: "vspMain exVspFlags = VspSocket (MockDevices ds) ''''"
    by (simp add: ds_def vspMain_def vspEnumeratorFor_def exVspFlags_def)
  have flags: "TrimSpace (vf_serialNumber exVspFlags) \<noteq> ''''" "TrimSpace (vf_pciAddress exVspFlags) \<noteq> ''''" by code_simp+
  obtain hs where "daemonMain (\<lambda>_ w. (w, None)) (\<lambda>_. ()) (\<lambda>_. False)
      (\<lambda>_. Inr (loopback (NewServer (Some (\<lambda>_. Mock_Enumerate ds)) ''''))) '''' True '''' True () = Some ((), DaemonDone hs)"
      "hd_ID ` set (reportedDevices hs) = {vf_serialNumber exVspFlags}"
    using mock_board_reported [OF disjI1 [OF run] flags, where world = "\<lambda>_. ()" and w = "()" and report = "\<lambda>_ w. (w, None)" and ctxDone = "\<lambda>_. False"
        and dial = "\<lambda>_. Inr (loopback (NewServer (Some (\<lambda>_. Mock_Enumerate ds)) ''''))" and dpuMode = True and ident = "''''" and once = True] by auto
  with run show ?thesis by (auto simp: exVspFlags_def)
qed

end
