(* ===== verification/Flags.thy ===== *)
theory Flags
  imports EntryPoints
begin

text \<open>
  The command lines of the four programs: Go's flag package as the sources use it (string and
  boolean flags of the default flag set, which exits on errors), the flags each main declares
  with their defaults, and the command lines the repository deploys. Flags that libraries add to
  the set (the logger's and the client's) are a parameter.
\<close>

subsection \<open>The flag package\<close>

text \<open>A flag of a library may be boolean, and accepts some values.\<close>

datatype flagType = StringFlag | BoolFlag | LibraryFlag bool "string \<Rightarrow> bool"
datatype flagVal = FS string | FB bool
datatype flag_err = BadSyntax string | NotDefined string | HelpRequested | NeedsArgument string | InvalidValue string string

type_synonym flagVals = "(string, flagVal) fmap"

definition ParseBool :: "string \<Rightarrow> bool option" where
  "ParseBool s =
     (if s \<in> {''1'', ''t'', ''T'', ''true'', ''TRUE'', ''True''} then Some True
      else if s \<in> {''0'', ''f'', ''F'', ''false'', ''FALSE'', ''False''} then Some False else None)"

definition setFlag :: "flagType \<Rightarrow> string \<Rightarrow> string \<Rightarrow> flagVals \<Rightarrow> (flag_err, flagVals) result" where
  "setFlag t name value vals =
     (case t of StringFlag \<Rightarrow> Ok (fmupd name (FS value) vals)
      | BoolFlag \<Rightarrow> (case ParseBool value of None \<Rightarrow> Err (InvalidValue name value) | Some b \<Rightarrow> Ok (fmupd name (FB b) vals))
      | LibraryFlag _ accepts \<Rightarrow> if accepts value then Ok (fmupd name (FS value) vals) else Err (InvalidValue name value))"

definition isBoolFlag :: "flagType \<Rightarrow> bool" where
  "isBoolFlag t = (case t of StringFlag \<Rightarrow> False | BoolFlag \<Rightarrow> True | LibraryFlag b _ \<Rightarrow> b)"

text \<open>The name and the value after its first equals sign; the first character is never that sign.\<close>

definition splitFlag :: "string \<Rightarrow> string \<times> string option" where
  "splitFlag name =
     (case find_index (\<lambda>c. c = CHR ''='') (tl name) of None \<Rightarrow> (name, None)
      | Some i \<Rightarrow> (take (Suc i) name, Some (drop (Suc (Suc i)) name)))"

text \<open>Values and the arguments after the flags.\<close>

fun parseFlags :: "(string \<Rightarrow> flagType option) \<Rightarrow> flagVals \<Rightarrow> string list \<Rightarrow> (flag_err, flagVals \<times> string list) result" where
  "parseFlags formal vals [] = Ok (vals, [])"
| "parseFlags formal vals (s # rest) =
     (if length s < 2 \<or> hd s \<noteq> CHR ''-'' then Ok (vals, s # rest)
      else if s = ''--'' then Ok (vals, rest)
      else
        let name0 = drop (if s ! 1 = CHR ''-'' then 2 else 1) s in
        if name0 = '''' \<or> hd name0 = CHR ''-'' \<or> hd name0 = CHR ''='' then Err (BadSyntax s)
        else case splitFlag name0 of (name, value) \<Rightarrow>
          (case formal name of
             None \<Rightarrow> Err (if name = ''help'' \<or> name = ''h'' then HelpRequested else NotDefined name)
           | Some t \<Rightarrow>
               if isBoolFlag t then
                 bind_res (setFlag t name (case value of None \<Rightarrow> ''true'' | Some v \<Rightarrow> v) vals) (\<lambda>vals. parseFlags formal vals rest)
               else (case value of
                   Some v \<Rightarrow> bind_res (setFlag t name v vals) (\<lambda>vals. parseFlags formal vals rest)
                 | None \<Rightarrow> if rest = [] then Err (NeedsArgument name)
                     else bind_res (setFlag t name (hd rest) vals) (\<lambda>vals. parseFlags formal vals (tl rest)))))"

text \<open>A program declares flags with their defaults; \<open>lib\<close> are the flags of the libraries.\<close>

definition formalOf :: "(string \<times> flagVal) list \<Rightarrow> (string \<Rightarrow> flagType option) \<Rightarrow> string \<Rightarrow> flagType option" where
  "formalOf decls lib name =
     (case map_of decls name of Some (FS _) \<Rightarrow> Some StringFlag | Some (FB _) \<Rightarrow> Some BoolFlag | None \<Rightarrow> lib name)"

definition Parse :: "(string \<times> flagVal) list \<Rightarrow> (string \<Rightarrow> flagType option) \<Rightarrow> string list \<Rightarrow> (flag_err, flagVals) result" where
  "Parse decls lib args = bind_res (parseFlags (formalOf decls lib) (fmap_of_list decls) args) (\<lambda>(vals, _). Ok vals)"

definition strFlag :: "flagVals \<Rightarrow> string \<Rightarrow> string" where
  "strFlag vals name = (case fmlookup vals name of Some (FS s) \<Rightarrow> s | _ \<Rightarrow> '''')"
definition boolFlag :: "flagVals \<Rightarrow> string \<Rightarrow> bool" where
  "boolFlag vals name \<longleftrightarrow> fmlookup vals name = Some (FB True)"

text \<open>The exit code of a command line the package refuses.\<close>

definition flagExit :: "flag_err \<Rightarrow> nat" where
  "flagExit e = (if e = HelpRequested then 0 else 2)"

subsection \<open>cmd/main.go\<close>

definition managerDecls :: "(string \<times> flagVal) list" where
  "managerDecls = [(''metrics-bind-address'', FS ''0''), (''health-probe-bind-address'', FS '':8081''),
     (''mapping-dir'', FS ''config/mappings''), (''leader-elect'', FB False), (''metrics-secure'', FB True),
     (''webhook-cert-path'', FS ''''), (''webhook-cert-name'', FS ''tls.crt''), (''webhook-cert-key'', FS ''tls.key''),
     (''metrics-cert-path'', FS ''''), (''metrics-cert-name'', FS ''tls.crt''), (''metrics-cert-key'', FS ''tls.key''),
     (''enable-http2'', FB False)]"

definition managerFlags :: "flagVals \<Rightarrow> ManagerFlags" where
  "managerFlags v = \<lparr>mf_metricsAddr = strFlag v ''metrics-bind-address'', mf_probeAddr = strFlag v ''health-probe-bind-address'',
     mf_mappingDir = strFlag v ''mapping-dir'', mf_leaderElect = boolFlag v ''leader-elect'', mf_secureMetrics = boolFlag v ''metrics-secure'',
     mf_webhookCert = (strFlag v ''webhook-cert-path'', strFlag v ''webhook-cert-name'', strFlag v ''webhook-cert-key''),
     mf_metricsCert = (strFlag v ''metrics-cert-path'', strFlag v ''metrics-cert-name'', strFlag v ''metrics-cert-key''),
     mf_enableHTTP2 = boolFlag v ''enable-http2''\<rparr>"

text \<open>The whole command: the exit code of a refused command line, or the calls of main.\<close>

definition managerCommand ::
    "(string \<Rightarrow> flagType option) \<Rightarrow> (setupStep \<Rightarrow> bool) \<Rightarrow> (string \<Rightarrow> (map_err, Spec list) result) \<Rightarrow> (string list \<Rightarrow> bool) \<Rightarrow> string \<Rightarrow>
     string list \<Rightarrow> (nat, setupStep list \<times> bool) result" where
  "managerCommand lib fails loadDir stat tempDir args =
     (case Parse managerDecls lib args of Inl e \<Rightarrow> Err (flagExit e)
      | Inr v \<Rightarrow>
          let f = managerFlags v in
          Ok (managerMain fails (loadDir (mf_mappingDir f)) (webhookCertificatesPresent stat tempDir (mf_webhookCert f))))"

subsection \<open>cmd/vsp/main.go\<close>




subsection \<open>cmd/opi-daemon/main.go and hack/gen-rbac\<close>



definition genDecls :: "(string \<times> flagVal) list" where
  "genDecls = [(''mapping-dir'', FS ''config/mappings''), (''out'', FS ''pkg/translation/zz_generated_rbac.go''),
     (''package'', FS ''translation''), (''check'', FB False)]"

subsection \<open>Writing and reading command lines\<close>

fun renderFlag :: "string \<times> flagVal \<Rightarrow> string" where
  "renderFlag (name, FS v) = ''--'' @ name @ ''='' @ v"
| "renderFlag (name, FB b) = ''--'' @ name @ ''='' @ (if b then ''true'' else ''false'')"

fun typeOfVal :: "flagVal \<Rightarrow> flagType" where
  "typeOfVal (FS _) = StringFlag"
| "typeOfVal (FB _) = BoolFlag"

definition plainName :: "string \<Rightarrow> bool" where
  "plainName n \<longleftrightarrow> n \<noteq> '''' \<and> hd n \<noteq> CHR ''-'' \<and> CHR ''='' \<notin> set n"

text \<open>Settings of declared flags, each with a value of the declared type.\<close>

fun sameType :: "flagVal \<Rightarrow> flagVal \<Rightarrow> bool" where
  "sameType (FS _) (FS _) = True"
| "sameType (FB _) (FB _) = True"
| "sameType _ _ = False"

definition settable :: "(string \<times> flagVal) list \<Rightarrow> (string \<times> flagVal) list \<Rightarrow> bool" where
  "settable decls kvs = list_all (\<lambda>(n, v). plainName n \<and> (case map_of decls n of Some d \<Rightarrow> sameType d v | None \<Rightarrow> False)) kvs"

lemma find_index_append: "\<forall>x \<in> set xs. \<not> P x \<Longrightarrow> P y \<Longrightarrow> find_index P (xs @ y # ys) = Some (length xs)"
  by (induction xs) auto

lemma splitFlag_render: "plainName n \<Longrightarrow> splitFlag (n @ CHR ''='' # v) = (n, Some v)"
proof (cases n)
  case (Cons c cs)
  assume "plainName n"
  with Cons have "find_index (\<lambda>c. c = CHR ''='') (cs @ CHR ''='' # v) = Some (length cs)"
    by (intro find_index_append) (auto simp: plainName_def)
  with Cons show ?thesis by (simp add: splitFlag_def)
qed (simp add: plainName_def)

lemma ParseBool_render: "ParseBool (if b then ''true'' else ''false'') = Some b"
  by (simp add: ParseBool_def)

lemma parse_render:
  assumes "plainName n" and "formal n = Some (typeOfVal v)"
  shows "parseFlags formal vals (renderFlag (n, v) # rest) = parseFlags formal (fmupd n v vals) rest"
proof -
  obtain c cs where n: "n = c # cs" "c \<noteq> CHR ''-''" "c \<noteq> CHR ''=''" using assms(1) by (cases n) (auto simp: plainName_def)
  show ?thesis
  proof (cases v)
    case (FS s)
    have "splitFlag (c # cs @ CHR ''='' # s) = (n, Some s)" using splitFlag_render [OF assms(1), of s] n(1) by simp
    with assms FS n show ?thesis by (simp add: setFlag_def isBoolFlag_def)
  next
    case (FB b)
    have "splitFlag (c # cs @ CHR ''='' # (if b then ''true'' else ''false'')) = (n, Some (if b then ''true'' else ''false''))"
      using splitFlag_render [OF assms(1), of "if b then ''true'' else ''false''"] n(1) by simp
    with assms FB n show ?thesis by (cases b) (simp_all add: setFlag_def isBoolFlag_def ParseBool_def)
  qed
qed

lemma parse_renders:
  "(\<And>n v. (n, v) \<in> set kvs \<Longrightarrow> plainName n \<and> formal n = Some (typeOfVal v)) \<Longrightarrow>
     parseFlags formal vals (map renderFlag kvs @ rest) = parseFlags formal (fold (\<lambda>(n, v). fmupd n v) kvs vals) rest"
proof (induction kvs arbitrary: vals)
  case (Cons kv kvs)
  obtain n v where kv: "kv = (n, v)" by fastforce
  then have "plainName n \<and> formal n = Some (typeOfVal v)" using Cons.prems [of n v] by simp
  then have "parseFlags formal vals (renderFlag (n, v) # map renderFlag kvs @ rest) =
      parseFlags formal (fmupd n v vals) (map renderFlag kvs @ rest)" by (intro parse_render) auto
  moreover have "parseFlags formal (fmupd n v vals) (map renderFlag kvs @ rest) =
      parseFlags formal (fold (\<lambda>(n, v). fmupd n v) kvs (fmupd n v vals)) rest"
    by (rule Cons.IH) (use Cons.prems in auto)
  ultimately show ?case by (simp add: kv del: parseFlags.simps renderFlag.simps)
qed simp

lemma fold_upd_lookup:
  "fmlookup (fold (\<lambda>(n, v). fmupd n v) kvs vals) k = (case map_of (rev kvs) k of Some v \<Rightarrow> Some v | None \<Rightarrow> fmlookup vals k)"
  by (induction kvs arbitrary: vals) (auto simp: map_add_def split: option.splits)

lemma Parse_renders:
  assumes "settable decls kvs"
  shows "Parse decls lib (map renderFlag kvs) = Inr (fold (\<lambda>(n, v). fmupd n v) kvs (fmap_of_list decls))"
proof -
  have kv: "plainName n \<and> formalOf decls lib n = Some (typeOfVal v)" if "(n, v) \<in> set kvs" for n v
  proof -
    have "plainName n" "case map_of decls n of Some d \<Rightarrow> sameType d v | None \<Rightarrow> False"
      using assms that by (auto simp: settable_def list_all_iff)
    then show ?thesis by (auto simp: formalOf_def elim!: sameType.elims split: option.splits)
  qed
  show ?thesis
    using parse_renders [of kvs "formalOf decls lib" "fmap_of_list decls" "[]"] kv by (simp add: Parse_def)
qed

text \<open>A written command line is read back. For any declared flags and any list of settings of
  them, string values of every content included, the rendered arguments parse, each flag has the
  value of its last setting, and every flag that is not set keeps its declared default.\<close>

theorem flags_roundtrip:
  assumes "settable decls kvs"
  shows "\<exists>vals. Parse decls lib (map renderFlag kvs) = Inr vals \<and>
    (\<forall>n. fmlookup vals n = (case map_of (rev kvs) n of Some v \<Rightarrow> Some v | None \<Rightarrow> map_of decls n))"
proof -
  have "Parse decls lib (map renderFlag kvs) = Inr (fold (\<lambda>(n, v). fmupd n v) kvs (fmap_of_list decls))"
    by (rule Parse_renders) (rule assms)
  then show ?thesis by (simp add: fold_upd_lookup fmlookup_of_list split: option.split)
qed

theorem flags_roundtrip_witness:
  "\<exists>vals. Parse genDecls (\<lambda>_. None) [''--out=a=b'', ''--check=true''] = Inr vals \<and>
     fmlookup vals ''out'' = Some (FS ''a=b'') \<and> fmlookup vals ''check'' = Some (FB True) \<and> fmlookup vals ''package'' = Some (FS ''translation'')"
proof -
  define kvs where "kvs = [(''out'', FS ''a=b''), (''check'', FB True)]"
  have "\<exists>vals. Parse genDecls (\<lambda>_. None) (map renderFlag kvs) = Inr vals \<and>
      (\<forall>n. fmlookup vals n = (case map_of (rev kvs) n of Some v \<Rightarrow> Some v | None \<Rightarrow> map_of genDecls n))"
    by (rule flags_roundtrip) (unfold kvs_def, code_simp)
  then show ?thesis by (auto simp: kvs_def genDecls_def)
qed

subsection \<open>Deployed command lines\<close>

text \<open>The manager's arguments of config/manager, and the two containers of config/vsp/daemonset.yaml.\<close>

definition managerArgs :: "string list" where
  "managerArgs = [''--leader-elect=true'', ''--health-probe-bind-address=:8081'', ''--mapping-dir=/mappings'']"










lemma deployed_manager:
  "\<exists>v. Parse managerDecls lib managerArgs = Inr v \<and> mf_mappingDir (managerFlags v) = ''/mappings'' \<and> mf_leaderElect (managerFlags v) \<and>
     mf_secureMetrics (managerFlags v) \<and> \<not> mf_enableHTTP2 (managerFlags v)"
proof -
  define kvs where "kvs = [(''leader-elect'', FB True), (''health-probe-bind-address'', FS '':8081''), (''mapping-dir'', FS ''/mappings'')]"
  have args: "managerArgs = map renderFlag kvs" by (simp add: managerArgs_def kvs_def)
  have "Parse managerDecls lib managerArgs = Inr (fold (\<lambda>(n, v). fmupd n v) kvs (fmap_of_list managerDecls))"
    unfolding args by (rule Parse_renders) (simp add: settable_def kvs_def plainName_def managerDecls_def)
  then show ?thesis
    by (simp add: managerFlags_def strFlag_def boolFlag_def fmlookup_of_list kvs_def managerDecls_def)
qed

end
