(* ===== verification/Wiring.thy ===== *)
theory Wiring
  imports EntryPoints TranslationFacts VersionPolicy LifecycleController
begin

text \<open>
  What the components register with the libraries that call them: the watches of the three
  controllers (SetupWithManager in pkg/translation/translation_controller.go,
  pkg/lifecycle/lifecycle_controller.go and pkg/discovery/annotator.go), the admission path of
  pkg/lifecycle/webhook.go and the services of the plugin's socket (Server.Start in
  pkg/vsp/grpc_server.go). The controller builder, the webhook server, the operating system and
  the gRPC server are parameters: a controller is the plan handed to the builder.
\<close>

subsection \<open>Controllers\<close>

type_synonym request = "string \<times> string"

record 'w controllerPlan =
  cp_For :: GroupVersionKind
  cp_Named :: string
  cp_Owns :: "GroupVersionKind list"
  cp_Watches :: "(GroupVersionKind \<times> (jobj option \<Rightarrow> 'w \<Rightarrow> request list)) list"
  cp_MaxConcurrent :: nat

text \<open>The kinds a mapping emits, each once, in the order of the document.\<close>

definition targetKinds :: "Spec \<Rightarrow> GroupVersionKind list" where
  "targetKinds spec = uniqueLoop [] (map (\<lambda>e. mapRefGVK (em_Target e)) (sp_Emit spec))"

definition Reconciler_SetupWithManager ::
    "'w RESTMapper option \<Rightarrow> ('w controllerPlan \<Rightarrow> apiErr option) \<Rightarrow> ('w, 'a, 'p) Reconciler \<Rightarrow> 'w \<Rightarrow> (apiErr, 'w controllerPlan) result" where
  "Reconciler_SetupWithManager mapper complete r w =
     (case ownableTargets mapper w (targetKinds (rr_Spec r)) of Inl e \<Rightarrow> Err e
      | Inr owned \<Rightarrow>
        let plan = \<lparr>cp_For = mapRefGVK (sp_Source (rr_Spec r)), cp_Named = sp_Name (rr_Spec r), cp_Owns = owned,
              cp_Watches = [(lcmConfigGVK, enqueueIfLCMReady r), (crdGVK, enqueueIfTargetCRD r)], cp_MaxConcurrent = 0\<rparr>
        in (case complete plan of Some e \<Rightarrow> Err e | None \<Rightarrow> Ok plan))"

definition DpuOperatorConfigGVK :: GroupVersionKind where
  "DpuOperatorConfigGVK = GVK ''config.openshift.io'' ''v1'' ''DpuOperatorConfig''"

definition LifecycleManager_SetupWithManager ::
    "('w controllerPlan \<Rightarrow> apiErr option) \<Rightarrow> ('s, 'o, 'w) LifecycleManager option \<Rightarrow> (apiErr, 'w controllerPlan) result" where
  "LifecycleManager_SetupWithManager complete r =
     (let plan = \<lparr>cp_For = DpuOperatorConfigGVK, cp_Named = ''lifecycle-manager'', cp_Owns = [],
            cp_Watches = [(nvidiaProbeGVK, \<lambda>_. enqueueDpuOperatorConfigs r)], cp_MaxConcurrent = 1\<rparr>
      in (case complete plan of Some e \<Rightarrow> Err e | None \<Rightarrow> Ok plan))"

definition Annotator_SetupWithManager :: "('w controllerPlan \<Rightarrow> apiErr option) \<Rightarrow> (apiErr, 'w controllerPlan) result" where
  "Annotator_SetupWithManager complete =
     (let plan = \<lparr>cp_For = DataProcessingUnitGVK, cp_Named = ''nvidia-hardware-discovery'', cp_Owns = [], cp_Watches = [],
            cp_MaxConcurrent = 0\<rparr>
      in (case complete plan of Some e \<Rightarrow> Err e | None \<Rightarrow> Ok plan))"

subsection \<open>The admission path\<close>

definition DpuOperatorConfigValidatePath :: string where
  "DpuOperatorConfigValidatePath = ''/validate-config-openshift-io-v1-dpuoperatorconfig''"

text \<open>A manager, if any, with its webhook server, if any: the handlers by path.\<close>

definition SetupDpuOperatorConfigWebhook ::
    "(string \<Rightarrow> (string, DpuOperatorConfig) result) \<Rightarrow> (string \<rightharpoonup> (AdmissionRequest \<Rightarrow> AdmissionResponse)) option option \<Rightarrow>
     (string, string \<rightharpoonup> (AdmissionRequest \<Rightarrow> AdmissionResponse)) result" where
  "SetupDpuOperatorConfigWebhook unmarshal mgr =
     (case mgr of Some (Some handlers) \<Rightarrow> Ok (handlers(DpuOperatorConfigValidatePath \<mapsto> Handle unmarshal))
      | _ \<Rightarrow> Err ''webhook server is not configured'')"

subsection \<open>The plugin's socket\<close>

text \<open>\<^verbatim>\<open>filepath.Dir\<close> on a slash-separated path: the path up to its last slash, cleaned.\<close>

definition cleanStep :: "bool \<Rightarrow> string \<Rightarrow> string list \<Rightarrow> string list" where
  "cleanStep rooted el out =
     (if el = '''' \<or> el = ''.'' then out
      else if el = ''..'' then
        (if out \<noteq> [] \<and> hd out \<noteq> ''..'' then tl out else if rooted then out else ''..'' # out)
      else el # out)"

definition Clean :: "string \<Rightarrow> string" where
  "Clean path =
     (let rooted = HasPrefix path ''/'';
          body = Join (rev (fold (cleanStep rooted) (Split path CHR ''/'') [])) ''/''
      in if rooted then CHR ''/'' # body else if body = '''' then ''.'' else body)"

definition Dir :: "string \<Rightarrow> string" where
  "Dir path = Clean (Join (butlast (Split path CHR ''/'') @ ['''']) ''/'')"

datatype service = PbLifeCycle | PbDevice | PbNetworkFunction | PbHeartbeat | OpiLifeCycle | OpiDevice | Reflection

definition services :: "service list" where
  "services = [PbLifeCycle, PbDevice, PbNetworkFunction, PbHeartbeat, OpiLifeCycle, OpiDevice, Reflection]"

definition SocketDirPerm :: nat where "SocketDirPerm = 448"

text \<open>
  \<open>ss_Serve\<close> serves the registered services on the listener until it ends or the context is
  cancelled: the state afterwards, its error, and whether the context is done by then.
\<close>

record ('w, 'e, 'l) socketSystem =
  ss_MkdirAll :: "'w \<Rightarrow> string \<Rightarrow> nat \<Rightarrow> 'w \<times> 'e option"
  ss_Remove :: "'w \<Rightarrow> string \<Rightarrow> 'w \<times> 'e option"
  ss_IsNotExist :: "'e \<Rightarrow> bool"
  ss_Listen :: "'w \<Rightarrow> string \<Rightarrow> 'w \<times> ('e, 'l) result"
  ss_Serve :: "'w \<Rightarrow> 'l \<Rightarrow> service list \<Rightarrow> 'w \<times> 'e option \<times> bool"

datatype 'e startErr = CreateDir 'e | RemoveStale 'e | ListenFailed string 'e | ServeFailed 'e

definition srv_Start :: "('w, 'e, 'l) socketSystem \<Rightarrow> 'x Server \<Rightarrow> 'w \<Rightarrow> 'w \<times> 'e startErr option" where
  "srv_Start os s w =
     (case ss_MkdirAll os w (Dir (sv_SocketPath s)) SocketDirPerm of
        (w, Some e) \<Rightarrow> (w, Some (CreateDir e))
      | (w, None) \<Rightarrow>
        let (w, rerr) = ss_Remove os w (sv_SocketPath s) in
        if (case rerr of None \<Rightarrow> False | Some e \<Rightarrow> \<not> ss_IsNotExist os e) then (w, map_option RemoveStale rerr)
        else
          (case ss_Listen os w (sv_SocketPath s) of (w, Inl e) \<Rightarrow> (w, Some (ListenFailed (sv_SocketPath s) e))
           | (w, Inr ln) \<Rightarrow>
             (case ss_Serve os w ln services of (w, Some e, False) \<Rightarrow> (w, Some (ServeFailed e)) | (w, _, _) \<Rightarrow> (w, None))))"

subsection \<open>What wakes a translation\<close>

lemma uniqueLoop_set: "set (uniqueLoop seen gs) = set gs - set seen"
  by (induction gs arbitrary: seen) auto

lemma uniqueLoop_distinct: "distinct (uniqueLoop seen gs)"
  by (induction gs arbitrary: seen) (auto simp: uniqueLoop_set)

text \<open>What the mapper answers for a kind; a manager without a mapper serves every kind.\<close>

definition mapperAnswer :: "'w RESTMapper option \<Rightarrow> 'w \<Rightarrow> GroupVersionKind \<Rightarrow> apiErr option" where
  "mapperAnswer mapper w g = (case mapper of None \<Rightarrow> None | Some m \<Rightarrow> rm_RESTMapping m w g)"

lemma ownableLoop_filter:
  "ownableLoop m w gs = Inr owned \<Longrightarrow> owned = filter (\<lambda>g. rm_RESTMapping m w g = None) gs"
  by (induction gs arbitrary: owned) (auto simp: bind_res_Inr_iff split: option.splits if_splits)

lemma ownableLoop_err:
  "ownableLoop m w gs = Inl e \<Longrightarrow> \<exists>g \<in> set gs. rm_RESTMapping m w g = Some e \<and> \<not> IsNoMatch e"
  by (induction gs) (auto simp: bind_res_def split: option.splits if_splits sum.splits)

lemma ownableTargets_filter:
  "ownableTargets mapper w gs = Inr owned \<Longrightarrow> owned = filter (\<lambda>g. mapperAnswer mapper w g = None) gs"
  by (auto simp: ownableTargets_def mapperAnswer_def dest: ownableLoop_filter split: option.splits)

lemma ownableTargets_err:
  "ownableTargets mapper w gs = Inl e \<Longrightarrow> \<exists>g \<in> set gs. mapperAnswer mapper w g = Some e \<and> \<not> IsNoMatch e"
  by (auto simp: ownableTargets_def mapperAnswer_def dest: ownableLoop_err split: option.splits)

text \<open>The kinds a document names, and a definition object that serves a kind.\<close>

definition emittedKinds :: "Spec \<Rightarrow> GroupVersionKind set" where
  "emittedKinds spec = (mapRefGVK \<circ> em_Target) ` set (sp_Emit spec)"

definition servesKind :: "jobj \<Rightarrow> GroupVersionKind \<Rightarrow> bool" where
  "servesKind crd g \<longleftrightarrow> NestedString crd [''spec'', ''group''] = gvk_Group g \<and>
     NestedString crd [''spec'', ''names'', ''kind''] = gvk_Kind g \<and>
     (\<exists>ver. JObj ver \<in> set (NestedSlice crd [''spec'', ''versions'']) \<and>
        fmlookup ver ''name'' = Some (JStr (gvk_Version g)) \<and> fmlookup ver ''served'' = Some (JBool True))"

text \<open>The requests an event on an object of a watched kind enqueues.\<close>

definition wakes :: "'w controllerPlan \<Rightarrow> GroupVersionKind \<Rightarrow> jobj \<Rightarrow> 'w \<Rightarrow> request list" where
  "wakes plan g obj w = concat (map (\<lambda>(k, h). if k = g then h (Some obj) w else []) (cp_Watches plan))"

lemma crdMatchesTarget_serves:
  assumes "g \<in> emittedKinds spec" "servesKind crd g"
  shows "crdMatchesTarget spec crd"
proof -
  obtain emit where emit: "emit \<in> set (sp_Emit spec)" "g = mapRefGVK (em_Target emit)"
    using assms(1) by (auto simp: emittedKinds_def)
  obtain ver where ver: "JObj ver \<in> set (NestedSlice crd [''spec'', ''versions''])"
      "NestedString ver [''name''] = gvk_Version g" "fmlookup ver ''served'' = Some (JBool True)"
    using assms(2) by (auto simp: servesKind_def NestedString_def asMap_def)
  then have "list_ex (\<lambda>raw. case asMap raw of None \<Rightarrow> False
      | Some ver \<Rightarrow> NestedString ver [''name''] = gvk_Version g \<and> fmlookup ver ''served'' = Some (JBool True))
      (NestedSlice crd [''spec'', ''versions''])"
    by (auto simp: list_ex_iff asMap_def intro!: bexI [of _ "JObj ver"])
  with emit assms(2) show ?thesis
    by (auto simp: crdMatchesTarget_def Let_def servesKind_def list_ex_iff [of _ "sp_Emit spec"] intro!: bexI [of _ emit])
qed

lemma config_not_crd [simp]: "lcmConfigGVK \<noteq> crdGVK" "crdGVK \<noteq> lcmConfigGVK"
  by (simp_all add: lcmConfigGVK_def crdGVK_def GVK_def)

lemma plan_wakes:
  assumes "Reconciler_SetupWithManager mapper complete r w = Inr plan"
  shows "wakes plan lcmConfigGVK obj w' = enqueueIfLCMReady r (Some obj) w'"
    "wakes plan crdGVK obj w' = enqueueIfTargetCRD r (Some obj) w'"
  using assms by (auto simp: Reconciler_SetupWithManager_def wakes_def Let_def split: sum.splits option.splits)

lemma set_targetKinds: "set (targetKinds spec) = emittedKinds spec"
  by (auto simp: targetKinds_def uniqueLoop_set emittedKinds_def)

lemma plan_owns:
  assumes "Reconciler_SetupWithManager mapper complete r w = Inr plan"
  shows "cp_For plan = mapRefGVK (sp_Source (rr_Spec r)) \<and> distinct (cp_Owns plan) \<and>
    set (cp_Owns plan) = {g \<in> emittedKinds (rr_Spec r). mapperAnswer mapper w g = None}"
proof -
  obtain owned where "ownableTargets mapper w (targetKinds (rr_Spec r)) = Inr owned" "cp_Owns plan = owned"
      "cp_For plan = mapRefGVK (sp_Source (rr_Spec r))"
    using assms by (auto simp: Reconciler_SetupWithManager_def Let_def split: sum.splits option.splits)
  with ownableTargets_filter [OF this(1)] uniqueLoop_distinct show ?thesis
    by (auto simp: set_targetKinds targetKinds_def uniqueLoop_set emittedKinds_def)
qed

text \<open>C24: A translation controller that is set up watches its source and owns, once each, exactly
  the emitted kinds the REST mapper serves. No other emitted kind is lost: a custom resource
  definition that serves it later wakes every source, and so does a configuration whose vendor
  operator becomes ready. A kind that is merely not installed never fails the setup: an error
  comes from another answer of the mapper, or from the builder.
\<close>

theorem translation_watches:
  "case Reconciler_SetupWithManager mapper complete r w of
     Inl e \<Rightarrow> (\<exists>g \<in> emittedKinds (rr_Spec r). mapperAnswer mapper w g = Some e \<and> \<not> IsNoMatch e) \<or> (\<exists>plan. complete plan = Some e)
   | Inr plan \<Rightarrow>
       cp_For plan = mapRefGVK (sp_Source (rr_Spec r)) \<and> distinct (cp_Owns plan) \<and>
       set (cp_Owns plan) = {g \<in> emittedKinds (rr_Spec r). mapperAnswer mapper w g = None} \<and>
       (\<forall>g crd w'. g \<in> emittedKinds (rr_Spec r) \<and> servesKind crd g \<longrightarrow> wakes plan crdGVK crd w' = sourceRequests r w') \<and>
       (\<forall>config w'. wakes plan lcmConfigGVK config w' = (if lcmConditionReady config then sourceRequests r w' else []))"
proof (cases "Reconciler_SetupWithManager mapper complete r w")
  case (Inl e)
  then have "ownableTargets mapper w (targetKinds (rr_Spec r)) = Inl e \<or> (\<exists>plan. complete plan = Some e)"
    by (auto simp: Reconciler_SetupWithManager_def Let_def split: sum.splits option.splits)
  with Inl show ?thesis
    using ownableTargets_err [of mapper w "targetKinds (rr_Spec r)" e] by (auto simp: set_targetKinds)
next
  case (Inr plan)
  then show ?thesis
    using plan_owns [OF Inr] crdMatchesTarget_serves [of _ "rr_Spec r"]
    by (auto simp: plan_wakes [OF Inr] enqueueIfLCMReady_def enqueueIfTargetCRD_def)
qed

text \<open>
  The example document on a cluster whose mapper serves none of its kinds: nothing is owned, and
  the definition of the missing kind wakes the listed source.
\<close>

definition crdServing :: "GroupVersionKind \<Rightarrow> jobj" where
  "crdServing g = fmap_of_list [(''spec'', JObj (fmap_of_list [(''group'', JStr (gvk_Group g)),
     (''names'', JObj (fmap_of_list [(''kind'', JStr (gvk_Kind g))])),
     (''versions'', JList [JObj (fmap_of_list [(''name'', JStr (gvk_Version g)), (''served'', JBool True)])])]))]"

lemma servesKind_crdServing: "servesKind (crdServing g) g"
  by (simp add: servesKind_def crdServing_def NestedString_def NestedSlice_def asMap_def)

definition exMapper :: "'w RESTMapper" where
  "exMapper = \<lparr>rm_RESTMapping = (\<lambda>_ _. Some (NoMatch '''')), rm_Reset = None\<rparr>"

definition exListing :: "(jobj list, string, string) Reconciler" where
  "exListing = exReconciler\<lparr>rr_Client := exTClient\<lparr>tc_List := (\<lambda>_ _ _. Inr [exSource])\<rparr>\<rparr>"

theorem translation_watches_witness:
  "\<exists>plan g. Reconciler_SetupWithManager (Some exMapper) (\<lambda>_. None) exListing [] = Inr plan \<and> g \<in> emittedKinds exSpec \<and>
     cp_Owns plan = [] \<and> wakes plan crdGVK (crdServing g) [] = [('''', ''dpu-1'')]"
proof -
  have spec: "rr_Spec exListing = exSpec" by (simp add: exListing_def exReconciler_def)
  have kind: "mapRefGVK (em_Target (hd (sp_Emit exSpec))) \<in> emittedKinds exSpec"
    unfolding emittedKinds_def by (rule image_eqI [of _ _ "hd (sp_Emit exSpec)"]) (simp_all add: exSpec_def)
  have none: "mapperAnswer (Some exMapper) w g = Some (NoMatch '''')" for w :: "jobj list" and g
    by (simp add: mapperAnswer_def exMapper_def)
  note watched = translation_watches [where mapper = "Some exMapper" and complete = "\<lambda>_. None" and r = exListing and w = "[]"]
  obtain plan where plan: "Reconciler_SetupWithManager (Some exMapper) (\<lambda>_. None) exListing [] = Inr plan"
    using watched by (cases "Reconciler_SetupWithManager (Some exMapper) (\<lambda>_. None) exListing []")
      (auto simp: none)
  have "sourceRequests exListing [] = [('''', ''dpu-1'')]" by code_simp
  with watched kind servesKind_crdServing [of "mapRefGVK (em_Target (hd (sp_Emit exSpec)))"]
  show ?thesis by (intro exI [of _ plan] exI [of _ "mapRefGVK (em_Target (hd (sp_Emit exSpec)))"]) (auto simp: plan spec none)
qed

subsection \<open>The socket\<close>

text \<open>
  What the operating system promises of the socket's path: after a removal that succeeds or
  finds nothing the path is free, and listening on a free path succeeds.
\<close>

definition socketLaws :: "('w, 'e, 'l) socketSystem \<Rightarrow> string \<Rightarrow> ('w \<Rightarrow> bool) \<Rightarrow> bool" where
  "socketLaws os path occupied \<longleftrightarrow>
     (\<forall>w w' err. ss_Remove os w path = (w', err) \<and> (\<forall>e. err = Some e \<longrightarrow> ss_IsNotExist os e) \<longrightarrow> \<not> occupied w') \<and>
     (\<forall>w w' e. ss_Listen os w path = (w', Inl e) \<longrightarrow> occupied w)"

lemma start_past_stale:
  assumes "socketLaws os (sv_SocketPath s) occupied"
  shows "snd (srv_Start os s w) \<noteq> Some (ListenFailed p e)"
proof -
  obtain w1 merr where mk: "ss_MkdirAll os w (Dir (sv_SocketPath s)) SocketDirPerm = (w1, merr)" by fastforce
  obtain w2 rerr where rm: "ss_Remove os w1 (sv_SocketPath s) = (w2, rerr)" by fastforce
  have "\<exists>w3 ln. ss_Listen os w2 (sv_SocketPath s) = (w3, Inr ln)" if "\<And>e. rerr = Some e \<Longrightarrow> ss_IsNotExist os e"
    using assms rm that unfolding socketLaws_def by (metis prod.exhaust sum.exhaust)
  then show ?thesis using mk rm by (auto simp: srv_Start_def split: option.splits prod.splits bool.splits)
qed

end
