(* ===== verification/CelNative.thy ===== *)
theory CelNative
  imports GoStrings
begin

text \<open>
  celNative of pkg/mapping/cel.go: the walk that turns what the CEL evaluator returns into plain
  \<^verbatim>\<open>[]any\<close> and \<^verbatim>\<open>map[string]any\<close> values. The evaluator's own values
  (\<^verbatim>\<open>ref.Val\<close>) are a parameter with their conversions; the walk may then meet any value,
  so its depth is bounded by fuel, and values whose unwrapping ends are shown to need only
  finitely much of it. The interpreter (theory MappingEngine) sees the result of the walk.
\<close>

subsection \<open>Values\<close>

text \<open>
  Go values as the walk tells them apart: nil, the scalars it produces itself, any other scalar
  (\<open>'x\<close>: floats, unsigned integers, structs), an evaluator value (\<open>'r\<close>),
  \<^verbatim>\<open>[]any\<close>, another slice type, \<^verbatim>\<open>map[string]any\<close>, another map type with its
  entries in the order the reflection API lists them.
\<close>

datatype ('r, 'x) gv =
    GNil | GBool bool | GInt int | GStr string | GOther 'x | GRef 'r
  | GList "('r, 'x) gv list" | GSlice "('r, 'x) gv list"
  | GObj "(string, ('r, 'x) gv) fmap" | GMap "(('r, 'x) gv \<times> ('r, 'x) gv) list"

text \<open>
  The evaluator's values: \<^verbatim>\<open>ConvertToNative\<close> by target type (None is its error),
  \<^verbatim>\<open>Value\<close>, and Go's comparison of two of them, which panics (None) when they share a
  type that cannot be compared. \<open>rv_Sprint\<close> is what \<^verbatim>\<open>fmt.Sprint\<close> prints for values
  that format themselves.
\<close>

record ('r, 'x) refLib =
  rv_List :: "'r \<Rightarrow> ('r, 'x) gv option"
  rv_Map :: "'r \<Rightarrow> ('r, 'x) gv option"
  rv_Str :: "'r \<Rightarrow> string option"
  rv_Bool :: "'r \<Rightarrow> bool option"
  rv_Int :: "'r \<Rightarrow> int option"
  rv_Float :: "'r \<Rightarrow> 'x option"
  rv_Value :: "'r \<Rightarrow> ('r, 'x) gv"
  rv_Same :: "'r \<Rightarrow> 'r \<Rightarrow> bool option"
  rv_Sprint :: "('r, 'x) gv \<Rightarrow> string"

definition Sprint :: "('r, 'x) refLib \<Rightarrow> ('r, 'x) gv \<Rightarrow> string" where
  "Sprint L v =
     (case v of GStr s \<Rightarrow> s | GBool b \<Rightarrow> (if b then ''true'' else ''false'') | GInt i \<Rightarrow> Itoa i | GNil \<Rightarrow> ''<nil>''
      | _ \<Rightarrow> rv_Sprint L v)"

subsection \<open>The walk\<close>

text \<open>The branch for an evaluator value: it ends, goes on with another value, or panics.\<close>

datatype ('r, 'x) unwrapped = Final "('r, 'x) gv" | Again "('r, 'x) gv" | Panics

definition unwrap :: "('r, 'x) refLib \<Rightarrow> 'r \<Rightarrow> ('r, 'x) unwrapped" where
  "unwrap L r =
     (case rv_List L r of Some n \<Rightarrow> Again n
      | None \<Rightarrow> (case rv_Map L r of Some n \<Rightarrow> Again n
      | None \<Rightarrow> (case rv_Str L r of Some s \<Rightarrow> Final (GStr s)
      | None \<Rightarrow> (case rv_Bool L r of Some b \<Rightarrow> Final (GBool b)
      | None \<Rightarrow> (case rv_Int L r of Some i \<Rightarrow> Final (GInt i)
      | None \<Rightarrow> (case rv_Float L r of Some x \<Rightarrow> Final (GOther x)
      | None \<Rightarrow>
        (case rv_Value L r of
           GNil \<Rightarrow> Final GNil
         | GRef r' \<Rightarrow> (case rv_Same L r r' of None \<Rightarrow> Panics | Some True \<Rightarrow> Final (GRef r') | Some False \<Rightarrow> Again (GRef r'))
         | inner \<Rightarrow> Again inner)))))))"

datatype cel_fault = OutOfFuel | Uncomparable

primrec celNative :: "nat \<Rightarrow> ('r, 'x) refLib \<Rightarrow> ('r, 'x) gv \<Rightarrow> (cel_fault, ('r, 'x) gv) result" where
  "celNative 0 L v = Err OutOfFuel"
| "celNative (Suc n) L v =
     (case v of
        GRef r \<Rightarrow> (case unwrap L r of Final w \<Rightarrow> Ok w | Again m \<Rightarrow> celNative n L m | Panics \<Rightarrow> Err Uncomparable)
      | GList xs \<Rightarrow> bind_res (traverse (celNative n L) xs) (\<lambda>out. Ok (GList out))
      | GObj m \<Rightarrow>
          bind_res (traverse (\<lambda>k. bind_res (celNative n L (the (fmlookup m k))) (\<lambda>x. Ok (k, x))) (keys_of m))
            (\<lambda>out. Ok (GObj (fmap_of_list out)))
      | GSlice xs \<Rightarrow> bind_res (traverse (celNative n L) xs) (\<lambda>out. Ok (GList out))
      | GMap kvs \<Rightarrow>
          bind_res (traverse (\<lambda>kv. bind_res (celNative n L (fst kv)) (\<lambda>k.
              bind_res (celNative n L (snd kv)) (\<lambda>x. Ok (Sprint L k, x)))) kvs)
            (\<lambda>out. Ok (GObj (fold (\<lambda>kv. fmupd (fst kv) (snd kv)) out fmempty)))
      | _ \<Rightarrow> Ok v)"

subsection \<open>Plain values\<close>

text \<open>
  A value of lists, string maps and scalars. \<open>S\<close> tells which evaluator values may remain.
\<close>

inductive plain :: "('r \<Rightarrow> bool) \<Rightarrow> ('r, 'x) gv \<Rightarrow> bool" for S :: "'r \<Rightarrow> bool" where
  nil: "plain S GNil"
| bool: "plain S (GBool b)"
| int: "plain S (GInt i)"
| str: "plain S (GStr s)"
| other: "plain S (GOther x)"
| left: "S r \<Longrightarrow> plain S (GRef r)"
| list: "(\<And>x. x \<in> set xs \<Longrightarrow> plain S x) \<Longrightarrow> plain S (GList xs)"
| obj: "(\<And>k x. fmlookup m k = Some x \<Longrightarrow> plain S x) \<Longrightarrow> plain S (GObj m)"

text \<open>The evaluator values the code returns as they are: those that are their own \<^verbatim>\<open>Value\<close>.\<close>

definition selfValued :: "('r, 'x) refLib \<Rightarrow> 'r \<Rightarrow> bool" where
  "selfValued L r' \<longleftrightarrow> (\<exists>r. rv_Value L r = GRef r' \<and> rv_Same L r r' = Some True)"

lemma self_plain: "GRef r' = rv_Value L r \<Longrightarrow> rv_Same L r r' = Some True \<Longrightarrow> plain (selfValued L) (rv_Value L r)"
  by (metis plain.left selfValued_def)

lemma unwrap_plain: "unwrap L r = Final w \<Longrightarrow> plain (selfValued L) w"
  by (auto simp: unwrap_def intro: plain.intros self_plain split: option.splits gv.splits bool.splits)

lemma fold_fmupd_mem:
  "fmlookup (fold (\<lambda>kv. fmupd (fst kv) (snd kv)) out m) k = Some x \<Longrightarrow> x \<in> snd ` set out \<or> fmlookup m k = Some x"
  by (induction out arbitrary: m) (fastforce split: if_splits)+

lemma celNative_plain: "celNative n L v = Inr w \<Longrightarrow> plain (selfValued L) w"
proof (induction n arbitrary: v w)
  case (Suc n)
  have all: "plain (selfValued L) y" if "traverse (celNative n L) xs = Inr ys" "y \<in> set ys" for xs ys y
    using traverse_Inr_mem [OF that] Suc.IH by blast
  show ?case
  proof (cases v)
    case (GObj m)
    with Suc.prems obtain out where out: "w = GObj (fmap_of_list out)"
        "traverse (\<lambda>k. bind_res (celNative n L (the (fmlookup m k))) (\<lambda>x. Ok (k, x))) (keys_of m) = Inr out"
      by (auto simp: bind_res_Inr_iff)
    have "plain (selfValued L) x" if "(k, x) \<in> set out" for k x
      using traverse_Inr_mem [OF out(2) that] Suc.IH by (auto simp: bind_res_Inr_iff)
    with out(1) show ?thesis by (fastforce intro: plain.obj dest: map_of_SomeD simp: fmlookup_of_list)
  next
    case (GMap kvs)
    with Suc.prems obtain out where out: "w = GObj (fold (\<lambda>kv. fmupd (fst kv) (snd kv)) out fmempty)"
        "traverse (\<lambda>kv. bind_res (celNative n L (fst kv)) (\<lambda>k.
              bind_res (celNative n L (snd kv)) (\<lambda>x. Ok (Sprint L k, x)))) kvs = Inr out"
      by (auto simp: bind_res_Inr_iff)
    have "plain (selfValued L) x" if "(k, x) \<in> set out" for k x
      using traverse_Inr_mem [OF out(2) that] Suc.IH by (auto simp: bind_res_Inr_iff)
    with out(1) show ?thesis by (fastforce intro: plain.obj dest: fold_fmupd_mem)
  qed (use Suc.prems all in \<open>auto simp: bind_res_Inr_iff intro: plain.intros unwrap_plain Suc.IH split: unwrapped.splits\<close>)
qed simp

subsection \<open>Enough fuel\<close>

text \<open>The values whose unwrapping ends: no endless chain of evaluator values and no panic.\<close>

inductive settles :: "('r, 'x) refLib \<Rightarrow> ('r, 'x) gv \<Rightarrow> bool" for L :: "('r, 'x) refLib" where
  atom: "v \<in> {GNil, GBool b, GInt i, GStr s, GOther x} \<Longrightarrow> settles L v"
| final: "unwrap L r = Final w \<Longrightarrow> settles L (GRef r)"
| again: "unwrap L r = Again m \<Longrightarrow> settles L m \<Longrightarrow> settles L (GRef r)"
| items: "v = GList xs \<or> v = GSlice xs \<Longrightarrow> (\<And>x. x \<in> set xs \<Longrightarrow> settles L x) \<Longrightarrow> settles L v"
| fields: "(\<And>k x. fmlookup m k = Some x \<Longrightarrow> settles L x) \<Longrightarrow> settles L (GObj m)"
| entries: "(\<And>k x. (k, x) \<in> set kvs \<Longrightarrow> settles L k) \<Longrightarrow> (\<And>k x. (k, x) \<in> set kvs \<Longrightarrow> settles L x) \<Longrightarrow> settles L (GMap kvs)"

text \<open>With any sufficient fuel the walk gives the same value.\<close>

definition becomes :: "(nat \<Rightarrow> ('e, 'a) result) \<Rightarrow> 'a \<Rightarrow> bool" where
  "becomes f y \<longleftrightarrow> (\<exists>n. \<forall>k \<ge> n. f k = Inr y)"

lemma becomesI: "(\<And>k. n \<le> k \<Longrightarrow> f k = Inr y) \<Longrightarrow> becomes f y"
  by (auto simp: becomes_def)

lemma becomes_Suc: "becomes (\<lambda>k. f (Suc k)) y \<Longrightarrow> becomes f y"
  unfolding becomes_def by (metis Suc_le_D Suc_le_mono)

lemma becomes_const [simp]: "becomes (\<lambda>_. Inr y) y"
  by (simp add: becomes_def)

lemma becomes_bind:
  assumes "becomes f x" and "becomes (\<lambda>k. g k x) y"
  shows "becomes (\<lambda>k. bind_res (f k) (g k)) y"
proof -
  obtain n m where "\<And>k. n \<le> k \<Longrightarrow> f k = Inr x" "\<And>k. m \<le> k \<Longrightarrow> g k x = Inr y"
    using assms by (auto simp: becomes_def)
  then show ?thesis by (intro becomesI [of "max n m"]) simp
qed

lemma becomes_map: "becomes f x \<Longrightarrow> becomes (\<lambda>k. bind_res (f k) (\<lambda>x. Ok (h x))) (h x)"
  by (erule becomes_bind) simp

lemma becomes_pair:
  assumes "becomes f x" and "becomes g y"
  shows "becomes (\<lambda>k. bind_res (f k) (\<lambda>x. bind_res (g k) (\<lambda>y. Ok (h x y)))) (h x y)"
  by (rule becomes_bind [OF assms(1)]) (rule becomes_map [OF assms(2)])

lemma becomes_traverse:
  "(\<And>x. x \<in> set xs \<Longrightarrow> becomes (\<lambda>k. f k x) (g x)) \<Longrightarrow> becomes (\<lambda>k. traverse (f k) xs) (map g xs)"
proof (induction xs)
  case (Cons x xs)
  then obtain n m where "\<And>k. n \<le> k \<Longrightarrow> f k x = Inr (g x)" "\<And>k. m \<le> k \<Longrightarrow> traverse (f k) xs = Inr (map g xs)"
    unfolding becomes_def by (metis list.set_intros)
  then show ?case by (intro becomesI [of "max n m"]) simp
qed simp

lemma becomes_traverse_ex:
  assumes "\<And>x. x \<in> set xs \<Longrightarrow> \<exists>y. becomes (\<lambda>k. f k x) y"
  shows "\<exists>ys. becomes (\<lambda>k. traverse (f k) xs) ys"
proof -
  obtain g where "\<And>x. x \<in> set xs \<Longrightarrow> becomes (\<lambda>k. f k x) (g x)" using assms by metis
  with becomes_traverse [of xs f g] show ?thesis by blast
qed

lemma celNative_settles: "settles L v \<Longrightarrow> \<exists>w. becomes (\<lambda>k. celNative k L v) w"
proof (induction rule: settles.induct)
  case (atom v b i s x)
  then show ?case by - (rule exI [of _ v], rule becomes_Suc, auto)
next
  case (final r w)
  then show ?case by - (rule exI [of _ w], rule becomes_Suc, simp)
next
  case (again r m)
  then obtain w where "becomes (\<lambda>k. celNative k L m) w" by blast
  with again.hyps(1) show ?case by - (rule exI [of _ w], rule becomes_Suc, simp)
next
  case (items v xs)
  obtain ys where "becomes (\<lambda>k. traverse (celNative k L) xs) ys"
    using becomes_traverse_ex [of xs "\<lambda>k. celNative k L"] items.IH by blast
  from becomes_map [OF this, of GList] items.hyps(1) show ?case by - (rule exI [of _ "GList ys"], rule becomes_Suc, auto)
next
  case (fields m)
  have "\<exists>y. becomes (\<lambda>k. bind_res (celNative k L (the (fmlookup m key))) (\<lambda>x. Ok (key, x))) y" if key: "key \<in> set (keys_of m)" for key
  proof -
    obtain x where "fmlookup m key = Some x" using key by (auto simp: fmlookup_dom_iff)
    with fields.IH obtain w where "becomes (\<lambda>k. celNative k L (the (fmlookup m key))) w" by auto
    from becomes_map [OF this, of "Pair key"] show ?thesis by (rule exI)
  qed
  then obtain out where
      "becomes (\<lambda>k. traverse (\<lambda>key. bind_res (celNative k L (the (fmlookup m key))) (\<lambda>x. Ok (key, x))) (keys_of m)) out"
    using becomes_traverse_ex [of "keys_of m" "\<lambda>k key. bind_res (celNative k L (the (fmlookup m key))) (\<lambda>x. Ok (key, x))"] by blast
  from becomes_map [OF this, of "\<lambda>out. GObj (fmap_of_list out)"]
  show ?case by - (rule exI [of _ "GObj (fmap_of_list out)"], rule becomes_Suc, simp)
next
  case (entries kvs)
  let ?f = "\<lambda>k kv. bind_res (celNative k L (fst kv)) (\<lambda>key. bind_res (celNative k L (snd kv)) (\<lambda>x. Ok (Sprint L key, x)))"
  have "\<exists>y. becomes (\<lambda>k. ?f k kv) y" if kv: "kv \<in> set kvs" for kv
  proof -
    obtain a b where "becomes (\<lambda>k. celNative k L (fst kv)) a" "becomes (\<lambda>k. celNative k L (snd kv)) b"
      using entries.IH [of "fst kv" "snd kv"] kv by auto
    from becomes_pair [OF this, of "\<lambda>key x. (Sprint L key, x)"] show ?thesis by (rule exI)
  qed
  then obtain out where "becomes (\<lambda>k. traverse (?f k) kvs) out" using becomes_traverse_ex [of kvs ?f] by blast
  from becomes_map [OF this, of "\<lambda>out. GObj (fold (\<lambda>kv. fmupd (fst kv) (snd kv)) out fmempty)"]
  show ?case by - (rule exI [of _ "GObj (fold (\<lambda>kv. fmupd (fst kv) (snd kv)) out fmempty)"], rule becomes_Suc, simp)
qed

lemma fmap_of_keys: "fmap_of_list (map (\<lambda>k. (k, the (fmlookup m k))) (keys_of m)) = m"
proof (rule fmap_ext)
  fix x
  show "fmlookup (fmap_of_list (map (\<lambda>k. (k, the (fmlookup m k))) (keys_of m))) x = fmlookup m x"
    using map_of_map_restrict [of "\<lambda>k. the (fmlookup m k)" "keys_of m"]
    by (cases "fmlookup m x") (auto simp: fmlookup_of_list restrict_map_def fmlookup_dom_iff)
qed

lemma celNative_id: "plain (\<lambda>_. False) w \<Longrightarrow> becomes (\<lambda>k. celNative k L w) w"
proof (induction rule: plain.induct)
  case (list xs)
  from becomes_map [OF becomes_traverse [of xs "\<lambda>k. celNative k L" "\<lambda>x. x"], of GList] list.IH
  show ?case by - (rule becomes_Suc, simp)
next
  case (obj m)
  have "becomes (\<lambda>k. bind_res (celNative k L (the (fmlookup m key))) (\<lambda>x. Ok (key, x))) (key, the (fmlookup m key))"
    if "key \<in> set (keys_of m)" for key
    using that obj.IH by (intro becomes_map [of _ _ "Pair key"]) (auto simp: fmlookup_dom_iff)
  then have "becomes (\<lambda>k. traverse (\<lambda>key. bind_res (celNative k L (the (fmlookup m key))) (\<lambda>x. Ok (key, x))) (keys_of m))
      (map (\<lambda>key. (key, the (fmlookup m key))) (keys_of m))"
    by (rule becomes_traverse)
  from becomes_map [OF this, of "\<lambda>out. GObj (fmap_of_list out)"]
  show ?case by - (rule becomes_Suc, simp add: fmap_of_keys)
qed (rule becomes_Suc, simp)+

text \<open>C31: What the CEL evaluator returns reaches the objects as plain data. On every value whose
  unwrapping ends, celNative returns, with the same result for all sufficient fuel; the result
  consists of scalars, \<^verbatim>\<open>[]any\<close> and \<^verbatim>\<open>map[string]any\<close> down to the leaves and
  contains no evaluator value except one that is its own \<^verbatim>\<open>Value\<close>; and where there is none
  of those, converting the result again changes nothing.
\<close>

theorem celNative_unwraps:
  assumes "settles L v"
  shows "\<exists>w. becomes (\<lambda>k. celNative k L v) w \<and> plain (selfValued L) w \<and>
    ((\<forall>r. \<not> selfValued L r) \<longrightarrow> becomes (\<lambda>k. celNative k L w) w)"
proof -
  obtain w where w: "becomes (\<lambda>k. celNative k L v) w" using celNative_settles [OF assms] by blast
  then have p: "plain (selfValued L) w" by (auto simp: becomes_def intro: celNative_plain)
  have "becomes (\<lambda>k. celNative k L w) w" if "\<forall>r. \<not> selfValued L r"
  proof -
    have "selfValued L = (\<lambda>_. False)" using that by auto
    with p show ?thesis by (simp add: celNative_id)
  qed
  with w p show ?thesis by blast
qed

text \<open>A typed map from a wrapped string to a typed slice that holds a wrapped list.\<close>

definition exRefLib :: "(nat, unit) refLib" where
  "exRefLib = \<lparr>rv_List = (\<lambda>r. if r = 1 then Some (GList [GRef 0, GBool True]) else None), rv_Map = (\<lambda>_. None),
     rv_Str = (\<lambda>r. if r = 0 then Some ''x'' else None), rv_Bool = (\<lambda>_. None), rv_Int = (\<lambda>_. None), rv_Float = (\<lambda>_. None),
     rv_Value = (\<lambda>_. GNil), rv_Same = (\<lambda>r r'. Some (r = r')), rv_Sprint = (\<lambda>_. '''')\<rparr>"

definition exWrapped :: "(nat, unit) gv" where
  "exWrapped = GMap [(GRef 0, GSlice [GRef 1])]"

lemma exRef_unwrap: "unwrap exRefLib 0 = Final (GStr ''x'')" "unwrap exRefLib (Suc 0) = Again (GList [GRef 0, GBool True])"
  by (simp_all add: unwrap_def exRefLib_def)

lemma exWrapped_settles: "settles exRefLib exWrapped"
proof -
  have s: "settles exRefLib (GRef 0)" by (rule settles.final [OF exRef_unwrap(1)])
  have b: "settles exRefLib (GBool True)" by (rule settles.atom [of _ True]) simp
  have "settles exRefLib (GList [GRef 0, GBool True])"
    by (rule settles.items [of _ "[GRef 0, GBool True]"]) (use s b in auto)
  then have "settles exRefLib (GRef 1)" by (rule settles.again [rotated]) (simp add: exRef_unwrap)
  then have "settles exRefLib (GSlice [GRef 1])" by - (rule settles.items [of _ "[GRef 1]"], simp_all)
  with s show ?thesis unfolding exWrapped_def by - (rule settles.entries, auto)
qed

theorem celNative_unwraps_witness:
  "settles exRefLib exWrapped \<and> celNative 5 exRefLib exWrapped = Inr (GObj (fmupd ''x'' (GList [GList [GStr ''x'', GBool True]]) fmempty)) \<and>
   (\<exists>w. becomes (\<lambda>k. celNative k exRefLib exWrapped) w \<and> plain (selfValued exRefLib) w)"
proof (intro conjI)
  show "celNative 5 exRefLib exWrapped = Inr (GObj (fmupd ''x'' (GList [GList [GStr ''x'', GBool True]]) fmempty))"
    by (simp add: exRef_unwrap exWrapped_def Sprint_def eval_nat_numeral)
  show "\<exists>w. becomes (\<lambda>k. celNative k exRefLib exWrapped) w \<and> plain (selfValued exRefLib) w"
    using celNative_unwraps [OF exWrapped_settles] by (elim ex_forward) simp
qed (rule exWrapped_settles)

end
