(* ===== verification/TestUtils.thy ===== *)
theory TestUtils
  imports GoStrings
begin

text \<open>
  test/utils/utils.go, the helpers of the end-to-end suite: running commands from the project
  directory, installing and removing cert-manager, loading an image into kind, and uncommenting
  a block of a file. The machine (working directory, environment, processes, files) is a
  parameter; what the helpers print is not modelled.
\<close>

subsection \<open>Strings and lines\<close>

text \<open>\<^verbatim>\<open>strings.ReplaceAll\<close> for a non-empty search string, \<^verbatim>\<open>strings.Index\<close>.\<close>

fun ReplaceAll :: "string \<Rightarrow> string \<Rightarrow> string \<Rightarrow> string" where
  "ReplaceAll [] old new = []"
| "ReplaceAll (c # s) old new =
     (if old \<noteq> [] \<and> HasPrefix (c # s) old then new @ ReplaceAll (drop (length old - 1) s) old new
      else c # ReplaceAll s old new)"

fun Index :: "string \<Rightarrow> string \<Rightarrow> nat option" where
  "Index [] p = (if p = [] then Some 0 else None)"
| "Index (c # s) p = (if HasPrefix (c # s) p then Some 0 else map_option Suc (Index s p))"

definition newline :: string where "newline = [CHR 0x0A]"

text \<open>
  The tokens of a \<^verbatim>\<open>bufio.Scanner\<close> over a string: lines without their line feed and one
  carriage return before it, no token for the empty rest after a last line feed, and an end at a
  line that does not fit the scanner's buffer.
\<close>

definition maxScanTokenSize :: nat where "maxScanTokenSize = 64 * 1024"

definition dropCR :: "string \<Rightarrow> string" where
  "dropCR l = (if l \<noteq> [] \<and> last l = CHR 0x0D then butlast l else l)"

definition scanLines :: "string \<Rightarrow> string list" where
  "scanLines s =
     (let parts = Split s (CHR 0x0A); ls = (if last parts = [] then butlast parts else parts)
      in map dropCR (takeWhile (\<lambda>l. length l < maxScanTokenSize) ls))"

definition GetNonEmptyLines :: "string \<Rightarrow> string list" where
  "GetNonEmptyLines output = filter (\<lambda>element. element \<noteq> '''') (Split output (CHR 0x0A))"

subsection \<open>Commands\<close>

record ('w, 'e) machine =
  mc_Getwd :: "'w \<Rightarrow> string \<times> 'e option"
  mc_Chdir :: "'w \<Rightarrow> string \<Rightarrow> 'w \<times> 'e option"
  mc_LookupEnv :: "'w \<Rightarrow> string \<Rightarrow> string option"
  mc_Exec :: "'w \<Rightarrow> string \<Rightarrow> string list \<Rightarrow> 'w \<times> string \<times> 'e option"
  mc_ReadFile :: "'w \<Rightarrow> string \<Rightarrow> ('e, string) result"
  mc_WriteFile :: "'w \<Rightarrow> string \<Rightarrow> string \<Rightarrow> 'w \<times> 'e option"

datatype 'e util_err = NoWorkingDir 'e | CommandFailed string string 'e | ReadFailed string 'e | TargetMissing string | WriteFailed string 'e

definition GetProjectDir :: "('w, 'e) machine \<Rightarrow> 'w \<Rightarrow> string \<times> 'e util_err option" where
  "GetProjectDir m w =
     (case mc_Getwd m w of (wd, Some e) \<Rightarrow> (wd, Some (NoWorkingDir e)) | (wd, None) \<Rightarrow> (ReplaceAll wd ''/test/e2e'' '''', None))"

text \<open>A command runs in the project directory even if the process could not change to it, with GO111MODULE set.\<close>

definition Run :: "('w, 'e) machine \<Rightarrow> string list \<Rightarrow> 'w \<Rightarrow> 'w \<times> string \<times> 'e util_err option" where
  "Run m args w =
     (let dir = fst (GetProjectDir m w);
          w1 = fst (mc_Chdir m w dir);
          (w2, output, err) = mc_Exec m w1 dir args
      in (w2, output, map_option (CommandFailed (Join args '' '') output) err))"

definition certmanagerURL :: string where
  "certmanagerURL = ''https://github.com/cert-manager/cert-manager/releases/download/'' @ ''v1.20.2'' @ ''/cert-manager.yaml''"

definition kubeSystemLeases :: "string list" where
  "kubeSystemLeases = [''cert-manager-cainjector-leader-election'', ''cert-manager-controller'']"

definition UninstallCertManager :: "('w, 'e) machine \<Rightarrow> 'w \<Rightarrow> 'w" where
  "UninstallCertManager m w =
     fold (\<lambda>lease w. fst (Run m [''kubectl'', ''delete'', ''lease'', lease, ''-n'', ''kube-system'', ''--ignore-not-found'',
         ''--force'', ''--grace-period=0''] w))
       kubeSystemLeases (fst (Run m [''kubectl'', ''delete'', ''-f'', certmanagerURL] w))"

definition InstallCertManager :: "('w, 'e) machine \<Rightarrow> 'w \<Rightarrow> 'w \<times> 'e util_err option" where
  "InstallCertManager m w =
     (case Run m [''kubectl'', ''apply'', ''-f'', certmanagerURL] w of
        (w, _, Some e) \<Rightarrow> (w, Some e)
      | (w, _, None) \<Rightarrow>
          (case Run m [''kubectl'', ''wait'', ''deployment.apps/cert-manager-webhook'', ''--for'', ''condition=Available'',
              ''--namespace'', ''cert-manager'', ''--timeout'', ''5m''] w of (w, _, err) \<Rightarrow> (w, err)))"

definition certManagerCRDs :: "string list" where
  "certManagerCRDs = [''certificates.cert-manager.io'', ''issuers.cert-manager.io'', ''clusterissuers.cert-manager.io'',
     ''certificaterequests.cert-manager.io'', ''orders.acme.cert-manager.io'', ''challenges.acme.cert-manager.io'']"

definition IsCertManagerCRDsInstalled :: "('w, 'e) machine \<Rightarrow> 'w \<Rightarrow> 'w \<times> bool" where
  "IsCertManagerCRDsInstalled m w =
     (case Run m [''kubectl'', ''get'', ''crds''] w of
        (w, _, Some _) \<Rightarrow> (w, False)
      | (w, output, None) \<Rightarrow>
          (w, list_ex (\<lambda>crd. list_ex (\<lambda>line. Contains line crd) (GetNonEmptyLines output)) certManagerCRDs))"

definition LoadImageToKindClusterWithName :: "('w, 'e) machine \<Rightarrow> string \<Rightarrow> 'w \<Rightarrow> 'w \<times> 'e util_err option" where
  "LoadImageToKindClusterWithName m name w =
     (let cluster = (case mc_LookupEnv m w ''KIND_CLUSTER'' of Some v \<Rightarrow> v | None \<Rightarrow> ''kind'');
          kindBinary = (case mc_LookupEnv m w ''KIND'' of Some v \<Rightarrow> v | None \<Rightarrow> ''kind'')
      in (case Run m [kindBinary, ''load'', ''docker-image'', name, ''--name'', cluster] w of (w, _, err) \<Rightarrow> (w, err)))"

subsection \<open>Uncommenting\<close>

text \<open>The new content of the file; None when nothing is written.\<close>

definition uncommented :: "string \<Rightarrow> string \<Rightarrow> string \<Rightarrow> nat \<Rightarrow> string option" where
  "uncommented content target pre idx =
     (case scanLines target of [] \<Rightarrow> None
      | ls \<Rightarrow> Some (take idx content @ Join (map (\<lambda>l. TrimPrefix l pre) ls) newline @ drop (idx + length target) content))"

definition UncommentCode :: "('w, 'e) machine \<Rightarrow> string \<Rightarrow> string \<Rightarrow> string \<Rightarrow> 'w \<Rightarrow> 'w \<times> 'e util_err option" where
  "UncommentCode m filename target pre w =
     (case mc_ReadFile m w filename of Inl e \<Rightarrow> (w, Some (ReadFailed filename e))
      | Inr content \<Rightarrow>
        (case Index content target of None \<Rightarrow> (w, Some (TargetMissing target))
         | Some idx \<Rightarrow>
           (case uncommented content target pre idx of None \<Rightarrow> (w, None)
            | Some new \<Rightarrow> (case mc_WriteFile m w filename new of (w, err) \<Rightarrow> (w, map_option (WriteFailed filename) err)))))"

subsection \<open>What uncommenting writes\<close>

lemma TrimPrefix_append [simp]: "TrimPrefix (p @ l) p = l"
  by (simp add: TrimPrefix_def)

lemma scanLines_Join:
  assumes "ls \<noteq> []" "last ls \<noteq> []"
    and "\<And>l. l \<in> set ls \<Longrightarrow> CHR 0x0A \<notin> set l \<and> length l < maxScanTokenSize \<and> (l = [] \<or> last l \<noteq> CHR 0x0D)"
  shows "scanLines (Join ls newline) = ls"
proof -
  have "Split (Join ls newline) (CHR 0x0A) = ls" using assms unfolding newline_def by (intro Split_Join) auto
  moreover have "takeWhile (\<lambda>l. length l < maxScanTokenSize) ls = ls" using assms(3) by (simp add: takeWhile_eq_all_conv)
  moreover have "map dropCR ls = ls" using assms(3) by (intro map_idI) (metis dropCR_def)
  ultimately show ?thesis using assms(2) unfolding scanLines_def by presburger
qed

text \<open>
  A commented block loses exactly its prefixes, and the rest of the file stays: the block does
  not end in a line feed, has no carriage returns before line feeds, and its lines fit the
  scanner.
\<close>

theorem uncomment_block:
  assumes "ls \<noteq> []" "pre \<noteq> []"
    and "\<And>l. l \<in> set ls \<Longrightarrow> CHR 0x0A \<notin> set (pre @ l) \<and> length (pre @ l) < maxScanTokenSize \<and> last (pre @ l) \<noteq> CHR 0x0D"
    and "target = Join (map ((@) pre) ls) newline" "content = before @ target @ after"
    and "Index content target = Some (length before)" "mc_ReadFile m w filename = Inr content"
  shows "UncommentCode m filename target pre w =
    (case mc_WriteFile m w filename (before @ Join ls newline @ after) of (w', err) \<Rightarrow> (w', map_option (WriteFailed filename) err))"
proof -
  have "scanLines target = map ((@) pre) ls"
    unfolding assms(4) using assms(1-3) by (intro scanLines_Join) (auto simp: last_map)
  then have "uncommented content target pre (length before) = Some (before @ Join ls newline @ after)"
    using assms(1,5) by (cases ls) (simp_all add: uncommented_def comp_def)
  with assms(6,7) show ?thesis by (simp add: UncommentCode_def)
qed

text \<open>A target that ends in a line feed loses it: the block is joined to the line that follows.\<close>

lemma uncomment_joins_lines:
  "uncommented (''#a'' @ newline @ ''b'') (''#a'' @ newline) ''#'' 0 = Some ''ab''"
  by (simp add: uncommented_def scanLines_def newline_def maxScanTokenSize_def dropCR_def TrimPrefix_def HasPrefix_def)

end
