(* ===== verification/Spec2Isabelle.thy ===== *)
theory Spec2Isabelle
  imports VersionPolicy Cleanup InventoryFacts TranslationFacts LifecycleFacts HelmStorageFacts Shipped Flags Wiring CelNative TestUtils
begin

text \<open>
  \<^bold>\<open>A verification development of the OPI NVIDIA DPF adapter\<close>

  The program is a Kubernetes controller process in Go. Its lifecycle manager
  (pkg/lifecycle) watches DpuOperatorConfig objects and installs, adopts, upgrades, observes
  and removes the operator of the requested DPU vendor; its translation controller
  (pkg/translation) turns OPI objects into vendor objects by interpreting mapping documents
  (pkg/mapping) and rolls the vendor status up again; its discovery side (pkg/discovery) finds
  DPU boards on the PCI bus and stamps their identity on DataProcessingUnit objects; a
  vendor-specific plugin (pkg/vsp) answers the OPI daemon over gRPC; the commands under cmd wire
  these together; and a generator (hack/gen-rbac) derives the permissions from the mappings.

  \<^bold>\<open>Theories and the code they model\<close>

  \<^item> Prelude, GoStrings, GoEncoding, Kube: shared lemmas, the Go string functions the sources
    call (on ASCII strings), base64 and the string replacer, the API error classes, reconcile
    results and the contract of \<^verbatim>\<open>retry.RetryOnConflict\<close>.
  \<^item> Version (version.go), LifecycleConfig (config.go, intent.go, preflight.go),
    VersionPolicy (policy.go, version_policy.go, webhook.go): vendor tokens, version windows,
    pinned settings, rejected overrides, the install request, the upgrade decision and the
    admission handler. Versions are an instance of \<^typ>\<open>'a::linorder\<close>.
  \<^item> Release, Helm, HelmFacts (helm_client.go, parts of installer.go and cleanup.go): release
    data and ownership; the HelmClient interface as a record of state-passing operations; the
    in-memory client; the installer. HelmFacts states the interface as a locale, proves the
    installer's guarantees in it and interprets it on the in-memory client.
  \<^item> HelmStorage, HelmStorageFacts (secret_helm_client.go, cluster_helm_client.go): the Helm
    client of the running process over storage Secrets: the storage documents and their
    encoding, the choice of the current revision, the guards, the claim, rendering and applying
    a chart, storing, superseding and deleting revisions. The laws of the API server are a
    locale, in which the client is a sublocale instance of the contract of HelmFacts.
  \<^item> Cleanup (cleanup.go): the cleanup decision and its execution over a ResourceIndex.
  \<^item> Operator (dependency_checker.go, status.go, dpu_observe.go, readiness.go): probes, the
    dependency check, operator health, DPU observation, readiness.
  \<^item> Olm (olm_client.go): OLM clients and the observing installer, with its own locale.
  \<^item> Ensure (ensure.go, installer.go): the composed installers and EnsureInstalled on the
    triple of Helm store, OLM store and cluster.
  \<^item> ReleaseLocks (ReleaseLocks of helm_client.go): the lock table as a step relation over
    any number of goroutines.
  \<^item> LifecycleController, LifecycleFacts (lifecycle_controller.go, the cluster index of
    cleanup.go): the reconcile loop, its finalizer, cleanup on deletion, owned conditions; the
    writes of a run as a relation closed under sequences.
  \<^item> Json (mapping/path.go), MappingSpec (spec.go, load.go, condition_writers.go,
    schema_path.go), MappingEngine and MappingFacts (engine.go, cel.go): untyped objects and
    paths, documents and their validation, the interpreter, and its correctness over the
    accessors of unstructured objects given as a locale.
  \<^item> CelNative (celNative of cel.go): the walk that turns the evaluator's values into plain data.
  \<^item> DeadFields, Translation, TranslationFacts (pkg/translation): fields the live schema does
    not declare, the readiness gate, children and their ownership, applying, status mirroring
    and the reconcile loop of the translation controller.
  \<^item> Pci (discovery/pci.go), Inventory and InventoryFacts (types.go, inventory.go, mock.go,
    annotator.go): serial parsers on bytes, the sysfs scan, device assignment, the annotator.
  \<^item> Vsp, VspFacts (pkg/vsp): the RPC handlers, the gate for network functions, the daemon's
    handshake and the Ready report.
  \<^item> GenRbac (hack/gen-rbac): the rules derived from the mapping documents, the generated file
    and the check mode.
  \<^item> Shipped (config/mappings, config/condition-writers.yaml, zz_generated_rbac.go): the
    mapping documents, the table of condition writers and the permission markers that ship with
    the program, as data the loader, the writer check and the generator run on.
  \<^item> EntryPoints (cmd): what the three commands do with their flags, as the sequence of setup
    calls with their failures and as the settings handed to the components.
  \<^item> Flags (the flag declarations of cmd and hack/gen-rbac, the arguments in config/manager and
    config/vsp): the parser of the flag package, the declared flags with their defaults, and the
    settings the deployed command lines lead to.
  \<^item> Wiring (SetupWithManager of the three controllers, the registration in webhook.go,
    Server.Start of pkg/vsp): what the components register with the libraries that call them.
  \<^item> TestUtils (test/utils): the helpers of the end-to-end suite.
  \<^item> This theory: properties of the composed process.

  \<^bold>\<open>How the model is built\<close>

  A Go struct is a record and a string-typed enumeration a datatype or a string constant. A
  Go pair of value and error is a pair with an optional error or a sum. Code that is not in
  the repository (the Kubernetes client, the REST mapper, discovery, the CEL library, YAML
  decoding, the gRPC transport) and the machine (files, compressed bytes) are parameters: fields
  of records of functions over an abstract state. What the proofs need of such code is the
  \<open>assumes\<close> part of a locale or a named hypothesis; every locale is interpreted, those of
  the program's interfaces on the implementations the repository contains. Cancellation of a
  context is a function of the state, so it may strike between any two calls. Iteration over a
  Go map is a parameter where its order can matter. Every other loop is structural recursion
  over the data or over a count the code itself bounds (two upgrade attempts by default, eight
  attempts to apply an object). Two recursions have no bound in the code: the handshake loop of
  the daemon is a partial function, with not returning as a value of its own, and celNative
  carries fuel for its depth, with the theorem that some fuel suffices for every value whose
  unwrapping ends and that more fuel changes nothing.

  \<^bold>\<open>What the properties show\<close>

  The Helm properties say that the installer never takes over a release it was not asked to
  adopt, that its report is true of the store, that it converges and that its attempts are
  bounded. For the client of the running process they say more: it never mutates the operator's
  release, reads the newest admissible revision, reads back what it stores and changes other
  releases only behind its guards; and a whole reconcile, cleanup included, touches at most two
  ownership labels of the pinned release's storage. The cleanup properties say what may be
  deleted, that a second run does nothing, and what a process without the right to list Secrets
  reports. The install flow reaches the installer exactly when all gates pass, and readiness
  implies the whole chain. A reconcile writes only owned conditions and its finalizer, the
  finalizer before any install. The locks are exclusive and never deadlock. Device assignment
  is sound and stable, the byte parsers are total. The mapping interpreter emits exactly what
  the document specifies, delivers every field and keeps the single-writer rule for conditions;
  the translation run applies only behind its finalizer and gate and prunes only what it owns,
  and its watches wake it for every kind it emits; evaluator values reach objects as plain data.
  The daemon writes only Ready, and reports exactly the live boards; the containers as deployed
  do so over the socket their arguments name. The generated permissions are exactly those the
  mappings imply; the markers in the tree are those of the shipped mappings and permit every
  object the interpreter emits from them, and the table of condition writers lists exactly the
  conditions these mappings write.

  \<^bold>\<open>Not modelled\<close>

  Logging, metrics, the flags that libraries add on their own, delivery of watch events by the controller library,
  serving gRPC, sleeping between attempts, the marker comments controller-gen reads, and what
  the helpers of the end-to-end suite print: they call libraries and keep no state. The
  interpreter takes the evaluator together with celNative as one parameter, because its objects
  hold no floating-point numbers.
\<close>

subsection \<open>The running process\<close>

text \<open>
  The manager as cmd/main.go wires it: the Helm client of the cluster and no installer of its
  own. Its Helm storage is the first component of the state.
\<close>

lemma process_get:
  "getPinned (clusterClient c) s nvidiaConfig =
     (s, fst (ch_GetRelease c s nvidiaConfig), map_option storeErr (snd (ch_GetRelease c s nvidiaConfig)))"
  by (simp add: getPinned_def clusterClient_def sh_GetRelease_def ch_GetRelease_def split: prod.split)

lemma process_uninstall:
  "hc_Uninstall (clusterClient c) s nvidiaConfig = (s, emptyRelease, Some ErrHelmMutationNotConfigured)"
  by (simp add: clusterClient_def ch_Uninstall_def guardMutation_def const_defs)

lemma executePlan_process:
  assumes "executePlan (clusterClient c) idx nvidiaConfig except plan out s x = (s', x', res)"
    and "ch_GetRelease c s nvidiaConfig = (rel, None)"
  shows "s' = s \<and> x' = x \<and> cu_Action res = CleanupFailed \<and> cu_DeletedPlane res = cu_DeletedPlane out"
  using assms
  by (auto simp: executePlan_def process_get process_uninstall Let_def split: if_splits)

text \<open>The answers of the storage lookup that the client takes for an absent release.\<close>

definition storageEmpty :: "'s ClusterHelmClient \<Rightarrow> 's \<Rightarrow> bool" where
  "storageEmpty c s \<longleftrightarrow> (case listReleaseSecrets (ch_Client c) s DefaultNamespace NVIDIAReleaseName of
     Inl e \<Rightarrow> IsForbidden e \<or> IsNotFound e | Inr items \<Rightarrow> (\<forall>x\<in>set items. \<not> storageCandidate x))"

lemma latest_None: "latestHelmSecret items = None \<longleftrightarrow> (\<forall>x\<in>set items. \<not> storageCandidate x)"
  using latestHelmSecret_best [of items] by (fastforce simp: bestOf_def split: option.splits)

lemma storageEmpty_get:
  "map_option storeErr (snd (ch_GetRelease c s nvidiaConfig)) = Some ErrReleaseNotFound \<longleftrightarrow> storageEmpty c s"
  by (auto simp: ch_GetRelease_def storage_GetRelease_def storageEmpty_def latest_None [symmetric]
      split: sum.splits option.splits)

context cluster_store
begin

lemma found_named:
  assumes "ch_GetRelease c s nvidiaConfig = (rel, None)"
  shows "hr_Name rel \<noteq> ''''"
proof -
  obtain items sec where l: "sa_ListSecrets (ch_Client c) s DefaultNamespace helmReleaseNameLabel NVIDIAReleaseName = Inr items"
      "latestHelmSecret items = Some sec" "releaseFromHelmSecret (ch_Codec c) sec = Inr rel"
    using assms by (auto simp: ch_GetRelease_def storage_GetRelease_def listReleaseSecrets_def split: sum.splits option.splits if_splits)
  have "labelled DefaultNamespace helmReleaseNameLabel NVIDIAReleaseName sec"
    using latest_listed [OF l(2)] list_ok [OF l(1)] by simp
  then have "sget (sec_Labels sec) helmReleaseNameLabel \<noteq> ''''" by (simp add: labelled_def sget_def const_defs)
  with l(3) show ?thesis by (auto simp: releaseFromHelmSecret_def split: sum.splits if_splits)
qed

end

lemma DecideCleanup_named:
  "hr_Name rel \<noteq> '''' \<Longrightarrow> \<not> cp_DeleteRelease (DecideCleanup rel removal adoption refs allow) \<Longrightarrow>
     cp_Action (DecideCleanup rel removal adoption refs allow) \<in> {CleanupFailed, CleanupPreserved}"
  using planDataplane_fold by (auto simp: DecideCleanup_def Let_def split: if_splits)

lemma process_cleanup_run:
  assumes "cluster_store c store"
    and "CleanupInstallations (Some (clusterClient c)) idx allow cfg s x = (s', x', out)"
  shows "s' = s \<and> cu_Action out \<noteq> CleanupDeleted \<and> cu_DeletedPlane out = [] \<and>
    (x' = x \<or> x' = fst (ri_Refs idx x (case cfg of None \<Rightarrow> '''' | Some o' \<Rightarrow> cfgName o') DefaultNamespace)) \<and>
    (cu_Action out = CleanupGone \<longleftrightarrow> storageEmpty c s)"
proof -
  obtain removal adoption nt where pol: "policiesFrom cfg = (removal, adoption, nt)" by (metis prod_cases3)
  define except where "except = (case cfg of None \<Rightarrow> '''' | Some o' \<Rightarrow> cfgName o')"
  obtain rel err where get: "ch_GetRelease c s nvidiaConfig = (rel, err)" by fastforce
  note run = assms(2) [unfolded CleanupInstallations_def pol prod.case Let_def option.case DefaultInstallConfig_nvidia sum.case
    process_get get fst_conv snd_conv, folded except_def]
  show ?thesis
  proof (cases err)
    case (Some e)
    then show ?thesis using run storageEmpty_get [of c s] get
      by (auto simp: startResult_def split: if_splits)
  next
    case None
    obtain x1 refs rerr where refs: "ri_Refs idx x except DefaultNamespace = (x1, refs, rerr)" by (metis prod_cases3)
    have ne: "\<not> storageEmpty c s" using storageEmpty_get [of c s] get None by simp
    note named = DecideCleanup_named [OF cluster_store.found_named [OF assms(1) get [unfolded None]]]
    show ?thesis
    proof (cases "rerr = None \<and> cp_DeleteRelease (DecideCleanup rel removal adoption refs allow)")
      case True
      with run None refs obtain plan out0 where
          "executePlan (clusterClient c) idx nvidiaConfig except plan out0 s x1 = (s', x', out)" "cu_DeletedPlane out0 = []"
        by (cases "nt = ''''") (auto simp: startResult_def)
      from executePlan_process [OF this(1) get [unfolded None]] this(2) refs ne show ?thesis by (auto simp: except_def)
    next
      case False
      then show ?thesis using run None refs ne named [of removal adoption refs allow]
        by (auto simp: startResult_def except_def split: option.splits if_splits)
    qed
  qed
qed


lemma EnsureInstalled_helm:
  assumes "EnsureInstalled ctx r cfg (s, o', w) = ((s', o'', w'), res, err)" and "lm_Installer r = None" and "lm_Helm r = Some hc"
  shows "s' = s \<or> (\<exists>ctx' res' err'. HelmInstaller_Ensure ctx' \<lparr>hi_Client = Some hc, hi_AllowDowngrade = False, hi_MaxAttempts = 0\<rparr>
    (ParseIntent cfg) s = (s', res', err'))"
proof -
  consider "stopped (s, o', w) ((s', o'', w'), res, err)" | "installed ctx r cfg (s, o', w) ((s', o'', w'), res, err)"
    using EnsureInstalled_cases [of ctx r cfg "(s, o', w)"] assms(1) by auto
  then show ?thesis
  proof cases
    case 2
    then have f: "fst (installer ctx r (ParseIntent cfg) (s, o', w)) = (s', o'', w')" by (auto simp: installed_def)
    define h where "h = \<lparr>hi_Client = Some hc, hi_AllowDowngrade = False, hi_MaxAttempts = 0\<rparr>"
    obtain s1 got err1 where run: "HelmInstaller_Ensure (\<lambda>s. ctx (s, o', w)) h (ParseIntent cfg) s = (s1, got, err1)"
      by (metis prod_cases3)
    have "fst (fst (olmWithDetect_Ensure ctx olm mapper i (s1, o', w))) = s1" for olm mapper i
      by (simp add: olmWithDetect_Ensure_def Let_def Detecting_Ensure_state split: prod.split)
    then have "s' = s1" using f run assms(2,3)
      by (cases "lm_OLM r") (auto simp: installer_def helmWithDetect_Ensure_def h_def [symmetric] Let_def Detecting_Ensure_state
          split: if_splits, metis fst_conv)
    with run show ?thesis unfolding h_def by blast
  qed (simp add: stopped_def)
qed

text \<open>A server that refuses to list Secrets, as it does without the permission.\<close>

definition forbidListing :: "'w SecretAPI \<Rightarrow> 'w SecretAPI" where
  "forbidListing api = api\<lparr>sa_ListSecrets := (\<lambda>_ _ _ _. Inl (Forbidden ''secrets is forbidden''))\<rparr>"

lemma forbid_store: "secret_store api store \<Longrightarrow> secret_store (forbidListing api) store"
  by (simp add: secret_store_def forbidListing_def)

definition exForbidden :: "Secret list ClusterHelmClient" where
  "exForbidden = exProcess\<lparr>ch_Client := forbidListing secretServer\<rparr>"

lemma exForbidden_store: "cluster_store exForbidden uniqueSecrets"
  using forbid_store [OF server_store]
  by (simp add: cluster_store_def cluster_store_axioms_def exForbidden_def exProcess_def serverClient_def NewClusterHelmClient_def
      retryLoopOn_contract)

subsection \<open>Properties\<close>

text \<open>C5: a whole reconcile of the running process leaves the cluster's Secrets alone. Whatever
  object is reconciled, live or deleted, every Secret is afterwards the one it was but for its
  resource version, or a storage Secret of the pinned release on which only the two ownership
  labels are new; and the storage changes only when a live object, with the cleanup finalizer
  step passed, asks for adoption.\<close>

theorem process_reconcile_secrets:
  assumes "cluster_store c store" and "lm_Helm r = Some (clusterClient c)" and "lm_Installer r = None" and "lm_Client r = Some k"
    and "Reconcile retry ctx r ns name (s, o', w) = Some ((s', o'', w'), res, err)"
  shows "adoptions DefaultNamespace NVIDIAReleaseName (store s) (store s') \<and>
    (s' \<noteq> s \<longrightarrow> (\<exists>cfg w1 cfg1. kc_GetConfig k w ns name = Inr cfg \<and> \<not> cfgDeleting cfg \<and>
       ensureCleanupFinalizer retry k ns name (w, cfg) = ((w1, cfg1), None) \<and> in_AdoptExisting (ParseIntent (Some cfg1))))"
  using assms(5,4)
proof (cases rule: Reconcile_steps)
  case (cleanup cfg)
  obtain s1 w1 got where run: "CleanupInstallations (Some (clusterClient c)) (resourceIndex r) (lm_AllowCRDDeletion r) (Some cfg) s w =
      (s1, w1, got)" by (metis prod_cases3)
  have "s1 = s" using process_cleanup_run [OF assms(1) run] by simp
  then have "s' = s" using cleanup(4) run assms(2)
    by (auto simp: reconcileCleanup_def Let_def split: if_splits prod.splits option.splits)
  then show ?thesis by simp
next
  case (ensured cfg w1 cfg1 w2 out ierr)
  from EnsureInstalled_helm [OF ensured(4) assms(3,2)]
  consider "s' = s" | ctx' res' err' where "HelmInstaller_Ensure ctx' \<lparr>hi_Client = Some (clusterClient c), hi_AllowDowngrade = False,
      hi_MaxAttempts = 0\<rparr> (ParseIntent (Some cfg1)) s = (s', res', err')" by blast
  then show ?thesis
  proof cases
    case 2
    note obs = cluster_store.installer_observes(1,2) [OF assms(1) _ 2]
    then show ?thesis using ensured(1-3) by auto
  qed simp
qed simp_all


text \<open>The server of the examples and the Helm storage of one release.\<close>

definition exProcessManager :: "(Secret list, MemoryOLMClient, DpuOperatorConfig) LifecycleManager" where
  "exProcessManager = \<lparr>lm_Client = Some exServer, lm_Now = (\<lambda>_ _. ''2026-01-01T00:00:00Z''), lm_Installer = None,
     lm_Helm = Some (clusterClient exProcess), lm_OLM = Some memoryOLM, lm_Probe = Some (staticProbe ReadyClusterProbe),
     lm_Discovery = None, lm_Index = None, lm_AllowCRDDeletion = False\<rparr>"

theorem process_reconcile_secrets_witness:
  "\<exists>s' o'' w' res err. Reconcile (retryLoop 4) (\<lambda>_. None) exProcessManager (cfgNamespace exObject) (cfgName exObject)
       ([exSecret], exOLM, exObject) = Some ((s', o'', w'), res, err) \<and>
     adoptions DefaultNamespace NVIDIAReleaseName [exSecret] (uniqueSecrets s')"
proof -
  have "Reconcile (retryLoop 4) (\<lambda>_. None) exProcessManager (cfgNamespace exObject) (cfgName exObject)
      ([exSecret], exOLM, exObject) \<noteq> None"
    by (simp add: Reconcile_def exProcessManager_def)
  then obtain s' o'' w' res err where run: "Reconcile (retryLoop 4) (\<lambda>_. None) exProcessManager (cfgNamespace exObject)
      (cfgName exObject) ([exSecret], exOLM, exObject) = Some ((s', o'', w'), res, err)" by (metis not_None_eq prod_cases3)
  have "cluster_store exProcess uniqueSecrets" "uniqueSecrets [exSecret] = [exSecret]"
    using srv.cluster_store_axioms by (simp_all add: exProcess_def)
  with process_reconcile_secrets [OF this(1) _ _ _ run] run show ?thesis
    by (auto simp: exProcessManager_def)
qed

text \<open>C11: what the running process can report of a cleanup. Its Helm client refuses to uninstall
  the operator's release, so a cleanup never reports a deletion, deletes no dataplane object and
  leaves the storage unchanged; and it reports the release as gone exactly when the listing of
  its storage is empty of admissible Secrets, not found, or forbidden - a process without the
  permission to list Secrets takes an existing release for gone.\<close>

theorem process_cleanup_reports:
  assumes "cluster_store c store"
    and "CleanupInstallations (Some (clusterClient c)) idx allow cfg s x = (s', x', out)"
  shows "s' = s \<and> cu_Action out \<noteq> CleanupDeleted \<and> cu_DeletedPlane out = [] \<and>
    (x' = x \<or> x' = fst (ri_Refs idx x (case cfg of None \<Rightarrow> '''' | Some o' \<Rightarrow> cfgName o') DefaultNamespace)) \<and>
    (cu_Action out = CleanupGone \<longleftrightarrow> storageEmpty c s)"
  by (rule process_cleanup_run [OF assms])

theorem process_cleanup_reports_witness:
  "\<exists>out. CleanupInstallations (Some (clusterClient exForbidden)) memoryIndex False (Some deleteConfig) [exSecret] exIndex =
       ([exSecret], exIndex, out) \<and> cu_Action out = CleanupGone"
proof -
  obtain s' x' out where run: "CleanupInstallations (Some (clusterClient exForbidden)) memoryIndex False (Some deleteConfig)
      [exSecret] exIndex = (s', x', out)" by (metis prod_cases3)
  have "storageEmpty exForbidden [exSecret]"
    by (simp add: storageEmpty_def listReleaseSecrets_def exForbidden_def forbidListing_def)
  moreover have "fst (snd (CleanupInstallations (Some (clusterClient exForbidden)) memoryIndex False (Some deleteConfig)
      [exSecret] exIndex)) = exIndex" by code_simp
  ultimately show ?thesis using process_cleanup_reports [OF exForbidden_store run] run by simp
qed

subsection \<open>Emission and permissions\<close>

text \<open>C40: whatever the interpreter emits, the generated permissions cover. For every list of mapping
  documents and every object emitted from one of them, in whatever order the generator ranges
  over its maps, some generated rule grants the target verbs (create, patch and delete among
  them) on the object's own group and resource.\<close>

theorem emitted_permitted:
  assumes "\<And>xs. mset (perm xs) = mset xs" and "unstructured_ops U" and "spec \<in> set specs"
    and "Apply lib U spec source = Inr objs" and "u \<in> set objs" and "\<forall>e \<in> set (sp_Emit spec). tidyEmit e"
  shows "\<exists>r \<in> set (rbacRules perm specs). ru_group r = gvk_Group (us_GVK U u) \<and>
    pluralize (gvk_Kind (us_GVK U u)) \<in> set (ru_resources r) \<and> ru_verbs r = targetVerbs"
proof -
  obtain e item where e: "e \<in> set (sp_Emit spec)" and b: "buildObject lib U spec e source item = Inr u"
    using Apply_built [OF assms(4,5)] by blast
  have "us_GVK U u = targetGVK e"
    using unstructured_ops.buildObject_parts [OF assms(2) b] assms(6) e by blast
  moreover have "(mr_Group (em_Target e), pluralize (mr_Kind (em_Target e)), targetVerbs) \<in> accGrants (fold addSpec specs [])"
    using assms(3) e by (auto simp: fold_grants specGrants_def Let_def intro!: bexI [of _ spec])
  ultimately show ?thesis
    unfolding rules_grants [OF assms(1), symmetric] by (auto simp: targetGVK_def GVK_def)
qed

theorem emitted_permitted_witness:
  "\<exists>u. Apply trivialCel jsonU exSpec exSource = Inr [u] \<and> (\<exists>r \<in> set (rbacRules rev [exSpec]).
     pluralize (gvk_Kind (us_GVK jsonU u)) \<in> set (ru_resources r) \<and> ru_verbs r = targetVerbs)"
proof -
  have "length (projr (Apply trivialCel jsonU exSpec exSource)) = 1" "is_ok (Apply trivialCel jsonU exSpec exSource)"
    by code_simp+
  then obtain u where run: "Apply trivialCel jsonU exSpec exSource = Inr [u]"
    by (cases "Apply trivialCel jsonU exSpec exSource") (auto simp: length_Suc_conv)
  have "list_all tidyEmit (sp_Emit exSpec)" by code_simp
  then have "\<forall>e \<in> set (sp_Emit exSpec). tidyEmit e" by (simp add: list_all_iff)
  from emitted_permitted [of rev jsonU exSpec "[exSpec]", OF _ json_u.unstructured_ops_axioms _ run _ this] run
  show ?thesis by auto
qed

end
